(* ===== verification/Prelude.thy ===== *)
theory Prelude
  imports Main "HOL-Library.Word" "HOL-Library.State_Monad"
begin

text \<open>
  The shared vocabulary of the development: the machine integer types of the C code, the
  error values, the state monad in which the stateful code is written, and the lemma
  collections its proofs use.  A C function that reads or writes the shared state is a
  value of type \<open>('s, 'a) state\<close>; \<open>fetch\<close> and \<open>modify\<close> are the only primitives, and
  \<open>preserves I m\<close> says that running \<open>m\<close> keeps the predicate \<open>I\<close>.  The collection \<open>pres\<close>
  holds one such rule per control structure and per operation.
\<close>

unbundle bit_operations_syntax

section \<open>Machine integers and errors\<close>

type_synonym u8 = "8 word"
type_synonym u16 = "16 word"
type_synonym u32 = "32 word"
type_synonym u64 = "64 word"

datatype errno = EPERM | ENOENT | EIO | ENOMEM | EBUSY | ENODEV | EINVAL | ENOSPC | ERANGE | ETIMEDOUT

text \<open>A C function that returns \<open>0\<close> or a negative errno returns \<open>Ok\<close> or \<open>Inl\<close> of the errno.\<close>

abbreviation Ok :: "errno + unit" where
  "Ok \<equiv> Inr ()"

section \<open>The state monad\<close>

definition fetch :: "('s \<Rightarrow> 'a) \<Rightarrow> ('s, 'a) state" where
  "fetch f = State (\<lambda>s. (f s, s))"

definition modify :: "('s \<Rightarrow> 's) \<Rightarrow> ('s, unit) state" where
  "modify f = State (\<lambda>s. ((), f s))"

abbreviation done_with :: "'a \<Rightarrow> ('s, 'a) state" where
  "done_with \<equiv> State_Monad.return"

abbreviation skip :: "('s, unit) state" where
  "skip \<equiv> State_Monad.return ()"

abbreviation only_if :: "bool \<Rightarrow> ('s, unit) state \<Rightarrow> ('s, unit) state" where
  "only_if b m \<equiv> (if b then m else skip)"

primrec for_each :: "('a \<Rightarrow> ('s, unit) state) \<Rightarrow> 'a list \<Rightarrow> ('s, unit) state" where
  "for_each f [] = skip"
| "for_each f (x # xs) = do { f x; for_each f xs }"

lemma run_fetch [simp]: "run_state (fetch f) s = (f s, s)"
  by (simp add: fetch_def)

lemma run_modify [simp]: "run_state (modify f) s = ((), f s)"
  by (simp add: modify_def)

lemma run_if: "run_state (if b then m else n) s = (if b then run_state m s else run_state n s)"
  by simp

lemma snd_run_bind:
  "snd (run_state (State_Monad.bind m f) s) =
     snd (run_state (f (fst (run_state m s))) (snd (run_state m s)))"
  by (simp split: prod.splits)

lemma fst_run_bind:
  "fst (run_state (State_Monad.bind m f) s) =
     fst (run_state (f (fst (run_state m s))) (snd (run_state m s)))"
  by (simp split: prod.splits)

lemma for_each_append:
  "run_state (for_each f (xs @ ys)) s = run_state (for_each f ys) (snd (run_state (for_each f xs) s))"
  by (induction xs arbitrary: s) (auto split: prod.splits)

section \<open>Predicates kept by a computation\<close>

named_theorems pres \<open>computations that keep a predicate\<close>

definition preserves :: "('s \<Rightarrow> bool) \<Rightarrow> ('s, 'a) state \<Rightarrow> bool" where
  "preserves I m \<longleftrightarrow> (\<forall>s. I s \<longrightarrow> I (snd (run_state m s)))"

lemma preservesI: "(\<And>s. I s \<Longrightarrow> I (snd (run_state m s))) \<Longrightarrow> preserves I m"
  by (simp add: preserves_def)

lemma preservesD: "preserves I m \<Longrightarrow> I s \<Longrightarrow> I (snd (run_state m s))"
  by (simp add: preserves_def)

lemma preserves_run: "preserves I m \<Longrightarrow> I s \<Longrightarrow> run_state m s = (a, s') \<Longrightarrow> I s'"
  by (force simp: preserves_def)

lemma preserves_return [pres, intro]: "preserves I (State_Monad.return x)"
  by (simp add: preserves_def)

lemma preserves_fetch [pres, intro]: "preserves I (fetch f)"
  by (simp add: preserves_def)

lemma preserves_modify [pres]: "(\<And>s. I s \<Longrightarrow> I (f s)) \<Longrightarrow> preserves I (modify f)"
  by (simp add: preserves_def)

lemma preserves_bind [pres, intro]:
  "preserves I m \<Longrightarrow> (\<And>a. preserves I (f a)) \<Longrightarrow> preserves I (State_Monad.bind m f)"
  by (simp add: preserves_def split: prod.splits) (metis snd_conv)

lemma preserves_if [pres, intro]:
  "(b \<Longrightarrow> preserves I m) \<Longrightarrow> (\<not> b \<Longrightarrow> preserves I n) \<Longrightarrow> preserves I (if b then m else n)"
  by simp

lemma preserves_let [pres, intro]: "(\<And>x. preserves I (f x)) \<Longrightarrow> preserves I (let x = a in f x)"
  by simp

lemma preserves_prod [pres, intro]:
  "(\<And>a b. preserves I (f a b)) \<Longrightarrow> preserves I (case p of (a, b) \<Rightarrow> f a b)"
  by (cases p) simp

lemma preserves_option [pres, intro]:
  "preserves I m \<Longrightarrow> (\<And>a. preserves I (f a)) \<Longrightarrow> preserves I (case x of None \<Rightarrow> m | Some a \<Rightarrow> f a)"
  by (cases x) simp_all

lemma preserves_sum [pres, intro]:
  "(\<And>a. preserves I (f a)) \<Longrightarrow> (\<And>b. preserves I (g b)) \<Longrightarrow>
     preserves I (case x of Inl a \<Rightarrow> f a | Inr b \<Rightarrow> g b)"
  by (cases x) simp_all

lemma preserves_for_each [pres, intro]:
  "(\<And>x. x \<in> set xs \<Longrightarrow> preserves I (f x)) \<Longrightarrow> preserves I (for_each f xs)"
proof (induction xs)
  case (Cons x xs)
  have "preserves I (f x)" and "preserves I (for_each f xs)"
    using Cons by auto
  then show ?case by (auto intro: preserves_bind)
qed (simp add: preserves_return)

text \<open>\<open>keeps g m\<close>: running \<open>m\<close> does not change what the view \<open>g\<close> shows of the state.\<close>

definition keeps :: "('s \<Rightarrow> 'v) \<Rightarrow> ('s, 'a) state \<Rightarrow> bool" where
  "keeps g m \<longleftrightarrow> (\<forall>x. preserves (\<lambda>s. g s = x) m)"

named_theorems kept \<open>computations that do not change a view\<close>

lemma keepsD: "keeps g m \<Longrightarrow> g (snd (run_state m s)) = g s"
  by (simp add: keeps_def preserves_def)

lemma keeps_run: "keeps g m \<Longrightarrow> run_state m s = (a, s') \<Longrightarrow> g s' = g s"
  using keepsD [of g m s] by simp

lemma keepsI: "(\<And>s. g (snd (run_state m s)) = g s) \<Longrightarrow> keeps g m"
  by (simp add: keeps_def preserves_def)

lemma keeps_coarser: "keeps g m \<Longrightarrow> (\<And>s s'. g s' = g s \<Longrightarrow> h s' = h s) \<Longrightarrow> keeps h m"
  by (meson keepsD keepsI)

lemma keeps_return [kept]: "keeps g (State_Monad.return x)"
  by (simp add: keeps_def preserves_return)

lemma keeps_fetch [kept]: "keeps g (fetch f)"
  by (simp add: keeps_def preserves_fetch)

lemma keeps_modify: "(\<And>s. g (f s) = g s) \<Longrightarrow> keeps g (modify f)"
  by (simp add: keeps_def preserves_modify)

lemma keeps_bind [kept]: "keeps g m \<Longrightarrow> (\<And>a. keeps g (f a)) \<Longrightarrow> keeps g (State_Monad.bind m f)"
  by (simp add: keeps_def preserves_bind)

lemma keeps_if [kept]: "(b \<Longrightarrow> keeps g m) \<Longrightarrow> (\<not> b \<Longrightarrow> keeps g n) \<Longrightarrow> keeps g (if b then m else n)"
  by simp

lemma keeps_prod [kept]: "(\<And>a b. keeps g (f a b)) \<Longrightarrow> keeps g (case p of (a, b) \<Rightarrow> f a b)"
  by (cases p) simp

lemma keeps_option [kept]:
  "keeps g m \<Longrightarrow> (\<And>a. keeps g (f a)) \<Longrightarrow> keeps g (case x of None \<Rightarrow> m | Some a \<Rightarrow> f a)"
  by (cases x) simp_all

lemma keeps_sum [kept]:
  "(\<And>a. keeps g (f a)) \<Longrightarrow> (\<And>b. keeps g (h b)) \<Longrightarrow> keeps g (case x of Inl a \<Rightarrow> f a | Inr b \<Rightarrow> h b)"
  by (cases x) simp_all

lemma keeps_for_each [kept]: "(\<And>x. x \<in> set xs \<Longrightarrow> keeps g (f x)) \<Longrightarrow> keeps g (for_each f xs)"
  by (simp add: keeps_def preserves_for_each)

section \<open>Words\<close>

lemma and_mask_le: "unat (x AND y :: 'a::len word) \<le> unat y"
  by (rule word_and_le1 [THEN word_le_nat_alt [THEN iffD1]])

lemma unat_and_le_left: "unat (x AND y :: 'a::len word) \<le> unat x"
  by (metis and.commute and_mask_le)

text \<open>Bit operations as arithmetic on \<open>unat\<close>; masks written as numerals are first turned into \<open>mask n\<close>.\<close>

named_theorems nat_word \<open>bit operations as arithmetic on natural numbers\<close>

lemma unat_and_mask [nat_word]: "unat (x AND mask n :: 'a::len word) = unat x mod 2 ^ n"
  by (metis take_bit_eq_mask take_bit_eq_mod unsigned_take_bit_eq)

lemma unat_drop_bit [nat_word]: "unat (drop_bit n x :: 'a::len word) = unat x div 2 ^ n"
  by (metis unat_drop_bit_eq drop_bit_eq_div)

lemma unat_and_not_mask [nat_word]:
  "unat (x AND NOT (mask n) :: 'a::len word) = unat x div 2 ^ n * 2 ^ n"
proof -
  have "x = (x AND mask n) + (x AND NOT (mask n))"
    by (simp add: bit_eq_iff disjunctive_add bit_simps) metis
  moreover have "unat (x AND mask n) \<le> unat x"
    by (simp add: unat_and_mask)
  ultimately have "x - (x AND mask n) = x AND NOT (mask n)"
    by (metis add_diff_cancel_left')
  then have "unat (x AND NOT (mask n)) = unat x - unat (x AND mask n)"
    using \<open>unat (x AND mask n) \<le> unat x\<close> by (metis unat_sub word_le_nat_alt)
  then show ?thesis
    by (simp add: unat_and_mask minus_mod_eq_div_mult)
qed

lemma unat_ucast_up [nat_word]:
  "LENGTH('a) \<le> LENGTH('b) \<Longrightarrow> unat (ucast (x :: 'a::len word) :: 'b::len word) = unat x"
  by (simp add: unsigned_ucast_eq take_bit_nat_eq_self_iff)
    (meson le_less_trans less_le_trans unsigned_less nat_less_le one_le_numeral power_increasing)

lemma unat_ucast_down:
  "unat (ucast (x :: 'a::len word) :: 'b::len word) = unat x mod 2 ^ LENGTH('b)"
  by (simp add: unsigned_ucast_eq take_bit_eq_mod)

lemma take_bit_less_exp:
  assumes "(x :: 'a::len word) < 2 ^ n" and "n < LENGTH('a)"
  shows "take_bit n x = x"
proof -
  have "unat ((2 :: 'a word) ^ n) = 2 ^ n"
    using assms(2) by (metis of_nat_numeral of_nat_power power_strict_increasing one_less_numeral_iff
        semiring_norm(76) take_bit_nat_eq_self unsigned_of_nat)
  then have "unat x < 2 ^ n" using assms(1) by (simp add: word_less_nat_alt)
  then show ?thesis
    by (intro word_unat_eq_iff [THEN iffD2]) (simp add: unsigned_take_bit_eq take_bit_nat_eq_self)
qed

lemma mask_numerals:
  "(1 :: 'a::len word) = mask 1" "(3 :: 'a word) = mask 2" "(7 :: 'a word) = mask 3"
  "(15 :: 'a word) = mask 4" "(0x1F :: 'a word) = mask 5" "(0x7F :: 'a word) = mask 7"
  "(0xFF :: 'a word) = mask 8" "(0xFFF :: 'a word) = mask 12" "(0xFFFF :: 'a word) = mask 16"
  by (simp_all add: mask_numeral)

end
