(* ===== verification/Pci_Constants.thy ===== *)
theory Pci_Constants
  imports Prelude
begin

text \<open>
  The register offsets, fields and limits that the modelled code names, with the values
  of the headers.  They are abbreviations, so they are plain numerals for the simplifier.
  A constant the code uses in 32-bit expressions is a \<open>u32\<close>; counts and shift amounts are
  \<open>nat\<close>.  \<open>BIT(n)\<close> is written out as the bit's value.
\<close>

section \<open>Configuration space registers and fields (libraries/pci_constants.h)\<close>

abbreviation (input) PCI_CFG_SPACE_SIZE :: u32 where "PCI_CFG_SPACE_SIZE \<equiv> 0x100"
abbreviation (input) PCI_CFG_SPACE_EXP_SIZE :: u32 where "PCI_CFG_SPACE_EXP_SIZE \<equiv> 0x1000"
abbreviation (input) PCI_STD_HEADER_SIZEOF :: u32 where "PCI_STD_HEADER_SIZEOF \<equiv> 0x40"
abbreviation (input) PCI_VENDOR_ID :: u32 where "PCI_VENDOR_ID \<equiv> 0"
abbreviation (input) PCI_DEVICE_ID :: u32 where "PCI_DEVICE_ID \<equiv> 2"
abbreviation (input) PCI_COMMAND :: u32 where "PCI_COMMAND \<equiv> 4"
abbreviation (input) PCI_COMMAND_IO :: u32 where "PCI_COMMAND_IO \<equiv> 1"
abbreviation (input) PCI_COMMAND_MEMORY :: u32 where "PCI_COMMAND_MEMORY \<equiv> 2"
abbreviation (input) PCI_COMMAND_MASTER :: u32 where "PCI_COMMAND_MASTER \<equiv> 4"
abbreviation (input) PCI_COMMAND_INTX_DISABLE :: u32 where "PCI_COMMAND_INTX_DISABLE \<equiv> 0x400"
abbreviation (input) PCI_STATUS :: u32 where "PCI_STATUS \<equiv> 6"
abbreviation (input) PCI_STATUS_CAP_LIST :: u32 where "PCI_STATUS_CAP_LIST \<equiv> 0x10"
abbreviation (input) PCI_CLASS_REVISION :: u32 where "PCI_CLASS_REVISION \<equiv> 8"
abbreviation (input) PCI_REVISION_ID :: u32 where "PCI_REVISION_ID \<equiv> 8"
abbreviation (input) PCI_CLASS_PROG :: u32 where "PCI_CLASS_PROG \<equiv> 9"
abbreviation (input) PCI_CLASS_DEVICE :: u32 where "PCI_CLASS_DEVICE \<equiv> 0xA"
abbreviation (input) PCI_CACHE_LINE_SIZE :: u32 where "PCI_CACHE_LINE_SIZE \<equiv> 0xC"
abbreviation (input) PCI_LATENCY_TIMER :: u32 where "PCI_LATENCY_TIMER \<equiv> 0xD"
abbreviation (input) PCI_HEADER_TYPE :: u32 where "PCI_HEADER_TYPE \<equiv> 0xE"
abbreviation (input) PCI_HEADER_TYPE_NORMAL :: u32 where "PCI_HEADER_TYPE_NORMAL \<equiv> 0"
abbreviation (input) PCI_HEADER_TYPE_BRIDGE :: u32 where "PCI_HEADER_TYPE_BRIDGE \<equiv> 1"
abbreviation (input) PCI_HEADER_TYPE_CARDBUS :: u32 where "PCI_HEADER_TYPE_CARDBUS \<equiv> 2"
abbreviation (input) PCI_BASE_ADDRESS_0 :: u32 where "PCI_BASE_ADDRESS_0 \<equiv> 0x10"
abbreviation (input) PCI_BASE_ADDRESS_SPACE :: u32 where "PCI_BASE_ADDRESS_SPACE \<equiv> 1"
abbreviation (input) PCI_BASE_ADDRESS_SPACE_IO :: u32 where "PCI_BASE_ADDRESS_SPACE_IO \<equiv> 1"
abbreviation (input) PCI_BASE_ADDRESS_MEM_TYPE_MASK :: u32 where "PCI_BASE_ADDRESS_MEM_TYPE_MASK \<equiv> 6"
abbreviation (input) PCI_BASE_ADDRESS_MEM_TYPE_64 :: u32 where "PCI_BASE_ADDRESS_MEM_TYPE_64 \<equiv> 4"
abbreviation (input) PCI_BASE_ADDRESS_MEM_PREFETCH :: u32 where "PCI_BASE_ADDRESS_MEM_PREFETCH \<equiv> 8"
abbreviation (input) PCI_BASE_ADDRESS_MEM_MASK :: u32 where "PCI_BASE_ADDRESS_MEM_MASK \<equiv> 0xFFFFFFF0"
abbreviation (input) PCI_BASE_ADDRESS_IO_MASK :: u32 where "PCI_BASE_ADDRESS_IO_MASK \<equiv> 0xFFFFFFFC"
abbreviation (input) PCI_SUBSYSTEM_VENDOR_ID :: u32 where "PCI_SUBSYSTEM_VENDOR_ID \<equiv> 0x2C"
abbreviation (input) PCI_SUBSYSTEM_ID :: u32 where "PCI_SUBSYSTEM_ID \<equiv> 0x2E"
abbreviation (input) PCI_ROM_ADDRESS :: u32 where "PCI_ROM_ADDRESS \<equiv> 0x30"
abbreviation (input) PCI_CAPABILITY_LIST :: u32 where "PCI_CAPABILITY_LIST \<equiv> 0x34"
abbreviation (input) PCI_INTERRUPT_LINE :: u32 where "PCI_INTERRUPT_LINE \<equiv> 0x3C"
abbreviation (input) PCI_INTERRUPT_PIN :: u32 where "PCI_INTERRUPT_PIN \<equiv> 0x3D"
abbreviation (input) PCI_PRIMARY_BUS :: u32 where "PCI_PRIMARY_BUS \<equiv> 0x18"
abbreviation (input) PCI_SECONDARY_BUS :: u32 where "PCI_SECONDARY_BUS \<equiv> 0x19"
abbreviation (input) PCI_SUBORDINATE_BUS :: u32 where "PCI_SUBORDINATE_BUS \<equiv> 0x1A"
abbreviation (input) PCI_IO_BASE :: u32 where "PCI_IO_BASE \<equiv> 0x1C"
abbreviation (input) PCI_IO_LIMIT :: u32 where "PCI_IO_LIMIT \<equiv> 0x1D"
abbreviation (input) PCI_IO_RANGE_TYPE_MASK :: u32 where "PCI_IO_RANGE_TYPE_MASK \<equiv> 0xF"
abbreviation (input) PCI_IO_RANGE_TYPE_32 :: u32 where "PCI_IO_RANGE_TYPE_32 \<equiv> 1"
abbreviation (input) PCI_IO_RANGE_MASK :: u32 where "PCI_IO_RANGE_MASK \<equiv> 0xFFFFFFF0"
abbreviation (input) PCI_SEC_STATUS :: u32 where "PCI_SEC_STATUS \<equiv> 0x1E"
abbreviation (input) PCI_MEMORY_BASE :: u32 where "PCI_MEMORY_BASE \<equiv> 0x20"
abbreviation (input) PCI_MEMORY_LIMIT :: u32 where "PCI_MEMORY_LIMIT \<equiv> 0x22"
abbreviation (input) PCI_MEMORY_RANGE_MASK :: u32 where "PCI_MEMORY_RANGE_MASK \<equiv> 0xFFFFFFF0"
abbreviation (input) PCI_PREF_MEMORY_BASE :: u32 where "PCI_PREF_MEMORY_BASE \<equiv> 0x24"
abbreviation (input) PCI_PREF_MEMORY_LIMIT :: u32 where "PCI_PREF_MEMORY_LIMIT \<equiv> 0x26"
abbreviation (input) PCI_PREF_RANGE_TYPE_MASK :: u32 where "PCI_PREF_RANGE_TYPE_MASK \<equiv> 0xF"
abbreviation (input) PCI_PREF_RANGE_TYPE_64 :: u32 where "PCI_PREF_RANGE_TYPE_64 \<equiv> 1"
abbreviation (input) PCI_PREF_RANGE_MASK :: u32 where "PCI_PREF_RANGE_MASK \<equiv> 0xFFFFFFF0"
abbreviation (input) PCI_PREF_BASE_UPPER32 :: u32 where "PCI_PREF_BASE_UPPER32 \<equiv> 0x28"
abbreviation (input) PCI_PREF_LIMIT_UPPER32 :: u32 where "PCI_PREF_LIMIT_UPPER32 \<equiv> 0x2C"
abbreviation (input) PCI_IO_BASE_UPPER16 :: u32 where "PCI_IO_BASE_UPPER16 \<equiv> 0x30"
abbreviation (input) PCI_IO_LIMIT_UPPER16 :: u32 where "PCI_IO_LIMIT_UPPER16 \<equiv> 0x32"
abbreviation (input) PCI_ROM_ADDRESS1 :: u32 where "PCI_ROM_ADDRESS1 \<equiv> 0x38"
abbreviation (input) PCI_BRIDGE_CONTROL :: u32 where "PCI_BRIDGE_CONTROL \<equiv> 0x3E"
abbreviation (input) PCI_CB_CAPABILITY_LIST :: u32 where "PCI_CB_CAPABILITY_LIST \<equiv> 0x14"
abbreviation (input) PCI_CAP_ID_PM :: u32 where "PCI_CAP_ID_PM \<equiv> 1"
abbreviation (input) PCI_CAP_ID_AGP :: u32 where "PCI_CAP_ID_AGP \<equiv> 2"
abbreviation (input) PCI_CAP_ID_VPD :: u32 where "PCI_CAP_ID_VPD \<equiv> 3"
abbreviation (input) PCI_CAP_ID_SLOTID :: u32 where "PCI_CAP_ID_SLOTID \<equiv> 4"
abbreviation (input) PCI_CAP_ID_MSI :: u32 where "PCI_CAP_ID_MSI \<equiv> 5"
abbreviation (input) PCI_CAP_ID_CHSWP :: u32 where "PCI_CAP_ID_CHSWP \<equiv> 6"
abbreviation (input) PCI_CAP_ID_PCIX :: u32 where "PCI_CAP_ID_PCIX \<equiv> 7"
abbreviation (input) PCI_CAP_ID_HT :: u32 where "PCI_CAP_ID_HT \<equiv> 8"
abbreviation (input) PCI_CAP_ID_VNDR :: u32 where "PCI_CAP_ID_VNDR \<equiv> 9"
abbreviation (input) PCI_CAP_ID_DBG :: u32 where "PCI_CAP_ID_DBG \<equiv> 0xA"
abbreviation (input) PCI_CAP_ID_SHPC :: u32 where "PCI_CAP_ID_SHPC \<equiv> 0xC"
abbreviation (input) PCI_CAP_ID_SSVID :: u32 where "PCI_CAP_ID_SSVID \<equiv> 0xD"
abbreviation (input) PCI_CAP_ID_EXP :: u32 where "PCI_CAP_ID_EXP \<equiv> 0x10"
abbreviation (input) PCI_CAP_ID_MSIX :: u32 where "PCI_CAP_ID_MSIX \<equiv> 0x11"
abbreviation (input) PCI_CAP_ID_SATA :: u32 where "PCI_CAP_ID_SATA \<equiv> 0x12"
abbreviation (input) PCI_CAP_ID_AF :: u32 where "PCI_CAP_ID_AF \<equiv> 0x13"
abbreviation (input) PCI_CAP_ID_EA :: u32 where "PCI_CAP_ID_EA \<equiv> 0x14"
abbreviation (input) PCI_CAP_ID_MAX :: u32 where "PCI_CAP_ID_MAX \<equiv> 0x14"
abbreviation (input) PCI_CAP_LIST_NEXT :: u32 where "PCI_CAP_LIST_NEXT \<equiv> 1"
abbreviation (input) PCI_MSI_FLAGS :: u32 where "PCI_MSI_FLAGS \<equiv> 2"
abbreviation (input) PCI_MSI_FLAGS_ENABLE :: u32 where "PCI_MSI_FLAGS_ENABLE \<equiv> 1"
abbreviation (input) PCI_MSI_FLAGS_QMASK :: u32 where "PCI_MSI_FLAGS_QMASK \<equiv> 0xE"
abbreviation (input) PCI_MSI_FLAGS_QSIZE :: u32 where "PCI_MSI_FLAGS_QSIZE \<equiv> 0x70"
abbreviation (input) PCI_MSI_FLAGS_64BIT :: u32 where "PCI_MSI_FLAGS_64BIT \<equiv> 0x80"
abbreviation (input) PCI_MSI_FLAGS_MASKBIT :: u32 where "PCI_MSI_FLAGS_MASKBIT \<equiv> 0x100"
abbreviation (input) PCI_MSI_ADDRESS_LO :: u32 where "PCI_MSI_ADDRESS_LO \<equiv> 4"
abbreviation (input) PCI_MSI_ADDRESS_HI :: u32 where "PCI_MSI_ADDRESS_HI \<equiv> 8"
abbreviation (input) PCI_MSI_DATA_32 :: u32 where "PCI_MSI_DATA_32 \<equiv> 8"
abbreviation (input) PCI_MSI_MASK_32 :: u32 where "PCI_MSI_MASK_32 \<equiv> 0xC"
abbreviation (input) PCI_MSI_DATA_64 :: u32 where "PCI_MSI_DATA_64 \<equiv> 0xC"
abbreviation (input) PCI_MSI_MASK_64 :: u32 where "PCI_MSI_MASK_64 \<equiv> 0x10"
abbreviation (input) PCI_MSIX_FLAGS :: u32 where "PCI_MSIX_FLAGS \<equiv> 2"
abbreviation (input) PCI_MSIX_FLAGS_QSIZE :: u32 where "PCI_MSIX_FLAGS_QSIZE \<equiv> 0x7FF"
abbreviation (input) PCI_MSIX_FLAGS_MASKALL :: u32 where "PCI_MSIX_FLAGS_MASKALL \<equiv> 0x4000"
abbreviation (input) PCI_MSIX_FLAGS_ENABLE :: u32 where "PCI_MSIX_FLAGS_ENABLE \<equiv> 0x8000"
abbreviation (input) PCI_MSIX_TABLE :: u32 where "PCI_MSIX_TABLE \<equiv> 4"
abbreviation (input) PCI_MSIX_TABLE_BIR :: u32 where "PCI_MSIX_TABLE_BIR \<equiv> 7"
abbreviation (input) PCI_MSIX_TABLE_OFFSET :: u32 where "PCI_MSIX_TABLE_OFFSET \<equiv> 0xFFFFFFF8"
abbreviation (input) PCI_IRQ_INTX :: u32 where "PCI_IRQ_INTX \<equiv> 1"
abbreviation (input) PCI_IRQ_MSI :: u32 where "PCI_IRQ_MSI \<equiv> 2"
abbreviation (input) PCI_IRQ_MSIX :: u32 where "PCI_IRQ_MSIX \<equiv> 4"
abbreviation (input) PCI_IRQ_ALL_TYPES :: u32 where "PCI_IRQ_ALL_TYPES \<equiv> 7"
abbreviation (input) PCI_MSIX_ENTRY_SIZE :: u32 where "PCI_MSIX_ENTRY_SIZE \<equiv> 0x10"
abbreviation (input) PCI_MSIX_ENTRY_LOWER_ADDR :: u32 where "PCI_MSIX_ENTRY_LOWER_ADDR \<equiv> 0"
abbreviation (input) PCI_MSIX_ENTRY_UPPER_ADDR :: u32 where "PCI_MSIX_ENTRY_UPPER_ADDR \<equiv> 4"
abbreviation (input) PCI_MSIX_ENTRY_DATA :: u32 where "PCI_MSIX_ENTRY_DATA \<equiv> 8"
abbreviation (input) PCI_MSIX_ENTRY_VECTOR_CTRL :: u32 where "PCI_MSIX_ENTRY_VECTOR_CTRL \<equiv> 0xC"
abbreviation (input) PCI_MSIX_ENTRY_CTRL_MASKBIT :: u32 where "PCI_MSIX_ENTRY_CTRL_MASKBIT \<equiv> 1"
abbreviation (input) PCI_MAX_PCI_DEVICES :: nat where "PCI_MAX_PCI_DEVICES \<equiv> 32"
abbreviation (input) PCI_MAX_PCI_FUNCTIONS :: nat where "PCI_MAX_PCI_FUNCTIONS \<equiv> 8"
abbreviation (input) PCI_FIND_CAP_TTL :: nat where "PCI_FIND_CAP_TTL \<equiv> 72"
abbreviation (input) PCI_EXT_CAP_ID_ERR :: u32 where "PCI_EXT_CAP_ID_ERR \<equiv> 1"
abbreviation (input) PCI_EXT_CAP_ID_VC :: u32 where "PCI_EXT_CAP_ID_VC \<equiv> 2"
abbreviation (input) PCI_EXT_CAP_ID_DSN :: u32 where "PCI_EXT_CAP_ID_DSN \<equiv> 3"
abbreviation (input) PCI_EXT_CAP_ID_PWR :: u32 where "PCI_EXT_CAP_ID_PWR \<equiv> 4"
abbreviation (input) PCI_EXT_CAP_ID_RCLD :: u32 where "PCI_EXT_CAP_ID_RCLD \<equiv> 5"
abbreviation (input) PCI_EXT_CAP_ID_RCILC :: u32 where "PCI_EXT_CAP_ID_RCILC \<equiv> 6"
abbreviation (input) PCI_EXT_CAP_ID_RCEC :: u32 where "PCI_EXT_CAP_ID_RCEC \<equiv> 7"
abbreviation (input) PCI_EXT_CAP_ID_MFVC :: u32 where "PCI_EXT_CAP_ID_MFVC \<equiv> 8"
abbreviation (input) PCI_EXT_CAP_ID_VNDR :: u32 where "PCI_EXT_CAP_ID_VNDR \<equiv> 0xB"
abbreviation (input) PCI_EXT_CAP_ID_ACS :: u32 where "PCI_EXT_CAP_ID_ACS \<equiv> 0xD"
abbreviation (input) PCI_EXT_CAP_ID_ARI :: u32 where "PCI_EXT_CAP_ID_ARI \<equiv> 0xE"
abbreviation (input) PCI_EXT_CAP_ID_ATS :: u32 where "PCI_EXT_CAP_ID_ATS \<equiv> 0xF"
abbreviation (input) PCI_EXT_CAP_ID_SRIOV :: u32 where "PCI_EXT_CAP_ID_SRIOV \<equiv> 0x10"
abbreviation (input) PCI_EXT_CAP_ID_MRIOV :: u32 where "PCI_EXT_CAP_ID_MRIOV \<equiv> 0x11"
abbreviation (input) PCI_EXT_CAP_ID_PRI :: u32 where "PCI_EXT_CAP_ID_PRI \<equiv> 0x13"
abbreviation (input) PCI_EXT_CAP_ID_REBAR :: u32 where "PCI_EXT_CAP_ID_REBAR \<equiv> 0x15"
abbreviation (input) PCI_EXT_CAP_ID_DPA :: u32 where "PCI_EXT_CAP_ID_DPA \<equiv> 0x16"
abbreviation (input) PCI_EXT_CAP_ID_TPH :: u32 where "PCI_EXT_CAP_ID_TPH \<equiv> 0x17"
abbreviation (input) PCI_EXT_CAP_ID_LTR :: u32 where "PCI_EXT_CAP_ID_LTR \<equiv> 0x18"
abbreviation (input) PCI_EXT_CAP_ID_PASID :: u32 where "PCI_EXT_CAP_ID_PASID \<equiv> 0x1B"
abbreviation (input) PCI_EXT_CAP_ID_DPC :: u32 where "PCI_EXT_CAP_ID_DPC \<equiv> 0x1D"
abbreviation (input) PCI_EXT_CAP_ID_L1SS :: u32 where "PCI_EXT_CAP_ID_L1SS \<equiv> 0x1E"
abbreviation (input) PCI_EXT_CAP_ID_PTM :: u32 where "PCI_EXT_CAP_ID_PTM \<equiv> 0x1F"
abbreviation (input) PCI_EXT_CAP_ID_MAX :: u32 where "PCI_EXT_CAP_ID_MAX \<equiv> 0x1F"
abbreviation (input) PCI_EA_NUM_ENT :: u32 where "PCI_EA_NUM_ENT \<equiv> 2"
abbreviation (input) PCI_EA_NUM_ENT_MASK :: u32 where "PCI_EA_NUM_ENT_MASK \<equiv> 0x3F"
abbreviation (input) PCI_EA_FIRST_ENT :: u32 where "PCI_EA_FIRST_ENT \<equiv> 4"
abbreviation (input) PCI_EA_FIRST_ENT_BRIDGE :: u32 where "PCI_EA_FIRST_ENT_BRIDGE \<equiv> 8"
abbreviation (input) PCI_EA_ES :: u32 where "PCI_EA_ES \<equiv> 7"
abbreviation (input) PCI_EA_BEI :: u32 where "PCI_EA_BEI \<equiv> 0xF0"
abbreviation (input) PCI_EA_SEC_BUS_MASK :: u32 where "PCI_EA_SEC_BUS_MASK \<equiv> 0xFF"
abbreviation (input) PCI_EA_SUB_BUS_MASK :: u32 where "PCI_EA_SUB_BUS_MASK \<equiv> 0xFF00"
abbreviation (input) PCI_EA_SUB_BUS_SHIFT :: nat where "PCI_EA_SUB_BUS_SHIFT \<equiv> 8"
abbreviation (input) PCI_EA_BEI_BAR0 :: u32 where "PCI_EA_BEI_BAR0 \<equiv> 0"
abbreviation (input) PCI_EA_BEI_BAR5 :: u32 where "PCI_EA_BEI_BAR5 \<equiv> 5"
abbreviation (input) PCI_EA_BEI_BRIDGE :: u32 where "PCI_EA_BEI_BRIDGE \<equiv> 6"
abbreviation (input) PCI_EA_BEI_ENI :: u32 where "PCI_EA_BEI_ENI \<equiv> 7"
abbreviation (input) PCI_EA_BEI_ROM :: u32 where "PCI_EA_BEI_ROM \<equiv> 8"
abbreviation (input) PCI_EA_BEI_VF_BAR0 :: u32 where "PCI_EA_BEI_VF_BAR0 \<equiv> 9"
abbreviation (input) PCI_EA_BEI_VF_BAR5 :: u32 where "PCI_EA_BEI_VF_BAR5 \<equiv> 0xE"
abbreviation (input) PCI_EA_PP :: u32 where "PCI_EA_PP \<equiv> 0xFF00"
abbreviation (input) PCI_EA_SP :: u32 where "PCI_EA_SP \<equiv> 0xFF0000"
abbreviation (input) PCI_EA_WRITABLE :: u32 where "PCI_EA_WRITABLE \<equiv> 0x40000000"
abbreviation (input) PCI_EA_ENABLE :: u32 where "PCI_EA_ENABLE \<equiv> 0x80000000"
abbreviation (input) PCI_EA_IS_64 :: u32 where "PCI_EA_IS_64 \<equiv> 2"
abbreviation (input) PCI_EA_FIELD_MASK :: u32 where "PCI_EA_FIELD_MASK \<equiv> 0xFFFFFFFC"
abbreviation (input) PCI_EA_P_MEM :: u32 where "PCI_EA_P_MEM \<equiv> 0"
abbreviation (input) PCI_EA_P_MEM_PREFETCH :: u32 where "PCI_EA_P_MEM_PREFETCH \<equiv> 1"
abbreviation (input) PCI_EA_P_IO :: u32 where "PCI_EA_P_IO \<equiv> 2"
abbreviation (input) PCI_EA_P_VF_MEM_PREFETCH :: u32 where "PCI_EA_P_VF_MEM_PREFETCH \<equiv> 3"
abbreviation (input) PCI_EA_P_VF_MEM :: u32 where "PCI_EA_P_VF_MEM \<equiv> 4"
abbreviation (input) PCI_EA_P_BRIDGE_MEM :: u32 where "PCI_EA_P_BRIDGE_MEM \<equiv> 5"
abbreviation (input) PCI_EA_P_BRIDGE_MEM_PREFETCH :: u32 where "PCI_EA_P_BRIDGE_MEM_PREFETCH \<equiv> 6"
abbreviation (input) PCI_EA_P_BRIDGE_IO :: u32 where "PCI_EA_P_BRIDGE_IO \<equiv> 7"
abbreviation (input) PCI_EA_P_MEM_RESERVED :: u32 where "PCI_EA_P_MEM_RESERVED \<equiv> 0xFD"
abbreviation (input) PCI_EA_P_IO_RESERVED :: u32 where "PCI_EA_P_IO_RESERVED \<equiv> 0xFE"
abbreviation (input) PCI_EA_P_UNAVAILABLE :: u32 where "PCI_EA_P_UNAVAILABLE \<equiv> 0xFF"
abbreviation (input) PCI_EXP_FLAGS :: u32 where "PCI_EXP_FLAGS \<equiv> 2"
abbreviation (input) PCI_EXP_FLAGS_VERS :: u32 where "PCI_EXP_FLAGS_VERS \<equiv> 0xF"
abbreviation (input) PCI_EXP_FLAGS_TYPE :: u32 where "PCI_EXP_FLAGS_TYPE \<equiv> 0xF0"
abbreviation (input) PCI_EXP_TYPE_ROOT_PORT :: u32 where "PCI_EXP_TYPE_ROOT_PORT \<equiv> 4"
abbreviation (input) PCI_EXP_TYPE_DOWNSTREAM :: u32 where "PCI_EXP_TYPE_DOWNSTREAM \<equiv> 6"
abbreviation (input) PCI_EXP_TYPE_PCIE_BRIDGE :: u32 where "PCI_EXP_TYPE_PCIE_BRIDGE \<equiv> 8"
abbreviation (input) PCI_EXP_DEVCAP :: u32 where "PCI_EXP_DEVCAP \<equiv> 4"
abbreviation (input) PCI_EXP_DEVCAP_FLR :: u32 where "PCI_EXP_DEVCAP_FLR \<equiv> 0x10000000"
abbreviation (input) PCI_EXP_DEVCTL :: u32 where "PCI_EXP_DEVCTL \<equiv> 8"
abbreviation (input) PCI_EXP_DEVCTL_BCR_FLR :: u32 where "PCI_EXP_DEVCTL_BCR_FLR \<equiv> 0x8000"
abbreviation (input) PCI_EXP_LNKCAP :: u32 where "PCI_EXP_LNKCAP \<equiv> 0xC"
abbreviation (input) PCI_EXP_LNKCAP_SLS :: u32 where "PCI_EXP_LNKCAP_SLS \<equiv> 0xF"
abbreviation (input) PCI_EXP_LNKCAP_SLS_2_5GB :: u32 where "PCI_EXP_LNKCAP_SLS_2_5GB \<equiv> 1"
abbreviation (input) PCI_EXP_LNKCTL :: u32 where "PCI_EXP_LNKCTL \<equiv> 0x10"
abbreviation (input) PCI_EXP_LNKCTL_RL :: u32 where "PCI_EXP_LNKCTL_RL \<equiv> 0x20"
abbreviation (input) PCI_EXP_LNKSTA :: u32 where "PCI_EXP_LNKSTA \<equiv> 0x12"
abbreviation (input) PCI_EXP_LNKSTA_CLS :: u32 where "PCI_EXP_LNKSTA_CLS \<equiv> 0xF"
abbreviation (input) PCI_EXP_LNKSTA_CLS_2_5GB :: u32 where "PCI_EXP_LNKSTA_CLS_2_5GB \<equiv> 1"
abbreviation (input) PCI_EXP_LNKSTA_CLS_5_0GB :: u32 where "PCI_EXP_LNKSTA_CLS_5_0GB \<equiv> 2"
abbreviation (input) PCI_EXP_LNKSTA_CLS_8_0GB :: u32 where "PCI_EXP_LNKSTA_CLS_8_0GB \<equiv> 3"
abbreviation (input) PCI_EXP_LNKSTA_NLW :: u32 where "PCI_EXP_LNKSTA_NLW \<equiv> 0x3F0"
abbreviation (input) PCI_EXP_LNKSTA_NLW_SHIFT :: nat where "PCI_EXP_LNKSTA_NLW_SHIFT \<equiv> 4"
abbreviation (input) PCI_EXP_LNKSTA_LT :: u32 where "PCI_EXP_LNKSTA_LT \<equiv> 0x800"
abbreviation (input) PCI_EXP_LNKSTA_DLLLA :: u32 where "PCI_EXP_LNKSTA_DLLLA \<equiv> 0x2000"
abbreviation (input) PCI_EXP_LNKSTA_LBMS :: u32 where "PCI_EXP_LNKSTA_LBMS \<equiv> 0x4000"
abbreviation (input) PCI_EXP_RTCTL :: u32 where "PCI_EXP_RTCTL \<equiv> 0x1C"
abbreviation (input) PCI_EXP_RTCTL_CRSSVE :: u32 where "PCI_EXP_RTCTL_CRSSVE \<equiv> 0x10"
abbreviation (input) PCI_EXP_RTCAP :: u32 where "PCI_EXP_RTCAP \<equiv> 0x1E"
abbreviation (input) PCI_EXP_RTCAP_CRSVIS :: u32 where "PCI_EXP_RTCAP_CRSVIS \<equiv> 1"
abbreviation (input) PCI_EXP_LNKCTL2 :: u32 where "PCI_EXP_LNKCTL2 \<equiv> 0x30"
abbreviation (input) PCI_EXP_LNKCTL2_TLS :: u32 where "PCI_EXP_LNKCTL2_TLS \<equiv> 0xF"
abbreviation (input) PCI_EXP_LNKCTL2_TLS_2_5GT :: u32 where "PCI_EXP_LNKCTL2_TLS_2_5GT \<equiv> 1"
abbreviation (input) PCI_REGION_MEM :: u32 where "PCI_REGION_MEM \<equiv> 0"
abbreviation (input) PCI_REGION_IO :: u32 where "PCI_REGION_IO \<equiv> 1"
abbreviation (input) PCI_REGION_TYPE :: u32 where "PCI_REGION_TYPE \<equiv> 1"
abbreviation (input) PCI_REGION_PREFETCH :: u32 where "PCI_REGION_PREFETCH \<equiv> 8"
abbreviation (input) PCI_REGION_SYS_MEMORY :: u32 where "PCI_REGION_SYS_MEMORY \<equiv> 0x100"
abbreviation (input) PCI_REGION_RO :: u32 where "PCI_REGION_RO \<equiv> 0x200"

section \<open>Class codes (libraries/pci_ids.h)\<close>

abbreviation (input) PCI_CLASS_DISPLAY_VGA :: u32 where "PCI_CLASS_DISPLAY_VGA \<equiv> 0x300"
abbreviation (input) PCI_CLASS_BRIDGE_PCI :: u32 where "PCI_CLASS_BRIDGE_PCI \<equiv> 0x604"
abbreviation (input) PCI_CLASS_BRIDGE_CARDBUS :: u32 where "PCI_CLASS_BRIDGE_CARDBUS \<equiv> 0x607"
abbreviation (input) PCI_CLASS_BRIDGE_OTHER :: u32 where "PCI_CLASS_BRIDGE_OTHER \<equiv> 0x680"

section \<open>ECAM fields (pci.h)\<close>

abbreviation (input) PCIE_ECAM_BUS_SHIFT :: nat where "PCIE_ECAM_BUS_SHIFT \<equiv> 20"
abbreviation (input) PCIE_ECAM_DEV_SHIFT :: nat where "PCIE_ECAM_DEV_SHIFT \<equiv> 15"
abbreviation (input) PCIE_ECAM_FUNC_SHIFT :: nat where "PCIE_ECAM_FUNC_SHIFT \<equiv> 12"
abbreviation (input) PCIE_ECAM_BUS_MASK :: u32 where "PCIE_ECAM_BUS_MASK \<equiv> 0xFF"
abbreviation (input) PCIE_ECAM_DEV_MASK :: u32 where "PCIE_ECAM_DEV_MASK \<equiv> 0x1F"
abbreviation (input) PCIE_ECAM_FUNC_MASK :: u32 where "PCIE_ECAM_FUNC_MASK \<equiv> 7"
abbreviation (input) PCIE_ECAM_REG_MASK :: u32 where "PCIE_ECAM_REG_MASK \<equiv> 0xFFF"

section \<open>Build-time configuration (pci_types.h)\<close>

abbreviation (input) CONFIG_PCI_BRIDGE_MEM_ALIGNMENT :: u32 where "CONFIG_PCI_BRIDGE_MEM_ALIGNMENT \<equiv> 0x100000"
abbreviation (input) CONFIG_NR_DRAM_BANKS :: nat where "CONFIG_NR_DRAM_BANKS \<equiv> 4"
abbreviation (input) MSI_MAX_VECTORS :: nat where "MSI_MAX_VECTORS \<equiv> 32"
abbreviation (input) DM_FLAG_BOUND :: u32 where "DM_FLAG_BOUND \<equiv> 1"
abbreviation (input) DM_FLAG_ACTIVATED :: u32 where "DM_FLAG_ACTIVATED \<equiv> 2"

section \<open>Root-complex registers (bcm2711.h)\<close>

abbreviation (input) BRCM_PCIE_CAP_REGS :: u32 where "BRCM_PCIE_CAP_REGS \<equiv> 0xAC"
abbreviation (input) PCIE_RC_CFG_VENDOR_VENDOR_SPECIFIC_REG1 :: u32 where "PCIE_RC_CFG_VENDOR_VENDOR_SPECIFIC_REG1 \<equiv> 0x188"
abbreviation (input) VENDOR_SPECIFIC_REG1_LITTLE_ENDIAN :: u32 where "VENDOR_SPECIFIC_REG1_LITTLE_ENDIAN \<equiv> 0"
abbreviation (input) PCIE_RC_CFG_PRIV1_ID_VAL3 :: u32 where "PCIE_RC_CFG_PRIV1_ID_VAL3 \<equiv> 0x43C"
abbreviation (input) PCIE_RC_CFG_PRIV1_LINK_CAPABILITY :: u32 where "PCIE_RC_CFG_PRIV1_LINK_CAPABILITY \<equiv> 0x4DC"
abbreviation (input) LINK_CAPABILITY_ASPM_SUPPORT_MASK :: u32 where "LINK_CAPABILITY_ASPM_SUPPORT_MASK \<equiv> 0xC00"
abbreviation (input) PCIE_RC_DL_MDIO_ADDR :: u32 where "PCIE_RC_DL_MDIO_ADDR \<equiv> 0x1100"
abbreviation (input) PCIE_RC_DL_MDIO_WR_DATA :: u32 where "PCIE_RC_DL_MDIO_WR_DATA \<equiv> 0x1104"
abbreviation (input) PCIE_RC_DL_MDIO_RD_DATA :: u32 where "PCIE_RC_DL_MDIO_RD_DATA \<equiv> 0x1108"
abbreviation (input) PCIE_MISC_MISC_CTRL :: u32 where "PCIE_MISC_MISC_CTRL \<equiv> 0x4008"
abbreviation (input) MISC_CTRL_SCB_ACCESS_EN_MASK :: u32 where "MISC_CTRL_SCB_ACCESS_EN_MASK \<equiv> 0x1000"
abbreviation (input) MISC_CTRL_CFG_READ_UR_MODE_MASK :: u32 where "MISC_CTRL_CFG_READ_UR_MODE_MASK \<equiv> 0x2000"
abbreviation (input) MISC_CTRL_MAX_BURST_SIZE_MASK :: u32 where "MISC_CTRL_MAX_BURST_SIZE_MASK \<equiv> 0x300000"
abbreviation (input) MISC_CTRL_MAX_BURST_SIZE_128 :: u32 where "MISC_CTRL_MAX_BURST_SIZE_128 \<equiv> 0"
abbreviation (input) MISC_CTRL_SCB0_SIZE_MASK :: u32 where "MISC_CTRL_SCB0_SIZE_MASK \<equiv> 0xF8000000"
abbreviation (input) MISC_CTRL_PCIE_RCB_MPS_MODE_MASK :: u32 where "MISC_CTRL_PCIE_RCB_MPS_MODE_MASK \<equiv> 0x400"
abbreviation (input) MISC_CTRL_PCIE_RCB_64B_MODE_MASK :: u32 where "MISC_CTRL_PCIE_RCB_64B_MODE_MASK \<equiv> 0x80"
abbreviation (input) PCIE_MISC_CPU_2_PCIE_MEM_WIN0_LO :: u32 where "PCIE_MISC_CPU_2_PCIE_MEM_WIN0_LO \<equiv> 0x400C"
abbreviation (input) PCIE_MISC_CPU_2_PCIE_MEM_WIN0_HI :: u32 where "PCIE_MISC_CPU_2_PCIE_MEM_WIN0_HI \<equiv> 0x4010"
abbreviation (input) PCIE_MISC_RC_BAR1_CONFIG_LO :: u32 where "PCIE_MISC_RC_BAR1_CONFIG_LO \<equiv> 0x402C"
abbreviation (input) RC_BAR1_CONFIG_LO_SIZE_MASK :: u32 where "RC_BAR1_CONFIG_LO_SIZE_MASK \<equiv> 0x1F"
abbreviation (input) PCIE_MISC_RC_BAR2_CONFIG_LO :: u32 where "PCIE_MISC_RC_BAR2_CONFIG_LO \<equiv> 0x4034"
abbreviation (input) RC_BAR2_CONFIG_LO_SIZE_MASK :: u32 where "RC_BAR2_CONFIG_LO_SIZE_MASK \<equiv> 0x1F"
abbreviation (input) PCIE_MISC_RC_BAR2_CONFIG_HI :: u32 where "PCIE_MISC_RC_BAR2_CONFIG_HI \<equiv> 0x4038"
abbreviation (input) PCIE_MISC_RC_BAR3_CONFIG_LO :: u32 where "PCIE_MISC_RC_BAR3_CONFIG_LO \<equiv> 0x403C"
abbreviation (input) RC_BAR3_CONFIG_LO_SIZE_MASK :: u32 where "RC_BAR3_CONFIG_LO_SIZE_MASK \<equiv> 0x1F"
abbreviation (input) PCIE_MISC_MSI_BAR_CONFIG_LO :: u32 where "PCIE_MISC_MSI_BAR_CONFIG_LO \<equiv> 0x4044"
abbreviation (input) PCIE_MISC_MSI_BAR_CONFIG_HI :: u32 where "PCIE_MISC_MSI_BAR_CONFIG_HI \<equiv> 0x4048"
abbreviation (input) PCIE_MISC_MSI_DATA_CONFIG :: u32 where "PCIE_MISC_MSI_DATA_CONFIG \<equiv> 0x404C"
abbreviation (input) PCIE_MISC_MSI_DATA_CONFIG_VAL_32 :: u32 where "PCIE_MISC_MSI_DATA_CONFIG_VAL_32 \<equiv> 0xFFE06540"
abbreviation (input) PCIE_MISC_PCIE_STATUS :: u32 where "PCIE_MISC_PCIE_STATUS \<equiv> 0x4068"
abbreviation (input) STATUS_PCIE_PORT_MASK :: u32 where "STATUS_PCIE_PORT_MASK \<equiv> 0x80"
abbreviation (input) STATUS_PCIE_PORT_SHIFT :: nat where "STATUS_PCIE_PORT_SHIFT \<equiv> 7"
abbreviation (input) STATUS_PCIE_DL_ACTIVE_MASK :: u32 where "STATUS_PCIE_DL_ACTIVE_MASK \<equiv> 0x20"
abbreviation (input) STATUS_PCIE_DL_ACTIVE_SHIFT :: nat where "STATUS_PCIE_DL_ACTIVE_SHIFT \<equiv> 5"
abbreviation (input) STATUS_PCIE_PHYLINKUP_MASK :: u32 where "STATUS_PCIE_PHYLINKUP_MASK \<equiv> 0x10"
abbreviation (input) STATUS_PCIE_PHYLINKUP_SHIFT :: nat where "STATUS_PCIE_PHYLINKUP_SHIFT \<equiv> 4"
abbreviation (input) PCIE_MISC_REVISION :: u32 where "PCIE_MISC_REVISION \<equiv> 0x406C"
abbreviation (input) BRCM_PCIE_HW_REV_33 :: u32 where "BRCM_PCIE_HW_REV_33 \<equiv> 0x303"
abbreviation (input) PCIE_MISC_CPU_2_PCIE_MEM_WIN0_BASE_LIMIT :: u32 where "PCIE_MISC_CPU_2_PCIE_MEM_WIN0_BASE_LIMIT \<equiv> 0x4070"
abbreviation (input) MEM_WIN0_BASE_LIMIT_LIMIT_MASK :: u32 where "MEM_WIN0_BASE_LIMIT_LIMIT_MASK \<equiv> 0xFFF00000"
abbreviation (input) MEM_WIN0_BASE_LIMIT_BASE_MASK :: u32 where "MEM_WIN0_BASE_LIMIT_BASE_MASK \<equiv> 0xFFF0"
abbreviation (input) MEM_WIN0_BASE_LIMIT_BASE_HI_SHIFT :: nat where "MEM_WIN0_BASE_LIMIT_BASE_HI_SHIFT \<equiv> 12"
abbreviation (input) PCIE_MISC_CPU_2_PCIE_MEM_WIN0_BASE_HI :: u32 where "PCIE_MISC_CPU_2_PCIE_MEM_WIN0_BASE_HI \<equiv> 0x4080"
abbreviation (input) MEM_WIN0_BASE_HI_BASE_MASK :: u32 where "MEM_WIN0_BASE_HI_BASE_MASK \<equiv> 0xFF"
abbreviation (input) PCIE_MISC_CPU_2_PCIE_MEM_WIN0_LIMIT_HI :: u32 where "PCIE_MISC_CPU_2_PCIE_MEM_WIN0_LIMIT_HI \<equiv> 0x4084"
abbreviation (input) PCIE_MEM_WIN0_LIMIT_HI_LIMIT_MASK :: u32 where "PCIE_MEM_WIN0_LIMIT_HI_LIMIT_MASK \<equiv> 0xFF"
abbreviation (input) PCIE_MISC_HARD_PCIE_HARD_DEBUG :: u32 where "PCIE_MISC_HARD_PCIE_HARD_DEBUG \<equiv> 0x4204"
abbreviation (input) PCIE_HARD_DEBUG_SERDES_IDDQ_MASK :: u32 where "PCIE_HARD_DEBUG_SERDES_IDDQ_MASK \<equiv> 0x8000000"
abbreviation (input) PCIE_MSI_INTR2_STATUS :: u32 where "PCIE_MSI_INTR2_STATUS \<equiv> 0x4500"
abbreviation (input) PCIE_MSI_INTR2_CLR :: u32 where "PCIE_MSI_INTR2_CLR \<equiv> 0x4508"
abbreviation (input) PCIE_MSI_INTR2_MASK_SET :: u32 where "PCIE_MSI_INTR2_MASK_SET \<equiv> 0x4510"
abbreviation (input) PCIE_MSI_INTR2_MASK_CLR :: u32 where "PCIE_MSI_INTR2_MASK_CLR \<equiv> 0x4514"
abbreviation (input) PCIE_RGR1_SW_INIT_1 :: u32 where "PCIE_RGR1_SW_INIT_1 \<equiv> 0x9210"
abbreviation (input) PCIE_EXT_CFG_INDEX :: u32 where "PCIE_EXT_CFG_INDEX \<equiv> 0x9000"
abbreviation (input) PCIE_EXT_CFG_DATA :: u32 where "PCIE_EXT_CFG_DATA \<equiv> 0x8000"
abbreviation (input) PCIE_RC_CFG_VENDOR_VENDOR_SPECIFIC_REG1_ENDIAN_MODE_BAR2_MASK :: u32 where "PCIE_RC_CFG_VENDOR_VENDOR_SPECIFIC_REG1_ENDIAN_MODE_BAR2_MASK \<equiv> 0xC"
abbreviation (input) PCIE_RC_CFG_PRIV1_ID_VAL3_CLASS_CODE_MASK :: u32 where "PCIE_RC_CFG_PRIV1_ID_VAL3_CLASS_CODE_MASK \<equiv> 0xFFFFFF"
abbreviation (input) PCIE_RGR1_SW_INIT_1_INIT_MASK :: u32 where "PCIE_RGR1_SW_INIT_1_INIT_MASK \<equiv> 2"
abbreviation (input) PCIE_RGR1_SW_INIT_1_PERST_MASK :: u32 where "PCIE_RGR1_SW_INIT_1_PERST_MASK \<equiv> 1"

section \<open>Root-complex driver constants (pcie_brcmstb.c)\<close>

abbreviation (input) BRCM_NUM_PCIE_OUT_WINS :: nat where "BRCM_NUM_PCIE_OUT_WINS \<equiv> 4"
abbreviation (input) MDIO_PORT0 :: u32 where "MDIO_PORT0 \<equiv> 0"
abbreviation (input) MDIO_DATA_MASK :: u32 where "MDIO_DATA_MASK \<equiv> 0x7FFFFFFF"
abbreviation (input) MDIO_DATA_SHIFT :: nat where "MDIO_DATA_SHIFT \<equiv> 0"
abbreviation (input) MDIO_PORT_MASK :: u32 where "MDIO_PORT_MASK \<equiv> 0xF0000"
abbreviation (input) MDIO_PORT_SHIFT :: nat where "MDIO_PORT_SHIFT \<equiv> 16"
abbreviation (input) MDIO_REGAD_MASK :: u32 where "MDIO_REGAD_MASK \<equiv> 0xFFFF"
abbreviation (input) MDIO_REGAD_SHIFT :: nat where "MDIO_REGAD_SHIFT \<equiv> 0"
abbreviation (input) MDIO_CMD_MASK :: u32 where "MDIO_CMD_MASK \<equiv> 0xFFF00000"
abbreviation (input) MDIO_CMD_SHIFT :: nat where "MDIO_CMD_SHIFT \<equiv> 20"
abbreviation (input) MDIO_CMD_READ :: u32 where "MDIO_CMD_READ \<equiv> 1"
abbreviation (input) MDIO_CMD_WRITE :: u32 where "MDIO_CMD_WRITE \<equiv> 0"
abbreviation (input) MDIO_DATA_DONE_MASK :: u32 where "MDIO_DATA_DONE_MASK \<equiv> 0x80000000"
abbreviation (input) SSC_REGS_ADDR :: u32 where "SSC_REGS_ADDR \<equiv> 0x1100"
abbreviation (input) SET_ADDR_OFFSET :: u32 where "SET_ADDR_OFFSET \<equiv> 0x1F"
abbreviation (input) SSC_CNTL_OFFSET :: u32 where "SSC_CNTL_OFFSET \<equiv> 2"
abbreviation (input) SSC_CNTL_OVRD_EN_MASK :: u32 where "SSC_CNTL_OVRD_EN_MASK \<equiv> 0x8000"
abbreviation (input) SSC_CNTL_OVRD_VAL_MASK :: u32 where "SSC_CNTL_OVRD_VAL_MASK \<equiv> 0x4000"
abbreviation (input) SSC_STATUS_OFFSET :: u32 where "SSC_STATUS_OFFSET \<equiv> 1"
abbreviation (input) SSC_STATUS_SSC_MASK :: u32 where "SSC_STATUS_SSC_MASK \<equiv> 0x400"
abbreviation (input) SSC_STATUS_SSC_SHIFT :: nat where "SSC_STATUS_SSC_SHIFT \<equiv> 10"
abbreviation (input) SSC_STATUS_PLL_LOCK_MASK :: u32 where "SSC_STATUS_PLL_LOCK_MASK \<equiv> 0x800"
abbreviation (input) SSC_STATUS_PLL_LOCK_SHIFT :: nat where "SSC_STATUS_PLL_LOCK_SHIFT \<equiv> 11"
abbreviation (input) BRCM_MSI_TARGET_ADDR_LT_4GB :: u64 where "BRCM_MSI_TARGET_ADDR_LT_4GB \<equiv> 0xFFFFFFFC"
abbreviation (input) BRCM_MSI_TARGET_ADDR_GT_4GB :: u64 where "BRCM_MSI_TARGET_ADDR_GT_4GB \<equiv> 0xFFFFFFFFC"
abbreviation (input) DT_PCI_ATTR_CELLS :: u32 where "DT_PCI_ATTR_CELLS \<equiv> 1"
abbreviation (input) DT_PCI_ATTR_SPACE :: u32 where "DT_PCI_ATTR_SPACE \<equiv> 0x3000000"
abbreviation (input) DT_PCI_SPACE_IO :: u32 where "DT_PCI_SPACE_IO \<equiv> 0x1000000"
abbreviation (input) DT_PCI_SPACE_MEM32 :: u32 where "DT_PCI_SPACE_MEM32 \<equiv> 0x2000000"
abbreviation (input) DT_PCI_SPACE_MEM64 :: u32 where "DT_PCI_SPACE_MEM64 \<equiv> 0x3000000"
abbreviation (input) DT_PCI_ATTR_PREFETCH :: u32 where "DT_PCI_ATTR_PREFETCH \<equiv> 0x40000000"
abbreviation (input) PCIE_DMA_WIN_BASE :: u64 where "PCIE_DMA_WIN_BASE \<equiv> 0"
abbreviation (input) PCIE_DMA_WIN_END :: u64 where "PCIE_DMA_WIN_END \<equiv> 0x80000000"

section \<open>GIC registration (pcie_brcmstb_msi.c)\<close>

abbreviation (input) PCIE_GIC_PRIORITY :: nat where "PCIE_GIC_PRIORITY \<equiv> 0"

section \<open>Auto-configuration (pci_auto.c)\<close>

abbreviation (input) CFG_SYS_PCI_CACHE_LINE_SIZE :: u32 where "CFG_SYS_PCI_CACHE_LINE_SIZE \<equiv> 8"

section \<open>Board attribute tags (libraries/pcitags.h)\<close>

abbreviation (input) PRM_Vendor :: u32 where "PRM_Vendor \<equiv> 0x6EDA0000"
abbreviation (input) PRM_Device :: u32 where "PRM_Device \<equiv> 0x6EDA0001"
abbreviation (input) PRM_Revision :: u32 where "PRM_Revision \<equiv> 0x6EDA0002"
abbreviation (input) PRM_Class :: u32 where "PRM_Class \<equiv> 0x6EDA0003"
abbreviation (input) PRM_SubClass :: u32 where "PRM_SubClass \<equiv> 0x6EDA0004"
abbreviation (input) PRM_MemoryAddr0 :: u32 where "PRM_MemoryAddr0 \<equiv> 0x6EDA0010"
abbreviation (input) PRM_MemoryAddr1 :: u32 where "PRM_MemoryAddr1 \<equiv> 0x6EDA0011"
abbreviation (input) PRM_MemoryAddr2 :: u32 where "PRM_MemoryAddr2 \<equiv> 0x6EDA0012"
abbreviation (input) PRM_MemoryAddr3 :: u32 where "PRM_MemoryAddr3 \<equiv> 0x6EDA0013"
abbreviation (input) PRM_MemoryAddr4 :: u32 where "PRM_MemoryAddr4 \<equiv> 0x6EDA0014"
abbreviation (input) PRM_MemoryAddr5 :: u32 where "PRM_MemoryAddr5 \<equiv> 0x6EDA0015"
abbreviation (input) PRM_ROM_Address :: u32 where "PRM_ROM_Address \<equiv> 0x6EDA0016"
abbreviation (input) PRM_MemorySize0 :: u32 where "PRM_MemorySize0 \<equiv> 0x6EDA0020"
abbreviation (input) PRM_MemorySize1 :: u32 where "PRM_MemorySize1 \<equiv> 0x6EDA0021"
abbreviation (input) PRM_MemorySize2 :: u32 where "PRM_MemorySize2 \<equiv> 0x6EDA0022"
abbreviation (input) PRM_MemorySize3 :: u32 where "PRM_MemorySize3 \<equiv> 0x6EDA0023"
abbreviation (input) PRM_MemorySize4 :: u32 where "PRM_MemorySize4 \<equiv> 0x6EDA0024"
abbreviation (input) PRM_MemorySize5 :: u32 where "PRM_MemorySize5 \<equiv> 0x6EDA0025"
abbreviation (input) PRM_ROM_Size :: u32 where "PRM_ROM_Size \<equiv> 0x6EDA0026"
abbreviation (input) PRM_MemoryFlags0 :: u32 where "PRM_MemoryFlags0 \<equiv> 0x6EDA0030"
abbreviation (input) PRM_MemoryFlags1 :: u32 where "PRM_MemoryFlags1 \<equiv> 0x6EDA0031"
abbreviation (input) PRM_MemoryFlags2 :: u32 where "PRM_MemoryFlags2 \<equiv> 0x6EDA0032"
abbreviation (input) PRM_MemoryFlags3 :: u32 where "PRM_MemoryFlags3 \<equiv> 0x6EDA0033"
abbreviation (input) PRM_MemoryFlags4 :: u32 where "PRM_MemoryFlags4 \<equiv> 0x6EDA0034"
abbreviation (input) PRM_MemoryFlags5 :: u32 where "PRM_MemoryFlags5 \<equiv> 0x6EDA0035"
abbreviation (input) PRM_ROM_Flags :: u32 where "PRM_ROM_Flags \<equiv> 0x6EDA0036"
abbreviation (input) PRM_BoardOwner :: u32 where "PRM_BoardOwner \<equiv> 0x6EDA0005"
abbreviation (input) PRM_SlotNumber :: u32 where "PRM_SlotNumber \<equiv> 0x6EDA0006"
abbreviation (input) PRM_FunctionNumber :: u32 where "PRM_FunctionNumber \<equiv> 0x6EDA0007"
abbreviation (input) PRM_BusNumber :: u32 where "PRM_BusNumber \<equiv> 0x6EDA0008"
abbreviation (input) PRM_HeaderType :: u32 where "PRM_HeaderType \<equiv> 0x6EDA0009"
abbreviation (input) PRM_SubsysVendor :: u32 where "PRM_SubsysVendor \<equiv> 0x6EDA000A"
abbreviation (input) PRM_SubsysID :: u32 where "PRM_SubsysID \<equiv> 0x6EDA000B"
abbreviation (input) PRM_Interface :: u32 where "PRM_Interface \<equiv> 0x6EDA000C"
abbreviation (input) PRM_InterruptPin :: u32 where "PRM_InterruptPin \<equiv> 0x6EDA000D"
abbreviation (input) PRM_LegacyIOSpace :: u32 where "PRM_LegacyIOSpace \<equiv> 0x6EDA000E"
abbreviation (input) PRM_PCIToHostOffset :: u32 where "PRM_PCIToHostOffset \<equiv> 0x6EDA000F"
abbreviation (input) PRM_InterruptLine :: u32 where "PRM_InterruptLine \<equiv> 0x6EDA001D"
abbreviation (input) PRM_ConfigArea :: u32 where "PRM_ConfigArea \<equiv> 0x6EDA001E"
abbreviation (input) PRM_MemRangeLower :: u32 where "PRM_MemRangeLower \<equiv> 0x6EDA1000"
abbreviation (input) PRM_MemRangeUpper :: u32 where "PRM_MemRangeUpper \<equiv> 0x6EDA1001"
abbreviation (input) PRM_PCIMemWindowLow :: u32 where "PRM_PCIMemWindowLow \<equiv> 0x6EDA0050"
abbreviation (input) PRM_PCIMemWindowHigh :: u32 where "PRM_PCIMemWindowHigh \<equiv> 0x6EDA0051"

section \<open>pci_bus() result (libraries/openpci.h)\<close>

abbreviation (input) BCM2711PCIeBus :: u32 where "BCM2711PCIeBus \<equiv> 0x80"

section \<open>Mailbox tags (vl805_reset.c)\<close>

abbreviation (input) MAILBOX_PROP_REQ_CODE :: u32 where "MAILBOX_PROP_REQ_CODE \<equiv> 0"
abbreviation (input) MAILBOX_PROP_RESP_CODE_SUCCESS :: u32 where "MAILBOX_PROP_RESP_CODE_SUCCESS \<equiv> 0x80000000"
abbreviation (input) MAILBOX_TAG_NOTIFY_XHCI_RESET :: u32 where "MAILBOX_TAG_NOTIFY_XHCI_RESET \<equiv> 0x30058"

end
