(* ===== verification/Platform.thy ===== *)
theory Platform
  imports Pci_Constants
begin

text \<open>
  Everything the repository calls but does not contain: the bit helpers of \<open>bits.h\<close>, the
  register accessors of \<open>iomem.h\<close>, the timers of \<open>timing.h\<close>, the memory of \<open>exec.library\<close>
  and the interrupt services of \<open>gic400.library\<close>.  They are the fields of two records, and
  every definition that uses one takes the record as an argument, so a theorem holds for
  every implementation of them.  The hardware behind the accessors is the abstract state
  \<open>'h\<close>: a read may change it and may return anything.

  Where a result depends on what such a function does, its documented behaviour is a named
  hypothesis: \<open>bits_laws\<close> for the bit helpers, the laws of the register file beside the
  theorems that use them.  \<open>ref_bits\<close> and \<open>ram_platform\<close> are a concrete implementation for
  evaluating the model: byte-addressed little-endian memory, a clock that ticks at every
  reading, an allocator with a budget and one interrupt server per line.
\<close>

section \<open>bits.h\<close>

record bits_h =
  u64_lo32 :: "u64 \<Rightarrow> u32"
  u64_hi32 :: "u64 \<Rightarrow> u32"
  mask_insert :: "u32 \<Rightarrow> u32 \<Rightarrow> u32"  \<comment> \<open>value, field mask\<close>
  mask_extract :: "u32 \<Rightarrow> u32 \<Rightarrow> u32"  \<comment> \<open>register, field mask\<close>
  u32_update_mask :: "u32 \<Rightarrow> u32 \<Rightarrow> u32 \<Rightarrow> u32"  \<comment> \<open>register, value, field mask\<close>
  log2_floor_u64 :: "u64 \<Rightarrow> u32"
  round_up_pow2_u64 :: "u64 \<Rightarrow> u64"

text \<open>The position of a field: its lowest bit.\<close>

fun ctz_fuel :: "nat \<Rightarrow> u32 \<Rightarrow> nat" where
  "ctz_fuel 0 m = 0"
| "ctz_fuel (Suc k) m = (if bit m 0 then 0 else Suc (ctz_fuel k (drop_bit 1 m)))"

definition ctz :: "u32 \<Rightarrow> nat" where
  "ctz m = ctz_fuel 32 m"

definition bits_laws :: "bits_h \<Rightarrow> bool" where
  "bits_laws B \<longleftrightarrow>
     (\<forall>x. u64_lo32 B x = ucast x) \<and>
     (\<forall>x. u64_hi32 B x = ucast (drop_bit 32 x)) \<and>
     (\<forall>v m. mask_insert B v m = push_bit (ctz m) v AND m) \<and>
     (\<forall>x m. mask_extract B x m = drop_bit (ctz m) (x AND m)) \<and>
     (\<forall>x v m. u32_update_mask B x v m = (x AND NOT m) OR (push_bit (ctz m) v AND m)) \<and>
     (\<forall>x n. 2 ^ n \<le> unat x \<and> unat x < 2 ^ Suc n \<longrightarrow> log2_floor_u64 B x = of_nat n) \<and>
     (\<forall>x n. 0 < unat x \<and> unat x \<le> 2 ^ n \<and> 2 ^ n < 2 * unat x \<and> n < 64 \<longrightarrow> round_up_pow2_u64 B x = 2 ^ n)"

section \<open>iomem.h, timing.h, exec.library, gic400.library\<close>

type_synonym isr = nat  \<comment> \<open>the address of a struct Interrupt\<close>

record 'h platform =
  bits :: bits_h
  io_read8 :: "u32 \<Rightarrow> 'h \<Rightarrow> u8 \<times> 'h"
  io_read16 :: "u32 \<Rightarrow> 'h \<Rightarrow> u16 \<times> 'h"
  io_read32 :: "u32 \<Rightarrow> 'h \<Rightarrow> u32 \<times> 'h"
  io_read32_relaxed :: "u32 \<Rightarrow> 'h \<Rightarrow> u32 \<times> 'h"
  io_write8 :: "u8 \<Rightarrow> u32 \<Rightarrow> 'h \<Rightarrow> 'h"
  io_write16 :: "u16 \<Rightarrow> u32 \<Rightarrow> 'h \<Rightarrow> 'h"
  io_write32 :: "u32 \<Rightarrow> u32 \<Rightarrow> 'h \<Rightarrow> 'h"
  io_write32_relaxed :: "u32 \<Rightarrow> u32 \<Rightarrow> 'h \<Rightarrow> 'h"
  io_set16 :: "u32 \<Rightarrow> u16 \<Rightarrow> 'h \<Rightarrow> 'h"
  io_set32 :: "u32 \<Rightarrow> u32 \<Rightarrow> 'h \<Rightarrow> 'h"
  io_clear32 :: "u32 \<Rightarrow> u32 \<Rightarrow> 'h \<Rightarrow> 'h"
  io_update32 :: "u32 \<Rightarrow> u32 \<Rightarrow> u32 \<Rightarrow> 'h \<Rightarrow> 'h"  \<comment> \<open>address, bits to clear, bits to set\<close>
  io_poll :: "u32 \<Rightarrow> u32 \<Rightarrow> u32 \<Rightarrow> u32 \<Rightarrow> 'h \<Rightarrow> u32 \<times> 'h"
  time_us :: "'h \<Rightarrow> u32 \<times> 'h"
  wait_us :: "u32 \<Rightarrow> 'h \<Rightarrow> 'h"
  wait_ms :: "u32 \<Rightarrow> 'h \<Rightarrow> 'h"
  exec_alloc :: "'h \<Rightarrow> bool \<times> 'h"  \<comment> \<open>AllocMem or AllocVec returned memory\<close>
  exec_free :: "'h \<Rightarrow> 'h"
  gic_open :: "'h \<Rightarrow> bool \<times> 'h"  \<comment> \<open>OpenLibrary "gic400.library"\<close>
  gic_close :: "'h \<Rightarrow> 'h"
  gic_add :: "u32 \<Rightarrow> isr \<Rightarrow> 'h \<Rightarrow> int \<times> 'h"  \<comment> \<open>AddIntServerEx\<close>
  gic_rem :: "u32 \<Rightarrow> isr \<Rightarrow> 'h \<Rightarrow> 'h"  \<comment> \<open>RemIntServerEx\<close>
  gic_already_registered :: int  \<comment> \<open>GIC400_ERR_ALREADY_REGISTERED\<close>
  call_server :: "isr \<Rightarrow> u32 \<Rightarrow> 'h \<Rightarrow> 'h"  \<comment> \<open>run an interrupt server for a demux slot\<close>
  mb_open :: "'h \<Rightarrow> bool \<times> 'h"  \<comment> \<open>OpenResource "mailbox.resource"\<close>
  mb_raw_command :: "u32 list \<Rightarrow> 'h \<Rightarrow> u32 list \<times> 'h"

section \<open>A concrete platform\<close>

fun log2_fuel :: "nat \<Rightarrow> u64 \<Rightarrow> u32" where
  "log2_fuel 0 x = 0"
| "log2_fuel (Suc k) x = (if bit x (Suc k) then of_nat (Suc k) else log2_fuel k x)"

fun pow2_fuel :: "nat \<Rightarrow> nat \<Rightarrow> u64 \<Rightarrow> u64" where
  "pow2_fuel 0 n x = 0"
| "pow2_fuel (Suc k) n x = (if unat x \<le> 2 ^ n then 2 ^ n else pow2_fuel k (Suc n) x)"

definition ref_bits :: bits_h where
  "ref_bits =
    \<lparr> u64_lo32 = (\<lambda>x. ucast x),
      u64_hi32 = (\<lambda>x. ucast (drop_bit 32 x)),
      mask_insert = (\<lambda>v m. push_bit (ctz m) v AND m),
      mask_extract = (\<lambda>x m. drop_bit (ctz m) (x AND m)),
      u32_update_mask = (\<lambda>x v m. (x AND NOT m) OR (push_bit (ctz m) v AND m)),
      log2_floor_u64 = (\<lambda>x. log2_fuel 63 x),
      round_up_pow2_u64 = (\<lambda>x. pow2_fuel 64 0 x) \<rparr>"

record ram_hw =
  ram :: "u32 \<Rightarrow> u8"
  clock :: u32
  budget :: nat  \<comment> \<open>allocations that still succeed\<close>
  live :: nat  \<comment> \<open>allocations not freed\<close>
  lines :: "u32 \<Rightarrow> isr option"
  calls :: "(isr \<times> u32) list"

definition ram_get16 :: "ram_hw \<Rightarrow> u32 \<Rightarrow> u16" where
  "ram_get16 h a = ucast (ram h a) OR push_bit 8 (ucast (ram h (a + 1)))"

definition ram_get32 :: "ram_hw \<Rightarrow> u32 \<Rightarrow> u32" where
  "ram_get32 h a = ucast (ram_get16 h a) OR push_bit 16 (ucast (ram_get16 h (a + 2)))"

definition ram_put8 :: "u8 \<Rightarrow> u32 \<Rightarrow> ram_hw \<Rightarrow> ram_hw" where
  "ram_put8 v a h = h\<lparr>ram := (ram h)(a := v)\<rparr>"

definition ram_put16 :: "u16 \<Rightarrow> u32 \<Rightarrow> ram_hw \<Rightarrow> ram_hw" where
  "ram_put16 v a h = ram_put8 (ucast (drop_bit 8 v)) (a + 1) (ram_put8 (ucast v) a h)"

definition ram_put32 :: "u32 \<Rightarrow> u32 \<Rightarrow> ram_hw \<Rightarrow> ram_hw" where
  "ram_put32 v a h = ram_put16 (ucast (drop_bit 16 v)) (a + 2) (ram_put16 (ucast v) a h)"

definition ram_add_line :: "u32 \<Rightarrow> isr \<Rightarrow> ram_hw \<Rightarrow> int \<times> ram_hw" where
  "ram_add_line l i h =
     (if lines h l = None then (0, h\<lparr>lines := (lines h)(l := Some i)\<rparr>) else (- 1, h))"

definition ram_alloc :: "ram_hw \<Rightarrow> bool \<times> ram_hw" where
  "ram_alloc h =
     (if 0 < budget h then (True, h\<lparr>budget := budget h - 1, live := Suc (live h)\<rparr>) else (False, h))"

definition ram_platform :: "ram_hw platform" where
  "ram_platform =
    \<lparr> bits = ref_bits,
      io_read8 = (\<lambda>a h. (ram h a, h)),
      io_read16 = (\<lambda>a h. (ram_get16 h a, h)),
      io_read32 = (\<lambda>a h. (ram_get32 h a, h)),
      io_read32_relaxed = (\<lambda>a h. (ram_get32 h a, h)),
      io_write8 = ram_put8,
      io_write16 = ram_put16,
      io_write32 = ram_put32,
      io_write32_relaxed = ram_put32,
      io_set16 = (\<lambda>a v h. ram_put16 (ram_get16 h a OR v) a h),
      io_set32 = (\<lambda>a v h. ram_put32 (ram_get32 h a OR v) a h),
      io_clear32 = (\<lambda>a v h. ram_put32 (ram_get32 h a AND NOT v) a h),
      io_update32 = (\<lambda>a c s h. ram_put32 ((ram_get32 h a AND NOT c) OR s) a h),
      io_poll = (\<lambda>a m e t h. (ram_get32 h a, h)),
      time_us = (\<lambda>h. (clock h, h\<lparr>clock := clock h + 1\<rparr>)),
      wait_us = (\<lambda>t h. h\<lparr>clock := clock h + t\<rparr>),
      wait_ms = (\<lambda>t h. h\<lparr>clock := clock h + 1000 * t\<rparr>),
      exec_alloc = ram_alloc,
      exec_free = (\<lambda>h. h\<lparr>live := live h - 1\<rparr>),
      gic_open = (\<lambda>h. (True, h)),
      gic_close = (\<lambda>h. h),
      gic_add = ram_add_line,
      gic_rem = (\<lambda>l i h. h\<lparr>lines := (lines h)(l := None)\<rparr>),
      gic_already_registered = - 1,
      call_server = (\<lambda>i s h. h\<lparr>calls := calls h @ [(i, s)]\<rparr>),
      mb_open = (\<lambda>h. (True, h)),
      mb_raw_command = (\<lambda>c h. (c[1 := 0x80000000], h)) \<rparr>"

definition ram_init :: ram_hw where
  "ram_init = \<lparr>ram = (\<lambda>_. 0), clock = 0, budget = 1000, live = 0, lines = (\<lambda>_. None), calls = []\<rparr>"

section \<open>The concrete bit helpers obey the laws\<close>

lemma log2_fuel_bit:
  assumes "bit x n" and "\<And>j. n < j \<Longrightarrow> \<not> bit x j" and "n \<le> k"
  shows "log2_fuel k x = of_nat n"
  using assms by (induction k) (auto simp: le_Suc_eq)

lemma pow2_range_bit:
  assumes "2 ^ n \<le> unat (x :: u64)" and "unat x < 2 ^ Suc n"
  shows "bit x n" and "n < j \<Longrightarrow> \<not> bit x j"
proof -
  have 1: "unat x div 2 ^ n = 1"
    using assms by (simp add: div_nat_eqI)
  have "bit (unat x) n"
    by (simp add: bit_iff_odd 1)
  then show "bit x n"
    by (simp add: bit_unsigned_iff)
  assume "n < j"
  then have "unat x < 2 ^ j"
    using assms(2) by (meson Suc_leI less_le_trans one_le_numeral power_increasing)
  then have "\<not> bit (unat x) j"
    by (simp add: bit_iff_odd)
  then show "\<not> bit x j"
    by (auto simp: bit_unsigned_iff dest: bit_imp_le_length)
qed

lemma pow2_fuel_least:
  assumes "n \<le> m" and "m < n + k" and "unat x \<le> 2 ^ m" and "2 ^ m < 2 * unat (x :: u64)"
  shows "pow2_fuel k n x = 2 ^ m"
  using assms
proof (induction k arbitrary: n)
  case (Suc k)
  show ?case
  proof (cases "n = m")
    case False
    then have "n < m" using Suc.prems by simp
    then have "2 * 2 ^ n \<le> (2 :: nat) ^ m"
      by (metis Suc_leI one_le_numeral power_Suc power_increasing)
    then have "\<not> unat x \<le> 2 ^ n" using Suc.prems(4) by linarith
    with \<open>n < m\<close> show ?thesis using Suc by simp
  qed (use Suc in simp)
qed simp

lemma ref_bits_laws: "bits_laws ref_bits"
proof -
  have "log2_fuel 63 x = of_nat n" if "2 ^ n \<le> unat x" and "unat x < 2 ^ Suc n" for x :: u64 and n
  proof (rule log2_fuel_bit)
    have "(2::nat) ^ n < 2 ^ 64"
      using that(1) unsigned_less [of x, where ?'a = nat] by simp
    then have "n < 64" by (rule power_less_imp_less_exp [rotated]) simp
    then show "n \<le> 63" by simp
  qed (use that pow2_range_bit in blast)+
  then show ?thesis
    by (auto simp: bits_laws_def ref_bits_def intro: pow2_fuel_least)
qed

end
