(* ===== verification/Pci_Types.thy ===== *)
theory Pci_Types
  imports Platform
begin

text \<open>
  The data structures of \<open>pci_types.h\<close> and the state the code shares: the controller, the
  buses and the devices, and the hardware behind the register accessors.  A pointer to a
  bus or a device is its number in the store, \<open>NULL\<close> is \<open>None\<close>; an Exec list of nodes is
  the list of their numbers, head first.  There is one controller, allocated by
  \<open>pcie_hw_init\<close>; every bus points to it, so \<open>pci_get_controller\<close> is the field \<open>ctl\<close> of
  the state.  \<open>pci_io\<close>, \<open>pci_mem\<close> and \<open>pci_prefetch\<close> point into \<open>regions\<close> and are indices.
  A CPU virtual address is a \<open>u32\<close> with \<open>0\<close> for \<open>NULL\<close>.  The nested structs (\<open>msi\<close>,
  \<open>msix\<close>, \<open>intx\<close>, \<open>active\<close>) are flattened into prefixed fields.  Strings that only feed
  debug output (\<open>name\<close>, \<open>compatible\<close>) are left out.
\<close>

section \<open>Regions and the controller\<close>

record pci_region =
  bus_start :: u32
  phys_start :: u64
  region_size :: u32
  flags :: u32
  bus_lower :: u32

type_synonym bus_id = nat
type_synonym dev_id = nat

record pci_controller =
  base :: u32
  dt_node_name :: "string option"
  gen :: u32
  ssc :: bool
  hw_rev :: u32
  mmio_window_phys :: u64
  mmio_window_virtual :: u32
  mmio_window_size :: u64
  regions_alloc :: bool  \<comment> \<open>\<open>regions\<close> is not \<open>NULL\<close>\<close>
  regions :: "pci_region list"  \<comment> \<open>\<open>region_count\<close> is its length\<close>
  pci_io :: "nat option"
  pci_mem :: "nat option"
  pci_prefetch :: "nat option"
  bus_number_base :: u32
  bus_number_last :: u32
  msi_target_addr :: u32
  msi_servers :: "nat \<Rightarrow> isr option"  \<comment> \<open>\<open>servers[MSI_MAX_VECTORS]\<close>\<close>
  msi_used :: u32
  msi_gic_irq :: int
  buses :: "bus_id list"
  gic400Base :: bool  \<comment> \<open>the library is open\<close>
  INT_x_mapping :: "nat \<Rightarrow> u32"

section \<open>Buses and devices\<close>

record pci_bus =
  parent :: "bus_id option"
  pci_bridge :: "dev_id option"
  bus_number :: u32
  bus_number_last_sub :: u32
  devices :: "dev_id list"

record pci_bar_info =
  present :: bool
  bar_type :: u32
  is64 :: bool
  bus_addr :: u32
  bar_size :: u32
  bar_response :: u32
  phys_addr :: u64
  virt_addr :: u32

record pci_device =
  dev_bus :: bus_id
  dev_flags :: u32
  bdf :: u32
  devfn :: u32
  vendor :: u16
  device :: u16
  dev_class :: u32
  revision :: u8
  subsys_vendor :: u16
  subsys_id :: u16
  msi_cap_offset :: u32
  msi_mask :: u32
  msi_addr64 :: bool
  msi_maskable :: bool
  msi_log2_max_vecs :: nat
  msi_mask_offset :: u32
  msix_cap_offset :: u32
  msix_table_size :: nat
  msix_table_virt :: u32
  intx_pin :: u8
  intx_pin_routed :: u8
  intx_gic_irq :: u32
  intx_prefer_msi :: bool
  mode :: u32  \<comment> \<open>\<open>active.mode\<close>: a \<open>PCI_IRQ_*\<close> value, \<open>0\<close> when idle\<close>
  nvec :: nat
  slots :: "nat \<Rightarrow> nat"  \<comment> \<open>\<open>active.slots[MSI_MAX_VECTORS]\<close>\<close>
  intx_server :: "isr option"
  header_type :: u8
  bars_num :: nat
  bars :: "nat \<Rightarrow> pci_bar_info"

text \<open>The identification of a function, as \<open>pci_device_id\<close> lists it.\<close>

record pci_device_id =
  id_vendor :: u16
  id_device :: u16

datatype pci_size_t = PCI_SIZE_8 | PCI_SIZE_16 | PCI_SIZE_32

text \<open>What \<open>MEMF_CLEAR\<close> leaves in a fresh structure.\<close>

definition no_bar :: pci_bar_info where
  "no_bar = \<lparr>present = False, bar_type = 0, is64 = False, bus_addr = 0, bar_size = 0,
     bar_response = 0, phys_addr = 0, virt_addr = 0\<rparr>"

definition blank_bus :: pci_bus where
  "blank_bus = \<lparr>parent = None, pci_bridge = None, bus_number = 0, bus_number_last_sub = 0,
     devices = []\<rparr>"

definition blank_device :: pci_device where
  "blank_device = \<lparr>dev_bus = 0, dev_flags = 0, bdf = 0, devfn = 0, vendor = 0, device = 0,
     dev_class = 0, revision = 0, subsys_vendor = 0, subsys_id = 0,
     msi_cap_offset = 0, msi_mask = 0, msi_addr64 = False, msi_maskable = False,
     msi_log2_max_vecs = 0, msi_mask_offset = 0,
     msix_cap_offset = 0, msix_table_size = 0, msix_table_virt = 0,
     intx_pin = 0, intx_pin_routed = 0, intx_gic_irq = 0, intx_prefer_msi = False,
     mode = 0, nvec = 0, slots = (\<lambda>_. 0), intx_server = None,
     header_type = 0, bars_num = 0, bars = (\<lambda>_. no_bar)\<rparr>"

definition blank_controller :: pci_controller where
  "blank_controller = \<lparr>base = 0, dt_node_name = None, gen = 0, ssc = False, hw_rev = 0, mmio_window_phys = 0,
     mmio_window_virtual = 0, mmio_window_size = 0, regions_alloc = False, regions = [], pci_io = None,
     pci_mem = None, pci_prefetch = None, bus_number_base = 0, bus_number_last = 0,
     msi_target_addr = 0, msi_servers = (\<lambda>_. None), msi_used = 0, msi_gic_irq = 0,
     buses = [], gic400Base = False, INT_x_mapping = (\<lambda>_. 0)\<rparr>"

definition pci_set_region :: "u32 \<Rightarrow> u64 \<Rightarrow> u32 \<Rightarrow> u32 \<Rightarrow> pci_region" where
  "pci_set_region bstart pstart sz fl =
     \<lparr>bus_start = bstart, phys_start = pstart, region_size = sz, flags = fl, bus_lower = 0\<rparr>"

section \<open>Bus, device and function numbers\<close>

definition PCI_BUS :: "u32 \<Rightarrow> u32" where
  "PCI_BUS d = drop_bit 16 d AND 0xFF"  \<comment> \<open>\<open>(UBYTE)(d >> 16)\<close>\<close>

definition PCI_DEV :: "u32 \<Rightarrow> u32" where
  "PCI_DEV d = drop_bit 11 d AND 0x1F"

definition PCI_FUNC :: "u32 \<Rightarrow> u32" where
  "PCI_FUNC d = drop_bit 8 d AND 7"

definition PCI_DEVFN :: "u32 \<Rightarrow> u32 \<Rightarrow> u32" where
  "PCI_DEVFN d f = push_bit 11 d OR push_bit 8 f"

definition PCI_MASK_BUS :: "u32 \<Rightarrow> u32" where
  "PCI_MASK_BUS b = b AND 0xFFFF"

definition PCI_BDF :: "u32 \<Rightarrow> u32 \<Rightarrow> u32 \<Rightarrow> u32" where
  "PCI_BDF b d f = push_bit 16 b OR PCI_DEVFN d f"

definition PCIE_ECAM_OFFSET :: "u32 \<Rightarrow> u32 \<Rightarrow> u32 \<Rightarrow> u32 \<Rightarrow> u32" where
  "PCIE_ECAM_OFFSET b d f w =
     push_bit PCIE_ECAM_BUS_SHIFT (b AND PCIE_ECAM_BUS_MASK) OR
     push_bit PCIE_ECAM_DEV_SHIFT (d AND PCIE_ECAM_DEV_MASK) OR
     push_bit PCIE_ECAM_FUNC_SHIFT (f AND PCIE_ECAM_FUNC_MASK) OR
     (w AND PCIE_ECAM_REG_MASK)"

section \<open>The shared state\<close>

record 'h world =
  hw :: 'h
  ctl :: pci_controller
  bus :: "bus_id \<Rightarrow> pci_bus"
  dev :: "dev_id \<Rightarrow> pci_device"
  next_bus :: bus_id
  next_dev :: dev_id

text \<open>A concrete state for evaluation: memory behind the registers, nothing enumerated yet.\<close>

definition example_world :: "ram_hw world" where
  "example_world = \<lparr>hw = ram_init, ctl = blank_controller\<lparr>base := 0x10000\<rparr>,
     bus = (\<lambda>_. blank_bus), dev = (\<lambda>_. blank_device), next_bus = 0, next_dev = 0\<rparr>"

abbreviation get_ctl :: "('h world, pci_controller) state" where
  "get_ctl \<equiv> fetch ctl"

abbreviation get_bus :: "bus_id \<Rightarrow> ('h world, pci_bus) state" where
  "get_bus b \<equiv> fetch (\<lambda>w. bus w b)"

abbreviation get_dev :: "dev_id \<Rightarrow> ('h world, pci_device) state" where
  "get_dev d \<equiv> fetch (\<lambda>w. dev w d)"

definition set_ctl :: "(pci_controller \<Rightarrow> pci_controller) \<Rightarrow> ('h world, unit) state" where
  "set_ctl f = modify (\<lambda>w. w\<lparr>ctl := f (ctl w)\<rparr>)"

definition set_bus :: "bus_id \<Rightarrow> (pci_bus \<Rightarrow> pci_bus) \<Rightarrow> ('h world, unit) state" where
  "set_bus b f = modify (\<lambda>w. w\<lparr>bus := (bus w)(b := f (bus w b))\<rparr>)"

definition set_dev :: "dev_id \<Rightarrow> (pci_device \<Rightarrow> pci_device) \<Rightarrow> ('h world, unit) state" where
  "set_dev d f = modify (\<lambda>w. w\<lparr>dev := (dev w)(d := f (dev w d))\<rparr>)"

definition hw_get :: "('h \<Rightarrow> 'a \<times> 'h) \<Rightarrow> ('h world, 'a) state" where
  "hw_get f = State (\<lambda>w. (fst (f (hw w)), w\<lparr>hw := snd (f (hw w))\<rparr>))"

definition hw_do :: "('h \<Rightarrow> 'h) \<Rightarrow> ('h world, unit) state" where
  "hw_do f = modify (\<lambda>w. w\<lparr>hw := f (hw w)\<rparr>)"

lemma run_set_ctl [simp]: "run_state (set_ctl f) w = ((), w\<lparr>ctl := f (ctl w)\<rparr>)"
  by (simp add: set_ctl_def)

lemma run_set_bus [simp]:
  "run_state (set_bus b f) w = ((), w\<lparr>bus := (bus w)(b := f (bus w b))\<rparr>)"
  by (simp add: set_bus_def)

lemma run_set_dev [simp]:
  "run_state (set_dev d f) w = ((), w\<lparr>dev := (dev w)(d := f (dev w d))\<rparr>)"
  by (simp add: set_dev_def)

lemma run_hw_get [simp]:
  "run_state (hw_get f) w = (fst (f (hw w)), w\<lparr>hw := snd (f (hw w))\<rparr>)"
  by (simp add: hw_get_def)

lemma run_hw_do [simp]: "run_state (hw_do f) w = ((), w\<lparr>hw := f (hw w)\<rparr>)"
  by (simp add: hw_do_def)

section \<open>Register accesses\<close>

definition mmio_read8 :: "'h platform \<Rightarrow> u32 \<Rightarrow> ('h world, u8) state" where
  "mmio_read8 P a = hw_get (io_read8 P a)"

definition mmio_read16 :: "'h platform \<Rightarrow> u32 \<Rightarrow> ('h world, u16) state" where
  "mmio_read16 P a = hw_get (io_read16 P a)"

definition mmio_read32 :: "'h platform \<Rightarrow> u32 \<Rightarrow> ('h world, u32) state" where
  "mmio_read32 P a = hw_get (io_read32 P a)"

definition mmio_read32_relaxed :: "'h platform \<Rightarrow> u32 \<Rightarrow> ('h world, u32) state" where
  "mmio_read32_relaxed P a = hw_get (io_read32_relaxed P a)"

definition mmio_write8 :: "'h platform \<Rightarrow> u8 \<Rightarrow> u32 \<Rightarrow> ('h world, unit) state" where
  "mmio_write8 P v a = hw_do (io_write8 P v a)"

definition mmio_write16 :: "'h platform \<Rightarrow> u16 \<Rightarrow> u32 \<Rightarrow> ('h world, unit) state" where
  "mmio_write16 P v a = hw_do (io_write16 P v a)"

definition mmio_write32 :: "'h platform \<Rightarrow> u32 \<Rightarrow> u32 \<Rightarrow> ('h world, unit) state" where
  "mmio_write32 P v a = hw_do (io_write32 P v a)"

definition mmio_write32_relaxed :: "'h platform \<Rightarrow> u32 \<Rightarrow> u32 \<Rightarrow> ('h world, unit) state" where
  "mmio_write32_relaxed P v a = hw_do (io_write32_relaxed P v a)"

lemmas mmio_defs = mmio_read8_def mmio_read16_def mmio_read32_def mmio_read32_relaxed_def
  mmio_write8_def mmio_write16_def mmio_write32_def mmio_write32_relaxed_def

section \<open>Computations that only touch the hardware\<close>

text \<open>
  \<open>hw_blind I\<close>: the predicate does not look at the hardware, so no register access can
  change it.  \<open>hw_only m\<close>: \<open>m\<close> changes nothing but the hardware.
\<close>

definition hw_blind :: "('h world \<Rightarrow> bool) \<Rightarrow> bool" where
  "hw_blind I \<longleftrightarrow> (\<forall>w h. I (w\<lparr>hw := h\<rparr>) = I w)"

definition hw_only :: "('h world, 'a) state \<Rightarrow> bool" where
  "hw_only m \<longleftrightarrow> (\<forall>w. \<exists>h. snd (run_state m w) = w\<lparr>hw := h\<rparr>)"

named_theorems hwo \<open>computations that only touch the hardware\<close>

lemma hw_onlyE:
  assumes "hw_only m"
  obtains h where "snd (run_state m w) = w\<lparr>hw := h\<rparr>"
  using assms by (auto simp: hw_only_def)

lemma world_same_hw: "\<exists>h. w = w\<lparr>hw := h\<rparr>"
  by (rule exI [of _ "hw w"]) simp

lemma hw_only_return [hwo]: "hw_only (State_Monad.return x)"
  by (simp add: hw_only_def world_same_hw)

lemma hw_only_fetch [hwo]: "hw_only (fetch f)"
  by (simp add: hw_only_def world_same_hw)

lemma hw_only_get [hwo]: "hw_only (hw_get f)"
  by (auto simp: hw_only_def)

lemma hw_only_do [hwo]: "hw_only (hw_do f)"
  by (auto simp: hw_only_def)

lemma hw_only_bind [hwo]:
  assumes "hw_only m" and "\<And>a. hw_only (f a)"
  shows "hw_only (State_Monad.bind m f)"
  unfolding hw_only_def snd_run_bind
proof
  fix w
  obtain h where 1: "snd (run_state m w) = w\<lparr>hw := h\<rparr>"
    using assms(1) by (rule hw_onlyE)
  obtain k where "snd (run_state (f (fst (run_state m w))) (w\<lparr>hw := h\<rparr>)) = w\<lparr>hw := h\<rparr>\<lparr>hw := k\<rparr>"
    using assms(2) by (rule hw_onlyE)
  with 1 show "\<exists>h. snd (run_state (f (fst (run_state m w))) (snd (run_state m w))) = w\<lparr>hw := h\<rparr>"
    by auto
qed

lemma hw_only_if [hwo]: "(b \<Longrightarrow> hw_only m) \<Longrightarrow> (\<not> b \<Longrightarrow> hw_only n) \<Longrightarrow> hw_only (if b then m else n)"
  by simp

lemma hw_only_let [hwo]: "(\<And>x. hw_only (f x)) \<Longrightarrow> hw_only (let x = a in f x)"
  by simp

lemma hw_only_prod [hwo]: "(\<And>a b. hw_only (f a b)) \<Longrightarrow> hw_only (case p of (a, b) \<Rightarrow> f a b)"
  by (cases p) simp

lemma hw_only_option [hwo]:
  "hw_only m \<Longrightarrow> (\<And>a. hw_only (f a)) \<Longrightarrow> hw_only (case x of None \<Rightarrow> m | Some a \<Rightarrow> f a)"
  by (cases x) simp_all

lemma hw_only_sum [hwo]:
  "(\<And>a. hw_only (f a)) \<Longrightarrow> (\<And>b. hw_only (g b)) \<Longrightarrow> hw_only (case x of Inl a \<Rightarrow> f a | Inr b \<Rightarrow> g b)"
  by (cases x) simp_all

lemma hw_only_size [hwo]:
  "hw_only a \<Longrightarrow> hw_only b \<Longrightarrow> hw_only c \<Longrightarrow>
     hw_only (case s of PCI_SIZE_8 \<Rightarrow> a | PCI_SIZE_16 \<Rightarrow> b | PCI_SIZE_32 \<Rightarrow> c)"
  by (cases s) simp_all

lemma hw_only_for_each [hwo]: "(\<And>x. hw_only (f x)) \<Longrightarrow> hw_only (for_each f xs)"
  by (induction xs) (auto intro: hwo)

lemma hw_only_mmio [hwo]:
  "hw_only (mmio_read8 P a)" "hw_only (mmio_read16 P a)" "hw_only (mmio_read32 P a)"
  "hw_only (mmio_read32_relaxed P a)" "hw_only (mmio_write8 P v8 a)"
  "hw_only (mmio_write16 P v16 a)" "hw_only (mmio_write32 P v32 a)"
  "hw_only (mmio_write32_relaxed P v32 a)"
  by (auto simp: mmio_defs intro: hwo)

lemma hw_only_preserves: "hw_only m \<Longrightarrow> hw_blind I \<Longrightarrow> preserves I m"
  unfolding hw_only_def hw_blind_def by (intro preservesI) metis

lemma hw_only_keeps_view: "hw_only m \<Longrightarrow> (\<And>w h. g (w\<lparr>hw := h\<rparr>) = g w) \<Longrightarrow> keeps g m"
  unfolding keeps_def by (intro allI hw_only_preserves) (auto simp: hw_blind_def)

lemma hw_only_keeps [simp]:
  assumes "hw_only m"
  shows "ctl (snd (run_state m w)) = ctl w" "dev (snd (run_state m w)) = dev w"
    "bus (snd (run_state m w)) = bus w" "next_bus (snd (run_state m w)) = next_bus w"
    "next_dev (snd (run_state m w)) = next_dev w"
  by (rule hw_onlyE [OF assms, of w], simp)+

lemma hw_only_run:
  assumes "hw_only m" and "run_state m w = (a, w')"
  shows "ctl w' = ctl w" "dev w' = dev w" "bus w' = bus w" "next_bus w' = next_bus w"
    "next_dev w' = next_dev w"
  using hw_only_keeps [OF assms(1), of w] assms(2) by simp_all

end
