(* ===== verification/Pci_Config.thy ===== *)
theory Pci_Config
  imports Pci_Types
begin

text \<open>
  Configuration space access: the size helpers of \<open>pci_util.c\<close>, the index/data window of
  the root complex in \<open>pcie_brcmstb.c\<close>, and the typed accessors of \<open>pci_io.c\<close>.  A read
  returns the C function's status and the value it stores through its pointer.
\<close>

section \<open>pci_util.c: access sizes\<close>

definition pci_get_ff :: "pci_size_t \<Rightarrow> u32" where
  "pci_get_ff sz = (case sz of PCI_SIZE_8 \<Rightarrow> 0xFF | PCI_SIZE_16 \<Rightarrow> 0xFFFF | PCI_SIZE_32 \<Rightarrow> 0xFFFFFFFF)"

definition pci_conv_32_to_size :: "u32 \<Rightarrow> u32 \<Rightarrow> pci_size_t \<Rightarrow> u32" where
  "pci_conv_32_to_size value offset sz = (case sz of
       PCI_SIZE_8 \<Rightarrow> drop_bit (unat (offset AND 3) * 8) value AND 0xFF
     | PCI_SIZE_16 \<Rightarrow> drop_bit (unat (offset AND 2) * 8) value AND 0xFFFF
     | PCI_SIZE_32 \<Rightarrow> value)"

section \<open>pcie_brcmstb.c: the link and the configuration window\<close>

definition brcm_pcie_rc_mode :: "'h platform \<Rightarrow> ('h world, bool) state" where
  "brcm_pcie_rc_mode P = do {
     c \<leftarrow> get_ctl;
     val \<leftarrow> mmio_read32 P (base c + PCIE_MISC_PCIE_STATUS);
     done_with (drop_bit STATUS_PCIE_PORT_SHIFT (val AND STATUS_PCIE_PORT_MASK) \<noteq> 0)
   }"

definition brcm_pcie_link_up :: "'h platform \<Rightarrow> ('h world, bool) state" where
  "brcm_pcie_link_up P = do {
     c \<leftarrow> get_ctl;
     val \<leftarrow> mmio_read32 P (base c + PCIE_MISC_PCIE_STATUS);
     let dla = drop_bit STATUS_PCIE_DL_ACTIVE_SHIFT (val AND STATUS_PCIE_DL_ACTIVE_MASK);
     let plu = drop_bit STATUS_PCIE_PHYLINKUP_SHIFT (val AND STATUS_PCIE_PHYLINKUP_MASK);
     done_with (dla \<noteq> 0 \<and> plu \<noteq> 0)
   }"

definition brcm_pcie_config_address ::
    "'h platform \<Rightarrow> u32 \<Rightarrow> u32 \<Rightarrow> ('h world, errno + u32) state" where
  "brcm_pcie_config_address P b offset = do {
     let pci_bus = PCI_BUS b;
     let pci_dev = PCI_DEV b;
     let pci_func = PCI_FUNC b;
     c \<leftarrow> get_ctl;
     if pci_bus < 2 \<and> pci_dev > 0 then done_with (Inl EINVAL)
     else if pci_bus = 0 then done_with (Inr (base c + offset))
     else do {
       up \<leftarrow> brcm_pcie_link_up P;
       if \<not> up then done_with (Inl EINVAL)
       else do {
         let idx = PCIE_ECAM_OFFSET pci_bus pci_dev pci_func 0;
         mmio_write32 P idx (base c + PCIE_EXT_CFG_INDEX);
         done_with (Inr (base c + PCIE_EXT_CFG_DATA + offset))
       }
     }
   }"

definition brcm_pcie_read_config ::
    "'h platform \<Rightarrow> u32 \<Rightarrow> u32 \<Rightarrow> pci_size_t \<Rightarrow> ('h world, (errno + unit) \<times> u32) state" where
  "brcm_pcie_read_config P b offset sz =
     (if offset \<ge> 4096 then done_with (Inl EINVAL, pci_conv_32_to_size 0 offset sz)
      else do {
        r \<leftarrow> brcm_pcie_config_address P b offset;
        case r of
          Inl _ \<Rightarrow> done_with (Ok, pci_get_ff sz)
        | Inr address \<Rightarrow>
            (case sz of
               PCI_SIZE_8 \<Rightarrow> do { v \<leftarrow> mmio_read8 P address; done_with (Ok, ucast v) }
             | PCI_SIZE_16 \<Rightarrow> do { v \<leftarrow> mmio_read16 P address; done_with (Ok, ucast v) }
             | PCI_SIZE_32 \<Rightarrow> do { v \<leftarrow> mmio_read32 P address; done_with (Ok, v) })
      })"

definition brcm_pcie_write_config ::
    "'h platform \<Rightarrow> u32 \<Rightarrow> u32 \<Rightarrow> u32 \<Rightarrow> pci_size_t \<Rightarrow> ('h world, errno + unit) state" where
  "brcm_pcie_write_config P b offset value sz =
     (if offset \<ge> 4096 then done_with (Inl EINVAL)
      else do {
        r \<leftarrow> brcm_pcie_config_address P b offset;
        case r of
          Inl _ \<Rightarrow> done_with Ok
        | Inr address \<Rightarrow>
            (case sz of
               PCI_SIZE_8 \<Rightarrow> do { mmio_write8 P (ucast value) address; done_with Ok }
             | PCI_SIZE_16 \<Rightarrow> do { mmio_write16 P (ucast value) address; done_with Ok }
             | PCI_SIZE_32 \<Rightarrow> do { mmio_write32 P value address; done_with Ok })
      })"

section \<open>pci_io.c: typed accessors\<close>

definition pci_bus_clrset_config32 ::
    "'h platform \<Rightarrow> u32 \<Rightarrow> u32 \<Rightarrow> u32 \<Rightarrow> u32 \<Rightarrow> ('h world, errno + unit) state" where
  "pci_bus_clrset_config32 P b offset clr st = do {
     (ret, val) \<leftarrow> brcm_pcie_read_config P b offset PCI_SIZE_32;
     if ret \<noteq> Ok then done_with ret
     else brcm_pcie_write_config P b offset ((val AND NOT clr) OR st) PCI_SIZE_32
   }"

definition pci_write_config ::
    "'h platform \<Rightarrow> dev_id \<Rightarrow> u32 \<Rightarrow> u32 \<Rightarrow> pci_size_t \<Rightarrow> ('h world, errno + unit) state" where
  "pci_write_config P d offset value sz = do {
     v \<leftarrow> get_dev d;
     brcm_pcie_write_config P (bdf v) offset value sz
   }"

definition pci_write_config8 :: "'h platform \<Rightarrow> dev_id \<Rightarrow> u32 \<Rightarrow> u32 \<Rightarrow> ('h world, errno + unit) state" where
  "pci_write_config8 P d offset value = pci_write_config P d offset value PCI_SIZE_8"

definition pci_write_config16 :: "'h platform \<Rightarrow> dev_id \<Rightarrow> u32 \<Rightarrow> u32 \<Rightarrow> ('h world, errno + unit) state" where
  "pci_write_config16 P d offset value = pci_write_config P d offset value PCI_SIZE_16"

definition pci_write_config32 :: "'h platform \<Rightarrow> dev_id \<Rightarrow> u32 \<Rightarrow> u32 \<Rightarrow> ('h world, errno + unit) state" where
  "pci_write_config32 P d offset value = pci_write_config P d offset value PCI_SIZE_32"

definition pci_read_config ::
    "'h platform \<Rightarrow> dev_id \<Rightarrow> u32 \<Rightarrow> pci_size_t \<Rightarrow> ('h world, (errno + unit) \<times> u32) state" where
  "pci_read_config P d offset sz = do {
     v \<leftarrow> get_dev d;
     brcm_pcie_read_config P (bdf v) offset sz
   }"

definition pci_read_config8 :: "'h platform \<Rightarrow> dev_id \<Rightarrow> u32 \<Rightarrow> ('h world, (errno + unit) \<times> u8) state" where
  "pci_read_config8 P d offset = do {
     (ret, value) \<leftarrow> pci_read_config P d offset PCI_SIZE_8;
     if ret \<noteq> Ok then done_with (ret, 0xFF) else done_with (Ok, ucast value)
   }"

definition pci_read_config16 :: "'h platform \<Rightarrow> dev_id \<Rightarrow> u32 \<Rightarrow> ('h world, (errno + unit) \<times> u16) state" where
  "pci_read_config16 P d offset = do {
     (ret, value) \<leftarrow> pci_read_config P d offset PCI_SIZE_16;
     if ret \<noteq> Ok then done_with (ret, 0xFFFF) else done_with (Ok, ucast value)
   }"

definition pci_read_config32 :: "'h platform \<Rightarrow> dev_id \<Rightarrow> u32 \<Rightarrow> ('h world, (errno + unit) \<times> u32) state" where
  "pci_read_config32 P d offset = do {
     (ret, value) \<leftarrow> pci_read_config P d offset PCI_SIZE_32;
     if ret \<noteq> Ok then done_with (ret, 0xFFFFFFFF) else done_with (Ok, value)
   }"

definition pci_clrset_config8 :: "'h platform \<Rightarrow> dev_id \<Rightarrow> u32 \<Rightarrow> u32 \<Rightarrow> u32 \<Rightarrow> ('h world, errno + unit) state" where
  "pci_clrset_config8 P d offset clr st = do {
     (ret, raw) \<leftarrow> pci_read_config8 P d offset;
     if ret \<noteq> Ok then done_with ret
     else pci_write_config8 P d offset ((ucast raw AND NOT clr) OR st)
   }"

definition pci_clrset_config16 :: "'h platform \<Rightarrow> dev_id \<Rightarrow> u32 \<Rightarrow> u32 \<Rightarrow> u32 \<Rightarrow> ('h world, errno + unit) state" where
  "pci_clrset_config16 P d offset clr st = do {
     (ret, raw) \<leftarrow> pci_read_config16 P d offset;
     if ret \<noteq> Ok then done_with ret
     else pci_write_config16 P d offset ((ucast raw AND NOT clr) OR st)
   }"

definition pci_clrset_config32 :: "'h platform \<Rightarrow> dev_id \<Rightarrow> u32 \<Rightarrow> u32 \<Rightarrow> u32 \<Rightarrow> ('h world, errno + unit) state" where
  "pci_clrset_config32 P d offset clr st = do {
     (ret, val) \<leftarrow> pci_read_config32 P d offset;
     if ret \<noteq> Ok then done_with ret
     else pci_write_config32 P d offset ((val AND NOT clr) OR st)
   }"

lemmas config_defs = pci_read_config8_def pci_read_config16_def pci_read_config32_def
  pci_read_config_def pci_write_config8_def pci_write_config16_def pci_write_config32_def
  pci_write_config_def brcm_pcie_read_config_def brcm_pcie_write_config_def

section \<open>Config accesses only touch the hardware\<close>

lemma hw_only_rc_status [hwo]:
  "hw_only (brcm_pcie_link_up P)" "hw_only (brcm_pcie_rc_mode P)"
  by (auto simp: brcm_pcie_link_up_def brcm_pcie_rc_mode_def intro!: hwo)

lemma hw_only_config_address [hwo]: "hw_only (brcm_pcie_config_address P b off)"
  by (auto simp: brcm_pcie_config_address_def intro!: hwo)

lemma hw_only_brcm_config [hwo]:
  "hw_only (brcm_pcie_read_config P b off sz)" "hw_only (brcm_pcie_write_config P b off v sz)"
  by (auto simp: brcm_pcie_read_config_def brcm_pcie_write_config_def intro!: hwo)

lemma hw_only_config [hwo]:
  "hw_only (pci_read_config8 P d off)" "hw_only (pci_read_config16 P d off)"
  "hw_only (pci_read_config32 P d off)" "hw_only (pci_write_config8 P d off v)"
  "hw_only (pci_write_config16 P d off v)" "hw_only (pci_write_config32 P d off v)"
  by (auto simp: config_defs intro!: hwo)

lemma hw_only_clrset [hwo]:
  "hw_only (pci_clrset_config8 P d off c s)" "hw_only (pci_clrset_config16 P d off c s)"
  "hw_only (pci_clrset_config32 P d off c s)" "hw_only (pci_bus_clrset_config32 P b off c s)"
  by (auto simp: pci_clrset_config8_def pci_clrset_config16_def pci_clrset_config32_def
      pci_bus_clrset_config32_def intro!: hwo)

section \<open>Addresses of functions\<close>

lemma PCI_fields_take:
  "PCI_BUS (PCI_BDF (take_bit 8 b) (take_bit 5 d) (take_bit 3 f)) = take_bit 8 b"
  "PCI_DEV (PCI_BDF (take_bit 8 b) (take_bit 5 d) (take_bit 3 f)) = take_bit 5 d"
  "PCI_FUNC (PCI_BDF (take_bit 8 b) (take_bit 5 d) (take_bit 3 f)) = take_bit 3 f"
  unfolding PCI_BUS_def PCI_DEV_def PCI_FUNC_def PCI_BDF_def PCI_DEVFN_def mask_numerals
  by (auto intro!: bit_eqI simp: bit_simps)

lemma ecam_fields_take:
  "drop_bit 20 (PCIE_ECAM_OFFSET (take_bit 8 b) (take_bit 5 d) (take_bit 3 f) 0) = take_bit 8 b"
  "drop_bit 15 (PCIE_ECAM_OFFSET (take_bit 8 b) (take_bit 5 d) (take_bit 3 f) 0) AND mask 5 = take_bit 5 d"
  "drop_bit 12 (PCIE_ECAM_OFFSET (take_bit 8 b) (take_bit 5 d) (take_bit 3 f) 0) AND mask 3 = take_bit 3 f"
  unfolding PCIE_ECAM_OFFSET_def mask_numerals
  by (auto intro!: bit_eqI simp: bit_simps)

lemma bdf_fields_exist:
  fixes b d f :: u32
  assumes "b < 256" and "d < 32" and "f < 8"
  shows "b = take_bit 8 b" "d = take_bit 5 d" "f = take_bit 3 (f :: u32)"
  using take_bit_less_exp [of b 8] take_bit_less_exp [of d 5] take_bit_less_exp [of f 3] assms
  by simp_all

lemma PCI_fields:
  assumes "b < 256" and "d < 32" and "f < 8"
  shows "PCI_BUS (PCI_BDF b d f) = b" "PCI_DEV (PCI_BDF b d f) = d" "PCI_FUNC (PCI_BDF b d f) = f"
  using PCI_fields_take [of b d f] bdf_fields_exist [OF assms] by simp_all

lemma ecam_fields:
  assumes "b < 256" and "d < 32" and "f < 8"
  shows "drop_bit 20 (PCIE_ECAM_OFFSET b d f 0) = b"
    "drop_bit 15 (PCIE_ECAM_OFFSET b d f 0) AND mask 5 = d"
    "drop_bit 12 (PCIE_ECAM_OFFSET b d f 0) AND mask 3 = f"
  using ecam_fields_take [of b d f] bdf_fields_exist [OF assms] by simp_all

section \<open>Properties\<close>

text \<open>
  The index written to select a function for a configuration access determines the
  function: two functions on buses below 256 never share a window.
\<close>

theorem ecam_index_injective:
  assumes "b < 256" and "d < 32" and "f < 8" and "b' < 256" and "d' < 32" and "f' < 8"
    and "PCIE_ECAM_OFFSET b d f 0 = PCIE_ECAM_OFFSET b' d' f' 0"
  shows "PCI_BDF b d f = PCI_BDF b' d' f' \<and> b = b' \<and> d = d' \<and> f = f'"
  using ecam_fields [OF assms(1-3)] ecam_fields [OF assms(4-6)] assms(7) by simp

theorem ecam_index_injective_witness:
  "PCI_BDF 1 0 0 = PCI_BDF 1 0 0 \<and> (1 :: u32) = 1 \<and> (0 :: u32) = 0 \<and> (0 :: u32) = 0"
  by (rule ecam_index_injective) simp_all

text \<open>
  The root bus and the bus below it have device 0 only.  A configuration access to
  any other device there succeeds without touching the hardware: a read returns all ones at
  the access width, a write does nothing.
\<close>

theorem config_absent_device:
  assumes "b < 2" and "0 < d" and "d < 32" and "f < 8" and "off < 4096"
  shows "run_state (brcm_pcie_read_config P (PCI_BDF b d f) off sz) w = ((Ok, pci_get_ff sz), w) \<and>
    run_state (brcm_pcie_write_config P (PCI_BDF b d f) off v sz) w = (Ok, w)"
proof -
  have "b < 256" using assms(1) by (rule less_le_trans) simp
  then show ?thesis
    using assms PCI_fields [of b d f]
    by (simp add: brcm_pcie_read_config_def brcm_pcie_write_config_def brcm_pcie_config_address_def
        linorder_not_le)
qed

theorem config_absent_device_witness:
  "run_state (brcm_pcie_read_config ram_platform (PCI_BDF 1 1 0) 0 PCI_SIZE_16) example_world =
     ((Ok, 0xFFFF), example_world)"
  using config_absent_device [of 1 1 0 0 ram_platform PCI_SIZE_16 example_world]
  by (simp add: pci_get_ff_def)

end
