(* ===== verification/Pci_Capability.thy ===== *)
theory Pci_Capability
  imports Pci_Config
begin

text \<open>
  Capability lists (\<open>pci_capability.c\<close>), the function-level reset of \<open>pci_util.c\<close> that
  depends on them, and the bus and device look-ups of \<open>pci_util.c\<close> and \<open>pci_lookup.c\<close>.
  A loop with a \<open>ttl\<close> counter is a function by recursion on it.
\<close>

section \<open>pci_capability.c\<close>

fun pci_find_next_capability_loop ::
    "'h platform \<Rightarrow> dev_id \<Rightarrow> u8 \<Rightarrow> nat \<Rightarrow> u32 \<Rightarrow> ('h world, u32) state" where
  "pci_find_next_capability_loop P d cap 0 pos = done_with 0"
| "pci_find_next_capability_loop P d cap (Suc ttl) pos =
     (if pos < PCI_STD_HEADER_SIZEOF then done_with 0
      else do {
        let pos = pos AND NOT 3;
        (_, ent) \<leftarrow> pci_read_config16 P d pos;
        let id = (ucast ent :: u32) AND 0xFF;
        if id = 0xFF then done_with 0
        else if id = ucast cap then done_with pos
        else pci_find_next_capability_loop P d cap ttl (drop_bit 8 (ucast ent))
      })"

definition pci_find_next_capability :: "'h platform \<Rightarrow> dev_id \<Rightarrow> u32 \<Rightarrow> u8 \<Rightarrow> ('h world, u32) state" where
  "pci_find_next_capability P d pos cap = do {
     (_, pos_byte) \<leftarrow> pci_read_config8 P d pos;
     pci_find_next_capability_loop P d cap PCI_FIND_CAP_TTL (ucast pos_byte)
   }"

definition pci_find_capability :: "'h platform \<Rightarrow> dev_id \<Rightarrow> u8 \<Rightarrow> ('h world, u32) state" where
  "pci_find_capability P d cap = do {
     (_, status) \<leftarrow> pci_read_config16 P d PCI_STATUS;
     if (ucast status :: u32) AND PCI_STATUS_CAP_LIST = 0 then done_with 0
     else do {
       (_, htype) \<leftarrow> pci_read_config8 P d PCI_HEADER_TYPE;
       let pos = (if (ucast htype :: u32) AND 0x7F = PCI_HEADER_TYPE_CARDBUS
                  then PCI_CB_CAPABILITY_LIST else PCI_CAPABILITY_LIST);
       pci_find_next_capability P d pos cap
     }
   }"

definition PCI_EXT_CAP_ID :: "u32 \<Rightarrow> u32" where
  "PCI_EXT_CAP_ID h = h AND 0xFFFF"

definition PCI_EXT_CAP_NEXT :: "u32 \<Rightarrow> u32" where
  "PCI_EXT_CAP_NEXT h = drop_bit 20 h AND 0xFFC"

fun pci_find_next_ext_capability_loop ::
    "'h platform \<Rightarrow> dev_id \<Rightarrow> u16 \<Rightarrow> nat \<Rightarrow> u32 \<Rightarrow> u32 \<Rightarrow> ('h world, u32) state" where
  "pci_find_next_ext_capability_loop P d cap 0 pos header = done_with 0"
| "pci_find_next_ext_capability_loop P d cap (Suc ttl) pos header =
     (if PCI_EXT_CAP_ID header = ucast cap then done_with pos
      else do {
        let pos = PCI_EXT_CAP_NEXT header;
        if pos < PCI_CFG_SPACE_SIZE then done_with 0
        else do {
          (_, header) \<leftarrow> pci_read_config32 P d pos;
          pci_find_next_ext_capability_loop P d cap ttl pos header
        }
      })"

definition pci_find_next_ext_capability ::
    "'h platform \<Rightarrow> dev_id \<Rightarrow> u32 \<Rightarrow> u16 \<Rightarrow> ('h world, u32) state" where
  "pci_find_next_ext_capability P d start cap = do {
     let pos = (if start \<noteq> 0 then ucast (ucast start :: u16) else PCI_CFG_SPACE_SIZE);
     (_, header) \<leftarrow> pci_read_config32 P d pos;
     if header = 0 then done_with 0
     else pci_find_next_ext_capability_loop P d cap
            (unat ((PCI_CFG_SPACE_EXP_SIZE - PCI_CFG_SPACE_SIZE) div 8)) pos header
   }"

definition pci_find_ext_capability :: "'h platform \<Rightarrow> dev_id \<Rightarrow> u16 \<Rightarrow> ('h world, u32) state" where
  "pci_find_ext_capability P d cap = pci_find_next_ext_capability P d 0 cap"

section \<open>pci_util.c: function-level reset, buses\<close>

definition pci_flr :: "'h platform \<Rightarrow> dev_id \<Rightarrow> ('h world, errno + unit) state" where
  "pci_flr P d = do {
     pcie_off \<leftarrow> pci_find_capability P d (ucast PCI_CAP_ID_EXP);
     if pcie_off = 0 then done_with (Inl ENOENT)
     else do {
       (_, cap) \<leftarrow> pci_read_config32 P d (pcie_off + PCI_EXP_DEVCAP);
       if cap AND PCI_EXP_DEVCAP_FLR = 0 then done_with (Inl ENOENT)
       else do {
         pci_clrset_config16 P d (pcie_off + PCI_EXP_DEVCTL) 0 PCI_EXP_DEVCTL_BCR_FLR;
         hw_do (wait_ms P 100);
         done_with Ok
       }
     }
   }"

definition pci_get_bus :: "'h world \<Rightarrow> u32 \<Rightarrow> errno + bus_id" where
  "pci_get_bus w busnum =
     (case find (\<lambda>b. bus_number (bus w b) = busnum) (buses (ctl w)) of
        Some b \<Rightarrow> Inr b | None \<Rightarrow> Inl ENODEV)"

text \<open>The highest bus number, \<open>-1\<close> without a bus: the comparison is on \<open>u32\<close>, the result is the \<open>s32\<close>.\<close>

fun pci_get_bus_max_loop :: "'h world \<Rightarrow> bus_id list \<Rightarrow> int \<Rightarrow> int" where
  "pci_get_bus_max_loop w [] ret = ret"
| "pci_get_bus_max_loop w (b # bs) ret =
     pci_get_bus_max_loop w bs
       (if ret < 0 \<or> bus_number (bus w b) > (of_int ret :: u32) then sint (bus_number (bus w b)) else ret)"

definition pci_get_bus_max :: "'h world \<Rightarrow> int" where
  "pci_get_bus_max w = pci_get_bus_max_loop w (buses (ctl w)) (- 1)"

definition pci_is_root_bus :: "pci_bus \<Rightarrow> bool" where
  "pci_is_root_bus b \<longleftrightarrow> parent b = None"

section \<open>pci_lookup.c\<close>

definition pci_bus_find_devfn :: "'h world \<Rightarrow> bus_id \<Rightarrow> u32 \<Rightarrow> errno + dev_id" where
  "pci_bus_find_devfn w b find_devfn =
     (case find (\<lambda>d. devfn (dev w d) = find_devfn) (devices (bus w b)) of
        Some d \<Rightarrow> Inr d | None \<Rightarrow> Inl ENODEV)"

text \<open>The identification table ends at the first entry whose vendor is zero.\<close>

fun pci_device_matches_ids :: "pci_device \<Rightarrow> pci_device_id list \<Rightarrow> bool" where
  "pci_device_matches_ids v [] = False"
| "pci_device_matches_ids v (i # ids) =
     (if id_vendor i = 0 then False
      else if vendor v = id_vendor i \<and> device v = id_device i then True
      else pci_device_matches_ids v ids)"

fun pci_bus_find_devices_loop ::
    "'h world \<Rightarrow> pci_device_id list \<Rightarrow> dev_id list \<Rightarrow> int \<Rightarrow> (errno + dev_id) \<times> int" where
  "pci_bus_find_devices_loop w ids [] index = (Inl ENODEV, index)"
| "pci_bus_find_devices_loop w ids (d # ds) index =
     (if pci_device_matches_ids (dev w d) ids then
        (if index \<le> 0 then (Inr d, index - 1) else pci_bus_find_devices_loop w ids ds (index - 1))
      else pci_bus_find_devices_loop w ids ds index)"

definition pci_bus_find_devices ::
    "'h world \<Rightarrow> bus_id \<Rightarrow> pci_device_id list \<Rightarrow> int \<Rightarrow> (errno + dev_id) \<times> int" where
  "pci_bus_find_devices w b ids index = pci_bus_find_devices_loop w ids (devices (bus w b)) index"

section \<open>Frames\<close>

lemma hw_only_find_next_capability_loop [hwo]:
  "hw_only (pci_find_next_capability_loop P d cap ttl pos)"
  by (induction P d cap ttl pos rule: pci_find_next_capability_loop.induct) (auto simp: Let_def intro!: hwo)

lemma hw_only_find_capability [hwo]: "hw_only (pci_find_capability P d cap)"
  by (auto simp: pci_find_capability_def pci_find_next_capability_def intro!: hwo)

lemma hw_only_find_next_ext_capability_loop [hwo]:
  "hw_only (pci_find_next_ext_capability_loop P d cap ttl pos h)"
  by (induction P d cap ttl pos h rule: pci_find_next_ext_capability_loop.induct)
    (auto simp: Let_def intro!: hwo)

lemma hw_only_find_ext_capability [hwo]: "hw_only (pci_find_ext_capability P d cap)"
  by (auto simp: pci_find_ext_capability_def pci_find_next_ext_capability_def intro!: hwo)

lemma hw_only_flr [hwo]: "hw_only (pci_flr P d)"
  by (auto simp: pci_flr_def intro!: hwo)

section \<open>Where a capability can be found, whatever the hardware answers\<close>

lemma align4:
  fixes pos :: u32
  shows "(pos AND NOT 3) AND 3 = 0" "pos AND NOT 3 \<le> pos" "64 \<le> pos \<Longrightarrow> 64 \<le> pos AND NOT 3"
proof -
  show "(pos AND NOT 3) AND 3 = 0"
    by (rule bit_eqI) (auto simp: bit_simps)
  show "pos AND NOT 3 \<le> pos"
    by (rule word_and_le2)
  assume "64 \<le> pos"
  then show "64 \<le> pos AND NOT 3"
    unfolding mask_numerals(2) word_le_nat_alt unat_and_not_mask by simp
qed

lemma align4_small: "pos < 256 \<Longrightarrow> pos AND NOT 3 < (4096 :: u32)"
  using align4(2) [of pos] by (simp add: word_le_nat_alt word_less_nat_alt)

lemma next_pointer_small: "drop_bit 8 (ucast (ent :: u16)) < (256 :: u32)"
proof -
  have "unat ent < 65536" using unsigned_less [of ent] by simp
  then show ?thesis
    unfolding word_less_nat_alt unat_drop_bit by (simp add: unat_ucast_up div_less_iff_less_mult)
qed

lemma capability_loop_range:
  assumes "fst (run_state (pci_find_next_capability_loop P d cap ttl pos) w) = r" and "pos < 256"
  shows "r = 0 \<or> (64 \<le> r \<and> r < 256 \<and> r AND 3 = 0)"
  using assms
proof (induction P d cap ttl pos arbitrary: w r rule: pci_find_next_capability_loop.induct)
  case (2 P d cap ttl pos)
  obtain st ent w' where read: "run_state (pci_read_config16 P d (pos AND NOT 3)) w = ((st, ent), w')"
    by (metis surj_pair)
  from 2 read next_pointer_small [of ent] align4 [of pos] show ?case
    by (auto simp: Let_def not_less dest: le_less_trans split: if_splits)
qed simp

section \<open>A function whose configuration space does not change\<close>

text \<open>
  What the registers of a function read as.  \<open>stable_config P d img I\<close>: while \<open>I\<close> holds,
  reading the configuration space of \<open>d\<close> gives the image and \<open>I\<close> goes on to hold.
\<close>

record config_image =
  img8 :: "u32 \<Rightarrow> u8"
  img16 :: "u32 \<Rightarrow> u16"
  img32 :: "u32 \<Rightarrow> u32"

definition stable_config ::
    "'h platform \<Rightarrow> dev_id \<Rightarrow> config_image \<Rightarrow> ('h world \<Rightarrow> bool) \<Rightarrow> bool" where
  "stable_config P d img I \<longleftrightarrow> (\<forall>w off. I w \<and> off < 4096 \<longrightarrow>
     (\<exists>w'. I w' \<and> run_state (pci_read_config8 P d off) w = ((Ok, img8 img off), w')) \<and>
     (\<exists>w'. I w' \<and> run_state (pci_read_config16 P d off) w = ((Ok, img16 img off), w')) \<and>
     (\<exists>w'. I w' \<and> run_state (pci_read_config32 P d off) w = ((Ok, img32 img off), w')))"

lemma stable_read:
  assumes "stable_config P d img I" and "I w" and "off < 4096"
  obtains w8 w16 w32 where
    "I w8" "run_state (pci_read_config8 P d off) w = ((Ok, img8 img off), w8)"
    "I w16" "run_state (pci_read_config16 P d off) w = ((Ok, img16 img off), w16)"
    "I w32" "run_state (pci_read_config32 P d off) w = ((Ok, img32 img off), w32)"
  using assms unfolding stable_config_def by meson

text \<open>The capability list of an image, as the chain of its entries' positions.\<close>

definition cap_id :: "config_image \<Rightarrow> u32 \<Rightarrow> u32" where
  "cap_id img pos = ucast (img16 img pos) AND 0xFF"

definition cap_next :: "config_image \<Rightarrow> u32 \<Rightarrow> u32" where
  "cap_next img pos = drop_bit 8 (ucast (img16 img pos))"

inductive cap_chain :: "config_image \<Rightarrow> u32 \<Rightarrow> u32 list \<Rightarrow> bool" for img where
  short: "pos < PCI_STD_HEADER_SIZEOF \<Longrightarrow> cap_chain img pos []"
| broken: "PCI_STD_HEADER_SIZEOF \<le> pos \<Longrightarrow> cap_id img (pos AND NOT 3) = 0xFF \<Longrightarrow> cap_chain img pos []"
| link: "PCI_STD_HEADER_SIZEOF \<le> pos \<Longrightarrow> cap_id img (pos AND NOT 3) \<noteq> 0xFF \<Longrightarrow>
     cap_chain img (cap_next img (pos AND NOT 3)) ps \<Longrightarrow> cap_chain img pos ((pos AND NOT 3) # ps)"

inductive_cases cap_chain_nilE: "cap_chain img pos []"
inductive_cases cap_chain_consE: "cap_chain img pos (p # ps)"

definition first_cap :: "config_image \<Rightarrow> u8 \<Rightarrow> u32 list \<Rightarrow> u32" where
  "first_cap img cap ps = (case find (\<lambda>p. cap_id img p = ucast cap) ps of None \<Rightarrow> 0 | Some p \<Rightarrow> p)"

lemma loop_follows_chain:
  assumes "stable_config P d img I" and "I w" and "cap_chain img pos ps" and "pos < 256"
    and "length ps \<le> ttl"
  shows "fst (run_state (pci_find_next_capability_loop P d cap ttl pos) w) = first_cap img cap ps"
  using assms(3,4,2,5)
proof (induction arbitrary: ttl w)
  case (short pos)
  then show ?case by (cases ttl) (simp_all add: first_cap_def)
next
  case (broken pos)
  obtain w' where "run_state (pci_read_config16 P d (pos AND NOT 3)) w =
      ((Ok, img16 img (pos AND NOT 3)), w')"
    using stable_read [OF assms(1) broken.prems(2) align4_small [OF broken.prems(1)]] by blast
  then show ?case
    using broken by (cases ttl) (simp_all add: first_cap_def cap_id_def Let_def not_less)
next
  case (link pos ps)
  obtain w' where read: "run_state (pci_read_config16 P d (pos AND NOT 3)) w =
      ((Ok, img16 img (pos AND NOT 3)), w')" "I w'"
    using stable_read [OF assms(1) link.prems(2) align4_small [OF link.prems(1)]] by blast
  obtain k where k: "ttl = Suc k" "length ps \<le> k"
    using link.prems(3) by (cases ttl) auto
  have "fst (run_state (pci_find_next_capability_loop P d cap k (cap_next img (pos AND NOT 3))) w') =
      first_cap img cap ps"
    using link.IH [OF _ read(2) k(2)] next_pointer_small by (simp add: cap_next_def)
  moreover have "\<not> pos < PCI_STD_HEADER_SIZEOF" using link.hyps(1) by simp
  ultimately show ?case
    using link.hyps read k by (simp add: first_cap_def cap_id_def cap_next_def Let_def)
qed

text \<open>Where the list starts: behind the header's capability pointer, when the status says there is one.\<close>

definition cap_pointer :: "config_image \<Rightarrow> u32" where
  "cap_pointer img = ucast (img8 img
     (if (ucast (img8 img PCI_HEADER_TYPE) :: u32) AND 0x7F = PCI_HEADER_TYPE_CARDBUS
      then PCI_CB_CAPABILITY_LIST else PCI_CAPABILITY_LIST))"

definition has_cap_list :: "config_image \<Rightarrow> bool" where
  "has_cap_list img \<longleftrightarrow> (ucast (img16 img PCI_STATUS) :: u32) AND PCI_STATUS_CAP_LIST \<noteq> 0"

lemma cap_pointer_small: "cap_pointer img < 256"
proof -
  have "unat (ucast (x :: u8) :: u32) < 256" for x :: u8
    using unsigned_less [of x, where ?'a = nat] by (simp add: unat_ucast_up)
  then show ?thesis by (simp add: cap_pointer_def word_less_nat_alt)
qed

lemma find_capability_chain:
  assumes stable: "stable_config P d img I" and I: "I w" and list: "has_cap_list img"
    and chain: "cap_chain img (cap_pointer img) ps" and len: "length ps \<le> PCI_FIND_CAP_TTL"
  shows "fst (run_state (pci_find_capability P d cap) w) = first_cap img cap ps"
proof -
  obtain w1 where r1: "run_state (pci_read_config16 P d PCI_STATUS) w = ((Ok, img16 img PCI_STATUS), w1)" "I w1"
    using stable_read [OF stable I, of PCI_STATUS] by auto
  obtain w2 where r2: "run_state (pci_read_config8 P d PCI_HEADER_TYPE) w1 =
      ((Ok, img8 img PCI_HEADER_TYPE), w2)" "I w2"
    using stable_read [OF stable r1(2), of PCI_HEADER_TYPE] by auto
  define p where "p = (if (ucast (img8 img PCI_HEADER_TYPE) :: u32) AND 0x7F = PCI_HEADER_TYPE_CARDBUS
      then PCI_CB_CAPABILITY_LIST else PCI_CAPABILITY_LIST)"
  then have "p < 4096" by (simp split: if_splits)
  then obtain w3 where r3: "run_state (pci_read_config8 P d p) w2 = ((Ok, img8 img p), w3)" "I w3"
    using stable_read [OF stable r2(2)] by blast
  have "fst (run_state (pci_find_next_capability_loop P d cap PCI_FIND_CAP_TTL (ucast (img8 img p))) w3) =
      first_cap img cap ps"
    using loop_follows_chain [OF stable r3(2) chain cap_pointer_small len]
    by (simp add: cap_pointer_def p_def)
  then show ?thesis
    using r1 r2 r3 list
    by (simp add: pci_find_capability_def pci_find_next_capability_def has_cap_list_def p_def [symmetric]
        del: pci_find_next_capability_loop.simps)
qed

section \<open>Memory behind the root port's registers is a stable image\<close>

definition ram_image :: "u32 \<Rightarrow> ram_hw \<Rightarrow> config_image" where
  "ram_image b h = \<lparr>img8 = (\<lambda>off. ram h (b + off)), img16 = (\<lambda>off. ram_get16 h (b + off)),
     img32 = (\<lambda>off. ram_get32 h (b + off))\<rparr>"

lemma ram_stable:
  assumes "bdf (dev w d) = 0"
  shows "stable_config ram_platform d (ram_image (base (ctl w)) (hw w)) (\<lambda>w'. w' = w)"
proof -
  have "ucast (ucast (x :: u8) :: u32) = x" "ucast (ucast (y :: u16) :: u32) = y" for x y
    using unsigned_less [of x, where ?'a = nat] unsigned_less [of y, where ?'a = nat]
    by (simp_all add: word_unat_eq_iff unat_ucast_down unat_ucast_up)
  then show ?thesis
    using assms by (auto simp add: stable_config_def config_defs brcm_pcie_config_address_def PCI_BUS_def
        PCI_DEV_def PCI_FUNC_def mmio_defs ram_platform_def ram_image_def not_le)
qed

lemma find_capability_any:
  "fst (run_state (pci_find_capability P d cap) w) = 0 \<or>
     (\<exists>pos w' ttl. pos < 256 \<and> fst (run_state (pci_find_capability P d cap) w) =
       fst (run_state (pci_find_next_capability_loop P d cap ttl pos) w'))"
proof -
  have small: "ucast (x :: u8) < (256 :: u32)" for x
    using unsigned_less [of x, where ?'a = nat] by (simp add: word_less_nat_alt unat_ucast_up)
  show ?thesis
    by (simp add: pci_find_capability_def pci_find_next_capability_def case_prod_beta
        del: pci_find_next_capability_loop.simps) (use small in blast)
qed

section \<open>Properties\<close>

text \<open>
  C19: whatever the hardware answers, the search ends within its \<open>ttl\<close> and returns
  \<open>0\<close> or a 4-byte aligned offset behind the standard header and inside the 256-byte
  configuration space.
\<close>

theorem find_capability_range:
  "case fst (run_state (pci_find_capability P d cap) w) of r \<Rightarrow>
     r = 0 \<or> (PCI_STD_HEADER_SIZEOF \<le> r \<and> r < PCI_CFG_SPACE_SIZE \<and> r AND 3 = 0)"
  using find_capability_any [of P d cap w] capability_loop_range by fastforce

text \<open>
  C8: on a function whose capability list is a finite chain of at most 48 entries,
  the search returns the first entry with the wanted identifier, and \<open>0\<close> when none has it.
\<close>

theorem find_capability_complete:
  assumes "stable_config P d img I" and "I w" and "has_cap_list img"
    and "cap_chain img (cap_pointer img) ps" and "length ps \<le> PCI_FIND_CAP_TTL"
  shows "case find (\<lambda>p. cap_id img p = ucast cap) ps of
      None \<Rightarrow> fst (run_state (pci_find_capability P d cap) w) = 0
    | Some p \<Rightarrow> fst (run_state (pci_find_capability P d cap) w) = p"
  using find_capability_chain [OF assms, of cap] by (auto simp: first_cap_def split: option.splits)

definition two_caps_world :: "ram_hw world" where
  "two_caps_world = example_world\<lparr>hw := ram_init\<lparr>ram := (\<lambda>_. 0)(0x10006 := 0x10, 0x10034 := 0x50,
     0x10050 := 0x05, 0x10051 := 0x60, 0x10060 := 0x10)\<rparr>\<rparr>"

lemma two_caps_chain:
  defines "img \<equiv> ram_image (base (ctl two_caps_world)) (hw two_caps_world)"
  shows "cap_chain img (cap_pointer img) [0x50, 0x60]" "has_cap_list img" "cap_id img 0x50 = 5"
    "cap_id img 0x60 = 0x10"
proof -
  have img: "img16 img 0x50 = 0x6005" "img16 img 0x60 = 0x10" "img8 img 0x34 = 0x50" "img8 img 0xE = 0"
      "img16 img 6 = 0x10"
    by (simp_all add: img_def ram_image_def two_caps_world_def example_world_def ram_get16_def)
  then show "has_cap_list img" and id: "cap_id img 0x50 = 5" "cap_id img 0x60 = 0x10"
    by (simp_all add: has_cap_list_def cap_id_def)
  have "cap_pointer img = 0x50" "cap_next img 0x50 = 0x60" "cap_next img 0x60 = 0"
    using img by (simp_all add: cap_pointer_def cap_next_def)
  then show "cap_chain img (cap_pointer img) [0x50, 0x60]"
    using id cap_chain.link [of "0x50" img "[0x60]"] cap_chain.link [of "0x60" img "[]"]
      cap_chain.short [of 0 img] by simp
qed

theorem find_capability_complete_witness:
  "fst (run_state (pci_find_capability ram_platform 0 0x10) two_caps_world) = 0x60"
proof -
  have "bdf (dev two_caps_world 0) = 0"
    by (simp add: two_caps_world_def example_world_def blank_device_def)
  from find_capability_complete [OF ram_stable [OF this] refl two_caps_chain(2,1), where cap = "0x10"]
  show ?thesis by (simp add: two_caps_chain(3,4))
qed

end
