(* ===== verification/Pci_Intx.thy ===== *)
theory Pci_Intx
  imports Pci_Capability
begin

text \<open>
  Legacy interrupts (\<open>pci_int.c\<close>): the INTx mask of a function and the routing of its pin
  through the bridges above it.
\<close>

section \<open>pci_int.c\<close>

definition pci_intx :: "'h platform \<Rightarrow> dev_id \<Rightarrow> bool \<Rightarrow> ('h world, unit) state" where
  "pci_intx P d enable = do {
     (_, raw_command) \<leftarrow> pci_read_config16 P d PCI_COMMAND;
     let pci_command = (ucast raw_command :: u32);
     let new_command = (if enable then pci_command AND NOT PCI_COMMAND_INTX_DISABLE
                        else pci_command OR PCI_COMMAND_INTX_DISABLE);
     if new_command = pci_command then skip
     else do { _ \<leftarrow> pci_write_config16 P d PCI_COMMAND new_command; skip }
   }"

text \<open>The pin is always a single vector, so the upper bound is not looked at.\<close>

definition pci_intx_alloc :: "pci_device \<Rightarrow> nat \<Rightarrow> errno + nat" where
  "pci_intx_alloc v min_vecs =
     (if min_vecs > 1 then Inl ERANGE else if intx_gic_irq v = 0 then Inl ENODEV else Inr 1)"

definition pci_swizzle_interrupt_pin :: "pci_device \<Rightarrow> u32 \<Rightarrow> u32" where
  "pci_swizzle_interrupt_pin v pin = (((pin - 1) + PCI_DEV (devfn v)) mod 4) + 1"

text \<open>
  The \<open>while\<close> loop up the bridges.  Every bus has a larger number in the store than its
  parent, so \<open>Suc (dev_bus (dev w d))\<close> rounds reach the root bus; \<open>None\<close> stands for a bus
  whose parent has no bridge or for running out of rounds.
\<close>

fun swizzle_walk :: "nat \<Rightarrow> 'h world \<Rightarrow> dev_id \<Rightarrow> u32 \<Rightarrow> u32 option" where
  "swizzle_walk 0 w walker pin = None"
| "swizzle_walk (Suc fuel) w walker pin =
     (let b = bus w (dev_bus (dev w walker)) in
      if pci_is_root_bus b then Some pin
      else case pci_bridge b of
        None \<Rightarrow> None
      | Some up \<Rightarrow> swizzle_walk fuel w up (pci_swizzle_interrupt_pin (dev w walker) pin))"

definition pci_assign_irq :: "'h platform \<Rightarrow> dev_id \<Rightarrow> ('h world, unit) state" where
  "pci_assign_irq P d = do {
     (_, pin_byte) \<leftarrow> pci_read_config8 P d PCI_INTERRUPT_PIN;
     set_dev d (\<lambda>v. v\<lparr>intx_pin := pin_byte\<rparr>);
     let pin = (if (ucast pin_byte :: u32) > 4 then 1 else ucast pin_byte);
     if pin = 0 then skip
     else do {
       routed \<leftarrow> fetch (\<lambda>w. swizzle_walk (Suc (dev_bus (dev w d))) w d pin);
       case routed of
         None \<Rightarrow> skip
       | Some pin \<Rightarrow> do {
           irq \<leftarrow> fetch (\<lambda>w. INT_x_mapping (ctl w) (unat (pin - 1)));
           set_dev d (\<lambda>v. v\<lparr>intx_pin_routed := ucast pin, intx_gic_irq := irq\<rparr>);
           _ \<leftarrow> pci_write_config8 P d PCI_INTERRUPT_LINE pin;
           skip
         }
     }
   }"

lemma hw_only_intx [hwo]: "hw_only (pci_intx P d enable)"
  by (auto simp: pci_intx_def intro!: hwo)

section \<open>The route of a pin\<close>

text \<open>
  \<open>bus_path w d\<close>: the functions the interrupt passes, from \<open>d\<close> itself to the last bridge
  below the root bus.  \<open>tree_above w d\<close>: the chain of bridges above \<open>d\<close> is well formed, each
  bus hanging off a bridge on its parent, which was created before it.
\<close>

inductive tree_above :: "'h world \<Rightarrow> dev_id \<Rightarrow> dev_id list \<Rightarrow> bool" for w where
  top: "parent (bus w (dev_bus (dev w d))) = None \<Longrightarrow> tree_above w d []"
| below: "parent (bus w (dev_bus (dev w d))) = Some p \<Longrightarrow>
     pci_bridge (bus w (dev_bus (dev w d))) = Some up \<Longrightarrow> dev_bus (dev w up) = p \<Longrightarrow>
     p < dev_bus (dev w d) \<Longrightarrow> tree_above w up ds \<Longrightarrow> tree_above w d (d # ds)"

inductive_cases tree_above_topE: "tree_above w d []"
inductive_cases tree_above_belowE: "tree_above w d (e # ds)"

definition swizzled :: "'h world \<Rightarrow> dev_id list \<Rightarrow> nat \<Rightarrow> nat" where
  "swizzled w ds pin = (pin - 1 + (\<Sum>d\<leftarrow>ds. unat (PCI_DEV (devfn (dev w d))))) mod 4 + 1"

lemma PCI_DEV_le: "unat (PCI_DEV x) < 32"
  unfolding PCI_DEV_def mask_numerals unat_and_mask by simp

lemma unat_swizzle:
  assumes "1 \<le> unat pin" and "unat pin \<le> 4"
  shows "unat (pci_swizzle_interrupt_pin v pin) = (unat pin - 1 + unat (PCI_DEV (devfn v))) mod 4 + 1"
proof -
  have "unat (pin - 1) = unat pin - 1"
    using assms by (subst unat_minus_one) auto
  then have "unat ((pin - 1) + PCI_DEV (devfn v)) = unat pin - 1 + unat (PCI_DEV (devfn v))"
    using assms PCI_DEV_le [of "devfn v"] by (subst unat_add_lem [THEN iffD1]) auto
  then have "unat (((pin - 1) + PCI_DEV (devfn v)) mod 4) = (unat pin - 1 + unat (PCI_DEV (devfn v))) mod 4"
    by (simp add: unat_mod)
  then show ?thesis
    unfolding pci_swizzle_interrupt_pin_def by (subst unat_add_lem [THEN iffD1]) auto
qed

lemma swizzle_walk_tree:
  assumes "tree_above w d ds" and "dev_bus (dev w d) < fuel" and "1 \<le> unat pin" "unat pin \<le> 4"
  shows "\<exists>pin'. swizzle_walk fuel w d pin = Some pin' \<and> unat pin' = swizzled w ds (unat pin)"
  using assms
proof (induction arbitrary: fuel pin)
  case (top d)
  then show ?case
    by (cases fuel) (auto simp: pci_is_root_bus_def swizzled_def Let_def)
next
  case (below d p up ds)
  obtain k where k: "fuel = Suc k" "dev_bus (dev w up) < k"
    using below by (cases fuel) auto
  let ?pin = "pci_swizzle_interrupt_pin (dev w d) pin"
  have step: "unat ?pin = (unat pin - 1 + unat (PCI_DEV (devfn (dev w d)))) mod 4 + 1"
    using below.prems by (intro unat_swizzle)
  then obtain pin' where "swizzle_walk k w up ?pin = Some pin'" "unat pin' = swizzled w ds (unat ?pin)"
    using below.IH [of k ?pin] k(2) by force
  then show ?case
    using below.hyps k(1) step
    by (auto simp: pci_is_root_bus_def swizzled_def mod_simps add.assoc)
qed

text \<open>
  C16: routing an INTx pin through any depth of bridges stays in INTA..INTD and is
  the sum of the device numbers on the path modulo 4; the loop always reaches the root bus.
\<close>

theorem swizzle_walk_closed_form:
  assumes "tree_above w d ds" and "1 \<le> pin" and "pin \<le> 4"
  shows "\<exists>pin'. swizzle_walk (Suc (dev_bus (dev w d))) w d pin = Some pin' \<and>
    unat pin' = (unat pin - 1 + (\<Sum>e\<leftarrow>ds. unat (PCI_DEV (devfn (dev w e))))) mod 4 + 1"
  using swizzle_walk_tree [OF assms(1), of "Suc (dev_bus (dev w d))" pin] assms(2,3)
  by (auto simp: swizzled_def word_le_nat_alt)

definition bridged_world :: "ram_hw world" where
  "bridged_world = example_world\<lparr>
     bus := (\<lambda>_. blank_bus)(1 := blank_bus\<lparr>parent := Some 0, pci_bridge := Some 0, bus_number := 1\<rparr>),
     dev := (\<lambda>_. blank_device)(1 := blank_device\<lparr>dev_bus := 1, devfn := PCI_DEVFN 3 0\<rparr>)\<rparr>"

theorem swizzle_walk_closed_form_witness:
  "swizzle_walk (Suc 1) bridged_world 1 2 = Some 1"
proof -
  have tree: "tree_above bridged_world 1 [1]"
    by (rule tree_above.intros(2) [of _ _ 0 0]; (rule tree_above.intros(1))?)
      (simp_all add: bridged_world_def example_world_def blank_bus_def blank_device_def)
  have "dev_bus (dev bridged_world 1) = 1" and "unat (PCI_DEV (devfn (dev bridged_world 1))) = 3"
    by (simp_all add: bridged_world_def example_world_def PCI_DEV_def PCI_DEVFN_def)
  with swizzle_walk_closed_form [OF tree, of 2] obtain pin' where
    "swizzle_walk (Suc 1) bridged_world 1 2 = Some pin'" "unat pin' = unat (1 :: u32)"
    by (auto simp del: swizzle_walk.simps)
  then show ?thesis by (simp only: word_unat_eq_iff [symmetric])
qed

end
