(* ===== verification/Pci_Slots.thy ===== *)
theory Pci_Slots
  imports Pci_Types
begin

text \<open>
  The pool of demultiplexer slots of \<open>pci_irq.c\<close>: a 32-bit bitmap of the slots in use.  The
  three operations are functions of the bitmap; the caller stores the result in
  \<open>msi_used\<close> and the slot numbers in its device.  The locale \<open>slot_pool\<close> states what the
  interrupt code relies on and proves, once for both allocation routines, that a table of
  owners stays consistent with the bitmap.
\<close>

section \<open>pci_irq.c: the demux-slot pool\<close>

definition slot_bit :: "nat \<Rightarrow> u32" where
  "slot_bit i = push_bit i 1"

text \<open>\<open>fuel\<close> counts the slots left to look at, \<open>i\<close> is the loop variable and \<open>need\<close> is \<open>n - k\<close>.\<close>

fun slots_alloc_any_loop :: "nat \<Rightarrow> nat \<Rightarrow> nat \<Rightarrow> u32 \<Rightarrow> nat list \<times> u32" where
  "slots_alloc_any_loop 0 i need used = ([], used)"
| "slots_alloc_any_loop (Suc fuel) i need used =
     (if need = 0 then ([], used)
      else if used AND slot_bit i = 0 then
        (let (out, used') = slots_alloc_any_loop fuel (Suc i) (need - 1) (used OR slot_bit i)
         in (i # out, used'))
      else slots_alloc_any_loop fuel (Suc i) need used)"

definition pci_irq_slots_alloc_any :: "u32 \<Rightarrow> nat \<Rightarrow> nat list \<times> u32" where
  "pci_irq_slots_alloc_any used n = slots_alloc_any_loop MSI_MAX_VECTORS 0 n used"

definition slot_block_mask :: "nat \<Rightarrow> nat \<Rightarrow> u32" where
  "slot_block_mask n block = (if n \<ge> 32 then 0xFFFFFFFF else push_bit block (push_bit n 1 - 1))"

function slots_alloc_aligned_loop :: "u32 \<Rightarrow> nat \<Rightarrow> nat \<Rightarrow> (nat \<times> u32) option" where
  "slots_alloc_aligned_loop used n block =
     (if block + n > MSI_MAX_VECTORS then None
      else let m = slot_block_mask n block in
        if used AND m = 0 then Some (block, used OR m)
        else slots_alloc_aligned_loop used n (block + n))"
  by auto

text \<open>A block size of zero does not loop: its mask is empty, so the first block is taken.\<close>

termination
proof (relation "measure (\<lambda>(used, n, block). Suc MSI_MAX_VECTORS - block)")
  fix used :: u32 and n block m
  assume "\<not> block + n > 32" and "m = slot_block_mask n block" and "used AND m \<noteq> 0"
  then have "n \<noteq> 0" by (cases n) (auto simp: slot_block_mask_def)
  with \<open>\<not> block + n > 32\<close> show "((used, n, block + n), (used, n, block)) \<in>
      measure (\<lambda>(used, n, block). Suc MSI_MAX_VECTORS - block)" by simp
qed simp

definition pci_irq_slots_alloc_aligned :: "u32 \<Rightarrow> nat \<Rightarrow> (nat \<times> u32) option" where
  "pci_irq_slots_alloc_aligned used n = slots_alloc_aligned_loop used n 0"

fun pci_irq_slots_free :: "u32 \<Rightarrow> nat list \<Rightarrow> u32" where
  "pci_irq_slots_free used [] = used"
| "pci_irq_slots_free used (s # ss) = pci_irq_slots_free (used AND NOT (slot_bit s)) ss"

section \<open>What a pool promises\<close>

locale slot_pool =
  fixes used_set :: "'p \<Rightarrow> nat set"
    and take :: "'p \<Rightarrow> nat \<Rightarrow> (nat list \<times> 'p) option"
    and release :: "'p \<Rightarrow> nat list \<Rightarrow> 'p"
  assumes take_distinct: "take p n = Some (xs, p') \<Longrightarrow> distinct xs"
    and take_fresh: "take p n = Some (xs, p') \<Longrightarrow> set xs \<inter> used_set p = {}"
    and take_used: "take p n = Some (xs, p') \<Longrightarrow> used_set p' = used_set p \<union> set xs"
    and release_used: "used_set (release p xs) = used_set p - set xs"

text \<open>\<open>owned own U\<close>: the lists of the owners are duplicate-free, disjoint and together fill \<open>U\<close>.\<close>

definition owned :: "('o \<Rightarrow> nat list) \<Rightarrow> nat set \<Rightarrow> bool" where
  "owned own U \<longleftrightarrow> (\<forall>d. distinct (own d)) \<and> (\<forall>d e. d \<noteq> e \<longrightarrow> set (own d) \<inter> set (own e) = {}) \<and>
     (\<forall>x. x \<in> U \<longleftrightarrow> (\<exists>d. x \<in> set (own d)))"

lemma owned_give:
  assumes "owned own U" and "own d = []" and "distinct xs" and "set xs \<inter> U = {}"
  shows "owned (own(d := xs)) (U \<union> set xs)"
proof -
  have "set (own e) \<inter> set xs = {}" for e
    using assms(1,4) by (auto simp: owned_def)
  moreover have "(\<exists>e. x \<in> set ((own(d := xs)) e)) \<longleftrightarrow> x \<in> set xs \<or> (\<exists>e. x \<in> set (own e))" for x
    using assms(2) by (metis empty_iff empty_set fun_upd_apply)
  ultimately show ?thesis
    using assms by (auto simp: owned_def)
qed

lemma owned_take_back:
  assumes "owned own U"
  shows "owned (own(d := [])) (U - set (own d))"
proof -
  have "set (own e) \<inter> set (own d) = {}" if "e \<noteq> d" for e
    using assms that by (auto simp: owned_def)
  moreover have "(\<exists>e. x \<in> set ((own(d := [])) e)) \<longleftrightarrow> (\<exists>e. e \<noteq> d \<and> x \<in> set (own e))" for x
    by (metis empty_iff empty_set fun_upd_apply)
  ultimately show ?thesis
    using assms unfolding owned_def by (intro conjI allI) (auto simp: disjoint_iff, metis)
qed

context slot_pool
begin

lemma take_owned:
  "owned own (used_set p) \<Longrightarrow> own d = [] \<Longrightarrow> take p n = Some (xs, p') \<Longrightarrow>
     owned (own(d := xs)) (used_set p')"
  using owned_give take_distinct take_fresh take_used by metis

lemma release_owned:
  "owned own (used_set p) \<Longrightarrow> owned (own(d := [])) (used_set (release p (own d)))"
  unfolding release_used by (rule owned_take_back)

lemma take_release:
  "take p n = Some (xs, p') \<Longrightarrow> used_set (release p' xs) = used_set p"
  using take_fresh take_used release_used by blast

end

section \<open>The bitmap\<close>

definition pool_set :: "u32 \<Rightarrow> nat set" where
  "pool_set used = {i. bit used i}"

lemma bit_slot_bit [simp]: "bit (slot_bit i) j \<longleftrightarrow> i = j \<and> i < 32"
  by (auto simp: slot_bit_def bit_simps)

lemma pool_set_less: "i \<in> pool_set used \<Longrightarrow> i < 32"
  by (auto simp: pool_set_def dest: bit_imp_le_length)

lemma pool_set_or: "pool_set (a OR b) = pool_set a \<union> pool_set b"
  by (auto simp: pool_set_def bit_simps)

lemma pool_set_slot_bit: "i < 32 \<Longrightarrow> pool_set (slot_bit i) = {i}"
  by (auto simp: pool_set_def)

lemma pool_set_disjoint: "used AND m = 0 \<longleftrightarrow> pool_set used \<inter> pool_set m = {}"
proof -
  have "bit m i \<Longrightarrow> i < 32" for i using bit_imp_le_length [of m i] by simp
  then show ?thesis by (auto simp: pool_set_def bit_eq_iff bit_simps)
qed

lemma pool_set_mask:
  "n \<ge> 32 \<Longrightarrow> pool_set (slot_block_mask n block) = {..<32}"
  "block + n \<le> 32 \<Longrightarrow> pool_set (slot_block_mask n block) = {block..<block + n}"
proof -
  have ones: "pool_set 0xFFFFFFFF = {..<32}"
  proof -
    have "bit (mask 32 :: u32) i \<longleftrightarrow> i < 32" for i by (simp add: bit_mask_iff)
    moreover have "(mask 32 :: u32) = 0xFFFFFFFF" by (simp add: mask_numeral)
    ultimately show ?thesis by (simp add: pool_set_def lessThan_def)
  qed
  then show "n \<ge> 32 \<Longrightarrow> pool_set (slot_block_mask n block) = {..<32}"
    by (simp add: slot_block_mask_def)
  have "pool_set (push_bit block (push_bit n 1 - 1)) = {block..<block + n}" if "block + n \<le> 32"
    using that unfolding push_bit_of_1 mask_eq_exp_minus_1 [symmetric]
    by (auto simp: pool_set_def bit_simps)
  then show "block + n \<le> 32 \<Longrightarrow> pool_set (slot_block_mask n block) = {block..<block + n}"
    using ones by (cases "n \<ge> 32") (auto simp: slot_block_mask_def)
qed

lemma free_used: "pool_set (pci_irq_slots_free used xs) = pool_set used - set xs"
  by (induction xs arbitrary: used) (auto simp: pool_set_def bit_simps dest: bit_imp_le_length)

lemma slot_free_iff: "i < 32 \<Longrightarrow> used AND slot_bit i = 0 \<longleftrightarrow> i \<notin> pool_set used"
  by (simp add: pool_set_disjoint pool_set_slot_bit)

lemma alloc_any_loop:
  assumes "slots_alloc_any_loop fuel i need used = (out, used')" and "i + fuel = 32"
  shows "sorted out \<and> distinct out \<and> length out \<le> need \<and> (\<forall>x \<in> set out. i \<le> x \<and> x < 32) \<and>
    set out \<inter> pool_set used = {} \<and> pool_set used' = pool_set used \<union> set out \<and>
    (length out < need \<longrightarrow> (\<forall>x. i \<le> x \<and> x < 32 \<longrightarrow> x \<in> pool_set used'))"
  using assms
proof (induction fuel i need used arbitrary: out used' rule: slots_alloc_any_loop.induct)
  case (2 fuel i need used)
  consider "need = 0" | "need \<noteq> 0" "i \<in> pool_set used" | "need \<noteq> 0" "i \<notin> pool_set used" by blast
  then show ?case
  proof cases
    case 2
    then have "slots_alloc_any_loop fuel (Suc i) need used = (out, used')"
      using "2.prems" by (simp add: slot_free_iff)
    from "2.IH"(2) [OF _ _ this] 2 "2.prems"(2) show ?thesis
      by (auto simp: slot_free_iff) (metis le_antisym not_less_eq_eq Suc_leD)+
  next
    case 3
    then obtain rest where rest: "out = i # rest"
        "slots_alloc_any_loop fuel (Suc i) (need - 1) (used OR slot_bit i) = (rest, used')"
      using "2.prems" by (auto simp: slot_free_iff split: prod.splits)
    from "2.IH"(1) [OF _ _ rest(2)] 3 "2.prems"(2) rest(1) show ?thesis
      by (auto simp: slot_free_iff pool_set_or pool_set_slot_bit Suc_le_eq)
  qed (use "2.prems" in auto)
qed auto

lemma alloc_any_spec:
  assumes "pci_irq_slots_alloc_any used n = (out, used')"
  shows "sorted out" "distinct out" "length out \<le> n" "set out \<subseteq> {..<32}"
    "set out \<inter> pool_set used = {}" "pool_set used' = pool_set used \<union> set out"
    "length out < n \<Longrightarrow> pool_set used' = {..<32}"
  using alloc_any_loop [of 32 0 n used out used'] assms pool_set_less
  by (auto simp: pci_irq_slots_alloc_any_def)

declare slots_alloc_aligned_loop.simps [simp del]

lemma block_free_iff:
  "block + n \<le> 32 \<Longrightarrow> used AND slot_block_mask n block = 0 \<longleftrightarrow> {block..<block + n} \<inter> pool_set used = {}"
  by (auto simp: pool_set_disjoint pool_set_mask)

lemma aligned_loop_step:
  "slots_alloc_aligned_loop used n block =
     (if block + n > 32 then None
      else if {block..<block + n} \<inter> pool_set used = {} then Some (block, used OR slot_block_mask n block)
      else slots_alloc_aligned_loop used n (block + n))"
  by (subst slots_alloc_aligned_loop.simps) (simp add: Let_def block_free_iff)

lemma next_multiple:
  assumes "n dvd (block :: nat)" and "n dvd b" and "block < b"
  shows "block + n \<le> b"
proof -
  have "n \<le> b - block" using assms by (intro dvd_imp_le dvd_diff_nat) auto
  then show ?thesis using assms(3) by linarith
qed

lemma alloc_aligned_loop_some:
  assumes "slots_alloc_aligned_loop used n block = Some (b, used')" and "n dvd block"
  shows "n dvd b \<and> b + n \<le> 32 \<and> {b..<b + n} \<inter> pool_set used = {} \<and>
    pool_set used' = pool_set used \<union> {b..<b + n}"
  using assms
proof (induction used n block rule: slots_alloc_aligned_loop.induct)
  case (1 used n block)
  show ?case
  proof (cases "block + n \<le> 32 \<and> {block..<block + n} \<inter> pool_set used \<noteq> {}")
    case True
    then show ?thesis
      using 1 by (auto simp: aligned_loop_step [of used n block] block_free_iff)
  next
    case False
    then show ?thesis
      using "1.prems" by (auto simp: aligned_loop_step [of used n block] pool_set_or pool_set_mask
          split: if_splits)
  qed
qed

lemma alloc_aligned_loop_none:
  assumes "slots_alloc_aligned_loop used n block = None" and "n dvd block"
    and "block \<le> b" and "n dvd b" and "b + n \<le> 32"
  shows "{b..<b + n} \<inter> pool_set used \<noteq> {}"
  using assms
proof (induction used n block rule: slots_alloc_aligned_loop.induct)
  case (1 used n block)
  have busy: "block + n \<le> 32" "{block..<block + n} \<inter> pool_set used \<noteq> {}"
    using "1.prems" by (auto simp: aligned_loop_step [of used n block] split: if_splits)
  then have "slots_alloc_aligned_loop used n (block + n) = None"
    using "1.prems"(1) by (simp add: aligned_loop_step [of used n block])
  then show ?case
    using busy 1 next_multiple [of n block b] by (cases "b = block") (auto simp: block_free_iff)
qed

definition take_any :: "u32 \<Rightarrow> nat \<Rightarrow> (nat list \<times> u32) option" where
  "take_any used n = Some (pci_irq_slots_alloc_any used n)"

definition take_aligned :: "u32 \<Rightarrow> nat \<Rightarrow> (nat list \<times> u32) option" where
  "take_aligned used n =
     map_option (\<lambda>(b, used'). ([b..<b + n], used')) (pci_irq_slots_alloc_aligned used n)"

interpretation any_pool: slot_pool pool_set take_any pci_irq_slots_free
  by unfold_locales (auto simp: take_any_def alloc_any_spec free_used)

lemma alloc_aligned_some:
  assumes "pci_irq_slots_alloc_aligned used n = Some (b, used')"
  shows "n dvd b" "b + n \<le> 32" "{b..<b + n} \<inter> pool_set used = {}"
    "pool_set used' = pool_set used \<union> {b..<b + n}"
  using alloc_aligned_loop_some [of used n 0 b used'] assms
  by (simp_all add: pci_irq_slots_alloc_aligned_def)

lemma take_alignedD:
  assumes "take_aligned used n = Some (xs, used')"
  shows "distinct xs" "set xs \<inter> pool_set used = {}" "pool_set used' = pool_set used \<union> set xs"
proof -
  obtain b where b: "pci_irq_slots_alloc_aligned used n = Some (b, used')" "xs = [b..<b + n]"
    using assms by (auto simp: take_aligned_def)
  then show "distinct xs" "set xs \<inter> pool_set used = {}" "pool_set used' = pool_set used \<union> set xs"
    using alloc_aligned_some [OF b(1)] by simp_all
qed

interpretation aligned_pool: slot_pool pool_set take_aligned pci_irq_slots_free
  by unfold_locales (rule take_alignedD free_used; assumption?)+

lemma pool_set_inject: "pool_set a = pool_set b \<Longrightarrow> a = b"
  by (auto simp: pool_set_def bit_eq_iff)

lemma free_alloc_any: "pci_irq_slots_alloc_any used n = (out, used') \<Longrightarrow> pci_irq_slots_free used' out = used"
  using any_pool.take_release [of used n out used'] by (intro pool_set_inject) (simp add: take_any_def)

section \<open>Properties\<close>

text \<open>
  C18: \<open>pci_irq_slots_alloc_any\<close> returns free slots in ascending order without
  repetition, marks exactly them, and returns fewer than asked only when the pool is then
  full: it finds \<open>min n\<close> of the free slots.
\<close>

theorem slots_alloc_any_spec:
  "case pci_irq_slots_alloc_any used n of (out, used') \<Rightarrow>
     sorted out \<and> distinct out \<and> set out \<subseteq> {..<MSI_MAX_VECTORS} - pool_set used \<and>
     pool_set used' = pool_set used \<union> set out \<and>
     length out = min n (MSI_MAX_VECTORS - card (pool_set used))"
proof -
  obtain out used' where r: "pci_irq_slots_alloc_any used n = (out, used')" by fastforce
  note spec = alloc_any_spec [OF r]
  have sub: "pool_set used \<subseteq> {..<32}" using pool_set_less by auto
  have card_out: "card (set out) = length out" using spec(2) by (rule distinct_card)
  have "finite (pool_set used)" using sub by (rule finite_subset) simp
  then have card_free: "card ({..<32} - pool_set used) = 32 - card (pool_set used)"
    using sub by (simp add: card_Diff_subset)
  have "card (set out) \<le> card ({..<32} - pool_set used)"
    using spec(4,5) by (intro card_mono) auto
  then have le: "length out \<le> 32 - card (pool_set used)"
    using card_out card_free by simp
  have full: "length out = 32 - card (pool_set used)" if "length out < n"
  proof -
    have "set out = {..<32} - pool_set used" using spec(4-6) spec(7) [OF that] by auto
    then show ?thesis using card_out card_free by simp
  qed
  have "length out = min n (32 - card (pool_set used))"
    using full le spec(3) by linarith
  then show ?thesis using r spec(1,2,4-6) by auto
qed
text \<open>
  C17: \<open>pci_irq_slots_alloc_aligned\<close> finds a naturally aligned block of free slots
  whenever one exists, and marks exactly that block.
\<close>

theorem slots_alloc_aligned_spec:
  "case pci_irq_slots_alloc_aligned used n of
      None \<Rightarrow> \<not> (\<exists>b. n dvd b \<and> b + n \<le> MSI_MAX_VECTORS \<and> {b..<b + n} \<inter> pool_set used = {})
    | Some (b, used') \<Rightarrow> n dvd b \<and> b + n \<le> MSI_MAX_VECTORS \<and>
        {b..<b + n} \<inter> pool_set used = {} \<and> pool_set used' = pool_set used \<union> {b..<b + n}"
proof (cases "pci_irq_slots_alloc_aligned used n")
  case None
  then show ?thesis
    using alloc_aligned_loop_none [of used n 0] by (auto simp: pci_irq_slots_alloc_aligned_def)
next
  case (Some r)
  then show ?thesis
    using alloc_aligned_some [of used n "fst r" "snd r"] by (simp add: split_beta)
qed

end
