(* ===== verification/Brcm_Msi.thy ===== *)
theory Brcm_Msi
  imports Pci_Slots
begin

text \<open>
  The controller's interrupt back-end (\<open>pcie_brcmstb_msi.c\<close>): the message format, the table of
  servers, the slot masks, the registration with \<open>gic400.library\<close> and the demultiplexer.
\<close>

section \<open>pcie_brcmstb_msi.c: slots\<close>

definition brcm_msi_compose_msg :: "'h platform \<Rightarrow> pci_controller \<Rightarrow> nat \<Rightarrow> u32 \<times> u32 \<times> u16" where
  "brcm_msi_compose_msg P c slot =
     (u64_lo32 (bits P) (ucast (msi_target_addr c)), u64_hi32 (bits P) (ucast (msi_target_addr c)),
      ucast ((PCIE_MISC_MSI_DATA_CONFIG_VAL_32 AND 0xFFFF) OR (of_nat slot :: u32)))"

definition brcm_msi_slot_bind :: "'h platform \<Rightarrow> nat \<Rightarrow> isr \<Rightarrow> ('h world, unit) state" where
  "brcm_msi_slot_bind P slot i = do {
     set_ctl (\<lambda>c. c\<lparr>msi_servers := (msi_servers c)(slot := Some i)\<rparr>);
     c \<leftarrow> get_ctl;
     mmio_write32 P (slot_bit slot) (base c + PCIE_MSI_INTR2_CLR);
     mmio_write32 P (slot_bit slot) (base c + PCIE_MSI_INTR2_MASK_CLR)
   }"

definition brcm_msi_slot_unbind :: "'h platform \<Rightarrow> nat \<Rightarrow> ('h world, unit) state" where
  "brcm_msi_slot_unbind P slot = do {
     c \<leftarrow> get_ctl;
     mmio_write32 P (slot_bit slot) (base c + PCIE_MSI_INTR2_MASK_SET);
     set_ctl (\<lambda>c. c\<lparr>msi_servers := (msi_servers c)(slot := None)\<rparr>)
   }"

definition brcm_msi_slot_server :: "pci_controller \<Rightarrow> nat \<Rightarrow> isr option" where
  "brcm_msi_slot_server c slot = msi_servers c slot"

definition brcm_msi_slot_mask :: "'h platform \<Rightarrow> nat \<Rightarrow> ('h world, unit) state" where
  "brcm_msi_slot_mask P slot = do {
     c \<leftarrow> get_ctl;
     mmio_write32_relaxed P (slot_bit slot) (base c + PCIE_MSI_INTR2_MASK_SET)
   }"

definition brcm_msi_slot_unmask :: "'h platform \<Rightarrow> nat \<Rightarrow> ('h world, unit) state" where
  "brcm_msi_slot_unmask P slot = do {
     c \<leftarrow> get_ctl;
     mmio_write32_relaxed P (slot_bit slot) (base c + PCIE_MSI_INTR2_MASK_CLR)
   }"

section \<open>pcie_brcmstb_msi.c: gic400.library\<close>

definition brcm_gic_add_server :: "'h platform \<Rightarrow> u32 \<Rightarrow> isr \<Rightarrow> ('h world, errno + unit) state" where
  "brcm_gic_add_server P gic_irq i = do {
     r \<leftarrow> hw_get (gic_add P gic_irq i);
     if r = 0 then done_with Ok
     else done_with (Inl (if r = gic_already_registered P then EBUSY else EIO))
   }"

definition brcm_gic_rem_server :: "'h platform \<Rightarrow> u32 \<Rightarrow> isr \<Rightarrow> ('h world, unit) state" where
  "brcm_gic_rem_server P gic_irq i = hw_do (gic_rem P gic_irq i)"

definition brcm_intx_add_server :: "'h platform \<Rightarrow> dev_id \<Rightarrow> isr \<Rightarrow> ('h world, errno + unit) state" where
  "brcm_intx_add_server P d i = do { v \<leftarrow> get_dev d; brcm_gic_add_server P (intx_gic_irq v) i }"

definition brcm_intx_rem_server :: "'h platform \<Rightarrow> dev_id \<Rightarrow> isr \<Rightarrow> ('h world, unit) state" where
  "brcm_intx_rem_server P d i = do { v \<leftarrow> get_dev d; brcm_gic_rem_server P (intx_gic_irq v) i }"

definition brcm_pcie_open_gic400 :: "'h platform \<Rightarrow> ('h world, errno + unit) state" where
  "brcm_pcie_open_gic400 P = do {
     opened \<leftarrow> hw_get (gic_open P);
     set_ctl (\<lambda>c. c\<lparr>gic400Base := opened\<rparr>);
     if \<not> opened then done_with (Inl ENODEV) else done_with Ok
   }"

definition brcm_pcie_close_gic400 :: "'h platform \<Rightarrow> ('h world, unit) state" where
  "brcm_pcie_close_gic400 P = do {
     hw_do (gic_close P);
     set_ctl (\<lambda>c. c\<lparr>gic400Base := False\<rparr>)
   }"

section \<open>pcie_brcmstb_msi.c: the demultiplexer\<close>

definition brcm_msi_set_regs :: "'h platform \<Rightarrow> ('h world, unit) state" where
  "brcm_msi_set_regs P = do {
     c \<leftarrow> get_ctl;
     mmio_write32 P (ucast (push_bit MSI_MAX_VECTORS 1 - 1 :: u64)) (base c + PCIE_MSI_INTR2_CLR);
     mmio_write32 P (u64_lo32 (bits P) (ucast (msi_target_addr c)) OR 1)
       (base c + PCIE_MISC_MSI_BAR_CONFIG_LO);
     mmio_write32 P (u64_hi32 (bits P) (ucast (msi_target_addr c)))
       (base c + PCIE_MISC_MSI_BAR_CONFIG_HI);
     mmio_write32 P PCIE_MISC_MSI_DATA_CONFIG_VAL_32 (base c + PCIE_MISC_MSI_DATA_CONFIG)
   }"

text \<open>The interrupt structure of the demultiplexer itself.\<close>

definition msi_isr :: isr where
  "msi_isr = 0"

definition brcm_msi_demux_enable :: "'h platform \<Rightarrow> ('h world, errno + unit) state" where
  "brcm_msi_demux_enable P = do {
     c \<leftarrow> get_ctl;
     ret \<leftarrow> brcm_gic_add_server P (of_int (msi_gic_irq c)) msi_isr;
     if ret \<noteq> Ok then done_with ret
     else do { brcm_msi_set_regs P; done_with Ok }
   }"

definition brcm_msi_demux_disable :: "'h platform \<Rightarrow> ('h world, unit) state" where
  "brcm_msi_demux_disable P = do {
     c \<leftarrow> get_ctl;
     brcm_gic_rem_server P (of_int (msi_gic_irq c)) msi_isr
   }"

definition demux_slot :: "'h platform \<Rightarrow> nat \<Rightarrow> ('h world, unit) state" where
  "demux_slot P slot = do {
     c \<leftarrow> get_ctl;
     mmio_write32_relaxed P (push_bit slot 1) (base c + PCIE_MSI_INTR2_CLR);
     (case msi_servers c slot of
        None \<Rightarrow> skip
      | Some server \<Rightarrow> hw_do (call_server P server (of_nat slot)))
   }"

text \<open>The \<open>do \<dots> while\<close> loop; clearing the lowest set bit makes the status smaller.\<close>

lemma clear_lowest_less:
  assumes "s AND (s - 1) \<noteq> (0 :: u32)"
  shows "unat (s AND (s - 1)) < unat s"
proof -
  have "s \<noteq> 0" using assms by auto
  then have "unat (s - 1) < unat s" by (simp add: unat_minus_one unat_gt_0)
  then show ?thesis using and_mask_le [of s "s - 1"] by linarith
qed

function demux_loop :: "'h platform \<Rightarrow> u32 \<Rightarrow> ('h world, unit) state" where
  "demux_loop P status = do {
     let slot = ctz status;
     let rest = status AND (status - 1);
     demux_slot P slot;
     if rest \<noteq> 0 then demux_loop P rest else skip
   }"
  by auto

termination
  by (relation "measure (\<lambda>(P, s). unat s)") (auto intro: clear_lowest_less)

definition brcm_msi_demux_isr :: "'h platform \<Rightarrow> ('h world, u32) state" where
  "brcm_msi_demux_isr P = do {
     c \<leftarrow> get_ctl;
     status \<leftarrow> mmio_read32_relaxed P (base c + PCIE_MSI_INTR2_STATUS);
     if status = 0 then done_with 0
     else do { demux_loop P status; done_with 1 }
   }"

declare demux_loop.simps [simp del]

section \<open>The order of dispatch\<close>

definition status_slots :: "u32 \<Rightarrow> nat list" where
  "status_slots s = filter (bit s) [0..<MSI_MAX_VECTORS]"

lemma ctz_fuel_least:
  assumes "bit m j" and "j < k"
  shows "bit m (ctz_fuel k m) \<and> (\<forall>i < ctz_fuel k m. \<not> bit m i) \<and> ctz_fuel k m \<le> j"
  using assms
proof (induction k m arbitrary: j rule: ctz_fuel.induct)
  case (2 k m)
  show ?case
  proof (cases "bit m 0")
    case False
    then obtain j' where j: "j = Suc j'" using "2.prems" by (cases j) auto
    then have "bit (drop_bit 1 m) j'" using "2.prems" by (simp add: bit_simps)
    from "2.IH" [OF False this] j "2.prems" False show ?thesis
      by (auto simp: bit_simps less_Suc_eq_0_disj)
  qed auto
qed simp

lemma ctz_least:
  assumes "s \<noteq> 0"
  shows "bit s (ctz s)" "i < ctz s \<Longrightarrow> \<not> bit s i" "ctz s < 32"
proof -
  obtain j where j: "bit s j" using assms by (auto simp: bit_eq_iff)
  then have "j < 32" using bit_imp_le_length [of s j] by simp
  then have "bit s (ctz s) \<and> (\<forall>i < ctz s. \<not> bit s i) \<and> ctz s \<le> j"
    unfolding ctz_def using j by (intro ctz_fuel_least)
  with \<open>j < 32\<close> show "bit s (ctz s)" "i < ctz s \<Longrightarrow> \<not> bit s i" "ctz s < 32" by auto
qed

lemma clear_lowest:
  assumes "s \<noteq> 0"
  shows "bit (s AND (s - 1)) j \<longleftrightarrow> bit s j \<and> j \<noteq> ctz s"
proof -
  define c where "c = ctz s"
  define r where "r = unset_bit c s"
  note low = ctz_least [OF assms, folded c_def]
  have "s = r OR push_bit c 1"
    using low by (intro bit_eqI) (auto simp: r_def bit_simps)
  also have "\<dots> = r + push_bit c 1"
    by (rule disjunctive_add_eq_or [symmetric]) (auto intro!: bit_eqI simp: r_def bit_simps)
  finally have "s - 1 = r + mask c"
    by (simp add: mask_eq_exp_minus_1 push_bit_eq_mult)
  also have "\<dots> = r OR mask c"
    using low by (intro disjunctive_add_eq_or) (auto intro!: bit_eqI simp: r_def bit_simps)
  finally have "s - 1 = r OR mask c" .
  then show ?thesis
    using low bit_imp_le_length [of s j]
    by (auto simp: c_def [symmetric] bit_simps r_def)
qed

lemma status_slots_step:
  assumes "s \<noteq> 0"
  shows "status_slots s = ctz s # status_slots (s AND (s - 1))"
proof -
  note low = ctz_least [OF assms]
  have split: "[0..<32] = [0..<ctz s] @ ctz s # [Suc (ctz s)..<32]"
    using low(3) by (metis le_add_diff_inverse less_imp_le upt_add_eq_append upt_conv_Cons zero_le)
  have "filter (bit s) [0..<ctz s] = []" "filter (bit (s AND (s - 1))) [0..<ctz s] = []"
    using low(2) by (auto simp: filter_empty_conv clear_lowest [OF assms])
  moreover have "filter (bit (s AND (s - 1))) [Suc (ctz s)..<32] = filter (bit s) [Suc (ctz s)..<32]"
    by (rule filter_cong) (auto simp: clear_lowest [OF assms])
  ultimately show ?thesis
    unfolding status_slots_def split using low(1) clear_lowest [OF assms, of "ctz s"] by simp
qed

lemma demux_loop_slots:
  "s \<noteq> 0 \<Longrightarrow> demux_loop P s = for_each (demux_slot P) (status_slots s)"
proof (induction P s rule: demux_loop.induct)
  case (1 P s)
  show ?case
  proof (cases "s AND (s - 1) = 0")
    case True
    then have "status_slots (s AND (s - 1)) = []" by (simp add: status_slots_def filter_empty_conv)
    then show ?thesis
      using True by (simp add: status_slots_step [OF 1(2)] demux_loop.simps [of P s] Let_def)
  next
    case False
    then show ?thesis
      using 1 by (subst demux_loop.simps) (simp add: status_slots_step [OF 1(2)] Let_def)
  qed
qed

text \<open>
  C13: the demultiplexer reads the status once and, for every slot latched in it and in
  ascending order, clears the slot before it runs the server bound to it; it claims the
  interrupt exactly when the status was not empty.
\<close>

theorem demux_isr_ascending:
  "brcm_msi_demux_isr P = do {
     c \<leftarrow> get_ctl;
     status \<leftarrow> mmio_read32_relaxed P (base c + PCIE_MSI_INTR2_STATUS);
     for_each (\<lambda>slot. do {
         c \<leftarrow> get_ctl;
         mmio_write32_relaxed P (slot_bit slot) (base c + PCIE_MSI_INTR2_CLR);
         (case msi_servers c slot of
            None \<Rightarrow> skip | Some server \<Rightarrow> hw_do (call_server P server (of_nat slot)))
       }) (filter (bit status) [0..<MSI_MAX_VECTORS]);
     done_with (if status = 0 then 0 else 1)
   }"
proof -
  have "(if s = 0 then done_with 0 else do { demux_loop P s; done_with 1 }) =
      do { for_each (demux_slot P) (status_slots s); done_with (if s = 0 then 0 else 1 :: u32) }" for s
    by (cases "s = 0") (simp_all add: demux_loop_slots status_slots_def filter_empty_conv)
  then show ?thesis
    unfolding brcm_msi_demux_isr_def
    by (simp add: demux_slot_def [abs_def] slot_bit_def status_slots_def)
qed

section \<open>Frames\<close>

lemma hw_only_demux_slot [hwo]: "hw_only (demux_slot P slot)"
  by (auto simp: demux_slot_def intro!: hwo)

lemma hw_only_demux_loop [hwo]: "hw_only (demux_loop P s)"
  by (induction P s rule: demux_loop.induct) (subst demux_loop.simps, auto simp: Let_def intro!: hwo)

lemma hw_only_msi [hwo]:
  "hw_only (brcm_msi_demux_isr P)" "hw_only (brcm_msi_slot_mask P slot)"
  "hw_only (brcm_msi_slot_unmask P slot)" "hw_only (brcm_gic_add_server P irq i)"
  "hw_only (brcm_gic_rem_server P irq i)" "hw_only (brcm_intx_add_server P d i)"
  "hw_only (brcm_intx_rem_server P d i)" "hw_only (brcm_msi_set_regs P)"
  "hw_only (brcm_msi_demux_enable P)" "hw_only (brcm_msi_demux_disable P)"
  by (auto simp: brcm_msi_demux_isr_def brcm_msi_slot_mask_def brcm_msi_slot_unmask_def
      brcm_gic_add_server_def brcm_gic_rem_server_def brcm_intx_add_server_def
      brcm_intx_rem_server_def brcm_msi_set_regs_def brcm_msi_demux_enable_def
      brcm_msi_demux_disable_def intro!: hwo)

end
