(* ===== verification/Pci_Msi.thy ===== *)
theory Pci_Msi
  imports Pci_Intx Brcm_Msi
begin

text \<open>
  The device side of MSI (\<open>pcie_msi.c\<close>) and MSI-X (\<open>pcie_msix.c\<close>): decoding the capability at
  probe, reserving slots and programming the messages, switching the type off.  Vector
  numbers and counts are natural numbers; the loops over vectors are recursions on a count
  or on the list of vectors.
\<close>

section \<open>pcie_msi.c\<close>

fun clz_from :: "nat \<Rightarrow> u32 \<Rightarrow> nat" where
  "clz_from 0 v = 0"
| "clz_from (Suc k) v = (if bit v k then 0 else Suc (clz_from k v))"

definition clz :: "u32 \<Rightarrow> nat" where
  "clz v = clz_from 32 v"  \<comment> \<open>\<open>__builtin_clz\<close>\<close>

definition rounddown_pow2 :: "nat \<Rightarrow> nat" where
  "rounddown_pow2 v = 2 ^ (31 - clz (of_nat v))"

definition msi_multi_mask :: "pci_device \<Rightarrow> u32" where
  "msi_multi_mask v =
     (if msi_log2_max_vecs v \<ge> 5 then 0xFFFFFFFF else push_bit (2 ^ msi_log2_max_vecs v) 1 - 1)"

definition pci_msi_update_mask :: "'h platform \<Rightarrow> dev_id \<Rightarrow> u32 \<Rightarrow> u32 \<Rightarrow> ('h world, unit) state" where
  "pci_msi_update_mask P d clr st = do {
     v \<leftarrow> get_dev d;
     if \<not> msi_maskable v then skip
     else do {
       set_dev d (\<lambda>v. v\<lparr>msi_mask := (msi_mask v AND NOT clr) OR st\<rparr>);
       v \<leftarrow> get_dev d;
       _ \<leftarrow> pci_write_config32 P d (msi_mask_offset v) (msi_mask v);
       skip
     }
   }"

definition pci_msi_set_enable :: "'h platform \<Rightarrow> dev_id \<Rightarrow> bool \<Rightarrow> ('h world, unit) state" where
  "pci_msi_set_enable P d enable = do {
     v \<leftarrow> get_dev d;
     (_, control) \<leftarrow> pci_read_config16 P d (msi_cap_offset v + PCI_MSI_FLAGS);
     let control = (ucast control :: u32) AND NOT PCI_MSI_FLAGS_ENABLE;
     let control = (if enable then control OR PCI_MSI_FLAGS_ENABLE else control);
     _ \<leftarrow> pci_write_config16 P d (msi_cap_offset v + PCI_MSI_FLAGS) control;
     skip
   }"

definition pci_msi_write_msg :: "'h platform \<Rightarrow> dev_id \<Rightarrow> nat \<Rightarrow> ('h world, unit) state" where
  "pci_msi_write_msg P d n = do {
     v \<leftarrow> get_dev d;
     let pos = msi_cap_offset v;
     c \<leftarrow> get_ctl;
     let (address_lo, address_hi, data) = brcm_msi_compose_msg P c (slots v 0);
     let mme = (of_nat (ctz (of_nat n)) :: u32);
     (_, msgctl) \<leftarrow> pci_read_config16 P d (pos + PCI_MSI_FLAGS);
     let msgctl = (ucast ((ucast msgctl :: u32) AND NOT PCI_MSI_FLAGS_QSIZE) :: u16);
     let msgctl = (ucast ((ucast msgctl :: u32) OR mask_insert (bits P) mme PCI_MSI_FLAGS_QSIZE) :: u16);
     _ \<leftarrow> pci_write_config16 P d (pos + PCI_MSI_FLAGS) (ucast msgctl);
     _ \<leftarrow> pci_write_config32 P d (pos + PCI_MSI_ADDRESS_LO) address_lo;
     (if msi_addr64 v then do {
        _ \<leftarrow> pci_write_config32 P d (pos + PCI_MSI_ADDRESS_HI) address_hi;
        _ \<leftarrow> pci_write_config16 P d (pos + PCI_MSI_DATA_64) (ucast data);
        skip
      } else do {
        _ \<leftarrow> pci_write_config16 P d (pos + PCI_MSI_DATA_32) (ucast data);
        skip
      });
     _ \<leftarrow> pci_read_config16 P d (pos + PCI_MSI_FLAGS);
     skip
   }"

definition pci_msi_program :: "'h platform \<Rightarrow> dev_id \<Rightarrow> nat \<Rightarrow> ('h world, unit) state" where
  "pci_msi_program P d n = do {
     pci_msi_set_enable P d False;
     v \<leftarrow> get_dev d;
     pci_msi_update_mask P d 0 (msi_multi_mask v);
     pci_msi_write_msg P d n;
     pci_intx P d False;
     pci_msi_set_enable P d True
   }"

definition set_slots :: "nat list \<Rightarrow> pci_device \<Rightarrow> pci_device" where
  "set_slots xs v = v\<lparr>slots := (\<lambda>i. if i < length xs then xs ! i else slots v i)\<rparr>"

lemma alloc_aligned_0: "pci_irq_slots_alloc_aligned used 0 \<noteq> None"
  by (simp add: pci_irq_slots_alloc_aligned_def aligned_loop_step)

text \<open>The loop over the block sizes: \<open>n\<close> is halved until a block is found or \<open>min\<close> is passed.\<close>

function pci_msi_alloc_loop ::
    "'h platform \<Rightarrow> dev_id \<Rightarrow> nat \<Rightarrow> nat \<Rightarrow> ('h world, errno + nat) state" where
  "pci_msi_alloc_loop P d min_vecs n =
     (if n < min_vecs then done_with (Inl ENOSPC)
      else do {
        c \<leftarrow> get_ctl;
        case pci_irq_slots_alloc_aligned (msi_used c) n of
          None \<Rightarrow> pci_msi_alloc_loop P d min_vecs (n div 2)
        | Some (block, used) \<Rightarrow> do {
            set_ctl (\<lambda>c. c\<lparr>msi_used := used\<rparr>);
            set_dev d (set_slots [block..<block + n]);
            pci_msi_program P d n;
            done_with (Inr n)
          }
      })"
  by auto

termination
proof (relation "measure (\<lambda>(P, d, m, n). n)")
  fix P :: "'h platform" and d m n c
  assume "pci_irq_slots_alloc_aligned (msi_used c) n = None"
  then have "n \<noteq> 0" using alloc_aligned_0 by metis
  then show "((P, d, m, n div 2), (P, d, m, n)) \<in> measure (\<lambda>(P, d, m, n). n)" by simp
qed simp

definition pci_msi_alloc :: "'h platform \<Rightarrow> dev_id \<Rightarrow> nat \<Rightarrow> nat \<Rightarrow> ('h world, errno + nat) state" where
  "pci_msi_alloc P d min_vecs max_vecs = do {
     v \<leftarrow> get_dev d;
     if msi_cap_offset v = 0 then done_with (Inl ENODEV)
     else do {
       let n = (if msi_log2_max_vecs v < 5 \<and> max_vecs > 2 ^ msi_log2_max_vecs v
                then 2 ^ msi_log2_max_vecs v else max_vecs);
       pci_msi_alloc_loop P d min_vecs (rounddown_pow2 n)
     }
   }"

definition pci_msi_shutdown :: "'h platform \<Rightarrow> dev_id \<Rightarrow> ('h world, unit) state" where
  "pci_msi_shutdown P d = do {
     pci_msi_set_enable P d False;
     v \<leftarrow> get_dev d;
     pci_msi_update_mask P d (msi_multi_mask v) 0
   }"

definition pci_msi_init :: "'h platform \<Rightarrow> dev_id \<Rightarrow> ('h world, unit) state" where
  "pci_msi_init P d = do {
     cap \<leftarrow> pci_find_capability P d (ucast PCI_CAP_ID_MSI);
     set_dev d (\<lambda>v. v\<lparr>msi_cap_offset := cap\<rparr>);
     if cap = 0 then skip
     else do {
       pci_msi_set_enable P d False;
       (_, control) \<leftarrow> pci_read_config16 P d (cap + PCI_MSI_FLAGS);
       let control = (ucast control :: u32);
       set_dev d (\<lambda>v. v\<lparr>
         msi_addr64 := (control AND PCI_MSI_FLAGS_64BIT \<noteq> 0),
         msi_maskable := (control AND PCI_MSI_FLAGS_MASKBIT \<noteq> 0),
         msi_log2_max_vecs := unat (ucast (mask_extract (bits P) control PCI_MSI_FLAGS_QMASK) :: u8),
         msi_mask_offset := ucast (ucast (cap + (if control AND PCI_MSI_FLAGS_64BIT \<noteq> 0
           then PCI_MSI_MASK_64 else PCI_MSI_MASK_32)) :: u16)\<rparr>);
       v \<leftarrow> get_dev d;
       if msi_maskable v then do {
         (_, m) \<leftarrow> pci_read_config32 P d (msi_mask_offset v);
         set_dev d (\<lambda>v. v\<lparr>msi_mask := m\<rparr>)
       } else skip
     }
   }"

section \<open>pcie_msix.c\<close>

definition msix_entry :: "pci_device \<Rightarrow> nat \<Rightarrow> u32" where
  "msix_entry v vec = msix_table_virt v + of_nat vec * PCI_MSIX_ENTRY_SIZE"

definition pci_msix_set_ctrl :: "'h platform \<Rightarrow> dev_id \<Rightarrow> u32 \<Rightarrow> u32 \<Rightarrow> ('h world, unit) state" where
  "pci_msix_set_ctrl P d clr st = do {
     v \<leftarrow> get_dev d;
     (_, control) \<leftarrow> pci_read_config16 P d (msix_cap_offset v + PCI_MSIX_FLAGS);
     let control = (ucast (((ucast control :: u32) AND NOT clr) OR st) :: u16);
     _ \<leftarrow> pci_write_config16 P d (msix_cap_offset v + PCI_MSIX_FLAGS) (ucast control);
     skip
   }"

definition pci_msix_entry_mask :: "'h platform \<Rightarrow> dev_id \<Rightarrow> nat \<Rightarrow> ('h world, unit) state" where
  "pci_msix_entry_mask P d vec = do {
     v \<leftarrow> get_dev d;
     mmio_write32 P PCI_MSIX_ENTRY_CTRL_MASKBIT (msix_entry v vec + PCI_MSIX_ENTRY_VECTOR_CTRL)
   }"

definition pci_msix_entry_unmask :: "'h platform \<Rightarrow> dev_id \<Rightarrow> nat \<Rightarrow> ('h world, unit) state" where
  "pci_msix_entry_unmask P d vec = do {
     v \<leftarrow> get_dev d;
     mmio_write32 P 0 (msix_entry v vec + PCI_MSIX_ENTRY_VECTOR_CTRL)
   }"

definition pci_msix_program_entry :: "'h platform \<Rightarrow> dev_id \<Rightarrow> nat \<Rightarrow> ('h world, unit) state" where
  "pci_msix_program_entry P d i = do {
     v \<leftarrow> get_dev d;
     c \<leftarrow> get_ctl;
     let e = msix_entry v i;
     let (address_lo, address_hi, data) = brcm_msi_compose_msg P c (slots v i);
     mmio_write32 P address_lo (e + PCI_MSIX_ENTRY_LOWER_ADDR);
     mmio_write32 P address_hi (e + PCI_MSIX_ENTRY_UPPER_ADDR);
     mmio_write32 P (ucast data) (e + PCI_MSIX_ENTRY_DATA);
     mmio_write32 P PCI_MSIX_ENTRY_CTRL_MASKBIT (e + PCI_MSIX_ENTRY_VECTOR_CTRL)
   }"

definition pci_msix_program :: "'h platform \<Rightarrow> dev_id \<Rightarrow> nat \<Rightarrow> ('h world, unit) state" where
  "pci_msix_program P d n = do {
     pci_msix_set_ctrl P d 0 (PCI_MSIX_FLAGS_ENABLE OR PCI_MSIX_FLAGS_MASKALL);
     for_each (pci_msix_program_entry P d) [0..<n];
     pci_intx P d False;
     pci_msix_set_ctrl P d PCI_MSIX_FLAGS_MASKALL 0
   }"

definition pci_msix_alloc :: "'h platform \<Rightarrow> dev_id \<Rightarrow> nat \<Rightarrow> nat \<Rightarrow> ('h world, errno + nat) state" where
  "pci_msix_alloc P d min_vecs max_vecs = do {
     v \<leftarrow> get_dev d;
     if msix_table_virt v = 0 then done_with (Inl ENODEV)
     else do {
       let n = (if max_vecs > msix_table_size v then msix_table_size v else max_vecs);
       c \<leftarrow> get_ctl;
       let (out, used) = pci_irq_slots_alloc_any (msi_used c) n;
       set_ctl (\<lambda>c. c\<lparr>msi_used := used\<rparr>);
       set_dev d (set_slots out);
       let n = length out;
       if n < min_vecs then do {
         set_ctl (\<lambda>c. c\<lparr>msi_used := pci_irq_slots_free (msi_used c) out\<rparr>);
         done_with (Inl ENOSPC)
       } else do {
         pci_msix_program P d n;
         done_with (Inr n)
       }
     }
   }"

definition pci_msix_shutdown :: "'h platform \<Rightarrow> dev_id \<Rightarrow> ('h world, unit) state" where
  "pci_msix_shutdown P d = pci_msix_set_ctrl P d PCI_MSIX_FLAGS_ENABLE PCI_MSIX_FLAGS_MASKALL"

definition pci_msix_init :: "'h platform \<Rightarrow> dev_id \<Rightarrow> ('h world, unit) state" where
  "pci_msix_init P d = do {
     cap \<leftarrow> pci_find_capability P d (ucast PCI_CAP_ID_MSIX);
     set_dev d (\<lambda>v. v\<lparr>msix_cap_offset := cap\<rparr>);
     if cap = 0 then skip
     else do {
       pci_msix_set_ctrl P d PCI_MSIX_FLAGS_ENABLE 0;
       (_, control) \<leftarrow> pci_read_config16 P d (cap + PCI_MSIX_FLAGS);
       set_dev d (\<lambda>v. v\<lparr>msix_table_size :=
         unat (ucast (((ucast control :: u32) AND PCI_MSIX_FLAGS_QSIZE) + 1) :: u16)\<rparr>);
       (_, table) \<leftarrow> pci_read_config32 P d (cap + PCI_MSIX_TABLE);
       let bir = unat (ucast (table AND PCI_MSIX_TABLE_BIR) :: u8);
       let offset = table AND PCI_MSIX_TABLE_OFFSET;
       v \<leftarrow> get_dev d;
       let b = bars v bir;
       if bir \<ge> bars_num v \<or> \<not> present b \<or> bar_type b \<noteq> PCI_REGION_MEM \<or> virt_addr b = 0 then skip
       else if offset + of_nat (msix_table_size v) * PCI_MSIX_ENTRY_SIZE > bar_size b then skip
       else set_dev d (\<lambda>v. v\<lparr>msix_table_virt := virt_addr b + offset\<rparr>)
     }
   }"

declare pci_msi_alloc_loop.simps [simp del]

end
