(* ===== verification/Pci_Irq.thy ===== *)
theory Pci_Irq
  imports Pci_Msi
begin

text \<open>
  The interrupt front end (\<open>pci_irq.c\<close>): the choice of the interrupt type, the servers of a
  device's vectors, the teardown and the runtime masks.  The second half is the invariant of
  the whole interrupt subsystem, over all devices at once and for every behaviour of the
  hardware, and the state machine of its operations.
\<close>

section \<open>pci_irq.c: allocation\<close>

definition positive :: "errno + nat \<Rightarrow> bool" where
  "positive r = (case r of Inl _ \<Rightarrow> False | Inr n \<Rightarrow> 0 < n)"

definition commit_vectors :: "dev_id \<Rightarrow> u32 \<Rightarrow> errno + nat \<Rightarrow> ('h world, errno + nat) state" where
  "commit_vectors d m r = do {
     set_dev d (\<lambda>v. v\<lparr>mode := m, nvec := (case r of Inl _ \<Rightarrow> 0 | Inr n \<Rightarrow> n)\<rparr>);
     done_with r
   }"

text \<open>The bounds after clamping.\<close>

definition vec_lo :: "nat \<Rightarrow> nat" where
  "vec_lo min_vecs = (if min_vecs < 1 then 1 else min_vecs)"

definition vec_hi :: "nat \<Rightarrow> nat" where
  "vec_hi max_vecs = (if max_vecs > MSI_MAX_VECTORS then MSI_MAX_VECTORS else max_vecs)"

text \<open>
  The \<open>if \<dots> else if\<close> chain, one function per arm; \<open>n\<close> is the last failure.  A type that is
  not allowed leaves it in place, and only an allocation can make it positive.
\<close>

definition try_intx :: "dev_id \<Rightarrow> nat \<Rightarrow> u32 \<Rightarrow> errno + nat \<Rightarrow> ('h world, errno + nat) state" where
  "try_intx d lo fl n = do {
     v \<leftarrow> get_dev d;
     let n = (if fl AND PCI_IRQ_INTX \<noteq> 0 then pci_intx_alloc v lo else n);
     if positive n then commit_vectors d PCI_IRQ_INTX n else done_with n
   }"

definition try_msi ::
    "'h platform \<Rightarrow> dev_id \<Rightarrow> nat \<Rightarrow> nat \<Rightarrow> u32 \<Rightarrow> errno + nat \<Rightarrow> ('h world, errno + nat) state" where
  "try_msi P d lo hi fl n = do {
     n \<leftarrow> (if fl AND PCI_IRQ_MSI \<noteq> 0 then pci_msi_alloc P d lo hi else done_with n);
     if positive n then commit_vectors d PCI_IRQ_MSI n else try_intx d lo fl n
   }"

definition try_msix ::
    "'h platform \<Rightarrow> dev_id \<Rightarrow> nat \<Rightarrow> nat \<Rightarrow> u32 \<Rightarrow> errno + nat \<Rightarrow> ('h world, errno + nat) state" where
  "try_msix P d lo hi fl n = do {
     n \<leftarrow> (if fl AND PCI_IRQ_MSIX \<noteq> 0 then pci_msix_alloc P d lo hi else done_with n);
     if positive n then commit_vectors d PCI_IRQ_MSIX n else try_msi P d lo hi fl n
   }"

definition pci_irq_vectors_alloc ::
    "'h platform \<Rightarrow> dev_id \<Rightarrow> nat \<Rightarrow> nat \<Rightarrow> u32 \<Rightarrow> ('h world, errno + nat) state" where
  "pci_irq_vectors_alloc P d min_vecs max_vecs fl = do {
     v \<leftarrow> get_dev d;
     if mode v \<noteq> 0 then done_with (Inl EBUSY)
     else if vec_hi max_vecs < vec_lo min_vecs then done_with (Inl ERANGE)
     else try_msix P d (vec_lo min_vecs) (vec_hi max_vecs) fl (Inl ENODEV)
   }"

section \<open>pci_irq.c: servers\<close>

definition pci_irq_vec_server :: "'h world \<Rightarrow> dev_id \<Rightarrow> nat \<Rightarrow> isr option" where
  "pci_irq_vec_server w d vec =
     (let v = dev w d in
      if mode v = PCI_IRQ_INTX then intx_server v
      else brcm_msi_slot_server (ctl w) (slots v vec))"

definition pci_irq_vec_close :: "'h platform \<Rightarrow> dev_id \<Rightarrow> nat \<Rightarrow> ('h world, unit) state" where
  "pci_irq_vec_close P d vec = do {
     v \<leftarrow> get_dev d;
     if mode v = PCI_IRQ_MSIX then pci_msix_entry_mask P d vec
     else pci_msi_update_mask P d 0 (push_bit vec 1)
   }"

definition pci_irq_vec_open :: "'h platform \<Rightarrow> dev_id \<Rightarrow> nat \<Rightarrow> ('h world, unit) state" where
  "pci_irq_vec_open P d vec = do {
     v \<leftarrow> get_dev d;
     if mode v = PCI_IRQ_MSIX then pci_msix_entry_unmask P d vec
     else pci_msi_update_mask P d (push_bit vec 1) 0
   }"

definition pci_irq_add_server ::
    "'h platform \<Rightarrow> dev_id \<Rightarrow> nat \<Rightarrow> isr \<Rightarrow> ('h world, errno + unit) state" where
  "pci_irq_add_server P d vec i = do {
     v \<leftarrow> get_dev d;
     server \<leftarrow> fetch (\<lambda>w. pci_irq_vec_server w d vec);
     if vec \<ge> nvec v then done_with (Inl EINVAL)
     else if server \<noteq> None then done_with (Inl EBUSY)
     else if mode v = PCI_IRQ_INTX then do {
       r \<leftarrow> brcm_intx_add_server P d i;
       if r \<noteq> Ok then done_with r
       else do {
         set_dev d (\<lambda>v. v\<lparr>intx_server := Some i\<rparr>);
         pci_intx P d True;
         done_with Ok
       }
     } else do {
       brcm_msi_slot_bind P (slots v vec) i;
       pci_irq_vec_open P d vec;
       done_with Ok
     }
   }"

definition pci_irq_rem_server :: "'h platform \<Rightarrow> dev_id \<Rightarrow> nat \<Rightarrow> isr \<Rightarrow> ('h world, unit) state" where
  "pci_irq_rem_server P d vec i = do {
     v \<leftarrow> get_dev d;
     server \<leftarrow> fetch (\<lambda>w. pci_irq_vec_server w d vec);
     if vec \<ge> nvec v \<or> server \<noteq> Some i then skip
     else if mode v = PCI_IRQ_INTX then do {
       pci_intx P d False;
       brcm_intx_rem_server P d i;
       set_dev d (\<lambda>v. v\<lparr>intx_server := None\<rparr>)
     } else do {
       pci_irq_vec_close P d vec;
       brcm_msi_slot_unbind P (slots v vec)
     }
   }"

section \<open>pci_irq.c: teardown and runtime mask\<close>

definition detach_vector :: "'h platform \<Rightarrow> dev_id \<Rightarrow> nat \<Rightarrow> ('h world, unit) state" where
  "detach_vector P d vec = do {
     server \<leftarrow> fetch (\<lambda>w. pci_irq_vec_server w d vec);
     case server of None \<Rightarrow> skip | Some i \<Rightarrow> pci_irq_rem_server P d vec i
   }"

definition pci_irq_vectors_free :: "'h platform \<Rightarrow> dev_id \<Rightarrow> ('h world, unit) state" where
  "pci_irq_vectors_free P d = do {
     v \<leftarrow> get_dev d;
     for_each (detach_vector P d) [0..<nvec v];
     (if mode v = PCI_IRQ_MSIX then pci_msix_shutdown P d
      else if mode v = PCI_IRQ_MSI then pci_msi_shutdown P d
      else skip);
     only_if (mode v \<noteq> PCI_IRQ_INTX)
       (set_ctl (\<lambda>c. c\<lparr>msi_used := pci_irq_slots_free (msi_used c) (map (slots v) [0..<nvec v])\<rparr>));
     set_dev d (\<lambda>v. v\<lparr>mode := 0, nvec := 0\<rparr>)
   }"

definition pci_irq_vec_mask :: "'h platform \<Rightarrow> dev_id \<Rightarrow> nat \<Rightarrow> ('h world, bool) state" where
  "pci_irq_vec_mask P d vec = do {
     v \<leftarrow> get_dev d;
     if vec \<ge> nvec v then done_with False
     else do {
       (if mode v = PCI_IRQ_INTX then pci_intx P d False else brcm_msi_slot_mask P (slots v vec));
       done_with True
     }
   }"

definition pci_irq_vec_unmask :: "'h platform \<Rightarrow> dev_id \<Rightarrow> nat \<Rightarrow> ('h world, bool) state" where
  "pci_irq_vec_unmask P d vec = do {
     v \<leftarrow> get_dev d;
     if vec \<ge> nvec v then done_with False
     else do {
       (if mode v = PCI_IRQ_INTX then pci_intx P d True else brcm_msi_slot_unmask P (slots v vec));
       done_with True
     }
   }"

section \<open>The invariant\<close>

text \<open>
  The slots a device owns: those of its vectors, when they are message-signalled.  The
  invariant: the bitmap holds exactly the owned slots and no slot has two owners; a server
  is bound only to an owned slot, or to the pin of a device in INTx mode; an idle device has
  no vectors and a pin has one.
\<close>

definition vec_slots :: "pci_device \<Rightarrow> nat list" where
  "vec_slots v = (if mode v = PCI_IRQ_MSI \<or> mode v = PCI_IRQ_MSIX then map (slots v) [0..<nvec v] else [])"

definition irq_mode_ok :: "pci_device \<Rightarrow> bool" where
  "irq_mode_ok v \<longleftrightarrow> (mode v = 0 \<and> nvec v = 0 \<or> mode v = PCI_IRQ_INTX \<and> nvec v = 1 \<or>
     mode v = PCI_IRQ_MSI \<and> 0 < nvec v \<or> mode v = PCI_IRQ_MSIX \<and> 0 < nvec v) \<and>
     (intx_server v \<noteq> None \<longrightarrow> mode v = PCI_IRQ_INTX)"

definition irq_inv :: "'h world \<Rightarrow> bool" where
  "irq_inv w \<longleftrightarrow> owned (\<lambda>d. vec_slots (dev w d)) (pool_set (msi_used (ctl w))) \<and>
     (\<forall>s. msi_servers (ctl w) s \<noteq> None \<longrightarrow> s \<in> pool_set (msi_used (ctl w))) \<and>
     (\<forall>d. irq_mode_ok (dev w d))"

text \<open>The part of the state the invariant looks at.\<close>

definition irq_view :: "pci_device \<Rightarrow> u32 \<times> nat \<times> (nat \<Rightarrow> nat) \<times> isr option" where
  "irq_view v = (mode v, nvec v, slots v, intx_server v)"

definition irq_core :: "'h world \<Rightarrow> _" where
  "irq_core w = (msi_used (ctl w), msi_servers (ctl w), \<lambda>d. irq_view (dev w d))"

lemma irq_core_inv:
  fixes w w' :: "'h world"
  assumes "irq_core w' = irq_core w" shows "irq_inv w' = irq_inv w"
proof -
  have "irq_view (dev w' d) = irq_view (dev w d)" for d
    using assms by (simp add: irq_core_def fun_eq_iff)
  then have "vec_slots (dev w' d) = vec_slots (dev w d)" "irq_mode_ok (dev w' d) = irq_mode_ok (dev w d)" for d
    by (simp_all add: irq_view_def vec_slots_def irq_mode_ok_def)
  then show ?thesis using assms by (simp add: irq_inv_def irq_core_def)
qed

lemma core_hw [kept]: "hw_only m \<Longrightarrow> keeps irq_core m"
  by (rule hw_only_keeps_view) (simp_all add: irq_core_def)

lemma core_set_dev: "(\<And>v. irq_view (f v) = irq_view v) \<Longrightarrow> keeps irq_core (set_dev d f)"
  unfolding set_dev_def by (rule keeps_modify) (auto simp: irq_core_def fun_eq_iff)

lemma core_update_mask [kept]: "keeps irq_core (pci_msi_update_mask P d c s)"
  unfolding pci_msi_update_mask_def
  by (intro kept hwo core_set_dev) (simp_all add: irq_view_def)

lemma hw_only_msi_dev [hwo]:
  "hw_only (pci_msi_set_enable P d e)" "hw_only (pci_msi_write_msg P d n)"
  "hw_only (pci_msix_set_ctrl P d c s)" "hw_only (pci_msix_entry_mask P d v)"
  "hw_only (pci_msix_entry_unmask P d v)" "hw_only (pci_msix_program_entry P d i)"
  by (auto simp: pci_msi_set_enable_def pci_msi_write_msg_def pci_msix_set_ctrl_def
      pci_msix_entry_mask_def pci_msix_entry_unmask_def pci_msix_program_entry_def Let_def intro!: hwo)

lemma hw_only_msix [hwo]: "hw_only (pci_msix_program P d n)" "hw_only (pci_msix_shutdown P d)"
  by (auto simp: pci_msix_program_def pci_msix_shutdown_def intro!: hwo)

lemma core_program [kept]: "keeps irq_core (pci_msi_program P d n)" "keeps irq_core (pci_msi_shutdown P d)"
  unfolding pci_msi_program_def pci_msi_shutdown_def by (intro kept hwo)+

lemma core_gates [kept]:
  "keeps irq_core (pci_irq_vec_open P d v)" "keeps irq_core (pci_irq_vec_close P d v)"
  unfolding pci_irq_vec_open_def pci_irq_vec_close_def by (intro kept hwo)+

section \<open>Reserving slots for a device\<close>

text \<open>
  \<open>took w w' d xs\<close>: between \<open>w\<close> and \<open>w'\<close> the slots \<open>xs\<close> were taken from the pool and written
  into \<open>d\<close>; nothing else the invariant looks at has changed.
\<close>

definition took :: "'h world \<Rightarrow> 'h world \<Rightarrow> dev_id \<Rightarrow> nat list \<Rightarrow> bool" where
  "took w w' d xs \<longleftrightarrow>
     msi_servers (ctl w') = msi_servers (ctl w) \<and>
     (\<forall>e. e \<noteq> d \<longrightarrow> irq_view (dev w' e) = irq_view (dev w e)) \<and>
     mode (dev w' d) = mode (dev w d) \<and> nvec (dev w' d) = nvec (dev w d) \<and>
     intx_server (dev w' d) = intx_server (dev w d) \<and>
     (\<forall>i < length xs. slots (dev w' d) i = xs ! i) \<and>
     pool_set (msi_used (ctl w')) = pool_set (msi_used (ctl w)) \<union> set xs \<and>
     (\<forall>own :: dev_id \<Rightarrow> nat list. owned own (pool_set (msi_used (ctl w))) \<and> own d = [] \<longrightarrow>
        owned (own(d := xs)) (pool_set (msi_used (ctl w'))))"

lemma took_core: "irq_core w'' = irq_core w' \<Longrightarrow> took w w' d xs \<Longrightarrow> took w w'' d xs"
  by (simp add: took_def irq_core_def irq_view_def fun_eq_iff) metis

lemma took_none: "msi_used (ctl w') = msi_used (ctl w) \<Longrightarrow> msi_servers (ctl w') = msi_servers (ctl w) \<Longrightarrow>
    dev w' = (dev w)(d := set_slots xs (dev w d)) \<Longrightarrow> took w w' d []"
  by (auto simp: took_def set_slots_def) (metis fun_upd_triv)

lemma took_self: "took w w d []"
  by (auto simp: took_def) (metis fun_upd_triv)

lemma took_after: "took w w1 d [] \<Longrightarrow> took w1 w2 d xs \<Longrightarrow> took w w2 d xs"
  by (auto simp: took_def)

lemma took_give:
  assumes "\<And>own :: dev_id \<Rightarrow> nat list. owned own (pool_set (msi_used (ctl w))) \<Longrightarrow> own d = [] \<Longrightarrow>
      owned (own(d := xs)) (pool_set used')"
    and "pool_set used' = pool_set (msi_used (ctl w)) \<union> set xs"
  shows "took w (w\<lparr>ctl := ctl w\<lparr>msi_used := used'\<rparr>, dev := (dev w)(d := set_slots xs (dev w d))\<rparr>) d xs"
  using assms by (auto simp: took_def set_slots_def)

definition alloc_spec ::
    "'h world \<Rightarrow> dev_id \<Rightarrow> nat \<Rightarrow> nat \<Rightarrow> (errno + nat) \<times> 'h world \<Rightarrow> bool" where
  "alloc_spec w d lo hi p = (case p of
       (Inl e, w') \<Rightarrow> took w w' d []
     | (Inr n, w') \<Rightarrow> lo \<le> n \<and> n \<le> hi \<and> (\<exists>xs. length xs = n \<and> took w w' d xs))"

lemma msix_alloc_spec: "alloc_spec w d lo hi (run_state (pci_msix_alloc P d lo hi) w)"
proof (cases "msix_table_virt (dev w d) = 0")
  case True
  then show ?thesis by (simp add: pci_msix_alloc_def alloc_spec_def took_self)
next
  case False
  define n where "n = (if msix_table_size (dev w d) < hi then msix_table_size (dev w d) else hi)"
  obtain out used where out: "pci_irq_slots_alloc_any (msi_used (ctl w)) n = (out, used)"
    by fastforce
  note spec = alloc_any_spec [OF out]
  show ?thesis
  proof (cases "length out < lo")
    case True
    then show ?thesis
      using False out free_alloc_any [OF out]
      by (auto simp: pci_msix_alloc_def alloc_spec_def n_def [symmetric] intro!: took_none)
  next
    case enough: False
    let ?w = "w\<lparr>ctl := ctl w\<lparr>msi_used := used\<rparr>, dev := (dev w)(d := set_slots out (dev w d))\<rparr>"
    have "took w ?w d out"
      using any_pool.take_owned [of _ "msi_used (ctl w)" d n out used] out spec(6)
      by (intro took_give) (auto simp: take_any_def)
    then have "took w (snd (run_state (pci_msix_program P d (length out)) ?w)) d out"
      by (rule took_core [rotated]) (intro keepsD kept hwo)
    moreover have "run_state (pci_msix_alloc P d lo hi) w =
        (Inr (length out), snd (run_state (pci_msix_program P d (length out)) ?w))"
      using False out enough by (simp add: pci_msix_alloc_def n_def [symmetric] Let_def split: prod.splits)
    moreover have "length out \<le> hi" using spec(3) by (simp add: n_def split: if_splits)
    ultimately show ?thesis
      using enough by (auto simp: alloc_spec_def)
  qed
qed

lemma msi_alloc_loop_spec:
  assumes "0 < lo"
  shows "alloc_spec w d lo n (run_state (pci_msi_alloc_loop P d lo n) w)"
  using assms
proof (induction P d lo n rule: pci_msi_alloc_loop.induct)
  case (1 P d lo n)
  show ?case
  proof (cases "n < lo")
    case True
    then show ?thesis by (simp add: pci_msi_alloc_loop.simps [of P d lo n] alloc_spec_def took_self)
  next
    case False
    show ?thesis
    proof (cases "pci_irq_slots_alloc_aligned (msi_used (ctl w)) n")
      case None
      then have "alloc_spec w d lo (n div 2) (run_state (pci_msi_alloc_loop P d lo (n div 2)) w)"
        using 1 False by blast
      then show ?thesis
        using None False by (simp add: pci_msi_alloc_loop.simps [of P d lo n] alloc_spec_def
            split: prod.splits sum.splits) (meson div_le_dividend le_trans)
    next
      case (Some r)
      then obtain b used where b: "pci_irq_slots_alloc_aligned (msi_used (ctl w)) n = Some (b, used)"
        by (cases r) auto
      let ?w = "w\<lparr>ctl := ctl w\<lparr>msi_used := used\<rparr>, dev := (dev w)(d := set_slots [b..<b + n] (dev w d))\<rparr>"
      have "took w ?w d [b..<b + n]"
        using aligned_pool.take_owned [of _ "msi_used (ctl w)" d n "[b..<b + n]" used]
          b alloc_aligned_some [OF b] by (intro took_give) (auto simp: take_aligned_def)
      then have "took w (snd (run_state (pci_msi_program P d n) ?w)) d [b..<b + n]"
        by (rule took_core [rotated]) (intro keepsD kept)
      moreover have "run_state (pci_msi_alloc_loop P d lo n) w =
          (Inr n, snd (run_state (pci_msi_program P d n) ?w))"
        using b False by (subst pci_msi_alloc_loop.simps) (simp split: prod.splits)
      ultimately show ?thesis
        using False by (auto simp: alloc_spec_def intro: exI [of _ "[b..<b + n]"])
    qed
  qed
qed

lemma rounddown_pow2_le: "1 \<le> n \<Longrightarrow> n \<le> 32 \<Longrightarrow> rounddown_pow2 n \<le> n"
proof -
  have "list_all (\<lambda>n. rounddown_pow2 n \<le> n) [1..<33]" by code_simp
  then show "1 \<le> n \<Longrightarrow> n \<le> 32 \<Longrightarrow> rounddown_pow2 n \<le> n" by (simp add: list_all_iff)
qed

lemma alloc_spec_mono: "alloc_spec w d lo n p \<Longrightarrow> n \<le> hi \<Longrightarrow> alloc_spec w d lo hi p"
  by (auto simp: alloc_spec_def split: prod.splits sum.splits)

lemma msi_alloc_spec:
  assumes "0 < lo" and "lo \<le> hi" and "hi \<le> 32"
  shows "alloc_spec w d lo hi (run_state (pci_msi_alloc P d lo hi) w)"
proof (cases "msi_cap_offset (dev w d) = 0")
  case True
  then show ?thesis by (simp add: pci_msi_alloc_def alloc_spec_def took_self)
next
  case False
  define n where "n = (if msi_log2_max_vecs (dev w d) < 5 \<and> hi > 2 ^ msi_log2_max_vecs (dev w d)
      then 2 ^ msi_log2_max_vecs (dev w d) else hi)"
  have "1 \<le> n" "n \<le> hi" using assms by (auto simp: n_def)
  then have "rounddown_pow2 n \<le> hi" using rounddown_pow2_le [of n] assms(3) by linarith
  then have "alloc_spec w d lo hi (run_state (pci_msi_alloc_loop P d lo (rounddown_pow2 n)) w)"
    using msi_alloc_loop_spec [OF assms(1)] alloc_spec_mono by blast
  then show ?thesis
    using False by (simp add: pci_msi_alloc_def n_def Let_def)
qed

section \<open>The operations keep the invariant\<close>

lemma irq_inv_idle: "irq_inv w \<Longrightarrow> mode (dev w d) = 0 \<Longrightarrow> nvec (dev w d) = 0 \<and> intx_server (dev w d) = None"
  by (auto simp: irq_inv_def irq_mode_ok_def)

lemma view_eq_slots:
  "irq_view u = irq_view v \<Longrightarrow> vec_slots u = vec_slots v \<and> irq_mode_ok u = irq_mode_ok v"
  by (simp add: irq_view_def vec_slots_def irq_mode_ok_def)

lemma took_commit:
  assumes inv: "irq_inv w" and idle: "mode (dev w d) = 0" and took: "took w w' d xs"
    and v: "mode v = PCI_IRQ_MSI \<or> mode v = PCI_IRQ_MSIX \<or> mode v = 0 \<and> xs = []" "nvec v = length xs"
      "slots v = slots (dev w' d)" "intx_server v = None" "xs = [] \<longrightarrow> mode v = 0"
  shows "irq_inv (w'\<lparr>dev := (dev w')(d := v)\<rparr>)"
proof -
  let ?own = "\<lambda>e. vec_slots (dev w e)" and ?w = "w'\<lparr>dev := (dev w')(d := v)\<rparr>"
  have others: "irq_view (dev w' e) = irq_view (dev w e)" if "e \<noteq> d" for e
    using took that unfolding took_def by blast
  have vs: "vec_slots v = xs"
    using took v by (auto simp: vec_slots_def took_def intro: nth_equalityI)
  have "owned ?own (pool_set (msi_used (ctl w)))" using inv by (simp add: irq_inv_def)
  moreover have "?own d = []" using idle by (simp add: vec_slots_def)
  ultimately have "owned (?own(d := xs)) (pool_set (msi_used (ctl w')))"
    using took unfolding took_def by blast
  moreover have "?own(d := xs) = (\<lambda>e. vec_slots (dev ?w e))"
    using vs view_eq_slots [OF others] by (simp add: fun_eq_iff)
  moreover have "irq_mode_ok (dev ?w e)" for e
  proof (cases "e = d")
    case True
    then show ?thesis using v by (auto simp: irq_mode_ok_def)
  next
    case False
    then show ?thesis using inv view_eq_slots [OF others [OF False]] by (simp add: irq_inv_def)
  qed
  moreover have "msi_servers (ctl w') = msi_servers (ctl w)"
      "pool_set (msi_used (ctl w')) = pool_set (msi_used (ctl w)) \<union> set xs"
    using took unfolding took_def by blast+
  ultimately show ?thesis
    using inv by (simp add: irq_inv_def)
qed

lemma took_idle:
  assumes "irq_inv w" and "mode (dev w d) = 0" and "took w w' d []"
  shows "irq_inv w'" "mode (dev w' d) = 0"
proof -
  show "mode (dev w' d) = 0" using assms by (simp add: took_def)
  have "irq_inv (w'\<lparr>dev := (dev w')(d := dev w' d)\<rparr>)"
    using assms irq_inv_idle [OF assms(1,2)] by (intro took_commit [OF assms]) (auto simp: took_def)
  then show "irq_inv w'" by simp
qed

lemma run_commit:
  "run_state (commit_vectors d m (Inr n)) w =
     (Inr n, w\<lparr>dev := (dev w)(d := (dev w d)\<lparr>mode := m, nvec := n\<rparr>)\<rparr>)"
  by (simp add: commit_vectors_def)

text \<open>What an allocation leaves, as one predicate on the result and the new state.\<close>

definition vectors_post ::
    "dev_id \<Rightarrow> nat \<Rightarrow> nat \<Rightarrow> u32 \<Rightarrow> (errno + nat) \<times> 'h world \<Rightarrow> bool" where
  "vectors_post d lo hi fl p = (case p of
       (Inl e, w') \<Rightarrow> irq_inv w' \<and> mode (dev w' d) = 0
     | (Inr n, w') \<Rightarrow> irq_inv w' \<and> lo \<le> n \<and> n \<le> hi \<and> nvec (dev w' d) = n \<and> mode (dev w' d) \<noteq> 0 \<and>
         mode (dev w' d) AND fl \<noteq> 0)"

lemma commit_post:
  assumes "irq_inv w" and "mode (dev w d) = 0" and "alloc_spec w d lo hi (Inr n, w')" and "0 < n"
    and "m = PCI_IRQ_MSI \<or> m = PCI_IRQ_MSIX" and "m AND fl \<noteq> 0"
  shows "vectors_post d lo hi fl (run_state (commit_vectors d m (Inr n)) w')"
proof -
  obtain xs where xs: "length xs = n" "took w w' d xs" "lo \<le> n" "n \<le> hi"
    using assms(3) by (auto simp: alloc_spec_def)
  have "irq_inv (w'\<lparr>dev := (dev w')(d := (dev w' d)\<lparr>mode := m, nvec := n\<rparr>)\<rparr>)"
    using xs assms irq_inv_idle [OF assms(1,2)]
    by (intro took_commit [OF assms(1,2) xs(2)]) (auto simp: took_def)
  then show ?thesis
    using xs assms by (auto simp: run_commit vectors_post_def)
qed

lemma commit_intx:
  assumes "irq_inv w" and "mode (dev w d) = 0" and "lo \<le> 1" and "1 \<le> hi" and "fl AND PCI_IRQ_INTX \<noteq> 0"
  shows "vectors_post d lo hi fl (run_state (commit_vectors d PCI_IRQ_INTX (Inr 1)) w)"
proof -
  let ?v = "(dev w d)\<lparr>mode := PCI_IRQ_INTX, nvec := 1\<rparr>"
  have "vec_slots ?v = vec_slots (dev w d)" using assms(2) by (simp add: vec_slots_def)
  then have "(\<lambda>e. vec_slots (dev (w\<lparr>dev := (dev w)(d := ?v)\<rparr>) e)) = (\<lambda>e. vec_slots (dev w e))"
    by (auto simp: fun_eq_iff)
  moreover have "irq_mode_ok ?v" by (simp add: irq_mode_ok_def)
  ultimately have "irq_inv (w\<lparr>dev := (dev w)(d := ?v)\<rparr>)"
    using assms(1) by (auto simp: irq_inv_def)
  then show ?thesis
    using assms by (simp add: run_commit vectors_post_def and.commute)
qed

lemma not_positive: "\<not> positive (Inr n) \<longleftrightarrow> n = 0" "\<not> positive (Inl e)"
  by (simp_all add: positive_def)

text \<open>One type: allocate, commit on success, go on with the failure otherwise.\<close>

lemma type_step:
  assumes inv: "irq_inv w" "mode (dev w d) = 0" and "0 < lo"
    and spec: "alloc_spec w d lo hi (run_state m w)" and "t = PCI_IRQ_MSI \<or> t = PCI_IRQ_MSIX"
    and "t AND fl \<noteq> 0"
    and rest: "\<And>e w'. irq_inv w' \<Longrightarrow> mode (dev w' d) = 0 \<Longrightarrow>
      vectors_post d lo hi fl (run_state (k (Inl e)) w')"
  shows "vectors_post d lo hi fl (run_state (do {
     n \<leftarrow> m; if positive n then commit_vectors d t n else k n }) w)"
proof -
  obtain r w' where r: "run_state m w = (r, w')" by fastforce
  show ?thesis
  proof (cases r)
    case (Inl e)
    then have "took w w' d []" using spec r by (simp add: alloc_spec_def)
    then show ?thesis
      using rest took_idle [OF inv] r Inl by (simp add: positive_def)
  next
    case (Inr n)
    then have "0 < n" using spec r \<open>0 < lo\<close> by (simp add: alloc_spec_def)
    then show ?thesis
      using commit_post [OF inv, of lo hi n w' t fl] spec r Inr assms by (simp add: positive_def)
  qed
qed

lemma try_intx_post:
  "irq_inv w \<Longrightarrow> mode (dev w d) = 0 \<Longrightarrow> lo \<le> hi \<Longrightarrow> 0 < lo \<Longrightarrow>
     vectors_post d lo hi fl (run_state (try_intx d lo fl (Inl e)) w)"
  using commit_intx [of w d lo hi fl]
  by (auto simp: try_intx_def pci_intx_alloc_def positive_def vectors_post_def Let_def)

lemma try_msi_post:
  assumes "irq_inv w" and "mode (dev w d) = 0" and "lo \<le> hi" and "0 < lo" and "hi \<le> 32"
  shows "vectors_post d lo hi fl (run_state (try_msi P d lo hi fl (Inl e)) w)"
proof (cases "fl AND PCI_IRQ_MSI = 0")
  case True
  then show ?thesis using try_intx_post assms by (simp add: try_msi_def positive_def)
next
  case False
  have "vectors_post d lo hi fl (run_state (do {
      n \<leftarrow> pci_msi_alloc P d lo hi;
      if positive n then commit_vectors d PCI_IRQ_MSI n else try_intx d lo fl n }) w)"
  proof (rule type_step)
    show "alloc_spec w d lo hi (run_state (pci_msi_alloc P d lo hi) w)"
      using assms by (intro msi_alloc_spec)
    show "PCI_IRQ_MSI AND fl \<noteq> 0" using False by (simp add: and.commute)
  qed (use assms try_intx_post in blast)+
  then show ?thesis using False by (simp add: try_msi_def)
qed

lemma vectors_alloc_post:
  assumes "irq_inv w" and "mode (dev w d) = 0" and "vec_lo mn \<le> vec_hi mx"
  shows "vectors_post d (vec_lo mn) (vec_hi mx) fl (run_state (pci_irq_vectors_alloc P d mn mx fl) w)"
proof -
  have lo: "0 < vec_lo mn" "vec_hi mx \<le> 32" by (auto simp: vec_lo_def vec_hi_def)
  have "vectors_post d (vec_lo mn) (vec_hi mx) fl
      (run_state (try_msix P d (vec_lo mn) (vec_hi mx) fl (Inl ENODEV)) w)"
  proof (cases "fl AND PCI_IRQ_MSIX = 0")
    case True
    then show ?thesis
      using try_msi_post [OF assms lo] by (simp add: try_msix_def positive_def)
  next
    case False
    have "vectors_post d (vec_lo mn) (vec_hi mx) fl (run_state (do {
        n \<leftarrow> pci_msix_alloc P d (vec_lo mn) (vec_hi mx);
        if positive n then commit_vectors d PCI_IRQ_MSIX n
        else try_msi P d (vec_lo mn) (vec_hi mx) fl n }) w)"
    proof (rule type_step)
      show "alloc_spec w d (vec_lo mn) (vec_hi mx) (run_state (pci_msix_alloc P d (vec_lo mn) (vec_hi mx)) w)"
        by (rule msix_alloc_spec)
      show "PCI_IRQ_MSIX AND fl \<noteq> 0" using False by (simp add: and.commute)
    qed (use assms lo try_msi_post in blast)+
    then show ?thesis using False by (simp add: try_msix_def)
  qed
  then show ?thesis
    using assms by (simp add: pci_irq_vectors_alloc_def)
qed

lemma vectors_alloc_refused:
  assumes "mode (dev w d) \<noteq> 0 \<or> vec_hi mx < vec_lo mn"
  shows "run_state (pci_irq_vectors_alloc P d mn mx fl) w =
    (Inl (if mode (dev w d) \<noteq> 0 then EBUSY else ERANGE), w)"
  using assms by (auto simp: pci_irq_vectors_alloc_def)

lemma inv_vectors_alloc [pres]: "preserves irq_inv (pci_irq_vectors_alloc P d mn mx fl)"
proof (rule preservesI)
  fix w :: "'a world"
  assume inv: "irq_inv w"
  show "irq_inv (snd (run_state (pci_irq_vectors_alloc P d mn mx fl) w))"
  proof (cases "mode (dev w d) \<noteq> 0 \<or> vec_hi mx < vec_lo mn")
    case True
    then show ?thesis using inv by (simp add: vectors_alloc_refused)
  next
    case False
    then show ?thesis
      using vectors_alloc_post [OF inv, of d mn mx fl P]
      by (auto simp: vectors_post_def split: prod.splits sum.splits)
  qed
qed

lemma core_facts:
  fixes w w' :: "'h world"
  assumes "irq_core w' = irq_core w"
  shows "mode (dev w' d) = mode (dev w d)" "nvec (dev w' d) = nvec (dev w d)"
    "slots (dev w' d) = slots (dev w d)" "intx_server (dev w' d) = intx_server (dev w d)"
    "msi_used (ctl w') = msi_used (ctl w)" "msi_servers (ctl w') = msi_servers (ctl w)"
  using assms by (auto simp: irq_core_def irq_view_def fun_eq_iff)

lemma inv_set_intx_server:
  assumes "irq_inv w" and "x \<noteq> None \<longrightarrow> mode (dev w d) = PCI_IRQ_INTX"
  shows "irq_inv (w\<lparr>dev := (dev w)(d := (dev w d)\<lparr>intx_server := x\<rparr>)\<rparr>)"
proof -
  let ?w = "w\<lparr>dev := (dev w)(d := (dev w d)\<lparr>intx_server := x\<rparr>)\<rparr>"
  have "vec_slots (dev ?w e) = vec_slots (dev w e)" for e by (simp add: vec_slots_def)
  then show ?thesis using assms by (auto simp: irq_inv_def irq_mode_ok_def)
qed

lemma inv_bind:
  "irq_inv w \<Longrightarrow> s \<in> pool_set (msi_used (ctl w)) \<Longrightarrow> irq_inv (snd (run_state (brcm_msi_slot_bind P s i) w))"
  by (simp add: brcm_msi_slot_bind_def mmio_defs irq_inv_def)

lemma inv_unbind [pres]: "preserves irq_inv (brcm_msi_slot_unbind P s)"
  by (auto simp: brcm_msi_slot_unbind_def mmio_defs irq_inv_def preserves_def)

lemma inv_core: "keeps irq_core m \<Longrightarrow> preserves irq_inv m"
  by (rule preservesI) (simp add: irq_core_inv [OF keepsD [of irq_core m]])

lemma vec_slot_used:
  assumes "irq_inv w" and "vec < nvec (dev w d)" and "mode (dev w d) \<noteq> PCI_IRQ_INTX"
  shows "slots (dev w d) vec \<in> pool_set (msi_used (ctl w))"
proof -
  have "slots (dev w d) vec \<in> set (vec_slots (dev w d))"
    using assms by (auto simp: vec_slots_def irq_inv_def irq_mode_ok_def) (metis less_zeroE)+
  then show ?thesis using assms(1) by (auto simp: irq_inv_def owned_def)
qed

lemma inv_add_server [pres]: "preserves irq_inv (pci_irq_add_server P d vec i)"
proof (rule preservesI)
  fix w :: "'a world"
  assume inv: "irq_inv w"
  show "irq_inv (snd (run_state (pci_irq_add_server P d vec i) w))"
  proof (cases "vec < nvec (dev w d) \<and> pci_irq_vec_server w d vec = None")
    case True
    show ?thesis
    proof (cases "mode (dev w d) = PCI_IRQ_INTX")
      case intx: True
      obtain r w1 where r: "run_state (brcm_intx_add_server P d i) w = (r, w1)" by fastforce
      have core: "irq_core w1 = irq_core w" by (rule keeps_run [OF _ r]) (intro kept hwo)
      have "irq_inv (w1\<lparr>dev := (dev w1)(d := (dev w1 d)\<lparr>intx_server := Some i\<rparr>)\<rparr>)"
        using inv intx irq_core_inv [OF core] core_facts(1) [OF core]
        by (intro inv_set_intx_server) auto
      then show ?thesis
        using True intx r inv irq_core_inv [OF core]
        by (auto intro!: preservesD [OF inv_core [OF core_hw [OF hw_only_intx]]]
            simp add: pci_irq_add_server_def snd_run_bind case_prod_beta)
    next
      case msi: False
      have "irq_inv (snd (run_state (brcm_msi_slot_bind P (slots (dev w d) vec) i) w))"
        using True msi inv by (intro inv_bind vec_slot_used) auto
      then show ?thesis
        using True msi preservesD [OF inv_core [OF core_gates(1)]]
        by (simp add: pci_irq_add_server_def case_prod_beta)
    qed
  qed (use inv in \<open>auto simp: pci_irq_add_server_def not_less\<close>)
qed

lemma inv_clear_intx [pres]: "preserves irq_inv (set_dev d (\<lambda>v. v\<lparr>intx_server := None\<rparr>))"
  unfolding set_dev_def by (intro preserves_modify inv_set_intx_server) auto

lemma inv_rem_server [pres]: "preserves irq_inv (pci_irq_rem_server P d vec i)"
  unfolding pci_irq_rem_server_def by (intro pres inv_core kept hwo)

lemma inv_masks [pres]: "preserves irq_inv (pci_irq_vec_mask P d v)" "preserves irq_inv (pci_irq_vec_unmask P d v)"
  unfolding pci_irq_vec_mask_def pci_irq_vec_unmask_def by (intro inv_core kept hwo)+

section \<open>Teardown\<close>

text \<open>
  Detaching keeps the ownership part of the state; afterwards the vectors that were detached
  have no server.
\<close>

definition irq_alloc_view :: "'h world \<Rightarrow> _" where
  "irq_alloc_view w = (msi_used (ctl w), \<lambda>d. (mode (dev w d), nvec (dev w d), slots (dev w d)))"

lemma core_alloc_view: "keeps irq_core m \<Longrightarrow> keeps irq_alloc_view m"
  by (erule keeps_coarser) (simp add: irq_core_def irq_alloc_view_def irq_view_def fun_eq_iff)

lemma alloc_view_server [kept]:
  "keeps irq_alloc_view (brcm_msi_slot_unbind P s)" "keeps irq_alloc_view (set_dev d (\<lambda>v. v\<lparr>intx_server := x\<rparr>))"
  by (auto simp: brcm_msi_slot_unbind_def set_dev_def mmio_defs keeps_def preserves_def irq_alloc_view_def)

lemma alloc_view_detach [kept]:
  "keeps irq_alloc_view (pci_irq_rem_server P d vec i)" "keeps irq_alloc_view (detach_vector P d vec)"
  unfolding pci_irq_rem_server_def detach_vector_def
  by (intro kept; intro core_alloc_view kept hwo)+

lemma rem_server_clears:
  assumes "irq_inv w" and "vec < nvec (dev w d)" and "pci_irq_vec_server w d vec = Some i"
  shows "pci_irq_vec_server (snd (run_state (pci_irq_rem_server P d vec i) w)) d vec = None"
proof (cases "mode (dev w d) = PCI_IRQ_INTX")
  case True
  then show ?thesis
    using assms by (simp add: pci_irq_rem_server_def case_prod_beta pci_irq_vec_server_def hwo)
next
  case False
  have core: "irq_core (snd (run_state (pci_irq_vec_close P d vec) w)) = irq_core w"
    by (intro keepsD kept)
  show ?thesis
    using assms False core_facts [OF core]
    by (simp add: pci_irq_rem_server_def case_prod_beta pci_irq_vec_server_def
        brcm_msi_slot_server_def brcm_msi_slot_unbind_def mmio_defs)
qed

lemma core_server:
  fixes w w' :: "'h world"
  assumes "irq_core w' = irq_core w"
  shows "pci_irq_vec_server w' d v = pci_irq_vec_server w d v"
  using core_facts [OF assms] by (simp add: pci_irq_vec_server_def brcm_msi_slot_server_def Let_def)

lemma rem_server_stays_clear:
  assumes "pci_irq_vec_server w d v = None"
  shows "pci_irq_vec_server (snd (run_state (pci_irq_rem_server P d vec i) w)) d v = None"
proof -
  have core: "irq_core (snd (run_state (pci_irq_vec_close P d vec) w)) = irq_core w"
    by (intro keepsD kept)
  show ?thesis
    using assms core_facts [OF core]
    by (auto simp: pci_irq_rem_server_def case_prod_beta pci_irq_vec_server_def hwo
        brcm_msi_slot_server_def brcm_msi_slot_unbind_def mmio_defs Let_def split: if_splits)
qed

lemma detach_vector_clears:
  assumes "irq_inv w" and "vec < nvec (dev w d)"
  shows "pci_irq_vec_server (snd (run_state (detach_vector P d vec) w)) d vec = None"
  using assms rem_server_clears [of w vec d]
  by (cases "pci_irq_vec_server w d vec") (simp_all add: detach_vector_def)

lemma detach_vector_stays_clear:
  "pci_irq_vec_server w d v = None \<Longrightarrow>
     pci_irq_vec_server (snd (run_state (detach_vector P d vec) w)) d v = None"
  using rem_server_stays_clear by (cases "pci_irq_vec_server w d vec") (simp_all add: detach_vector_def)

lemma inv_detach [pres]: "preserves irq_inv (detach_vector P d vec)"
  unfolding detach_vector_def by (intro pres)

lemma detach_all:
  fixes w :: "'h world" and P :: "'h platform"
  assumes "irq_inv w" and "k \<le> nvec (dev w d)"
  defines "w' \<equiv> snd (run_state (for_each (detach_vector P d) [0..<k]) w)"
  shows "irq_inv w' \<and> irq_alloc_view w' = irq_alloc_view w \<and> (\<forall>v < k. pci_irq_vec_server w' d v = None)"
  using assms(2) unfolding w'_def
proof (induction k)
  case (Suc k)
  let ?w = "snd (run_state (for_each (detach_vector P d) [0..<k]) w)"
  have IH: "irq_inv ?w" "irq_alloc_view ?w = irq_alloc_view w" "\<forall>v < k. pci_irq_vec_server ?w d v = None"
    using Suc by auto
  then have "k < nvec (dev ?w d)" using Suc.prems by (simp add: irq_alloc_view_def fun_eq_iff)
  then have "pci_irq_vec_server (snd (run_state (detach_vector P d k) ?w)) d k = None"
    using IH(1) by (intro detach_vector_clears)
  moreover have "irq_inv (snd (run_state (detach_vector P d k) ?w))"
    using IH(1) by (intro preservesD [OF inv_detach])
  moreover have "irq_alloc_view (snd (run_state (detach_vector P d k) ?w)) = irq_alloc_view ?w"
    by (intro keepsD kept)
  ultimately show ?case
    using IH by (auto simp: for_each_append case_prod_beta less_Suc_eq detach_vector_stays_clear)
qed (use assms(1) in simp)

text \<open>Switching the type off at the device.\<close>

definition irq_shutdown :: "'h platform \<Rightarrow> dev_id \<Rightarrow> u32 \<Rightarrow> ('h world, unit) state" where
  "irq_shutdown P d m = (if m = PCI_IRQ_MSIX then pci_msix_shutdown P d
     else if m = PCI_IRQ_MSI then pci_msi_shutdown P d else skip)"

lemma core_irq_shutdown [kept]: "keeps irq_core (irq_shutdown P d m)"
  unfolding irq_shutdown_def by (intro kept hwo)

definition freed :: "dev_id \<Rightarrow> 'h world \<Rightarrow> 'h world" where
  "freed d w = w\<lparr>ctl := (if mode (dev w d) \<noteq> PCI_IRQ_INTX
        then (ctl w)\<lparr>msi_used := pci_irq_slots_free (msi_used (ctl w)) (map (slots (dev w d)) [0..<nvec (dev w d)])\<rparr>
        else ctl w),
      dev := (dev w)(d := (dev w d)\<lparr>mode := 0, nvec := 0\<rparr>)\<rparr>"

lemma vectors_free_freed:
  fixes w :: "'h world"
  assumes "irq_inv w"
  obtains w' where "snd (run_state (pci_irq_vectors_free P d) w) = freed d w'"
    and "irq_inv w'" and "irq_alloc_view w' = irq_alloc_view w"
    and "\<forall>v < nvec (dev w d). pci_irq_vec_server w' d v = None"
proof -
  let ?w = "snd (run_state (for_each (detach_vector P d) [0..<nvec (dev w d)]) w)"
  let ?w' = "snd (run_state (irq_shutdown P d (mode (dev w d))) ?w)"
  have detached: "irq_inv ?w" "irq_alloc_view ?w = irq_alloc_view w"
      "\<forall>v < nvec (dev w d). pci_irq_vec_server ?w d v = None"
    using detach_all [OF assms order_refl] by auto
  have core: "irq_core ?w' = irq_core ?w" by (intro keepsD kept)
  then have view: "irq_alloc_view ?w' = irq_alloc_view w"
    using detached(2) core_facts [OF core] by (simp add: irq_alloc_view_def)
  then have "mode (dev ?w' d) = mode (dev w d)" "nvec (dev ?w' d) = nvec (dev w d)"
      "slots (dev ?w' d) = slots (dev w d)"
    by (auto simp: irq_alloc_view_def fun_eq_iff)
  then have "snd (run_state (pci_irq_vectors_free P d) w) = freed d ?w'"
    by (simp add: pci_irq_vectors_free_def freed_def case_prod_beta irq_shutdown_def [symmetric])
  moreover have "irq_inv ?w'" using detached(1) irq_core_inv [OF core] by simp
  moreover have "\<forall>v < nvec (dev w d). pci_irq_vec_server ?w' d v = None"
    using detached(3) core_server [OF core] by simp
  ultimately show thesis using view that by blast
qed

lemma vec_server_msi:
  "mode (dev w d) \<noteq> PCI_IRQ_INTX \<Longrightarrow> pci_irq_vec_server w d v = msi_servers (ctl w) (slots (dev w d) v)"
  by (simp add: pci_irq_vec_server_def brcm_msi_slot_server_def)

lemma inv_freed:
  assumes inv: "irq_inv w" and clear: "\<forall>v < nvec (dev w d). pci_irq_vec_server w d v = None"
  shows "irq_inv (freed d w)"
    and "pool_set (msi_used (ctl (freed d w))) = pool_set (msi_used (ctl w)) - set (vec_slots (dev w d))"
    and "s \<in> set (vec_slots (dev w d)) \<Longrightarrow> msi_servers (ctl (freed d w)) s = None"
proof -
  let ?own = "\<lambda>e. vec_slots (dev w e)"
  have ok: "irq_mode_ok (dev w d)" and own: "owned ?own (pool_set (msi_used (ctl w)))"
    using inv by (auto simp: irq_inv_def)
  have released: "(if mode (dev w d) \<noteq> PCI_IRQ_INTX
      then pci_irq_slots_free (msi_used (ctl w)) (map (slots (dev w d)) [0..<nvec (dev w d)])
      else msi_used (ctl w)) = pci_irq_slots_free (msi_used (ctl w)) (?own d)"
    using ok by (auto simp: vec_slots_def irq_mode_ok_def)
  then have used: "msi_used (ctl (freed d w)) = pci_irq_slots_free (msi_used (ctl w)) (?own d)"
    by (auto simp: freed_def)
  have servers: "msi_servers (ctl (freed d w)) = msi_servers (ctl w)" by (simp add: freed_def)
  show unbound: "msi_servers (ctl (freed d w)) s = None" if "s \<in> set (?own d)" for s
    using that clear vec_server_msi [of w d] unfolding servers
    by (fastforce simp: vec_slots_def split: if_splits)
  show pool: "pool_set (msi_used (ctl (freed d w))) = pool_set (msi_used (ctl w)) - set (?own d)"
    by (simp add: used free_used)
  have "owned (?own(d := [])) (pool_set (msi_used (ctl (freed d w))))"
    unfolding used using own by (rule any_pool.release_owned)
  moreover have "?own(d := []) = (\<lambda>e. vec_slots (dev (freed d w) e))"
    by (auto simp: fun_eq_iff freed_def vec_slots_def)
  moreover have "intx_server (dev w d) = None"
    using ok clear by (auto simp: irq_mode_ok_def pci_irq_vec_server_def)
  then have "irq_mode_ok (dev (freed d w) e)" for e
    using inv by (auto simp: freed_def irq_inv_def irq_mode_ok_def)
  ultimately show "irq_inv (freed d w)"
    using inv pool unbound servers by (auto simp: irq_inv_def)
qed

lemma inv_vectors_free [pres]: "preserves irq_inv (pci_irq_vectors_free P d)"
proof (rule preservesI)
  fix w :: "'a world"
  assume "irq_inv w"
  then show "irq_inv (snd (run_state (pci_irq_vectors_free P d) w))"
  proof (rule vectors_free_freed [of w P d])
    fix w' assume "snd (run_state (pci_irq_vectors_free P d) w) = freed d w'" and "irq_inv w'"
      and "irq_alloc_view w' = irq_alloc_view w" and "\<forall>v < nvec (dev w d). pci_irq_vec_server w' d v = None"
    then show ?thesis
      using inv_freed(1) [of w' d] by (simp add: irq_alloc_view_def fun_eq_iff)
  qed
qed

section \<open>The state machine of the interrupt subsystem\<close>

text \<open>
  One step is one call of the front end, one run of the demultiplexer, or a change of the
  hardware on its own.
\<close>

datatype irq_event =
    Alloc dev_id nat nat u32 "errno + nat"
  | Add dev_id nat isr "errno + unit"
  | Rem dev_id nat isr
  | Free dev_id
  | Mask dev_id nat bool
  | Unmask dev_id nat bool
  | Demux u32
  | Hardware

inductive irq_step :: "'h platform \<Rightarrow> 'h world \<Rightarrow> irq_event \<Rightarrow> 'h world \<Rightarrow> bool" for P where
  alloc: "run_state (pci_irq_vectors_alloc P d mn mx fl) w = (r, w') \<Longrightarrow>
     irq_step P w (Alloc d mn mx fl r) w'"
| add: "run_state (pci_irq_add_server P d v i) w = (r, w') \<Longrightarrow> irq_step P w (Add d v i r) w'"
| rem: "run_state (pci_irq_rem_server P d v i) w = (u, w') \<Longrightarrow> irq_step P w (Rem d v i) w'"
| free: "run_state (pci_irq_vectors_free P d) w = (u, w') \<Longrightarrow> irq_step P w (Free d) w'"
| mask: "run_state (pci_irq_vec_mask P d v) w = (ok, w') \<Longrightarrow> irq_step P w (Mask d v ok) w'"
| unmask: "run_state (pci_irq_vec_unmask P d v) w = (ok, w') \<Longrightarrow> irq_step P w (Unmask d v ok) w'"
| demux: "run_state (brcm_msi_demux_isr P) w = (r, w') \<Longrightarrow> irq_step P w (Demux r) w'"
| hardware: "irq_step P w Hardware (w\<lparr>hw := h\<rparr>)"

inductive irq_run :: "'h platform \<Rightarrow> 'h world \<Rightarrow> irq_event list \<Rightarrow> 'h world \<Rightarrow> bool" for P where
  stop: "irq_run P w [] w"
| step: "irq_step P w e w1 \<Longrightarrow> irq_run P w1 es w2 \<Longrightarrow> irq_run P w (e # es) w2"

inductive_cases irq_run_stopE: "irq_run P w [] w'"
inductive_cases irq_run_stepE: "irq_run P w (e # es) w'"
inductive_simps irq_alloc_step: "irq_step P w (Alloc d mn mx fl r) w'"
inductive_simps irq_free_step: "irq_step P w (Free d) w'"

text \<open>After the probe: no slot in use, no server, every device idle.\<close>

definition irq_init :: "'h world \<Rightarrow> bool" where
  "irq_init w \<longleftrightarrow> msi_used (ctl w) = 0 \<and> msi_servers (ctl w) = (\<lambda>_. None) \<and>
     (\<forall>d. mode (dev w d) = 0 \<and> nvec (dev w d) = 0 \<and> intx_server (dev w d) = None)"

lemma irq_init_inv: "irq_init w \<Longrightarrow> irq_inv w"
  by (simp add: irq_init_def irq_inv_def owned_def vec_slots_def pool_set_def irq_mode_ok_def)

lemma inv_demux [pres]: "preserves irq_inv (brcm_msi_demux_isr P)"
  by (intro inv_core kept hwo)

lemma irq_inv_run: "preserves irq_inv m \<Longrightarrow> irq_inv w \<Longrightarrow> run_state m w = (r, w') \<Longrightarrow> irq_inv w'"
  by (rule preserves_run)

lemma irq_step_inv:
  assumes "irq_step P w e w'" and "irq_inv w"
  shows "irq_inv w'"
  using assms(1)
proof (cases rule: irq_step.cases)
  case (hardware h)
  then show ?thesis using assms(2) by (simp add: irq_inv_def)
qed (rule irq_inv_run [OF _ assms(2)], rule pres, assumption)+

lemma irq_run_inv: "irq_run P w es w' \<Longrightarrow> irq_inv w \<Longrightarrow> irq_inv w'"
  by (induction rule: irq_run.induct) (auto dest: irq_step_inv)

section \<open>Concrete states\<close>

definition intx_world :: "ram_hw world" where
  "intx_world = example_world\<lparr>dev := (\<lambda>_. blank_device)(3 := blank_device\<lparr>intx_gic_irq := 175\<rparr>)\<rparr>"

definition open_intx_world :: "ram_hw world" where
  "open_intx_world = example_world\<lparr>dev := (\<lambda>_. blank_device)(3 := blank_device\<lparr>
     intx_gic_irq := 175, mode := PCI_IRQ_INTX, nvec := 1\<rparr>)\<rparr>"

definition msi_world :: "ram_hw world" where
  "msi_world = example_world\<lparr>ctl := (ctl example_world)\<lparr>msi_used := slot_bit 4 OR slot_bit 5\<rparr>,
     dev := (\<lambda>_. blank_device)(3 := blank_device\<lparr>mode := PCI_IRQ_MSI, nvec := 2, slots := (\<lambda>i. 4 + i)\<rparr>)\<rparr>"

lemmas example_defs = example_world_def blank_device_def blank_controller_def

lemma intx_world_init: "irq_init intx_world"
  by (simp add: irq_init_def intx_world_def example_defs)

lemma msi_world_slots: "vec_slots (dev msi_world d) = (if d = 3 then [4, 5] else [])"
  by (simp add: msi_world_def example_defs vec_slots_def upt_rec)

lemma msi_world_inv: "irq_inv msi_world"
proof -
  have pool: "pool_set (msi_used (ctl msi_world)) = {4, 5}"
    by (simp add: msi_world_def pool_set_or pool_set_slot_bit) auto
  have "owned (\<lambda>d. vec_slots (dev msi_world d)) {4, 5}"
    by (auto simp: owned_def msi_world_slots)
  moreover have "irq_mode_ok (dev msi_world d)" for d
    by (simp add: msi_world_def example_defs irq_mode_ok_def)
  moreover have "msi_servers (ctl msi_world) s = None" for s
    by (simp add: msi_world_def example_defs)
  ultimately show ?thesis by (simp add: irq_inv_def pool)
qed

section \<open>Properties\<close>

text \<open>
  C1: in every state reachable from the probed one, by any interleaving of allocations,
  frees, server changes, masking, dispatch and arbitrary hardware behaviour, no demux slot
  belongs to two devices, the bitmap marks exactly the owned slots, and a server is bound
  only to a slot that some device owns.
\<close>

theorem irq_reachable_safe:
  assumes "irq_init w" and "irq_run P w es w'"
  shows "(\<forall>d e. d \<noteq> e \<longrightarrow> set (vec_slots (dev w' d)) \<inter> set (vec_slots (dev w' e)) = {}) \<and>
    pool_set (msi_used (ctl w')) = (\<Union>d. set (vec_slots (dev w' d))) \<and>
    (\<forall>s. msi_servers (ctl w') s \<noteq> None \<longrightarrow> (\<exists>!d. s \<in> set (vec_slots (dev w' d))))"
proof -
  have inv: "irq_inv w'" using irq_run_inv [OF assms(2) irq_init_inv [OF assms(1)]] .
  then have "\<forall>d e. d \<noteq> e \<longrightarrow> set (vec_slots (dev w' d)) \<inter> set (vec_slots (dev w' e)) = {}"
    and "pool_set (msi_used (ctl w')) = (\<Union>d. set (vec_slots (dev w' d)))"
    by (auto simp: irq_inv_def owned_def)
  moreover have "\<forall>s. msi_servers (ctl w') s \<noteq> None \<longrightarrow> s \<in> pool_set (msi_used (ctl w'))"
    using inv by (simp add: irq_inv_def)
  ultimately show ?thesis by (simp, blast)
qed

theorem irq_reachable_safe_witness:
  "\<exists>w'. irq_run ram_platform intx_world
       [Alloc 3 1 1 PCI_IRQ_INTX (Inr 1), Hardware, Free 3] w' \<and>
     pool_set (msi_used (ctl w')) = (\<Union>d. set (vec_slots (dev w' d)))"
proof -
  let ?m = "pci_irq_vectors_alloc ram_platform 3 1 1 PCI_IRQ_INTX"
  let ?w = "snd (run_state ?m intx_world)"
  have "fst (run_state ?m intx_world) = Inr 1"
    by (simp add: pci_irq_vectors_alloc_def vec_lo_def vec_hi_def try_msix_def try_msi_def try_intx_def
        positive_def pci_intx_alloc_def commit_vectors_def intx_world_def example_defs)
  then have "irq_step ram_platform intx_world (Alloc 3 1 1 PCI_IRQ_INTX (Inr 1)) ?w"
    by (intro irq_step.alloc) (metis surjective_pairing)
  moreover have "irq_step ram_platform ?w Hardware (?w\<lparr>hw := ram_init\<rparr>)"
    by (rule irq_step.hardware)
  moreover have "irq_step ram_platform (?w\<lparr>hw := ram_init\<rparr>) (Free 3)
      (snd (run_state (pci_irq_vectors_free ram_platform 3) (?w\<lparr>hw := ram_init\<rparr>)))"
    by (rule irq_step.free [OF surjective_pairing])
  ultimately have "irq_run ram_platform intx_world [Alloc 3 1 1 PCI_IRQ_INTX (Inr 1), Hardware, Free 3]
      (snd (run_state (pci_irq_vectors_free ram_platform 3) (?w\<lparr>hw := ram_init\<rparr>)))"
    by (blast intro: irq_run.intros)
  then show ?thesis
    using irq_reachable_safe [OF intx_world_init] by blast
qed

text \<open>
  C9: a successful allocation returns a count between the clamped bounds, puts an idle
  device into an interrupt type the caller allowed with that many vectors, and keeps the
  ownership invariant; a failed one leaves the device idle; a device that already has
  vectors is refused with \<open>EBUSY\<close> and an empty range with \<open>ERANGE\<close>, the state untouched.
\<close>

theorem vectors_alloc_spec:
  assumes "irq_inv w"
  shows "case run_state (pci_irq_vectors_alloc P d mn mx fl) w of
      (Inr n, w') \<Rightarrow> mode (dev w d) = 0 \<and> max 1 mn \<le> n \<and> n \<le> min mx MSI_MAX_VECTORS \<and>
        nvec (dev w' d) = n \<and> mode (dev w' d) AND fl \<noteq> 0 \<and> irq_inv w'
    | (Inl e, w') \<Rightarrow> irq_inv w' \<and>
        (mode (dev w d) \<noteq> 0 \<longrightarrow> e = EBUSY \<and> w' = w) \<and>
        (mode (dev w d) = 0 \<longrightarrow> mode (dev w' d) = 0) \<and>
        (mode (dev w d) = 0 \<and> min mx MSI_MAX_VECTORS < max 1 mn \<longrightarrow> e = ERANGE \<and> w' = w)"
proof -
  have bounds: "vec_lo mn = max 1 mn" "vec_hi mx = min mx 32" by (auto simp: vec_lo_def vec_hi_def)
  obtain r w' where run: "run_state (pci_irq_vectors_alloc P d mn mx fl) w = (r, w')"
    by fastforce
  show ?thesis
  proof (cases "mode (dev w d) \<noteq> 0 \<or> vec_hi mx < vec_lo mn")
    case True
    then show ?thesis using assms bounds by (auto simp: vectors_alloc_refused)
  next
    case False
    then have "vectors_post d (vec_lo mn) (vec_hi mx) fl (r, w')"
      using vectors_alloc_post [OF assms, of d mn mx fl P] by (simp add: run)
    then show ?thesis
      unfolding run using False by (cases r) (auto simp add: vectors_post_def bounds not_less)
  qed
qed

theorem vectors_alloc_spec_witness:
  "case run_state (pci_irq_vectors_alloc ram_platform 3 0 4 PCI_IRQ_ALL_TYPES) msi_world of
      (Inr n, w') \<Rightarrow> False
    | (Inl e, w') \<Rightarrow> e = EBUSY \<and> w' = msi_world"
  using vectors_alloc_spec [OF msi_world_inv, where P = ram_platform and d = 3 and mn = 0 and mx = 4
      and fl = PCI_IRQ_ALL_TYPES]
  by (simp add: msi_world_def example_defs split: prod.splits sum.splits)

text \<open>
  C10: freeing a device's vectors returns exactly its slots to the pool, leaves none of
  them with a server, and leaves the device idle and the slots of the others alone.
\<close>

theorem vectors_free_releases:
  assumes "irq_inv w" and "run_state (pci_irq_vectors_free P d) w = (u, w')"
  shows "pool_set (msi_used (ctl w')) = pool_set (msi_used (ctl w)) - set (vec_slots (dev w d)) \<and>
    (\<forall>s \<in> set (vec_slots (dev w d)). msi_servers (ctl w') s = None) \<and>
    mode (dev w' d) = 0 \<and> nvec (dev w' d) = 0 \<and> intx_server (dev w' d) = None \<and>
    (\<forall>e. e \<noteq> d \<longrightarrow> vec_slots (dev w' e) = vec_slots (dev w e))"
proof (rule vectors_free_freed [OF assms(1), of P d])
  fix x
  assume x: "snd (run_state (pci_irq_vectors_free P d) w) = freed d x" "irq_inv x"
    "irq_alloc_view x = irq_alloc_view w" "\<forall>v < nvec (dev w d). pci_irq_vec_server x d v = None"
  have view: "msi_used (ctl x) = msi_used (ctl w)" "mode (dev x e) = mode (dev w e)"
      "nvec (dev x e) = nvec (dev w e)" "slots (dev x e) = slots (dev w e)" for e
    using x(3) by (auto simp: irq_alloc_view_def fun_eq_iff)
  then have slots: "vec_slots (dev x e) = vec_slots (dev w e)" for e by (simp add: vec_slots_def)
  have clear: "\<forall>v < nvec (dev x d). pci_irq_vec_server x d v = None" using x(4) view by simp
  have w': "w' = freed d x" using assms(2) x(1) by simp
  have "intx_server (dev w' d) = None"
    using inv_freed(1) [OF x(2) clear] w' irq_inv_idle [of w' d] by (simp add: freed_def)
  then show ?thesis
    using inv_freed [OF x(2) clear] w' view slots by (auto simp: freed_def)
qed

theorem vectors_free_releases_witness:
  "pool_set (msi_used (ctl (snd (run_state (pci_irq_vectors_free ram_platform 3) msi_world)))) =
     pool_set (msi_used (ctl msi_world)) - set (vec_slots (dev msi_world 3))"
  by (rule vectors_free_releases [OF msi_world_inv surjective_pairing, THEN conjunct1])

lemma add_server_attaches:
  assumes "run_state (pci_irq_add_server P d v i) w = (Ok, w')"
  shows "pci_irq_vec_server w' d v = Some i \<and> v < nvec (dev w' d)"
proof -
  have guard: "v < nvec (dev w d)" "pci_irq_vec_server w d v = None"
    using assms by (auto simp: pci_irq_add_server_def split: if_splits)
  show ?thesis
  proof (cases "mode (dev w d) = PCI_IRQ_INTX")
    case True
    obtain r w1 where r: "run_state (brcm_intx_add_server P d i) w = (r, w1)" by fastforce
    have core: "irq_core w1 = irq_core w" by (rule keeps_run [OF _ r]) (intro kept hwo)
    let ?w = "w1\<lparr>dev := (dev w1)(d := (dev w1 d)\<lparr>intx_server := Some i\<rparr>)\<rparr>"
    have "run_state (pci_irq_add_server P d v i) w =
        (if r \<noteq> Ok then (r, w1) else (Ok, snd (run_state (pci_intx P d True) ?w)))"
      using guard True r by (simp add: pci_irq_add_server_def case_prod_beta)
    then have "w' = snd (run_state (pci_intx P d True) ?w)"
      using assms by (simp split: if_splits)
    then have "irq_core w' = irq_core ?w" by (simp only: keepsD [OF core_hw [OF hw_only_intx]])
    then show ?thesis
      using core_server [of w' ?w] core_facts [of w' ?w] core_facts [OF core] guard True
      by (simp add: pci_irq_vec_server_def)
  next
    case False
    let ?w = "snd (run_state (brcm_msi_slot_bind P (slots (dev w d) v) i) w)"
    have "run_state (pci_irq_add_server P d v i) w = (Ok, snd (run_state (pci_irq_vec_open P d v) ?w))"
      using guard False by (simp add: pci_irq_add_server_def case_prod_beta)
    then have "w' = snd (run_state (pci_irq_vec_open P d v) ?w)"
      using assms by simp
    then have "irq_core w' = irq_core ?w" by (simp only: keepsD [OF core_gates(1)])
    then show ?thesis
      using core_server [of w' ?w] core_facts [of w' ?w] guard False
      by (simp add: brcm_msi_slot_bind_def mmio_defs vec_server_msi)
  qed
qed

text \<open>
  A vector takes one server: attaching a second one fails with \<open>EBUSY\<close> and changes
  nothing.
\<close>

theorem add_server_exclusive:
  assumes "run_state (pci_irq_add_server P d v i) w = (Ok, w')"
  shows "pci_irq_vec_server w' d v = Some i \<and>
    run_state (pci_irq_add_server P d v j) w' = (Inl EBUSY, w')"
  using add_server_attaches [OF assms] by (auto simp: pci_irq_add_server_def)

theorem add_server_exclusive_witness:
  "pci_irq_vec_server (snd (run_state (pci_irq_add_server ram_platform 3 0 77) open_intx_world)) 3 0 = Some 77"
proof (rule add_server_exclusive [THEN conjunct1])
  show "run_state (pci_irq_add_server ram_platform 3 0 77) open_intx_world =
      (Ok, snd (run_state (pci_irq_add_server ram_platform 3 0 77) open_intx_world))"
    by (simp add: pci_irq_add_server_def open_intx_world_def example_defs pci_irq_vec_server_def
        brcm_intx_add_server_def brcm_gic_add_server_def ram_platform_def ram_add_line_def
        ram_init_def case_prod_beta)
qed

end
