(* ===== verification/Pci_Bar.thy ===== *)
theory Pci_Bar
  imports Pci_Config
begin

text \<open>
  Address translation (\<open>pci_bar.c\<close>): between PCI bus addresses, CPU physical addresses and
  CPU virtual addresses, through the regions of the controller and its MMIO window.  The
  functions only read the controller.  A \<open>for\<close> loop over the regions is a recursion on
  their list; the constant results for a controller without regions are the code's.
\<close>

section \<open>pci_bar.c\<close>

fun bus_to_phys_loop :: "pci_region list \<Rightarrow> u32 \<Rightarrow> u64 \<Rightarrow> u32 \<Rightarrow> u32 \<Rightarrow> u64" where
  "bus_to_phys_loop [] a len msk fl = 0"
| "bus_to_phys_loop (res # rs) a len msk fl =
     (if flags res AND msk \<noteq> fl then bus_to_phys_loop rs a len msk fl
      else if a < bus_start res then bus_to_phys_loop rs a len msk fl
      else let offset = a - bus_start res in
        if offset \<ge> region_size res then bus_to_phys_loop rs a len msk fl
        else if len > ucast (region_size res - offset) then bus_to_phys_loop rs a len msk fl
        else phys_start res + ucast offset)"

definition pci_bus_to_phys :: "pci_controller \<Rightarrow> u32 \<Rightarrow> u64 \<Rightarrow> u32 \<Rightarrow> u32 \<Rightarrow> u64" where
  "pci_bus_to_phys c a len msk fl =
     (if regions c = [] then ucast a else bus_to_phys_loop (regions c) a len msk fl)"

fun phys_to_bus_loop :: "pci_region list \<Rightarrow> u64 \<Rightarrow> u64 \<Rightarrow> u32 \<Rightarrow> u32 \<Rightarrow> u32" where
  "phys_to_bus_loop [] p len msk fl = 0"
| "phys_to_bus_loop (res # rs) p len msk fl =
     (if flags res AND msk \<noteq> fl then phys_to_bus_loop rs p len msk fl
      else if p < phys_start res then phys_to_bus_loop rs p len msk fl
      else let offset = p - phys_start res in
        if offset \<ge> ucast (region_size res) then phys_to_bus_loop rs p len msk fl
        else if len > ucast (region_size res) - offset then phys_to_bus_loop rs p len msk fl
        else ucast (ucast (bus_start res) + offset))"

definition pci_phys_to_bus :: "pci_controller \<Rightarrow> u64 \<Rightarrow> u64 \<Rightarrow> u32 \<Rightarrow> u32 \<Rightarrow> u32" where
  "pci_phys_to_bus c p len msk fl =
     (if regions c = [] then ucast p else phys_to_bus_loop (regions c) p len msk fl)"

definition pci_bus_to_virt :: "pci_controller \<Rightarrow> u32 \<Rightarrow> u64 \<Rightarrow> u32 \<Rightarrow> u32 \<Rightarrow> u32" where
  "pci_bus_to_virt c a len msk fl =
     (let phys = pci_bus_to_phys c a len msk fl in
      if phys = 0 then 0
      else if phys < mmio_window_phys c \<or> phys \<ge> mmio_window_phys c + mmio_window_size c then 0
      else if phys + len > mmio_window_phys c + mmio_window_size c then 0
      else mmio_window_virtual c + ucast (phys - mmio_window_phys c))"

definition pci_virt_to_bus :: "pci_controller \<Rightarrow> u32 \<Rightarrow> u64 \<Rightarrow> u32 \<Rightarrow> u32 \<Rightarrow> u32" where
  "pci_virt_to_bus c v len msk fl =
     (if v < mmio_window_virtual c \<or> v \<ge> mmio_window_virtual c + ucast (mmio_window_size c) then 0
      else pci_phys_to_bus c (mmio_window_phys c + ucast (v - mmio_window_virtual c)) len msk fl)"

section \<open>What a translation through a region means\<close>

text \<open>
  \<open>bus_covers r a n\<close>: the \<open>n\<close> bytes from bus address \<open>a\<close> lie in region \<open>r\<close>; \<open>phys_covers\<close>
  the same for physical addresses.  Both are stated on numbers, where nothing wraps.
\<close>

definition bus_covers :: "pci_region \<Rightarrow> nat \<Rightarrow> nat \<Rightarrow> bool" where
  "bus_covers r a n \<longleftrightarrow> unat (bus_start r) \<le> a \<and> a < unat (bus_start r) + unat (region_size r) \<and>
     a + n \<le> unat (bus_start r) + unat (region_size r)"

definition phys_covers :: "pci_region \<Rightarrow> nat \<Rightarrow> nat \<Rightarrow> bool" where
  "phys_covers r p n \<longleftrightarrow> unat (phys_start r) \<le> p \<and> p < unat (phys_start r) + unat (region_size r) \<and>
     p + n \<le> unat (phys_start r) + unat (region_size r)"

definition region_bounded :: "pci_region \<Rightarrow> bool" where
  "region_bounded r \<longleftrightarrow> unat (bus_start r) + unat (region_size r) \<le> 2 ^ 32 \<and>
     unat (phys_start r) + unat (region_size r) < 2 ^ 64"

definition phys_disjoint :: "pci_region \<Rightarrow> pci_region \<Rightarrow> bool" where
  "phys_disjoint r s \<longleftrightarrow>
     unat (phys_start r) + unat (region_size r) \<le> unat (phys_start s) \<or>
     unat (phys_start s) + unat (region_size s) \<le> unat (phys_start r)"

text \<open>The regions a request selects do not wrap and do not share physical memory.\<close>

fun regions_ok :: "pci_region list \<Rightarrow> u32 \<Rightarrow> u32 \<Rightarrow> bool" where
  "regions_ok [] msk fl = True"
| "regions_ok (r # rs) msk fl =
     ((flags r AND msk = fl \<longrightarrow> region_bounded r \<and>
         list_all (\<lambda>s. flags s AND msk = fl \<longrightarrow> phys_disjoint r s) rs) \<and>
      regions_ok rs msk fl)"

definition window_ok :: "pci_controller \<Rightarrow> bool" where
  "window_ok c \<longleftrightarrow> 0 < mmio_window_virtual c \<and>
     unat (mmio_window_virtual c) + unat (mmio_window_size c) < 2 ^ 32 \<and>
     unat (mmio_window_phys c) + unat (mmio_window_size c) < 2 ^ 64"

section \<open>Arithmetic of the guards\<close>

lemma bus_guard:
  "(bus_start r \<le> a \<and> a - bus_start r < region_size r \<and>
      len \<le> (ucast (region_size r - (a - bus_start r)) :: u64)) \<longleftrightarrow>
     bus_covers r (unat a) (unat len)"
  by (auto simp: bus_covers_def word_le_nat_alt word_less_nat_alt unat_ucast_up unat_sub)

lemma phys_guard:
  "(phys_start r \<le> p \<and> p - phys_start r < ucast (region_size r) \<and>
      len \<le> ucast (region_size r) - (p - phys_start r)) \<longleftrightarrow>
     phys_covers r (unat p) (unat len)"
  by (auto simp: phys_covers_def word_le_nat_alt word_less_nat_alt unat_ucast_up unat_sub)

lemma bus_to_phys_step:
  "bus_to_phys_loop (r # rs) a len msk fl =
     (if flags r AND msk = fl \<and> bus_covers r (unat a) (unat len)
      then phys_start r + ucast (a - bus_start r) else bus_to_phys_loop rs a len msk fl)"
  by (auto simp: bus_guard [symmetric] Let_def not_less not_le)

lemma phys_to_bus_step:
  "phys_to_bus_loop (r # rs) p len msk fl =
     (if flags r AND msk = fl \<and> phys_covers r (unat p) (unat len)
      then ucast (ucast (bus_start r) + (p - phys_start r)) else phys_to_bus_loop rs p len msk fl)"
  by (auto simp: phys_guard [symmetric] Let_def not_less not_le)

declare bus_to_phys_loop.simps(2) [simp del] phys_to_bus_loop.simps(2) [simp del]

lemma unat_phys_of_bus:
  assumes "region_bounded r" and "bus_covers r (unat a) n"
  shows "unat (phys_start r + ucast (a - bus_start r)) =
      unat (phys_start r) + (unat a - unat (bus_start r))"
proof -
  have "unat (ucast (a - bus_start r) :: u64) = unat a - unat (bus_start r)"
    using assms(2) by (simp add: bus_covers_def unat_ucast_up unat_sub word_le_nat_alt)
  with assms show ?thesis
    by (subst unat_add_lem [THEN iffD1]) (auto simp: region_bounded_def bus_covers_def)
qed

lemma bus_of_phys_of_bus:
  assumes "bus_start r \<le> a"
  shows "ucast (ucast (bus_start r) + ucast (a - bus_start r) :: u64) = a"
proof -
  have "unat (ucast (bus_start r) + ucast (a - bus_start r) :: u64) = unat a"
    using assms unsigned_less [of a, where ?'a = nat]
    by (subst unat_add_lem [THEN iffD1]) (auto simp: unat_ucast_up unat_sub word_le_nat_alt)
  moreover have "unat a < 2 ^ 32"
    using unsigned_less [of a, where ?'a = nat] by simp
  ultimately show ?thesis
    by (intro word_unat_eq_iff [THEN iffD2]) (simp add: unat_ucast_down)
qed

lemma bus_to_phys_cases:
  assumes "bus_to_phys_loop rs a len msk fl = p" and "p \<noteq> 0"
  obtains r where "r \<in> set rs" and "flags r AND msk = fl" and "bus_covers r (unat a) (unat len)"
    and "p = phys_start r + ucast (a - bus_start r)"
  using assms by (induction rs) (auto simp: bus_to_phys_step split: if_splits)

lemma regions_okD: "regions_ok rs msk fl \<Longrightarrow> r \<in> set rs \<Longrightarrow> flags r AND msk = fl \<Longrightarrow> region_bounded r"
  by (induction rs) auto

lemma phys_covers_of_bus:
  "region_bounded r \<Longrightarrow> bus_covers r (unat a) n \<Longrightarrow>
     phys_covers r (unat (phys_start r + ucast (a - bus_start r))) n"
  by (auto simp: unat_phys_of_bus phys_covers_def bus_covers_def)

lemma phys_disjoint_covers:
  "phys_disjoint r s \<Longrightarrow> phys_covers s p n \<Longrightarrow> \<not> phys_covers r p m"
  by (auto simp: phys_disjoint_def phys_covers_def)

lemma loop_roundtrip:
  assumes "regions_ok rs msk fl" and "bus_to_phys_loop rs a len msk fl = p" and "p \<noteq> 0"
  shows "phys_to_bus_loop rs p len msk fl = a"
  using assms
proof (induction rs)
  case (Cons r rs)
  show ?case
  proof (cases "flags r AND msk = fl \<and> bus_covers r (unat a) (unat len)")
    case True
    then have "bus_start r \<le> a" and "phys_covers r (unat p) (unat len)"
      using Cons.prems phys_covers_of_bus
      by (auto simp: bus_to_phys_step bus_covers_def word_le_nat_alt)
    with True Cons.prems show ?thesis
      by (auto simp: bus_to_phys_step phys_to_bus_step bus_of_phys_of_bus)
  next
    case False
    then have rest: "bus_to_phys_loop rs a len msk fl = p"
      using Cons.prems(2) by (auto simp: bus_to_phys_step)
    obtain s where s: "s \<in> set rs" "flags s AND msk = fl" "bus_covers s (unat a) (unat len)"
        "p = phys_start s + ucast (a - bus_start s)"
      using rest Cons.prems(3) by (rule bus_to_phys_cases)
    with Cons.prems(1) have "phys_covers s (unat p) (unat len)"
      using phys_covers_of_bus regions_okD by fastforce
    with s Cons.prems(1) have "\<not> (flags r AND msk = fl \<and> phys_covers r (unat p) (unat len))"
      by (auto simp: list_all_iff dest: phys_disjoint_covers)
    with rest Cons show ?thesis by (auto simp: phys_to_bus_step)
  qed
qed simp

lemma unat_window_end:
  "window_ok c \<Longrightarrow> unat (mmio_window_phys c + mmio_window_size c) =
     unat (mmio_window_phys c) + unat (mmio_window_size c)"
  by (subst unat_add_lem [THEN iffD1]) (simp_all add: window_ok_def)

lemma bus_to_virt_phys:
  assumes "window_ok c" and "regions_ok (regions c) msk fl" and "regions c \<noteq> []"
    and "pci_bus_to_virt c a len msk fl = v" and "v \<noteq> 0"
  obtains p where "pci_bus_to_phys c a len msk fl = p" and "p \<noteq> 0"
    and "v = mmio_window_virtual c + ucast (p - mmio_window_phys c)"
    and "unat (mmio_window_phys c) \<le> unat p"
    and "unat p < unat (mmio_window_phys c) + unat (mmio_window_size c)"
    and "unat p + unat len \<le> unat (mmio_window_phys c) + unat (mmio_window_size c)"
proof -
  define p where "p = pci_bus_to_phys c a len msk fl"
  have guards: "p \<noteq> 0" "mmio_window_phys c \<le> p" "p < mmio_window_phys c + mmio_window_size c"
      "p + len \<le> mmio_window_phys c + mmio_window_size c"
      "v = mmio_window_virtual c + ucast (p - mmio_window_phys c)"
    using assms(4,5) by (auto simp: pci_bus_to_virt_def p_def Let_def not_le not_less split: if_splits)
  obtain r where r: "r \<in> set (regions c)" "flags r AND msk = fl" "bus_covers r (unat a) (unat len)"
      "p = phys_start r + ucast (a - bus_start r)"
    using bus_to_phys_cases [of "regions c" a len msk fl p] guards(1) assms(3)
    by (auto simp: p_def pci_bus_to_phys_def)
  then have "phys_covers r (unat p) (unat len)" and "region_bounded r"
    using assms(2) phys_covers_of_bus regions_okD by fastforce+
  then have "unat (p + len) = unat p + unat len"
    by (subst unat_add_lem [THEN iffD1]) (auto simp: phys_covers_def region_bounded_def)
  with guards show thesis
    using unat_window_end [OF assms(1)] that [OF p_def [symmetric]]
    by (simp add: word_le_nat_alt word_less_nat_alt)
qed

lemma unat_virt_of_phys:
  assumes "window_ok c" and "unat (mmio_window_phys c) \<le> unat p"
    and "unat p < unat (mmio_window_phys c) + unat (mmio_window_size c)"
  shows "unat (ucast (p - mmio_window_phys c) :: u32) = unat p - unat (mmio_window_phys c)"
    and "unat (mmio_window_virtual c + ucast (p - mmio_window_phys c)) =
      unat (mmio_window_virtual c) + (unat p - unat (mmio_window_phys c))"
proof -
  show 1: "unat (ucast (p - mmio_window_phys c) :: u32) = unat p - unat (mmio_window_phys c)"
    using assms by (auto simp: unat_ucast_down unat_sub word_le_nat_alt window_ok_def)
  then show "unat (mmio_window_virtual c + ucast (p - mmio_window_phys c)) =
      unat (mmio_window_virtual c) + (unat p - unat (mmio_window_phys c))"
    using assms by (subst unat_add_lem [THEN iffD1]) (auto simp: window_ok_def)
qed

lemma phys_of_virt_of_phys:
  assumes "window_ok c" and "unat (mmio_window_phys c) \<le> unat p"
    and "unat p < unat (mmio_window_phys c) + unat (mmio_window_size c)"
  shows "mmio_window_phys c + ucast (ucast (p - mmio_window_phys c) :: u32) = p"
proof -
  have "ucast (ucast (p - mmio_window_phys c) :: u32) = p - mmio_window_phys c"
    using unat_virt_of_phys(1) [OF assms] assms(2)
    by (intro word_unat_eq_iff [THEN iffD2]) (simp add: unat_ucast_up unat_sub word_le_nat_alt)
  then show ?thesis by simp
qed

section \<open>Properties\<close>

text \<open>
  C15: a non-null result of \<open>pci_bus_to_phys\<close> translates back: when the regions the
  mask selects neither wrap nor share physical memory, \<open>pci_phys_to_bus\<close> of the result with
  the same length and flags is the bus address again.
\<close>

theorem bus_to_phys_roundtrip:
  assumes "regions_ok (regions c) msk fl" and "regions c \<noteq> []"
    and "pci_bus_to_phys c a len msk fl = p" and "p \<noteq> 0"
  shows "pci_phys_to_bus c p len msk fl = a"
  using assms by (auto simp: pci_bus_to_phys_def pci_phys_to_bus_def intro: loop_roundtrip)

definition example_ctl :: pci_controller where
  "example_ctl = blank_controller\<lparr>
     mmio_window_phys := 0x600000000, mmio_window_virtual := 0x60000000,
     mmio_window_size := 0x40000000,
     regions := [\<lparr>bus_start = 0xC0000000, phys_start = 0x600000000, region_size = 0x40000000,
                    flags = PCI_REGION_MEM, bus_lower = 0\<rparr>,
                 \<lparr>bus_start = 0, phys_start = 0, region_size = 0x80000000,
                    flags = PCI_REGION_MEM OR PCI_REGION_SYS_MEMORY, bus_lower = 0\<rparr>]\<rparr>"

theorem bus_to_phys_roundtrip_witness:
  "pci_phys_to_bus example_ctl 0x600100000 4096 PCI_REGION_TYPE PCI_REGION_MEM = 0xC0100000"
  by (rule bus_to_phys_roundtrip)
    (simp_all add: example_ctl_def blank_controller_def region_bounded_def phys_disjoint_def
      pci_bus_to_phys_def Let_def bus_to_phys_loop.simps)



end
