(* ===== verification/Lib_Base.thy ===== *)
theory Lib_Base
  imports Pci_Irq Pci_Capability Pci_Bar
begin

text \<open>
  The state of \<open>bcmpcie.library\<close> around the PCI core: the library base (\<open>pcie_private.h\<close>),
  the public \<open>pci_dev\<close> nodes (\<open>libraries/openpci.h\<close>) and the calls into the system.

  The core keeps its own state, \<open>core\<close>; \<open>core_do m\<close> runs a function of the core inside the
  library.  A \<open>struct pci_dev *\<close> is \<open>None\<close> for \<open>NULL\<close> or the number of the node in the store
  \<open>pdevs\<close>; the nodes are chained through \<open>pd_next\<close> and \<open>pd_pred\<close> as in the code.  A task is
  its address, \<open>0\<close> is no task.  \<open>semaphore\<close> is how often the running call holds
  \<open>base->semaphore\<close>: the semaphore makes each call one step, and the depth shows that every
  obtain is paired.  \<open>client\<close> holds the longwords the clients own, by their address.
\<close>

section \<open>The public structures\<close>

type_synonym pdev_id = nat
type_synonym task = u32

record pci_dev =
  pd_next :: "pdev_id option"
  pd_pred :: "pdev_id option"
  pd_devfn :: u8
  pd_vendor :: u16
  pd_device :: u16
  pd_devclass :: u32
  pd_master :: u16
  pd_irq :: u32
  pd_base_address :: "nat \<Rightarrow> u32"  \<comment> \<open>six entries\<close>
  pd_base_size :: "nat \<Rightarrow> u32"  \<comment> \<open>six entries\<close>
  pd_rom_address :: u32
  pd_rom_size :: u32
  pd_reserved :: dev_id
  pd_legacy_io :: u32
  pd_owner :: task

definition blank_pdev :: pci_dev where
  "blank_pdev = \<lparr>pd_next = None, pd_pred = None, pd_devfn = 0, pd_vendor = 0, pd_device = 0,
     pd_devclass = 0, pd_master = 0, pd_irq = 0, pd_base_address = (\<lambda>_. 0), pd_base_size = (\<lambda>_. 0),
     pd_rom_address = 0, pd_rom_size = 0, pd_reserved = 0, pd_legacy_io = 0, pd_owner = 0\<rparr>"

datatype pcie_error = PCIE_OK | PCIE_ERR_INVAL | PCIE_ERR_BUSY | PCIE_ERR_NODEV | PCIE_ERR_NOTSUPP
  | PCIE_ERR_NOMEM | PCIE_ERR_IO

text \<open>The numbers of the enumeration: what a \<open>LONG\<close> result carries.\<close>

primrec error_code :: "pcie_error \<Rightarrow> int" where
  "error_code PCIE_OK = 0"
| "error_code PCIE_ERR_INVAL = - 1"
| "error_code PCIE_ERR_BUSY = - 2"
| "error_code PCIE_ERR_NODEV = - 3"
| "error_code PCIE_ERR_NOTSUPP = - 4"
| "error_code PCIE_ERR_NOMEM = - 5"
| "error_code PCIE_ERR_IO = - 6"

text \<open>The errors are ordered by their numbers, as the clients' comparisons read them.\<close>

instantiation pcie_error :: linorder
begin

definition less_eq_pcie_error :: "pcie_error \<Rightarrow> pcie_error \<Rightarrow> bool" where
  "less_eq_pcie_error x y \<longleftrightarrow> error_code x \<le> error_code y"

definition less_pcie_error :: "pcie_error \<Rightarrow> pcie_error \<Rightarrow> bool" where
  "less_pcie_error x y \<longleftrightarrow> error_code x < error_code y"

instance
proof
  fix x y :: pcie_error
  show "x \<le> y \<Longrightarrow> y \<le> x \<Longrightarrow> x = y"
    by (cases x; cases y) (simp_all add: less_eq_pcie_error_def)
qed (auto simp: less_eq_pcie_error_def less_pcie_error_def)

end

lemma error_negative: "x \<noteq> PCIE_OK \<Longrightarrow> error_code x < 0"
  by (cases x) simp_all

section \<open>The services of the system\<close>

record 'h services =
  copy_mem :: "u32 \<Rightarrow> u32 \<Rightarrow> u32 \<Rightarrow> 'h \<Rightarrow> 'h"  \<comment> \<open>source, destination, size\<close>
  dma_create :: "'h \<Rightarrow> u32 \<times> 'h"  \<comment> \<open>\<open>dma_mem_init\<close> and \<open>dma_pool_create\<close>; \<open>0\<close> is \<open>NULL\<close>\<close>
  dma_delete :: "u32 \<Rightarrow> 'h \<Rightarrow> 'h"
  dma_zalloc :: "u32 \<Rightarrow> u32 \<Rightarrow> u32 \<Rightarrow> 'h \<Rightarrow> u32 \<times> 'h"  \<comment> \<open>pool, alignment, size\<close>
  dma_free :: "u32 \<Rightarrow> u32 \<Rightarrow> 'h \<Rightarrow> 'h"  \<comment> \<open>pool, buffer\<close>
  DMA_ALIGN_MIN :: u32

section \<open>The library base\<close>

record 'h lib =
  core :: "'h world"
  seg_list :: u32
  semaphore :: nat
  ctrl :: bool  \<comment> \<open>\<open>ctrl\<close> is not \<open>NULL\<close>\<close>
  root_bus :: "bus_id option"
  dev_list_head :: "pdev_id option"
  ctrl_ready :: bool
  dma_pool :: u32
  open_cnt :: u16
  delexp :: bool  \<comment> \<open>\<open>LIBF_DELEXP\<close> in \<open>lib_Flags\<close>\<close>
  in_lib_list :: bool  \<comment> \<open>in Exec's library list, the base not freed\<close>
  pdevs :: "pdev_id \<Rightarrow> pci_dev"
  next_pdev :: pdev_id
  client :: "u32 \<Rightarrow> u32"

abbreviation get_lib :: "('h lib \<Rightarrow> 'a) \<Rightarrow> ('h lib, 'a) state" where
  "get_lib f \<equiv> fetch f"

definition core_do :: "('h world, 'a) state \<Rightarrow> ('h lib, 'a) state" where
  "core_do m = State (\<lambda>b. (fst (run_state m (core b)), b\<lparr>core := snd (run_state m (core b))\<rparr>))"

definition set_pdev :: "pdev_id \<Rightarrow> (pci_dev \<Rightarrow> pci_dev) \<Rightarrow> ('h lib, unit) state" where
  "set_pdev p f = modify (\<lambda>b. b\<lparr>pdevs := (pdevs b)(p := f (pdevs b p))\<rparr>)"

definition obtain_semaphore :: "('h lib, unit) state" where
  "obtain_semaphore = modify (\<lambda>b. b\<lparr>semaphore := Suc (semaphore b)\<rparr>)"

definition release_semaphore :: "('h lib, unit) state" where
  "release_semaphore = modify (\<lambda>b. b\<lparr>semaphore := semaphore b - 1\<rparr>)"

text \<open>The body of a call that runs under the semaphore.\<close>

definition locked :: "('h lib, 'a) state \<Rightarrow> ('h lib, 'a) state" where
  "locked m = do { obtain_semaphore; r \<leftarrow> m; release_semaphore; done_with r }"

definition pcie_dev_from_openpci :: "'h lib \<Rightarrow> pdev_id \<Rightarrow> dev_id" where
  "pcie_dev_from_openpci b p = pd_reserved (pdevs b p)"

lemma run_core_do [simp]:
  "run_state (core_do m) b = (fst (run_state m (core b)), b\<lparr>core := snd (run_state m (core b))\<rparr>)"
  by (simp add: core_do_def)

lemma run_set_pdev [simp]: "run_state (set_pdev p f) b = ((), b\<lparr>pdevs := (pdevs b)(p := f (pdevs b p))\<rparr>)"
  by (simp add: set_pdev_def)

lemma run_locked:
  "run_state (locked m) b =
     (let (r, b') = run_state m (b\<lparr>semaphore := Suc (semaphore b)\<rparr>) in
      (r, b'\<lparr>semaphore := semaphore b' - 1\<rparr>))"
  by (simp add: locked_def obtain_semaphore_def release_semaphore_def case_prod_beta Let_def)

section \<open>Calls that leave the base in order\<close>

text \<open>
  \<open>base_view\<close>: what only the life of the library changes: the base, the depth of the
  semaphore and the links of the public list.  \<open>tame m\<close>: \<open>m\<close> changes nothing of it, so it
  releases the semaphore as often as it obtains it, and it keeps the invariant of the
  interrupts.
\<close>

definition base_view :: "'h lib \<Rightarrow> _" where
  "base_view b = (ctrl b, root_bus b, dev_list_head b, ctrl_ready b, dma_pool b, open_cnt b, delexp b, in_lib_list b,
     seg_list b, semaphore b, next_pdev b, \<lambda>p. (pd_next (pdevs b p), pd_pred (pdevs b p)))"

definition tame :: "('h lib, 'a) state \<Rightarrow> bool" where
  "tame m \<longleftrightarrow> keeps base_view m \<and> preserves (\<lambda>b. irq_inv (core b)) m"

named_theorems tamed \<open>calls that leave the base in order\<close>

lemma tameD: "tame m \<Longrightarrow> keeps base_view m" "tame m \<Longrightarrow> preserves (\<lambda>b. irq_inv (core b)) m"
  by (simp_all add: tame_def)

lemma tame_return [tamed]: "tame (State_Monad.return x)"
  by (auto simp: tame_def keeps_return)

lemma tame_fetch [tamed]: "tame (fetch f)"
  by (auto simp: tame_def keeps_fetch)

lemma tame_modify: "(\<And>b. base_view (f b) = base_view b \<and> core (f b) = core b) \<Longrightarrow> tame (modify f)"
  unfolding tame_def by (intro conjI keeps_modify preserves_modify) simp_all

lemma tame_core:
  assumes "preserves irq_inv m"
  shows "tame (core_do m)"
  unfolding tame_def using preservesD [OF assms]
  by (intro conjI keepsI preservesI) (simp_all add: base_view_def)

lemma tame_hw: "hw_only m \<Longrightarrow> tame (core_do m)"
  by (intro tame_core inv_core core_hw)

lemma tame_set_pdev:
  "(\<And>v. pd_next (f v) = pd_next v \<and> pd_pred (f v) = pd_pred v) \<Longrightarrow> tame (set_pdev p f)"
  unfolding set_pdev_def by (rule tame_modify) (simp add: base_view_def fun_eq_iff)

lemma tame_bind [tamed]: "tame m \<Longrightarrow> (\<And>a. tame (f a)) \<Longrightarrow> tame (State_Monad.bind m f)"
  unfolding tame_def by (auto intro: keeps_bind)

lemma tame_if [tamed]: "(c \<Longrightarrow> tame m) \<Longrightarrow> (\<not> c \<Longrightarrow> tame n) \<Longrightarrow> tame (if c then m else n)"
  by simp

lemma tame_let [tamed]: "(\<And>x. tame (f x)) \<Longrightarrow> tame (let x = a in f x)"
  by simp

lemma tame_prod [tamed]: "(\<And>a b. tame (f a b)) \<Longrightarrow> tame (case p of (a, b) \<Rightarrow> f a b)"
  by (cases p) simp

lemma tame_option [tamed]: "tame m \<Longrightarrow> (\<And>a. tame (f a)) \<Longrightarrow> tame (case x of None \<Rightarrow> m | Some a \<Rightarrow> f a)"
  by (cases x) simp_all

lemma tame_sum [tamed]: "(\<And>a. tame (f a)) \<Longrightarrow> (\<And>b. tame (g b)) \<Longrightarrow> tame (case x of Inl a \<Rightarrow> f a | Inr b \<Rightarrow> g b)"
  by (cases x) simp_all

lemma tame_locked [tamed]:
  assumes "tame m"
  shows "tame (locked m)"
  unfolding tame_def
proof
  have "base_view (snd (run_state m b)) = base_view b" for b :: "'a lib"
    using assms by (simp add: tameD keepsD)
  from this [of "_\<lparr>semaphore := _\<rparr>"] show "keeps base_view (locked m)"
    by (intro keepsI) (simp add: run_locked case_prod_beta Let_def base_view_def)
  show "preserves (\<lambda>b. irq_inv (core b)) (locked m)"
  proof (rule preservesI)
    fix b :: "'a lib"
    assume "irq_inv (core b)"
    then have "irq_inv (core (snd (run_state m (b\<lparr>semaphore := Suc (semaphore b)\<rparr>))))"
      by (intro preservesD [OF tameD(2) [OF assms]]) simp
    then show "irq_inv (core (snd (run_state (locked m) b)))"
      by (simp add: run_locked case_prod_beta Let_def)
  qed
qed

section \<open>A concrete library\<close>

definition ram_services :: "ram_hw services" where
  "ram_services = \<lparr>copy_mem = (\<lambda>s d n h. h\<lparr>ram := (\<lambda>a. if d \<le> a \<and> a - d < n then ram h (s + (a - d)) else ram h a)\<rparr>),
     dma_create = (\<lambda>h. (1, h)), dma_delete = (\<lambda>p h. h), dma_zalloc = (\<lambda>p a n h. (if n = 0 then 0 else 0x1000, h)),
     dma_free = (\<lambda>p a h. h), DMA_ALIGN_MIN = 64\<rparr>"

definition blank_lib :: "ram_hw lib" where
  "blank_lib = \<lparr>core = example_world, seg_list = 0, semaphore = 0, ctrl = False, root_bus = None,
     dev_list_head = None, ctrl_ready = False, dma_pool = 0, open_cnt = 0, delexp = False,
     in_lib_list = True, pdevs = (\<lambda>_. blank_pdev), next_pdev = 0, client = (\<lambda>_. 0)\<rparr>"

end
