(* ===== verification/Lib_Io.thy ===== *)
theory Lib_Io
  imports Lib_Base
begin

text \<open>
  Input and output of the library (\<open>bcmpcie.library/src/pcie_io.c\<close>): port accesses, memory
  copies and configuration accesses.  A call on a \<open>NULL\<close> device or address does nothing and
  reads all ones.  The \<open>KASSERT\<close>s of the copies are debugging aids.
\<close>

section \<open>Ports\<close>

definition LibPCIInb :: "'h platform \<Rightarrow> u32 \<Rightarrow> ('h lib, u8) state" where
  "LibPCIInb P addr = (if addr \<noteq> 0 then core_do (mmio_read8 P addr) else done_with 0xFF)"

definition LibPCIOutb :: "'h platform \<Rightarrow> u8 \<Rightarrow> u32 \<Rightarrow> ('h lib, unit) state" where
  "LibPCIOutb P val addr = only_if (addr \<noteq> 0) (core_do (mmio_write8 P val addr))"

definition LibPCIInw :: "'h platform \<Rightarrow> u32 \<Rightarrow> ('h lib, u16) state" where
  "LibPCIInw P addr = (if addr \<noteq> 0 then core_do (mmio_read16 P addr) else done_with 0xFFFF)"

definition LibPCIOutw :: "'h platform \<Rightarrow> u16 \<Rightarrow> u32 \<Rightarrow> ('h lib, unit) state" where
  "LibPCIOutw P val addr = only_if (addr \<noteq> 0) (core_do (mmio_write16 P val addr))"

definition LibPCIInl :: "'h platform \<Rightarrow> u32 \<Rightarrow> ('h lib, u32) state" where
  "LibPCIInl P addr = (if addr \<noteq> 0 then core_do (mmio_read32 P addr) else done_with 0xFFFFFFFF)"

definition LibPCIOutl :: "'h platform \<Rightarrow> u32 \<Rightarrow> u32 \<Rightarrow> ('h lib, unit) state" where
  "LibPCIOutl P val addr = only_if (addr \<noteq> 0) (core_do (mmio_write32 P val addr))"

section \<open>Copies\<close>

definition LibPCIToHostCpy :: "'h services \<Rightarrow> u32 \<Rightarrow> u32 \<Rightarrow> u32 \<Rightarrow> ('h lib, unit) state" where
  "LibPCIToHostCpy S src dst sz = core_do (hw_do (copy_mem S src dst sz))"

definition LibHostToPCICpy :: "'h services \<Rightarrow> u32 \<Rightarrow> u32 \<Rightarrow> u32 \<Rightarrow> ('h lib, unit) state" where
  "LibHostToPCICpy S src dst sz = core_do (hw_do (copy_mem S src dst sz))"

definition LibPCIToPCICpy :: "'h services \<Rightarrow> u32 \<Rightarrow> u32 \<Rightarrow> u32 \<Rightarrow> ('h lib, unit) state" where
  "LibPCIToPCICpy S src dst sz = core_do (hw_do (copy_mem S src dst sz))"

section \<open>Configuration space\<close>

text \<open>
  The calls differ in the width only.  \<open>config_read\<close> and \<open>config_write\<close> are their common
  shape: the guard, the semaphore and the access of the core.
\<close>

definition config_read ::
    "'a \<Rightarrow> (dev_id \<Rightarrow> ('h world, (errno + unit) \<times> 'a) state) \<Rightarrow> pdev_id option \<Rightarrow> ('h lib, 'a) state" where
  "config_read ones rd pd = (case pd of
       None \<Rightarrow> done_with ones
     | Some p \<Rightarrow> locked (do {
         d \<leftarrow> get_lib (\<lambda>b. pcie_dev_from_openpci b p);
         (_, val) \<leftarrow> core_do (rd d);
         done_with val
       }))"

definition config_write ::
    "(dev_id \<Rightarrow> ('h world, errno + unit) state) \<Rightarrow> pdev_id option \<Rightarrow> ('h lib, unit) state" where
  "config_write wr pd = (case pd of
       None \<Rightarrow> skip
     | Some p \<Rightarrow> locked (do {
         d \<leftarrow> get_lib (\<lambda>b. pcie_dev_from_openpci b p);
         _ \<leftarrow> core_do (wr d);
         skip
       }))"

definition LibReadConfigByte :: "'h platform \<Rightarrow> u8 \<Rightarrow> pdev_id option \<Rightarrow> ('h lib, u8) state" where
  "LibReadConfigByte P reg pd = config_read 0xFF (\<lambda>d. pci_read_config8 P d (ucast reg)) pd"

definition LibReadConfigWord :: "'h platform \<Rightarrow> u8 \<Rightarrow> pdev_id option \<Rightarrow> ('h lib, u16) state" where
  "LibReadConfigWord P reg pd = config_read 0xFFFF (\<lambda>d. pci_read_config16 P d (ucast reg)) pd"

definition LibReadConfigLong :: "'h platform \<Rightarrow> u8 \<Rightarrow> pdev_id option \<Rightarrow> ('h lib, u32) state" where
  "LibReadConfigLong P reg pd = config_read 0xFFFFFFFF (\<lambda>d. pci_read_config32 P d (ucast reg)) pd"

definition LibWriteConfigByte :: "'h platform \<Rightarrow> u8 \<Rightarrow> u8 \<Rightarrow> pdev_id option \<Rightarrow> ('h lib, unit) state" where
  "LibWriteConfigByte P reg val pd = config_write (\<lambda>d. pci_write_config8 P d (ucast reg) (ucast val)) pd"

definition LibWriteConfigWord :: "'h platform \<Rightarrow> u8 \<Rightarrow> u16 \<Rightarrow> pdev_id option \<Rightarrow> ('h lib, unit) state" where
  "LibWriteConfigWord P reg val pd = config_write (\<lambda>d. pci_write_config16 P d (ucast reg) (ucast val)) pd"

definition LibWriteConfigLong :: "'h platform \<Rightarrow> u8 \<Rightarrow> u32 \<Rightarrow> pdev_id option \<Rightarrow> ('h lib, unit) state" where
  "LibWriteConfigLong P reg val pd = config_write (\<lambda>d. pci_write_config32 P d (ucast reg) val) pd"

text \<open>The extended calls take the register as a longword.\<close>

definition LibReadExtConfigByte :: "'h platform \<Rightarrow> u32 \<Rightarrow> pdev_id option \<Rightarrow> ('h lib, u8) state" where
  "LibReadExtConfigByte P reg pd = config_read 0xFF (\<lambda>d. pci_read_config8 P d reg) pd"

definition LibReadExtConfigWord :: "'h platform \<Rightarrow> u32 \<Rightarrow> pdev_id option \<Rightarrow> ('h lib, u16) state" where
  "LibReadExtConfigWord P reg pd = config_read 0xFFFF (\<lambda>d. pci_read_config16 P d reg) pd"

definition LibReadExtConfigLong :: "'h platform \<Rightarrow> u32 \<Rightarrow> pdev_id option \<Rightarrow> ('h lib, u32) state" where
  "LibReadExtConfigLong P reg pd = config_read 0xFFFFFFFF (\<lambda>d. pci_read_config32 P d reg) pd"

definition LibWriteExtConfigByte :: "'h platform \<Rightarrow> u32 \<Rightarrow> u8 \<Rightarrow> pdev_id option \<Rightarrow> ('h lib, unit) state" where
  "LibWriteExtConfigByte P reg val pd = config_write (\<lambda>d. pci_write_config8 P d reg (ucast val)) pd"

definition LibWriteExtConfigWord :: "'h platform \<Rightarrow> u32 \<Rightarrow> u16 \<Rightarrow> pdev_id option \<Rightarrow> ('h lib, unit) state" where
  "LibWriteExtConfigWord P reg val pd = config_write (\<lambda>d. pci_write_config16 P d reg (ucast val)) pd"

definition LibWriteExtConfigLong :: "'h platform \<Rightarrow> u32 \<Rightarrow> u32 \<Rightarrow> pdev_id option \<Rightarrow> ('h lib, unit) state" where
  "LibWriteExtConfigLong P reg val pd = config_write (\<lambda>d. pci_write_config32 P d reg val) pd"

lemmas lib_config_defs = LibReadConfigByte_def LibReadConfigWord_def LibReadConfigLong_def
  LibWriteConfigByte_def LibWriteConfigWord_def LibWriteConfigLong_def
  LibReadExtConfigByte_def LibReadExtConfigWord_def LibReadExtConfigLong_def
  LibWriteExtConfigByte_def LibWriteExtConfigWord_def LibWriteExtConfigLong_def

lemmas lib_port_defs = LibPCIInb_def LibPCIOutb_def LibPCIInw_def LibPCIOutw_def LibPCIInl_def
  LibPCIOutl_def LibPCIToHostCpy_def LibHostToPCICpy_def LibPCIToPCICpy_def

section \<open>What the calls leave alone\<close>

text \<open>
  \<open>lib_hw_only m\<close>: the call changes nothing but the hardware behind the registers.
\<close>

definition lib_hw_only :: "('h lib, 'a) state \<Rightarrow> bool" where
  "lib_hw_only m \<longleftrightarrow> (\<forall>b. \<exists>h. snd (run_state m b) = b\<lparr>core := (core b)\<lparr>hw := h\<rparr>\<rparr>)"

lemma lib_same_hw: "\<exists>h. b = b\<lparr>core := (core b)\<lparr>hw := h\<rparr>\<rparr>"
  by (rule exI [of _ "hw (core b)"]) simp

lemma lib_hw_only_core:
  assumes "hw_only m"
  shows "lib_hw_only (core_do m)"
  unfolding lib_hw_only_def
proof
  fix b :: "'a lib"
  obtain h where "snd (run_state m (core b)) = (core b)\<lparr>hw := h\<rparr>" using assms by (rule hw_onlyE)
  then show "\<exists>h. snd (run_state (core_do m) b) = b\<lparr>core := (core b)\<lparr>hw := h\<rparr>\<rparr>" by auto
qed

lemma lib_hw_only_return: "lib_hw_only (State_Monad.return x)"
  by (simp add: lib_hw_only_def lib_same_hw)

lemma lib_hw_only_read: "(\<And>d. hw_only (rd d)) \<Longrightarrow> lib_hw_only (config_read ones rd pd)"
  unfolding lib_hw_only_def
proof (intro allI)
  fix b :: "'a lib"
  assume rd: "\<And>d. hw_only (rd d)"
  show "\<exists>h. snd (run_state (config_read ones rd pd) b) = b\<lparr>core := (core b)\<lparr>hw := h\<rparr>\<rparr>"
  proof (cases pd)
    case None
    then show ?thesis by (simp add: config_read_def lib_same_hw)
  next
    case (Some p)
    obtain h where "snd (run_state (rd (pd_reserved (pdevs b p))) (core b)) = (core b)\<lparr>hw := h\<rparr>"
      using rd by (rule hw_onlyE)
    then show ?thesis
      by (auto simp: config_read_def Some run_locked pcie_dev_from_openpci_def case_prod_beta Let_def)
  qed
qed

lemma lib_hw_only_write: "(\<And>d. hw_only (wr d)) \<Longrightarrow> lib_hw_only (config_write wr pd)"
  unfolding lib_hw_only_def
proof (intro allI)
  fix b :: "'a lib"
  assume wr: "\<And>d. hw_only (wr d)"
  show "\<exists>h. snd (run_state (config_write wr pd) b) = b\<lparr>core := (core b)\<lparr>hw := h\<rparr>\<rparr>"
  proof (cases pd)
    case None
    then show ?thesis by (simp add: config_write_def lib_same_hw)
  next
    case (Some p)
    obtain h where "snd (run_state (wr (pd_reserved (pdevs b p))) (core b)) = (core b)\<lparr>hw := h\<rparr>"
      using wr by (rule hw_onlyE)
    then show ?thesis
      by (auto simp: config_write_def Some run_locked pcie_dev_from_openpci_def case_prod_beta Let_def)
  qed
qed

lemma lib_ports_hw_only:
  "lib_hw_only (LibPCIInb P a)" "lib_hw_only (LibPCIOutb P v8 a)" "lib_hw_only (LibPCIInw P a)"
  "lib_hw_only (LibPCIOutw P v16 a)" "lib_hw_only (LibPCIInl P a)" "lib_hw_only (LibPCIOutl P v32 a)"
  "lib_hw_only (LibPCIToHostCpy S s d n)" "lib_hw_only (LibHostToPCICpy S s d n)"
  "lib_hw_only (LibPCIToPCICpy S s d n)"
  unfolding lib_port_defs by (auto intro: lib_hw_only_core lib_hw_only_return hwo)

lemma lib_config_hw_only:
  "lib_hw_only (LibReadConfigByte P r8 pd)" "lib_hw_only (LibReadConfigWord P r8 pd)"
  "lib_hw_only (LibReadConfigLong P r8 pd)" "lib_hw_only (LibWriteConfigByte P r8 v8 pd)"
  "lib_hw_only (LibWriteConfigWord P r8 v16 pd)" "lib_hw_only (LibWriteConfigLong P r8 v32 pd)"
  "lib_hw_only (LibReadExtConfigByte P r pd)" "lib_hw_only (LibReadExtConfigWord P r pd)"
  "lib_hw_only (LibReadExtConfigLong P r pd)" "lib_hw_only (LibWriteExtConfigByte P r v8 pd)"
  "lib_hw_only (LibWriteExtConfigWord P r v16 pd)" "lib_hw_only (LibWriteExtConfigLong P r v32 pd)"
  unfolding lib_config_defs by (intro lib_hw_only_read lib_hw_only_write hwo)+

lemma tame_io: "lib_hw_only m \<Longrightarrow> tame m"
  unfolding lib_hw_only_def tame_def
proof (intro conjI keepsI preservesI)
  fix b :: "'a lib"
  assume all: "\<forall>b. \<exists>h. snd (run_state m b) = b\<lparr>core := (core b)\<lparr>hw := h\<rparr>\<rparr>"
  then obtain h where h: "snd (run_state m b) = b\<lparr>core := (core b)\<lparr>hw := h\<rparr>\<rparr>" by blast
  show "base_view (snd (run_state m b)) = base_view b" by (simp add: h base_view_def)
  assume "irq_inv (core b)"
  moreover have "preserves irq_inv (hw_do (\<lambda>_. h))" by (intro inv_core core_hw hwo)
  ultimately show "irq_inv (core (snd (run_state m b)))" using preservesD by (fastforce simp: h)
qed

lemmas tame_ports [tamed] = lib_ports_hw_only [THEN tame_io]
lemmas tame_config [tamed] = lib_config_hw_only [THEN tame_io]

section \<open>Accesses that cannot be carried out\<close>

lemma config_read_refused:
  assumes "pd = None \<or> (\<forall>d. \<exists>e. run_state (rd d) (core b) = ((Inl e, ones), core b))"
  shows "run_state (config_read ones rd pd) b = (ones, b)"
  using assms by (cases pd) (auto simp: config_read_def run_locked Let_def case_prod_beta pcie_dev_from_openpci_def
      dest!: spec [of _ "pd_reserved (pdevs b (the pd))"])

lemma config_write_refused:
  assumes "pd = None \<or> (\<forall>d. \<exists>e. run_state (wr d) (core b) = (Inl e, core b))"
  shows "run_state (config_write wr pd) b = ((), b)"
  using assms by (cases pd) (auto simp: config_write_def run_locked Let_def case_prod_beta pcie_dev_from_openpci_def
      dest!: spec [of _ "pd_reserved (pdevs b (the pd))"])

text \<open>
  An extended configuration access without a device, or beyond the 4 KiB of the
  configuration space, touches nothing: a read answers all ones and a write is dropped.
\<close>

theorem config_refused:
  assumes "pd = None \<or> 4096 \<le> reg"
  shows "run_state (LibReadExtConfigByte P reg pd) b = (0xFF, b) \<and>
    run_state (LibReadExtConfigWord P reg pd) b = (0xFFFF, b) \<and>
    run_state (LibReadExtConfigLong P reg pd) b = (0xFFFFFFFF, b) \<and>
    run_state (LibWriteExtConfigByte P reg v8 pd) b = ((), b) \<and>
    run_state (LibWriteExtConfigWord P reg v16 pd) b = ((), b) \<and>
    run_state (LibWriteExtConfigLong P reg v32 pd) b = ((), b)"
  unfolding lib_config_defs using assms
  by (intro conjI config_read_refused config_write_refused) (auto simp: config_defs)

theorem config_refused_witness:
  "run_state (LibReadExtConfigWord ram_platform 0x1000 (Some 3)) blank_lib = (0xFFFF, blank_lib)"
  by (rule config_refused [THEN conjunct2, THEN conjunct1]) simp

end
