(* ===== verification/Lib_Irq.thy ===== *)
theory Lib_Irq
  imports Lib_Base
begin

text \<open>
  The interrupt calls of the library (\<open>bcmpcie.library/src/pcie_irq.c\<close>): the vector interface
  and the older interface with one server per device, which allocates one vector and gives
  it back when the server cannot be attached.

  A \<open>LONG\<close> result is an \<open>int\<close>: the number of vectors, or the negative code of the error.
\<close>

section \<open>Vectors\<close>

fun pcie_err :: "errno \<Rightarrow> pcie_error" where
  "pcie_err EINVAL = PCIE_ERR_INVAL"
| "pcie_err ERANGE = PCIE_ERR_INVAL"
| "pcie_err EBUSY = PCIE_ERR_BUSY"
| "pcie_err ENOSPC = PCIE_ERR_NOMEM"
| "pcie_err EIO = PCIE_ERR_IO"
| "pcie_err _ = PCIE_ERR_NODEV"

definition LibAllocIntVectors ::
    "'h platform \<Rightarrow> pdev_id option \<Rightarrow> nat \<Rightarrow> nat \<Rightarrow> u32 \<Rightarrow> ('h lib, int) state" where
  "LibAllocIntVectors P pd mn mx fl = (case pd of
       None \<Rightarrow> done_with (error_code PCIE_ERR_INVAL)
     | Some p \<Rightarrow> do {
         d \<leftarrow> get_lib (\<lambda>b. pcie_dev_from_openpci b p);
         n \<leftarrow> locked (core_do (pci_irq_vectors_alloc P d mn mx fl));
         done_with (case n of Inl e \<Rightarrow> error_code (pcie_err e) | Inr n \<Rightarrow> int n)
       })"

definition LibFreeIntVectors :: "'h platform \<Rightarrow> pdev_id option \<Rightarrow> ('h lib, unit) state" where
  "LibFreeIntVectors P pd = (case pd of
       None \<Rightarrow> skip
     | Some p \<Rightarrow> do {
         d \<leftarrow> get_lib (\<lambda>b. pcie_dev_from_openpci b p);
         locked (core_do (pci_irq_vectors_free P d))
       })"

definition LibAddIntVectorServer ::
    "'h platform \<Rightarrow> pdev_id option \<Rightarrow> nat \<Rightarrow> isr option \<Rightarrow> ('h lib, int) state" where
  "LibAddIntVectorServer P pd vec i = (case (pd, i) of
       (Some p, Some i) \<Rightarrow> do {
         d \<leftarrow> get_lib (\<lambda>b. pcie_dev_from_openpci b p);
         r \<leftarrow> locked (core_do (pci_irq_add_server P d vec i));
         done_with (error_code (case r of Inl e \<Rightarrow> pcie_err e | Inr _ \<Rightarrow> PCIE_OK))
       }
     | _ \<Rightarrow> done_with (error_code PCIE_ERR_INVAL))"

definition LibRemIntVectorServer ::
    "'h platform \<Rightarrow> pdev_id option \<Rightarrow> nat \<Rightarrow> isr option \<Rightarrow> ('h lib, unit) state" where
  "LibRemIntVectorServer P pd vec i = (case (pd, i) of
       (Some p, Some i) \<Rightarrow> do {
         d \<leftarrow> get_lib (\<lambda>b. pcie_dev_from_openpci b p);
         locked (core_do (pci_irq_rem_server P d vec i))
       }
     | _ \<Rightarrow> skip)"

definition LibMaskIntVector :: "'h platform \<Rightarrow> pdev_id option \<Rightarrow> nat \<Rightarrow> ('h lib, bool) state" where
  "LibMaskIntVector P pd vec = (case pd of
       None \<Rightarrow> done_with False
     | Some p \<Rightarrow> do {
         d \<leftarrow> get_lib (\<lambda>b. pcie_dev_from_openpci b p);
         core_do (pci_irq_vec_mask P d vec)
       })"

definition LibUnmaskIntVector :: "'h platform \<Rightarrow> pdev_id option \<Rightarrow> nat \<Rightarrow> ('h lib, bool) state" where
  "LibUnmaskIntVector P pd vec = (case pd of
       None \<Rightarrow> done_with False
     | Some p \<Rightarrow> do {
         d \<leftarrow> get_lib (\<lambda>b. pcie_dev_from_openpci b p);
         core_do (pci_irq_vec_unmask P d vec)
       })"

definition LibGetIntVectorType :: "pdev_id option \<Rightarrow> ('h lib, u32) state" where
  "LibGetIntVectorType pd = (case pd of
       None \<Rightarrow> done_with 0
     | Some p \<Rightarrow> get_lib (\<lambda>b. mode (dev (core b) (pcie_dev_from_openpci b p))))"

section \<open>One server per device\<close>

definition LibAddIntServer :: "'h platform \<Rightarrow> isr option \<Rightarrow> pdev_id option \<Rightarrow> ('h lib, bool) state" where
  "LibAddIntServer P i pd = (case (i, pd) of
       (Some i, Some p) \<Rightarrow> do {
         d \<leftarrow> get_lib (\<lambda>b. pcie_dev_from_openpci b p);
         v \<leftarrow> get_lib (\<lambda>b. dev (core b) d);
         let fl = (if intx_prefer_msi v then PCI_IRQ_MSI OR PCI_IRQ_INTX else PCI_IRQ_INTX);
         locked (do {
           n \<leftarrow> core_do (pci_irq_vectors_alloc P d 1 1 fl);
           if n \<noteq> Inr 1 then done_with False
           else do {
             r \<leftarrow> core_do (pci_irq_add_server P d 0 i);
             if r = Ok then done_with True
             else do { core_do (pci_irq_vectors_free P d); done_with False }
           }
         })
       }
     | _ \<Rightarrow> done_with False)"

definition LibRemIntServer :: "'h platform \<Rightarrow> isr option \<Rightarrow> pdev_id option \<Rightarrow> ('h lib, unit) state" where
  "LibRemIntServer P i pd = (case (i, pd) of
       (Some i, Some p) \<Rightarrow> do {
         d \<leftarrow> get_lib (\<lambda>b. pcie_dev_from_openpci b p);
         locked (do {
           core_do (pci_irq_rem_server P d 0 i);
           core_do (pci_irq_vectors_free P d)
         })
       }
     | _ \<Rightarrow> skip)"

definition LibEnableMSI :: "pdev_id option \<Rightarrow> ('h lib, int) state" where
  "LibEnableMSI pd = (case pd of
       None \<Rightarrow> done_with (error_code PCIE_ERR_INVAL)
     | Some p \<Rightarrow> do {
         d \<leftarrow> get_lib (\<lambda>b. pcie_dev_from_openpci b p);
         v \<leftarrow> get_lib (\<lambda>b. dev (core b) d);
         if msi_cap_offset v = 0 then done_with (error_code PCIE_ERR_NODEV)
         else do {
           core_do (set_dev d (\<lambda>v. v\<lparr>intx_prefer_msi := True\<rparr>));
           done_with (error_code PCIE_OK)
         }
       })"

definition LibDisableMSI :: "pdev_id option \<Rightarrow> ('h lib, unit) state" where
  "LibDisableMSI pd = (case pd of
       None \<Rightarrow> skip
     | Some p \<Rightarrow> do {
         d \<leftarrow> get_lib (\<lambda>b. pcie_dev_from_openpci b p);
         core_do (set_dev d (\<lambda>v. v\<lparr>intx_prefer_msi := False\<rparr>))
       })"

definition LibMaskMSI :: "'h platform \<Rightarrow> pdev_id option \<Rightarrow> ('h lib, unit) state" where
  "LibMaskMSI P pd = (case pd of
       None \<Rightarrow> skip
     | Some p \<Rightarrow> do {
         d \<leftarrow> get_lib (\<lambda>b. pcie_dev_from_openpci b p);
         _ \<leftarrow> core_do (pci_irq_vec_mask P d 0);
         skip
       })"

definition LibUnmaskMSI :: "'h platform \<Rightarrow> pdev_id option \<Rightarrow> ('h lib, unit) state" where
  "LibUnmaskMSI P pd = (case pd of
       None \<Rightarrow> skip
     | Some p \<Rightarrow> do {
         d \<leftarrow> get_lib (\<lambda>b. pcie_dev_from_openpci b p);
         _ \<leftarrow> core_do (pci_irq_vec_unmask P d 0);
         skip
       })"

definition LibCheckSetINTxMask :: "'h platform \<Rightarrow> pdev_id option \<Rightarrow> bool \<Rightarrow> ('h lib, bool) state" where
  "LibCheckSetINTxMask P pd msk = (case pd of
       None \<Rightarrow> done_with False
     | Some p \<Rightarrow> do {
         d \<leftarrow> get_lib (\<lambda>b. pcie_dev_from_openpci b p);
         core_do (pci_intx P d (\<not> msk));
         done_with True
       })"

lemmas lib_irq_defs = LibAllocIntVectors_def LibFreeIntVectors_def LibAddIntVectorServer_def
  LibRemIntVectorServer_def LibMaskIntVector_def LibUnmaskIntVector_def LibGetIntVectorType_def
  LibAddIntServer_def LibRemIntServer_def LibEnableMSI_def LibDisableMSI_def LibMaskMSI_def
  LibUnmaskMSI_def LibCheckSetINTxMask_def

section \<open>Invariants\<close>

lemma irq_inv_prefer [pres]: "preserves irq_inv (set_dev d (\<lambda>v. v\<lparr>intx_prefer_msi := x\<rparr>))"
  by (intro inv_core core_set_dev) (simp add: irq_view_def)

lemma irq_inv_intx [pres]: "preserves irq_inv (pci_intx P d e)"
  by (intro inv_core kept hwo)

lemma tame_irq [tamed]:
  "tame (LibAllocIntVectors P pd mn mx fl)" "tame (LibFreeIntVectors P pd)"
  "tame (LibAddIntVectorServer P pd vec i)" "tame (LibRemIntVectorServer P pd vec i)"
  "tame (LibMaskIntVector P pd vec)" "tame (LibUnmaskIntVector P pd vec)"
  "tame (LibGetIntVectorType pd)" "tame (LibAddIntServer P i pd)" "tame (LibRemIntServer P i pd)"
  "tame (LibEnableMSI pd)" "tame (LibDisableMSI pd)" "tame (LibMaskMSI P pd)"
  "tame (LibUnmaskMSI P pd)" "tame (LibCheckSetINTxMask P pd m)"
  unfolding lib_irq_defs case_prod_conv by (intro tamed tame_core pres)+

section \<open>What the front end leaves to the other devices\<close>

text \<open>The interrupt state of the devices other than \<open>d\<close>.\<close>

definition others :: "dev_id \<Rightarrow> 'h world \<Rightarrow> (dev_id \<Rightarrow> u32 \<times> nat \<times> (nat \<Rightarrow> nat) \<times> isr option)" where
  "others d w = (\<lambda>e. if e = d then irq_view blank_device else irq_view (dev w e))"

lemma others_hw: "hw_only m \<Longrightarrow> keeps (others d) m"
  by (rule hw_only_keeps_view) (simp_all add: others_def fun_eq_iff)

lemma others_set: "keeps (others d) (set_dev d f)" "keeps (others d) (set_ctl g)"
  unfolding set_dev_def set_ctl_def by (auto intro!: keeps_modify simp: others_def fun_eq_iff)

lemmas others_rules = keeps_return keeps_fetch keeps_bind keeps_if keeps_prod keeps_option keeps_sum
  keeps_for_each others_set

lemma others_masks:
  "keeps (others d) (pci_msi_update_mask P d c s)" "keeps (others d) (pci_msi_program P d n)"
  "keeps (others d) (pci_msi_shutdown P d)" "keeps (others d) (pci_irq_vec_open P d v)"
  "keeps (others d) (pci_irq_vec_close P d v)"
proof -
  show mask: "keeps (others d) (pci_msi_update_mask P d c s)" for c s
    unfolding pci_msi_update_mask_def by (intro others_rules; intro others_hw hwo)
  show "keeps (others d) (pci_msi_program P d n)" "keeps (others d) (pci_msi_shutdown P d)"
    "keeps (others d) (pci_irq_vec_open P d v)" "keeps (others d) (pci_irq_vec_close P d v)"
    unfolding pci_msi_program_def pci_msi_shutdown_def pci_irq_vec_open_def pci_irq_vec_close_def
    by (intro others_rules mask; intro others_hw hwo)+
qed

lemma others_msi_loop: "keeps (others d) (pci_msi_alloc_loop P d mn n)"
proof (induction P d mn n rule: pci_msi_alloc_loop.induct)
  case (1 P d mn n)
  show ?case
  proof (rule keepsI)
    fix s :: "'a world"
    show "others d (snd (run_state (pci_msi_alloc_loop P d mn n) s)) = others d s"
    proof (cases "pci_irq_slots_alloc_aligned (msi_used (ctl s)) n")
      case None
      then show ?thesis
        using keepsD [OF 1] by (subst pci_msi_alloc_loop.simps) simp
    next
      case (Some r)
      obtain block used where r: "r = (block, used)" by (cases r)
      have "keeps (others d) (do { set_ctl (msi_used_update (\<lambda>_. used));
          set_dev d (set_slots [block..<block + n]); pci_msi_program P d n; done_with (Inr n :: errno + nat) })"
        by (intro others_rules others_masks)
      from keepsD [OF this, of s] show ?thesis
        using Some r by (subst pci_msi_alloc_loop.simps) (simp del: run_set_ctl run_set_dev)
    qed
  qed
qed

lemma others_alloc: "keeps (others d) (pci_irq_vectors_alloc P d mn mx fl)"
  unfolding pci_irq_vectors_alloc_def try_msix_def try_msi_def try_intx_def commit_vectors_def
    pci_msix_alloc_def pci_msi_alloc_def Let_def
  by (intro others_rules others_masks others_msi_loop; intro others_hw hwo)

lemma others_server:
  "keeps (others d) (pci_irq_add_server P d v i)" "keeps (others d) (pci_irq_rem_server P d v i)"
  unfolding pci_irq_add_server_def pci_irq_rem_server_def brcm_msi_slot_bind_def brcm_msi_slot_unbind_def
  by (intro others_rules others_masks; intro others_hw hwo)+

lemma others_free: "keeps (others d) (pci_irq_vectors_free P d)"
  unfolding pci_irq_vectors_free_def detach_vector_def
  by (intro others_rules others_masks others_server; intro others_hw hwo)

text \<open>The other devices as before and this one idle: the pool is as before.\<close>

lemma pool_of_others:
  assumes "irq_inv w" and "irq_inv w'" and "others d w' = others d w"
    and "mode (dev w d) = 0" and "mode (dev w' d) = 0"
  shows "pool_set (msi_used (ctl w')) = pool_set (msi_used (ctl w))"
    "vec_slots (dev w' e) = vec_slots (dev w e)"
proof -
  have same: "vec_slots (dev w' e) = vec_slots (dev w e)" for e
  proof (cases "e = d")
    case False
    then have "irq_view (dev w' e) = irq_view (dev w e)"
      using fun_cong [OF assms(3), of e] by (simp add: others_def)
    then show ?thesis by (simp add: irq_view_def vec_slots_def)
  qed (use assms in \<open>simp add: vec_slots_def\<close>)
  then show "vec_slots (dev w' e) = vec_slots (dev w e)" .
  show "pool_set (msi_used (ctl w')) = pool_set (msi_used (ctl w))"
    using assms(1,2) same by (auto simp: irq_inv_def owned_def)
qed

section \<open>The server of a device as a transaction\<close>

lemma alloc_one:
  assumes inv: "irq_inv w" and run: "run_state (pci_irq_vectors_alloc P d 1 1 fl) w = (r, w')"
  shows "irq_inv w'" "others d w' = others d w"
    "(\<exists>e. r = Inl e) \<and> (mode (dev w d) = 0 \<and> mode (dev w' d) = 0 \<or> w' = w) \<or>
     r = Inr 1 \<and> mode (dev w d) = 0 \<and> nvec (dev w' d) = 1 \<and> mode (dev w' d) AND fl \<noteq> 0"
proof -
  show "irq_inv w'" by (rule preserves_run [OF inv_vectors_alloc inv run])
  show "others d w' = others d w" by (rule keeps_run [OF others_alloc run])
  show "(\<exists>e. r = Inl e) \<and> (mode (dev w d) = 0 \<and> mode (dev w' d) = 0 \<or> w' = w) \<or>
     r = Inr 1 \<and> mode (dev w d) = 0 \<and> nvec (dev w' d) = 1 \<and> mode (dev w' d) AND fl \<noteq> 0"
  proof (cases "mode (dev w d) = 0")
    case True
    have "vectors_post d 1 1 fl (r, w')"
      using vectors_alloc_post [OF inv True, where mn = 1 and mx = 1 and P = P and fl = fl] run by (simp add: vec_lo_def vec_hi_def)
    then show ?thesis using True by (cases r) (auto simp: vectors_post_def)
  qed (use run vectors_alloc_refused [of w d 1 1] in auto)
qed

lemma alloc_view_add: "keeps irq_alloc_view (pci_irq_add_server P d v i)"
proof -
  have bind: "keeps irq_alloc_view (brcm_msi_slot_bind P s i)" for s
    by (rule keepsI) (simp add: brcm_msi_slot_bind_def mmio_defs irq_alloc_view_def)
  show ?thesis
    unfolding pci_irq_add_server_def
    by (intro keeps_bind keeps_fetch keeps_return keeps_if bind alloc_view_server
        core_alloc_view [OF core_gates(1)] core_alloc_view [OF core_hw] hwo)
qed

text \<open>Freeing the vectors of a device that was idle before it got them.\<close>

lemma free_restores:
  assumes "irq_inv w" and "mode (dev w d) = 0" and "irq_inv w1" and "others d w1 = others d w"
    and run: "run_state (pci_irq_vectors_free P d) w1 = (u, w')"
  shows "irq_inv w'" "others d w' = others d w" "mode (dev w' d) = 0"
    "pool_set (msi_used (ctl w')) = pool_set (msi_used (ctl w))" "vec_slots (dev w' e) = vec_slots (dev w e)"
proof -
  show inv: "irq_inv w'" by (rule preserves_run [OF inv_vectors_free assms(3) run])
  show oth: "others d w' = others d w" using keeps_run [OF others_free run] assms(4) by simp
  show idle: "mode (dev w' d) = 0"
    by (rule vectors_free_freed [OF assms(3), of P d]) (use run in \<open>simp add: freed_def\<close>)
  show "pool_set (msi_used (ctl w')) = pool_set (msi_used (ctl w))" "vec_slots (dev w' e) = vec_slots (dev w e)"
    using pool_of_others [OF assms(1) inv oth assms(2) idle] by auto
qed

text \<open>The core of \<open>LibAddIntServer\<close>, on the state of the core.\<close>

definition add_one_server :: "'h platform \<Rightarrow> dev_id \<Rightarrow> isr \<Rightarrow> u32 \<Rightarrow> ('h world, bool) state" where
  "add_one_server P d i fl = do {
     n \<leftarrow> pci_irq_vectors_alloc P d 1 1 fl;
     if n \<noteq> Inr 1 then done_with False
     else do {
       r \<leftarrow> pci_irq_add_server P d 0 i;
       if r = Ok then done_with True
       else do { pci_irq_vectors_free P d; done_with False }
     }
   }"

definition server_flags :: "pci_device \<Rightarrow> u32" where
  "server_flags v = (if intx_prefer_msi v then PCI_IRQ_MSI OR PCI_IRQ_INTX else PCI_IRQ_INTX)"

lemma run_LibAddIntServer:
  "run_state (LibAddIntServer P (Some i) (Some p)) b =
     (let d = pcie_dev_from_openpci b p;
          (ok, w) = run_state (add_one_server P d i (server_flags (dev (core b) d))) (core b) in
      (ok, b\<lparr>core := w\<rparr>))"
  by (simp add: LibAddIntServer_def add_one_server_def server_flags_def run_locked Let_def case_prod_beta)

lemma run_LibRemIntServer:
  "run_state (LibRemIntServer P (Some i) (Some p)) b =
     (let d = pcie_dev_from_openpci b p in
      ((), b\<lparr>core := snd (run_state (pci_irq_vectors_free P d) (snd (run_state (pci_irq_rem_server P d 0 i) (core b))))\<rparr>))"
  by (simp add: LibRemIntServer_def run_locked Let_def case_prod_beta)

lemma add_one_server_outcome:
  assumes inv: "irq_inv w" and run: "run_state (add_one_server P d i fl) w = (ok, w')"
  shows "irq_inv w'" "others d w' = others d w"
    "if ok then mode (dev w d) = 0 \<and> nvec (dev w' d) = 1 \<and> mode (dev w' d) AND fl \<noteq> 0 \<and>
         pci_irq_vec_server w' d 0 = Some i
     else mode (dev w d) = 0 \<and> mode (dev w' d) = 0 \<or> w' = w"
proof -
  obtain n w1 where n: "run_state (pci_irq_vectors_alloc P d 1 1 fl) w = (n, w1)" by (metis surj_pair)
  note one = alloc_one [OF inv n]
  show "irq_inv w'" using run unfolding add_one_server_def
    by (rule preserves_run [rotated 2]) (use inv in \<open>intro pres, simp\<close>)
  show oth: "others d w' = others d w" using run unfolding add_one_server_def
    by (rule keeps_run [rotated]) (intro others_rules others_alloc others_server others_free)
  show "if ok then mode (dev w d) = 0 \<and> nvec (dev w' d) = 1 \<and> mode (dev w' d) AND fl \<noteq> 0 \<and>
         pci_irq_vec_server w' d 0 = Some i
     else mode (dev w d) = 0 \<and> mode (dev w' d) = 0 \<or> w' = w"
  proof (cases "n = Inr 1")
    case False
    then show ?thesis using run n one by (auto simp: add_one_server_def)
  next
    case True
    obtain r w2 where r: "run_state (pci_irq_add_server P d 0 i) w1 = (r, w2)" by (metis surj_pair)
    have new: "mode (dev w d) = 0" "nvec (dev w1 d) = 1" "mode (dev w1 d) AND fl \<noteq> 0"
      using one(3) True by auto
    have "irq_alloc_view w2 = irq_alloc_view w1" by (rule keeps_run [OF alloc_view_add r])
    then have view: "mode (dev w2 d) = mode (dev w1 d)" "nvec (dev w2 d) = nvec (dev w1 d)"
      by (auto simp: irq_alloc_view_def fun_eq_iff)
    show ?thesis
    proof (cases "r = Ok")
      case ok: True
      then have "ok" "w' = w2" using run n r True by (auto simp: add_one_server_def)
      then show ?thesis using new view add_server_attaches [OF r [unfolded ok]] by simp
    next
      case False
      have inv2: "irq_inv w2" by (rule preserves_run [OF inv_add_server one(1) r])
      have oth2: "others d w2 = others d w" using keeps_run [OF others_server(1) r] one(2) by simp
      have "\<not> ok" "run_state (pci_irq_vectors_free P d) w2 = ((), w')"
        using run n r True False by (auto simp: add_one_server_def split: prod.splits)
      then show ?thesis using free_restores(3) [OF inv new(1) inv2 oth2] new(1) by simp
    qed
  qed
qed

lemma irq_modes: "irq_inv w \<Longrightarrow> mode (dev w d) \<in> {0, PCI_IRQ_INTX, PCI_IRQ_MSI, PCI_IRQ_MSIX}"
  by (auto simp: irq_inv_def irq_mode_ok_def)



section \<open>Witnesses\<close>

definition intx_lib :: "ram_hw lib" where
  "intx_lib = blank_lib\<lparr>core := intx_world, pdevs := (\<lambda>_. blank_pdev\<lparr>pd_reserved := 3\<rparr>)\<rparr>"

lemma intx_lib_inv: "irq_inv (core intx_lib)"
  using irq_init_inv [OF intx_world_init] by (simp add: intx_lib_def)

lemma intx_lib_add: "fst (run_state (LibAddIntServer ram_platform (Some 77) (Some 0)) intx_lib)"
  by code_simp



end
