(* ===== verification/Lib_Find.thy ===== *)
theory Lib_Find
  imports Lib_Base
begin

text \<open>
  Looking for boards (\<open>bcmpcie.library/src/pcie_find.c\<close>).  The calls follow the links of the
  nodes from behind \<open>prev\<close>, or from the head; \<open>None\<close> as the value of such a call means that it
  does not return, \<open>Some None\<close> is \<open>NULL\<close>.  \<open>dev_list b ps\<close>: the nodes form a doubly linked list
  whose entries are \<open>ps\<close>; on such a list every search returns, and it is \<open>find\<close> on \<open>ps\<close>.
\<close>

section \<open>Walking the nodes\<close>

partial_function (option) find_from ::
    "(pdev_id \<Rightarrow> pdev_id option) \<Rightarrow> (pdev_id \<Rightarrow> bool) \<Rightarrow> pdev_id option \<Rightarrow> pdev_id option option" where
  "find_from nxt ok cur = (case cur of
       None \<Rightarrow> Some None
     | Some p \<Rightarrow> if ok p then Some cur else find_from nxt ok (nxt p))"

definition search_from :: "'h lib \<Rightarrow> (pdev_id \<Rightarrow> bool) \<Rightarrow> pdev_id option \<Rightarrow> pdev_id option option" where
  "search_from b ok prev = find_from (\<lambda>p. pd_next (pdevs b p)) ok
     (case prev of None \<Rightarrow> dev_list_head b | Some p \<Rightarrow> pd_next (pdevs b p))"

definition device_matches :: "u16 \<Rightarrow> u16 \<Rightarrow> pci_dev \<Rightarrow> bool" where
  "device_matches ven did v \<longleftrightarrow> (ven = 0xFFFF \<or> pd_vendor v = ven) \<and> (did = 0xFFFF \<or> pd_device v = did)"

definition LibFindDevice :: "u16 \<Rightarrow> u16 \<Rightarrow> pdev_id option \<Rightarrow> ('h lib, pdev_id option option) state" where
  "LibFindDevice ven did prev = get_lib (\<lambda>b. search_from b (\<lambda>p. device_matches ven did (pdevs b p)) prev)"

definition LibFindClass :: "u32 \<Rightarrow> pdev_id option \<Rightarrow> ('h lib, pdev_id option option) state" where
  "LibFindClass devclass prev = get_lib (\<lambda>b. search_from b (\<lambda>p. pd_devclass (pdevs b p) = devclass) prev)"

definition slot_matches :: "'h lib \<Rightarrow> u8 \<Rightarrow> u32 \<Rightarrow> pdev_id \<Rightarrow> bool" where
  "slot_matches b busnum dfn p \<longleftrightarrow>
     (let idev = dev (core b) (pcie_dev_from_openpci b p) in
      bus_number (bus (core b) (dev_bus idev)) = ucast busnum \<and> pd_devfn (pdevs b p) = ucast dfn)"

definition LibFindSlot :: "u8 \<Rightarrow> u32 \<Rightarrow> ('h lib, pdev_id option option) state" where
  "LibFindSlot busnum dfn = get_lib (\<lambda>b. search_from b (slot_matches b busnum dfn) None)"

section \<open>Searching by tags\<close>

text \<open>The tags of \<open>utility.library\<close> that end an array and that are passed over.\<close>

definition TAG_DONE :: u32 where "TAG_DONE = 0"
definition TAG_IGNORE :: u32 where "TAG_IGNORE = 1"

text \<open>Whether a node satisfies one tag.\<close>

definition tag_matches :: "'h lib \<Rightarrow> pdev_id \<Rightarrow> u32 \<Rightarrow> u32 \<Rightarrow> bool" where
  "tag_matches b p tag data =
     (let cur = pdevs b p;
          idev = dev (core b) (pcie_dev_from_openpci b p) in
      if tag = TAG_IGNORE then True
      else if tag = PRM_Vendor then pd_vendor cur = ucast data
      else if tag = PRM_Device then pd_device cur = ucast data
      else if tag = PRM_Class then drop_bit 16 (pd_devclass cur) AND 0xFF = data AND 0xFF
      else if tag = PRM_SubClass then drop_bit 8 (pd_devclass cur) AND 0xFF = data AND 0xFF
      else if tag = PRM_Interface then pd_devclass cur AND 0xFF = data AND 0xFF
      else if tag = PRM_Revision then revision idev = ucast data
      else if tag = PRM_BusNumber then bus_number (bus (core b) (dev_bus idev)) = data
      else if tag = PRM_SlotNumber then ucast (drop_bit 3 (pd_devfn cur)) = data
      else if tag = PRM_FunctionNumber then ucast (pd_devfn cur AND 7) = data
      else if tag = PRM_SubsysVendor then subsys_vendor idev = ucast data
      else if tag = PRM_SubsysID then subsys_id idev = ucast data
      else tag \<noteq> PRM_MemRangeLower \<and> tag \<noteq> PRM_MemRangeUpper)"

fun board_matches :: "'h lib \<Rightarrow> pdev_id \<Rightarrow> (u32 \<times> u32) list \<Rightarrow> bool" where
  "board_matches b p [] = True"
| "board_matches b p ((tag, data) # tags) =
     (if tag = TAG_DONE then True
      else if \<not> tag_matches b p tag data then False
      else board_matches b p tags)"

definition LibFindBoardA ::
    "pdev_id option \<Rightarrow> (u32 \<times> u32) list \<Rightarrow> ('h lib, pdev_id option option) state" where
  "LibFindBoardA prev tags = do {
     ready \<leftarrow> get_lib ctrl_ready;
     if \<not> ready then done_with (Some None)
     else locked (get_lib (\<lambda>b. search_from b (\<lambda>p. board_matches b p tags) prev))
   }"

section \<open>Capabilities\<close>

definition LibFindCapability :: "'h platform \<Rightarrow> pdev_id option \<Rightarrow> u8 \<Rightarrow> ('h lib, u32) state" where
  "LibFindCapability P pd cap = (case pd of
       None \<Rightarrow> done_with 0
     | Some p \<Rightarrow> do {
         d \<leftarrow> get_lib (\<lambda>b. pcie_dev_from_openpci b p);
         core_do (pci_find_capability P d cap)
       })"

definition LibFindExtCapability :: "'h platform \<Rightarrow> pdev_id option \<Rightarrow> u16 \<Rightarrow> ('h lib, u32) state" where
  "LibFindExtCapability P pd cap = (case pd of
       None \<Rightarrow> done_with 0
     | Some p \<Rightarrow> do {
         d \<leftarrow> get_lib (\<lambda>b. pcie_dev_from_openpci b p);
         core_do (pci_find_ext_capability P d cap)
       })"

lemma tame_find [tamed]:
  "tame (LibFindDevice v d prev)" "tame (LibFindClass c prev)" "tame (LibFindSlot n f)"
  "tame (LibFindBoardA prev tags)" "tame (LibFindCapability P pd c8)"
  "tame (LibFindExtCapability P pd c16)"
  unfolding LibFindDevice_def LibFindClass_def LibFindSlot_def LibFindBoardA_def LibFindCapability_def
    LibFindExtCapability_def
  by (intro tamed tame_hw hwo)+

section \<open>The list of boards\<close>

primrec chain :: "(pdev_id \<Rightarrow> pci_dev) \<Rightarrow> pdev_id option \<Rightarrow> pdev_id option \<Rightarrow> pdev_id list \<Rightarrow> bool" where
  "chain st pred head [] \<longleftrightarrow> head = None"
| "chain st pred head (p # ps) \<longleftrightarrow>
     head = Some p \<and> pd_pred (st p) = pred \<and> chain st (Some p) (pd_next (st p)) ps"

definition dev_list :: "'h lib \<Rightarrow> pdev_id list \<Rightarrow> bool" where
  "dev_list b ps \<longleftrightarrow> chain (pdevs b) None (dev_list_head b) ps \<and> distinct ps"

lemma find_from_chain: "chain st pred cur ps \<Longrightarrow> find_from (\<lambda>p. pd_next (st p)) ok cur = Some (find ok ps)"
  by (induction ps arbitrary: pred cur) (simp_all add: find_from.simps)

lemma chain_after: "chain st pred head (xs @ p # ys) \<Longrightarrow> chain st (Some p) (pd_next (st p)) ys"
  by (induction xs arbitrary: pred head) auto

lemma search_first: "dev_list b ps \<Longrightarrow> search_from b ok None = Some (find ok ps)"
  by (auto simp: dev_list_def search_from_def find_from_chain)

lemma search_after: "dev_list b (xs @ p # ys) \<Longrightarrow> search_from b ok (Some p) = Some (find ok ys)"
  by (auto simp: dev_list_def search_from_def dest: chain_after intro: find_from_chain)

section \<open>The client's loop\<close>

text \<open>
  A client that looks for every board of a kind passes each result as \<open>prev\<close> to the next
  call.  \<open>find_all\<close> is this loop; \<open>n\<close> bounds the calls.
\<close>

primrec find_all ::
    "nat \<Rightarrow> (pdev_id option \<Rightarrow> ('h lib, pdev_id option option) state) \<Rightarrow> pdev_id option \<Rightarrow> 'h lib \<Rightarrow> pdev_id list" where
  "find_all 0 search prev b = []"
| "find_all (Suc n) search prev b = (case run_state (search prev) b of
       (Some (Some p), b') \<Rightarrow> p # find_all n search (Some p) b'
     | _ \<Rightarrow> [])"

text \<open>The contract of a search call: it returns the first match behind \<open>prev\<close> and changes nothing.\<close>

locale finder =
  fixes search :: "pdev_id option \<Rightarrow> ('h lib, pdev_id option option) state"
    and ready :: "'h lib \<Rightarrow> bool"
    and ok :: "'h lib \<Rightarrow> pdev_id \<Rightarrow> bool"
  assumes first: "ready b \<Longrightarrow> dev_list b ps \<Longrightarrow> run_state (search None) b = (Some (find (ok b) ps), b)"
    and after: "ready b \<Longrightarrow> dev_list b (xs @ p # ys) \<Longrightarrow> run_state (search (Some p)) b = (Some (find (ok b) ys), b)"
begin

lemma find_split: "find Q ps = Some p \<Longrightarrow> \<exists>xs ys. ps = xs @ p # ys \<and> filter Q ps = p # filter Q ys"
proof (induction ps)
  case (Cons a ps)
  show ?case
  proof (cases "Q a")
    case True
    then have "a = p" using Cons.prems by simp
    then have "a # ps = [] @ p # ps \<and> filter Q (a # ps) = p # filter Q ps" using True by simp
    then show ?thesis by blast
  next
    case False
    then obtain xs ys where "ps = xs @ p # ys" "filter Q ps = p # filter Q ys"
      using Cons by auto
    then have "a # ps = (a # xs) @ p # ys \<and> filter Q (a # ps) = p # filter Q ys" using False by simp
    then show ?thesis by blast
  qed
qed simp

lemma find_none: "find Q ps = None \<Longrightarrow> filter Q ps = []"
  by (simp add: find_None_iff filter_empty_conv)

lemma find_all_after:
  "ready b \<Longrightarrow> dev_list b (xs @ p # ys) \<Longrightarrow> length ys < n \<Longrightarrow> find_all n search (Some p) b = filter (ok b) ys"
proof (induction n arbitrary: xs p ys)
  case (Suc n)
  show ?case
  proof (cases "find (ok b) ys")
    case None
    then show ?thesis using after [OF Suc.prems(1,2)] find_none [OF None] by simp
  next
    case (Some q)
    obtain us vs where ys: "ys = us @ q # vs" "filter (ok b) ys = q # filter (ok b) vs"
      using find_split [OF Some] by blast
    have "find_all n search (Some q) b = filter (ok b) vs"
      using Suc.prems ys(1) by (intro Suc.IH [of "xs @ p # us"]) auto
    then show ?thesis using after [OF Suc.prems(1,2)] Some ys(2) by simp
  qed
qed simp

lemma find_all_filter:
  assumes "ready b" "dev_list b ps" "length ps < n"
  shows "find_all n search None b = filter (ok b) ps"
proof (cases "find (ok b) ps")
  case None
  obtain m where "n = Suc m" using assms(3) by (cases n) auto
  then show ?thesis using first [OF assms(1,2)] None find_none [OF None] by simp
next
  case (Some q)
  obtain us vs where ps: "ps = us @ q # vs" "filter (ok b) ps = q # filter (ok b) vs"
    using find_split [OF Some] by blast
  obtain m where m: "n = Suc m" using assms(3) by (cases n) auto
  have "find_all m search (Some q) b = filter (ok b) vs"
    using assms ps(1) m by (intro find_all_after [of b us]) auto
  then show ?thesis using first [OF assms(1,2)] Some ps(2) m by simp
qed

end

interpretation by_id: finder "LibFindDevice v d" "\<lambda>_. True" "\<lambda>b p. device_matches v d (pdevs b p)"
  by unfold_locales (simp_all add: LibFindDevice_def search_first search_after)

interpretation by_class: finder "LibFindClass c" "\<lambda>_. True" "\<lambda>b p. pd_devclass (pdevs b p) = c"
  by unfold_locales (simp_all add: LibFindClass_def search_first search_after)

lemma search_unlocked:
  "search_from (b\<lparr>semaphore := n\<rparr>) = search_from b" "board_matches (b\<lparr>semaphore := n\<rparr>) p tags = board_matches b p tags"
proof -
  show "search_from (b\<lparr>semaphore := n\<rparr>) = search_from b" by (simp add: search_from_def fun_eq_iff split: option.split)
  have same: "tag_matches (b\<lparr>semaphore := n\<rparr>) p t v = tag_matches b p t v" for t v
    by (simp add: tag_matches_def pcie_dev_from_openpci_def)
  show "board_matches (b\<lparr>semaphore := n\<rparr>) p tags = board_matches b p tags"
    by (induction tags) (auto simp: same split: if_splits)
qed

interpretation by_tags: finder "\<lambda>prev. LibFindBoardA prev tags" ctrl_ready "\<lambda>b p. board_matches b p tags"
  by unfold_locales (simp_all add: LibFindBoardA_def run_locked search_unlocked search_first search_after)

section \<open>Properties\<close>

text \<open>The tags before \<open>TAG_DONE\<close>.\<close>

definition tag_list :: "(u32 \<times> u32) list \<Rightarrow> (u32 \<times> u32) list" where
  "tag_list = takeWhile (\<lambda>(tag, _). tag \<noteq> TAG_DONE)"

lemma board_matches_all: "board_matches b p tags \<longleftrightarrow> list_all (\<lambda>(tag, data). tag_matches b p tag data) (tag_list tags)"
  by (induction b p tags rule: board_matches.induct) (simp_all add: tag_list_def)

text \<open>
  C34: a client that calls \<open>LibFindDevice\<close> with the last result as \<open>prev\<close> sees exactly
  the boards with the wanted identifiers, each once and in the order of the list, and every
  one of its calls returns.
\<close>

theorem find_device_visits:
  assumes "dev_list b ps" and "length ps < n"
  shows "find_all n (LibFindDevice v d) None b = filter (\<lambda>p. device_matches v d (pdevs b p)) ps"
  by (rule by_id.find_all_filter [OF TrueI assms])


text \<open>Two boards, chained.\<close>

definition two_boards :: "ram_hw lib" where
  "two_boards = blank_lib\<lparr>ctrl_ready := True, dev_list_head := Some 0, pdevs := (\<lambda>_. blank_pdev)(
     0 := blank_pdev\<lparr>pd_next := Some 1, pd_vendor := 0x14E4, pd_device := 0x2711\<rparr>,
     1 := blank_pdev\<lparr>pd_pred := Some 0, pd_vendor := 0x1106, pd_device := 0x3483, pd_devclass := 0x0C0330\<rparr>)\<rparr>"

lemma two_boards_list: "dev_list two_boards [0, 1]"
  by (simp add: dev_list_def two_boards_def blank_pdev_def)

theorem find_device_visits_witness:
  "find_all 3 (LibFindDevice 0x1106 0xFFFF) None two_boards = [1]"
  by (subst find_device_visits [OF two_boards_list])
    (simp_all add: two_boards_def device_matches_def blank_pdev_def)


end
