(* ===== verification/Lib_Board.thy ===== *)
theory Lib_Board
  imports Lib_Find
begin

text \<open>
  Ownership and attributes of a board (\<open>bcmpcie.library/src/pcie_board.c\<close>).  The task that
  runs a call, \<open>FindTask(NULL)\<close>, is an argument of the calls that ask for it.  An attribute is
  stored through the pointer in the tag: a longword of \<open>client\<close>.
\<close>

section \<open>Reservation\<close>

definition LibObtainCard :: "task \<Rightarrow> pdev_id option \<Rightarrow> ('h lib, bool) state" where
  "LibObtainCard self pd = (case pd of
       None \<Rightarrow> done_with False
     | Some p \<Rightarrow> locked (do {
         owner \<leftarrow> get_lib (\<lambda>b. pd_owner (pdevs b p));
         if owner \<noteq> 0 then done_with False
         else do { set_pdev p (\<lambda>v. v\<lparr>pd_owner := self\<rparr>); done_with True }
       }))"

definition LibReleaseCard :: "task \<Rightarrow> pdev_id option \<Rightarrow> ('h lib, unit) state" where
  "LibReleaseCard self pd = (case pd of
       None \<Rightarrow> skip
     | Some p \<Rightarrow> locked (do {
         owner \<leftarrow> get_lib (\<lambda>b. pd_owner (pdevs b p));
         only_if (owner = self) (set_pdev p (\<lambda>v. v\<lparr>pd_owner := 0\<rparr>))
       }))"

section \<open>Reading attributes\<close>

text \<open>The attributes that are read from memory.\<close>

definition memory_size :: "pci_dev \<Rightarrow> nat \<Rightarrow> u32" where
  "memory_size v n =
     (let raw = pd_base_size v n;
          msk = (if pd_base_address v n AND PCI_BASE_ADDRESS_SPACE_IO \<noteq> 0
                 then PCI_BASE_ADDRESS_IO_MASK else PCI_BASE_ADDRESS_MEM_MASK) in
      if raw \<noteq> 0 then NOT (raw AND msk) + 1 else 0)"

definition plain_attr :: "'h lib \<Rightarrow> pdev_id \<Rightarrow> u32 \<Rightarrow> u32 option" where
  "plain_attr b p tag =
     (let v = pdevs b p;
          c = ctl (core b);
          idev = dev (core b) (pcie_dev_from_openpci b p) in
      if tag = PRM_Vendor then Some (ucast (pd_vendor v))
      else if tag = PRM_Device then Some (ucast (pd_device v))
      else if tag = PRM_Class then Some (drop_bit 16 (pd_devclass v) AND 0xFF)
      else if tag = PRM_SubsysVendor then Some (ucast (subsys_vendor idev))
      else if tag = PRM_SubsysID then Some (ucast (subsys_id idev))
      else if tag = PRM_SubClass then Some (drop_bit 8 (pd_devclass v) AND 0xFF)
      else if tag = PRM_Revision then Some (ucast (revision idev))
      else if tag = PRM_HeaderType then Some (ucast (header_type idev))
      else if tag = PRM_Interface then Some (pd_devclass v AND 0xFF)
      else if tag = PRM_BusNumber then Some (bus_number (bus (core b) (dev_bus idev)))
      else if tag = PRM_SlotNumber then Some (ucast (drop_bit 3 (pd_devfn v)))
      else if tag = PRM_FunctionNumber then Some (ucast (pd_devfn v AND 7))
      else if tag = PRM_InterruptLine then Some (ucast (intx_pin_routed idev))
      else if tag = PRM_InterruptPin then Some (ucast (intx_pin idev))
      else if tag = PRM_LegacyIOSpace then Some (pd_legacy_io v)
      else if tag = PRM_PCIToHostOffset then Some 0
      else if tag = PRM_ROM_Address then Some (pd_rom_address v)
      else if tag = PRM_ROM_Size then Some (pd_rom_size v)
      else if PRM_MemoryAddr0 \<le> tag \<and> tag \<le> PRM_MemoryAddr5
        then Some (pd_base_address v (unat (tag - PRM_MemoryAddr0)))
      else if PRM_MemorySize0 \<le> tag \<and> tag \<le> PRM_MemorySize5
        then Some (memory_size v (unat (tag - PRM_MemorySize0)))
      else if PRM_MemoryFlags0 \<le> tag \<and> tag \<le> PRM_MemoryFlags5
        then Some (pd_base_size v (unat (tag - PRM_MemoryFlags0)) AND 0xF)
      else if tag = PRM_PCIMemWindowLow then Some (case pci_mem c of
          None \<Rightarrow> 0 | Some i \<Rightarrow> bus_start (regions c ! i))
      else if tag = PRM_PCIMemWindowHigh then Some (case pci_mem c of
          None \<Rightarrow> 0 | Some i \<Rightarrow> bus_start (regions c ! i) + region_size (regions c ! i))
      else None)"

text \<open>The window the caller may read the configuration space through.\<close>

definition config_area :: "'h platform \<Rightarrow> pci_controller \<Rightarrow> u32 \<Rightarrow> ('h lib, u32) state" where
  "config_area P c at =
     (if PCI_BUS at = 0 then done_with (base c)
      else do {
        core_do (mmio_write32 P (PCIE_ECAM_OFFSET (PCI_BUS at) (PCI_DEV at) (PCI_FUNC at) 0) (base c + PCIE_EXT_CFG_INDEX));
        done_with (base c + PCIE_EXT_CFG_DATA)
      })"

definition get_attr :: "'h platform \<Rightarrow> pdev_id \<Rightarrow> u32 \<Rightarrow> ('h lib, u32 option) state" where
  "get_attr P p tag = do {
     d \<leftarrow> get_lib (\<lambda>b. pcie_dev_from_openpci b p);
     if tag = PRM_ROM_Flags then do {
       (_, raw) \<leftarrow> core_do (pci_read_config32 P d PCI_ROM_ADDRESS);
       done_with (Some (raw AND 1))
     } else if tag = PRM_ConfigArea then do {
       c \<leftarrow> get_lib (\<lambda>b. ctl (core b));
       v \<leftarrow> get_lib (\<lambda>b. dev (core b) d);
       a \<leftarrow> config_area P c (bdf v);
       done_with (Some a)
     } else if tag = PRM_BoardOwner then do {
       owner \<leftarrow> locked (get_lib (\<lambda>b. pd_owner (pdevs b p)));
       done_with (Some owner)
     } else get_lib (\<lambda>b. plain_attr b p tag)
   }"

definition put_client :: "u32 \<Rightarrow> u32 \<Rightarrow> ('h lib, unit) state" where
  "put_client a v = modify (\<lambda>b. b\<lparr>client := (client b)(a := v)\<rparr>)"

fun get_attrs_loop :: "'h platform \<Rightarrow> pdev_id \<Rightarrow> (u32 \<times> u32) list \<Rightarrow> u32 \<Rightarrow> ('h lib, u32) state" where
  "get_attrs_loop P p [] count = done_with count"
| "get_attrs_loop P p ((tag, dest) # tags) count =
     (if tag = TAG_DONE then done_with count
      else if tag = TAG_IGNORE then get_attrs_loop P p tags count
      else if dest = 0 then get_attrs_loop P p tags count
      else do {
        v \<leftarrow> get_attr P p tag;
        case v of
          None \<Rightarrow> get_attrs_loop P p tags count
        | Some x \<Rightarrow> do { put_client dest x; get_attrs_loop P p tags (count + 1) }
      })"

definition LibGetBoardAttrsA ::
    "'h platform \<Rightarrow> pdev_id option \<Rightarrow> (u32 \<times> u32) list option \<Rightarrow> ('h lib, u32) state" where
  "LibGetBoardAttrsA P pd tags = (case (pd, tags) of
       (Some p, Some ts) \<Rightarrow> locked (get_attrs_loop P p ts 0)
     | _ \<Rightarrow> done_with 0)"

section \<open>Writing attributes\<close>

text \<open>Only the owner can be set: claimed while it is free, cleared at any time.\<close>

definition set_owner :: "pdev_id \<Rightarrow> u32 \<Rightarrow> ('h lib, bool) state" where
  "set_owner p data = locked (do {
     owner \<leftarrow> get_lib (\<lambda>b. pd_owner (pdevs b p));
     if data \<noteq> 0 then
       (if owner = 0 then do { set_pdev p (\<lambda>v. v\<lparr>pd_owner := data\<rparr>); done_with True } else done_with False)
     else do { set_pdev p (\<lambda>v. v\<lparr>pd_owner := 0\<rparr>); done_with True }
   })"

fun set_attrs_loop :: "pdev_id \<Rightarrow> (u32 \<times> u32) list \<Rightarrow> bool \<Rightarrow> ('h lib, bool) state" where
  "set_attrs_loop p [] all_ok = done_with all_ok"
| "set_attrs_loop p ((tag, data) # tags) all_ok =
     (if tag = TAG_DONE then done_with all_ok
      else if tag = TAG_IGNORE then set_attrs_loop p tags all_ok
      else if tag = PRM_BoardOwner then do {
        ok \<leftarrow> set_owner p data;
        set_attrs_loop p tags (all_ok \<and> ok)
      } else set_attrs_loop p tags False)"

definition LibSetBoardAttrsA :: "pdev_id option \<Rightarrow> (u32 \<times> u32) list option \<Rightarrow> ('h lib, bool) state" where
  "LibSetBoardAttrsA pd tags = (case (pd, tags) of
       (Some p, Some ts) \<Rightarrow> set_attrs_loop p ts True
     | _ \<Rightarrow> done_with False)"

section \<open>Reset and bus mastering\<close>

definition LibFLR :: "'h platform \<Rightarrow> pdev_id option \<Rightarrow> ('h lib, int) state" where
  "LibFLR P pd = (case pd of
       None \<Rightarrow> done_with (error_code PCIE_ERR_INVAL)
     | Some p \<Rightarrow> do {
         d \<leftarrow> get_lib (\<lambda>b. pcie_dev_from_openpci b p);
         r \<leftarrow> core_do (pci_flr P d);
         done_with (error_code (if r = Ok then PCIE_OK else PCIE_ERR_NOTSUPP))
       })"

definition LibSetMaster :: "'h platform \<Rightarrow> pdev_id option \<Rightarrow> ('h lib, bool) state" where
  "LibSetMaster P pd = (case pd of
       None \<Rightarrow> done_with False
     | Some p \<Rightarrow> do {
         d \<leftarrow> get_lib (\<lambda>b. pcie_dev_from_openpci b p);
         cmd \<leftarrow> locked (do {
           (_, cmd) \<leftarrow> core_do (pci_read_config16 P d PCI_COMMAND);
           _ \<leftarrow> core_do (pci_write_config16 P d PCI_COMMAND (ucast (cmd OR ucast PCI_COMMAND_MASTER)));
           (_, cmd) \<leftarrow> core_do (pci_read_config16 P d PCI_COMMAND);
           done_with cmd
         });
         set_pdev p (\<lambda>v. v\<lparr>pd_master := cmd\<rparr>);
         done_with True
       })"

lemma tame_put_client [tamed]: "tame (put_client a v)"
  unfolding put_client_def by (rule tame_modify) (simp add: base_view_def)

lemma tame_get_attr [tamed]: "tame (get_attr P p tag)"
  unfolding get_attr_def config_area_def by (intro tamed tame_hw hwo)

lemma tame_get_loop [tamed]: "tame (get_attrs_loop P p tags n)"
  by (induction P p tags n rule: get_attrs_loop.induct) (auto intro!: tamed tame_hw hwo)

lemma tame_set_loop [tamed]: "tame (set_attrs_loop p tags ok)"
  by (induction p tags ok rule: set_attrs_loop.induct) (auto intro!: tamed tame_set_pdev simp: set_owner_def)

lemma tame_pdev_fields [tamed]:
  "tame (set_pdev p (\<lambda>v. v\<lparr>pd_owner := t\<rparr>))" "tame (set_pdev p (\<lambda>v. v\<lparr>pd_master := c\<rparr>))"
  by (intro tame_set_pdev, simp)+

lemma tame_board [tamed]:
  "tame (LibObtainCard t pd)" "tame (LibReleaseCard t pd)" "tame (LibGetBoardAttrsA P pd tags)"
  "tame (LibSetBoardAttrsA pd tags)" "tame (LibFLR P pd)" "tame (LibSetMaster P pd)"
  unfolding LibObtainCard_def LibReleaseCard_def LibGetBoardAttrsA_def LibSetBoardAttrsA_def LibFLR_def
    LibSetMaster_def case_prod_conv
  by (intro tamed tame_hw hwo)+

section \<open>Ownership is exclusive\<close>

text \<open>The reservation calls of all tasks, one after the other, and what each returned.\<close>

datatype card_call = ObtainCard task pdev_id | ReleaseCard task pdev_id

fun caller :: "card_call \<Rightarrow> task" where
  "caller (ObtainCard t p) = t"
| "caller (ReleaseCard t p) = t"

definition do_card_call :: "card_call \<Rightarrow> ('h lib, bool) state" where
  "do_card_call c = (case c of
       ObtainCard t p \<Rightarrow> LibObtainCard t (Some p)
     | ReleaseCard t p \<Rightarrow> do { LibReleaseCard t (Some p); done_with True })"

fun do_card_calls :: "card_call list \<Rightarrow> ('h lib, bool list) state" where
  "do_card_calls [] = done_with []"
| "do_card_calls (c # cs) = do { r \<leftarrow> do_card_call c; rs \<leftarrow> do_card_calls cs; done_with (r # rs) }"

lemma run_obtain:
  "run_state (LibObtainCard t (Some p)) b =
     (if pd_owner (pdevs b p) \<noteq> 0 then (False, b)
      else (True, b\<lparr>pdevs := (pdevs b)(p := (pdevs b p)\<lparr>pd_owner := t\<rparr>)\<rparr>))"
  by (simp add: LibObtainCard_def run_locked)

lemma run_release:
  "run_state (LibReleaseCard t (Some p)) b =
     ((), if pd_owner (pdevs b p) = t then b\<lparr>pdevs := (pdevs b)(p := (pdevs b p)\<lparr>pd_owner := 0\<rparr>)\<rparr> else b)"
  by (simp add: LibReleaseCard_def run_locked)

lemma owner_stays:
  assumes "pd_owner (pdevs b p) = t" and "t \<noteq> 0" and "caller c \<noteq> t"
    and "run_state (do_card_call c) b = (r, b')"
  shows "pd_owner (pdevs b' p) = t \<and> (\<forall>u. c = ObtainCard u p \<longrightarrow> \<not> r)"
  using assms by (cases c) (auto simp: do_card_call_def run_obtain run_release split: if_splits)



section \<open>What a read of attributes changes\<close>

text \<open>The attributes the call knows.\<close>

definition known_attr :: "u32 \<Rightarrow> bool" where
  "known_attr tag \<longleftrightarrow> tag \<in> set [PRM_Vendor, PRM_Device, PRM_Class, PRM_SubsysVendor, PRM_SubsysID, PRM_SubClass,
       PRM_Revision, PRM_HeaderType, PRM_Interface, PRM_BusNumber, PRM_SlotNumber, PRM_FunctionNumber,
       PRM_InterruptLine, PRM_InterruptPin, PRM_LegacyIOSpace, PRM_PCIToHostOffset, PRM_ROM_Address,
       PRM_ROM_Size, PRM_ROM_Flags, PRM_ConfigArea, PRM_BoardOwner] \<or>
     PRM_MemoryAddr0 \<le> tag \<and> tag \<le> PRM_MemoryAddr5 \<or>
     PRM_MemorySize0 \<le> tag \<and> tag \<le> PRM_MemorySize5 \<or>
     PRM_MemoryFlags0 \<le> tag \<and> tag \<le> PRM_MemoryFlags5 \<or>
     tag = PRM_PCIMemWindowLow \<or> tag = PRM_PCIMemWindowHigh"

lemma if_some: "((if c then Some x else y) = None) = (\<not> c \<and> y = None)"
  by simp

lemma plain_attr_known:
  assumes "tag \<noteq> PRM_ROM_Flags" "tag \<noteq> PRM_ConfigArea" "tag \<noteq> PRM_BoardOwner"
  shows "plain_attr b p tag = None \<longleftrightarrow> \<not> known_attr tag"
  using assms unfolding plain_attr_def Let_def if_some known_attr_def by simp

lemma get_attr_known:
  assumes "run_state (get_attr P p tag) b = (v, b')"
  shows "v = None \<longleftrightarrow> \<not> known_attr tag" "client b' = client b"
proof -
  have special: "known_attr PRM_ROM_Flags" "known_attr PRM_ConfigArea" "known_attr PRM_BoardOwner"
    by (simp_all add: known_attr_def)
  then show "v = None \<longleftrightarrow> \<not> known_attr tag" "client b' = client b"
    using assms plain_attr_known [of tag b p]
    by (auto simp: get_attr_def config_area_def run_locked Let_def split: if_splits prod.splits)
qed

text \<open>The tags the call answers.\<close>

definition answered :: "(u32 \<times> u32) list \<Rightarrow> (u32 \<times> u32) list" where
  "answered tags = filter (\<lambda>(tag, dest). tag \<noteq> TAG_IGNORE \<and> dest \<noteq> 0 \<and> known_attr tag) (tag_list tags)"

lemma get_attrs_loop_frame:
  assumes "run_state (get_attrs_loop P p tags n) b = (m, b')"
  shows "m = n + of_nat (length (answered tags)) \<and> (\<forall>a. a \<notin> snd ` set (answered tags) \<longrightarrow> client b' a = client b a)"
  using assms
proof (induction tags arbitrary: n b)
  case (Cons x tags)
  obtain tag dest where x: "x = (tag, dest)" by (cases x)
  show ?case
  proof (cases "tag = TAG_DONE \<or> tag = TAG_IGNORE \<or> dest = 0")
    case True
    then have "answered (x # tags) = (if tag = TAG_DONE then [] else answered tags)"
      by (auto simp: x answered_def tag_list_def)
    then show ?thesis using Cons True by (auto simp: x split: if_splits)
  next
    case False
    obtain v b1 where v: "run_state (get_attr P p tag) b = (v, b1)" by (metis surj_pair)
    note known = get_attr_known [OF v]
    have step: "answered (x # tags) = (if v = None then answered tags else (tag, dest) # answered tags)"
      using False known(1) by (simp add: x answered_def tag_list_def)
    show ?thesis
    proof (cases v)
      case None
      then have "run_state (get_attrs_loop P p tags n) b1 = (m, b')" using Cons.prems False v by (simp add: x)
      then show ?thesis using Cons.IH known(2) step None by metis
    next
      case (Some w)
      then have "run_state (get_attrs_loop P p tags (n + 1)) (b1\<lparr>client := (client b1)(dest := w)\<rparr>) = (m, b')"
        using Cons.prems False v by (simp add: x put_client_def)
      from Cons.IH [OF this] show ?thesis using known(2) step Some by (auto simp: algebra_simps)
    qed
  qed
qed (simp add: answered_def tag_list_def)

text \<open>
  C37: \<open>LibGetBoardAttrsA\<close> returns the number of tags before \<open>TAG_DONE\<close> that it knows and
  that have somewhere to store the answer, and writes to no other longword of the client.
\<close>

theorem get_attrs_count:
  assumes "run_state (LibGetBoardAttrsA P (Some p) (Some tags)) b = (m, b')"
  shows "m = of_nat (length (answered tags)) \<and> (\<forall>a. a \<notin> snd ` set (answered tags) \<longrightarrow> client b' a = client b a)"
proof -
  obtain b1 where b1: "run_state (get_attrs_loop P p tags 0) (b\<lparr>semaphore := Suc (semaphore b)\<rparr>) = (m, b1)"
    "client b' = client b1"
    using assms by (auto simp: LibGetBoardAttrsA_def run_locked Let_def split: prod.splits)
  show ?thesis using get_attrs_loop_frame [OF b1(1)] b1(2) by simp
qed

theorem get_attrs_count_witness:
  "fst (run_state (LibGetBoardAttrsA ram_platform (Some 1) (Some [(PRM_Vendor, 0x100), (TAG_IGNORE, 5),
     (PRM_MemRangeLower, 0x104), (PRM_Device, 0), (TAG_DONE, 0), (PRM_Device, 0x108)])) two_boards) = 1"
  using get_attrs_count [OF surjective_pairing, of ram_platform 1 "[(PRM_Vendor, 0x100), (TAG_IGNORE, 5),
     (PRM_MemRangeLower, 0x104), (PRM_Device, 0), (TAG_DONE, 0), (PRM_Device, 0x108)]" two_boards]
  by (simp add: answered_def tag_list_def TAG_DONE_def TAG_IGNORE_def known_attr_def)

section \<open>The size of a BAR\<close>

text \<open>
  \<open>base_size\<close> holds the response of the BAR to the sizing write: the complement of the size
  minus one, with the type in the low bits.
\<close>

lemma memory_response_decodes:
  fixes fl :: u32
  assumes "4 \<le> n" and "n < 32" and "fl < 16"
  shows "(NOT (mask n) OR fl) AND 0xFFFFFFF0 = NOT (mask n)" "(NOT (mask n) OR fl) \<noteq> 0"
proof -
  have fl: "\<not> bit fl i" if "4 \<le> i" for i
  proof -
    have "take_bit 4 fl = fl" by (rule take_bit_less_exp) (use assms(3) in simp_all)
    then show ?thesis using that by (metis bit_take_bit_iff not_le)
  qed
  have num: "(0xFFFFFFF0 :: u32) = NOT (mask 4)" by (simp add: mask_numeral)
  show "(NOT (mask n) OR fl) AND 0xFFFFFFF0 = NOT (mask n)"
    unfolding num using assms(1) fl by (auto simp: bit_eq_iff bit_simps)
  have "bit (NOT (mask n) OR fl) 31" using assms(2) by (simp add: bit_simps)
  then show "(NOT (mask n) OR fl) \<noteq> 0" by auto
qed

lemma plain_attr_unlocked: "plain_attr (b\<lparr>semaphore := n\<rparr>) p tag = plain_attr b p tag"
  unfolding plain_attr_def pcie_dev_from_openpci_def Let_def by (simp cong: if_cong option.case_cong)

lemma run_get_plain:
  assumes "plain_attr b p tag = Some x" "tag \<noteq> PRM_ROM_Flags" "tag \<noteq> PRM_ConfigArea" "tag \<noteq> PRM_BoardOwner"
    "tag \<noteq> TAG_DONE" "tag \<noteq> TAG_IGNORE" "a \<noteq> 0"
  shows "run_state (LibGetBoardAttrsA P (Some p) (Some [(tag, a), (TAG_DONE, 0)])) b =
    (1, b\<lparr>client := (client b)(a := x)\<rparr>)"
proof -
  have "plain_attr (b\<lparr>semaphore := n\<rparr>) p tag = Some x" for n
    using assms(1) by (simp only: plain_attr_unlocked)
  then show ?thesis
    using assms by (simp add: LibGetBoardAttrsA_def run_locked get_attr_def put_client_def Let_def)
qed

lemma memory_size_tag:
  assumes "n < 6"
  shows "plain_attr b p (PRM_MemorySize0 + of_nat n) = Some (memory_size (pdevs b p) n)"
proof -
  from assms consider "n = 0" | "n = 1" | "n = 2" | "n = 3" | "n = 4" | "n = 5" by linarith
  then show ?thesis by cases (simp_all add: plain_attr_def Let_def)
qed

text \<open>
  For a memory BAR of \<open>2 ^ k\<close> bytes, \<open>PRM_MemorySizeN\<close> answers the size, whatever the
  type bits of its response.
\<close>

theorem memory_size_attr:
  assumes "n < 6" and "a \<noteq> 0" and "4 \<le> k" and "k < 32" and "fl < 16"
    and "pd_base_size (pdevs b p) n = NOT (mask k) OR fl" and "pd_base_address (pdevs b p) n AND 1 = 0"
  shows "client (snd (run_state (LibGetBoardAttrsA P (Some p)
      (Some [(PRM_MemorySize0 + of_nat n, a), (TAG_DONE, 0)])) b)) a = 2 ^ k"
proof -
  have "memory_size (pdevs b p) n = 2 ^ k"
    using assms memory_response_decodes [OF assms(3-5)] by (simp add: memory_size_def Let_def mask_eq_exp_minus_1)
  moreover have "n = 0 \<or> n = 1 \<or> n = 2 \<or> n = 3 \<or> n = 4 \<or> n = 5" using assms(1) by linarith
  then have "run_state (LibGetBoardAttrsA P (Some p) (Some [(PRM_MemorySize0 + of_nat n, a), (TAG_DONE, 0)])) b =
      (1, b\<lparr>client := (client b)(a := memory_size (pdevs b p) n)\<rparr>)"
    by (intro run_get_plain memory_size_tag assms) (auto simp: TAG_DONE_def TAG_IGNORE_def)
  ultimately show ?thesis by simp
qed

text \<open>
  The enumeration gives an I/O BAR no virtual address, so \<open>base_address\<close> is \<open>0\<close> and the size is
  decoded with the mask of a memory BAR: an I/O BAR of 4 bytes is reported as 16 bytes.
\<close>

lemma io_bar_size_wrong:
  assumes "pd_base_size (pdevs b p) 0 = NOT (mask 2) OR 1" and "pd_base_address (pdevs b p) 0 = 0"
  shows "plain_attr b p PRM_MemorySize0 = Some 16"
  using memory_size_tag [of 0 b p] assms by (simp add: memory_size_def mask_eq_exp_minus_1)

theorem memory_size_attr_witness:
  "client (snd (run_state (LibGetBoardAttrsA ram_platform (Some 0)
      (Some [(PRM_MemorySize0 + of_nat 2, 0x100), (TAG_DONE, 0)]))
     (blank_lib\<lparr>pdevs := (\<lambda>_. blank_pdev\<lparr>pd_base_size := (\<lambda>_. NOT (mask 12) OR 0xC)\<rparr>)\<rparr>))) 0x100 = 2 ^ 12"
  by (rule memory_size_attr) (simp_all add: blank_pdev_def)

end
