(* ===== verification/Lib_Mem.thy ===== *)
theory Lib_Mem
  imports Lib_Base
begin

text \<open>
  Memory (\<open>bcmpcie.library/src/pcie_mem.c\<close>): DMA buffers, the translation between the
  addresses the processor uses (logic) and those of the bus (physic), and access to ranges of
  bus addresses.  The pool behind the buffers is a service of the system; an address is a
  \<open>u32\<close>, \<open>0\<close> for \<open>NULL\<close>.
\<close>

section \<open>DMA buffers\<close>

definition LibAllocDMAMem :: "'h services \<Rightarrow> u32 \<Rightarrow> u32 \<Rightarrow> ('h lib, u32) state" where
  "LibAllocDMAMem S sz fl = do {
     pool \<leftarrow> get_lib dma_pool;
     core_do (hw_get (dma_zalloc S pool (DMA_ALIGN_MIN S) sz))
   }"

definition LibFreeDMAMem :: "'h services \<Rightarrow> u32 \<Rightarrow> u32 \<Rightarrow> ('h lib, unit) state" where
  "LibFreeDMAMem S buf sz = do {
     pool \<leftarrow> get_lib dma_pool;
     core_do (hw_do (dma_free S pool buf))
   }"

definition LibAllocDMAForBoard :: "'h services \<Rightarrow> pdev_id option \<Rightarrow> u32 \<Rightarrow> u32 \<Rightarrow> ('h lib, u32) state" where
  "LibAllocDMAForBoard S pd sz fl = do {
     pool \<leftarrow> get_lib dma_pool;
     core_do (hw_get (dma_zalloc S pool (DMA_ALIGN_MIN S) sz))
   }"

definition LibReleaseDMAForBoard :: "'h services \<Rightarrow> pdev_id option \<Rightarrow> u32 \<Rightarrow> u32 \<Rightarrow> ('h lib, unit) state" where
  "LibReleaseDMAForBoard S pd buf sz = do {
     pool \<leftarrow> get_lib dma_pool;
     core_do (hw_do (dma_free S pool buf))
   }"

section \<open>Address translation\<close>

text \<open>The bars of a device that the loops look at, in the order of the slots.\<close>

definition mapped_bars :: "pci_device \<Rightarrow> pci_bar_info list" where
  "mapped_bars v = filter (\<lambda>b. present b \<and> virt_addr b \<noteq> 0) (map (bars v) [0..<bars_num v])"

definition logic_to_physic :: "pci_controller \<Rightarrow> pci_device \<Rightarrow> u32 \<Rightarrow> u32" where
  "logic_to_physic c v addr =
     (case find (\<lambda>b. addr \<ge> virt_addr b \<and> addr < virt_addr b + bar_size b) (mapped_bars v) of
        Some b \<Rightarrow> bus_addr b + (addr - virt_addr b)
      | None \<Rightarrow> pci_phys_to_bus c (ucast addr) 1 0 0)"

definition physic_to_logic :: "pci_controller \<Rightarrow> pci_device \<Rightarrow> u32 \<Rightarrow> u32" where
  "physic_to_logic c v pciaddr =
     (case find (\<lambda>b. pciaddr \<ge> bus_addr b \<and> pciaddr < bus_addr b + bar_size b) (mapped_bars v) of
        Some b \<Rightarrow> virt_addr b + (pciaddr - bus_addr b)
      | None \<Rightarrow> ucast (pci_bus_to_phys c pciaddr 1 0 0))"

definition LibLogicToPhysic :: "u32 \<Rightarrow> pdev_id option \<Rightarrow> ('h lib, u32) state" where
  "LibLogicToPhysic addr pd = (case pd of
       None \<Rightarrow> done_with 0
     | Some p \<Rightarrow> if addr = 0 then done_with 0
         else get_lib (\<lambda>b. logic_to_physic (ctl (core b)) (dev (core b) (pcie_dev_from_openpci b p)) addr))"

definition LibPhysicToLogic :: "u32 \<Rightarrow> pdev_id option \<Rightarrow> ('h lib, u32) state" where
  "LibPhysicToLogic addr pd = (case pd of
       None \<Rightarrow> done_with 0
     | Some p \<Rightarrow> if addr = 0 then done_with 0
         else get_lib (\<lambda>b. physic_to_logic (ctl (core b)) (dev (core b) (pcie_dev_from_openpci b p)) addr))"

section \<open>Notification hooks\<close>

definition LibAddMemHandler :: "pdev_id option \<Rightarrow> u32 \<Rightarrow> u8 \<Rightarrow> ('h lib, bool) state" where
  "LibAddMemHandler pd hk pri = done_with True"

definition LibRemMemHandler :: "pdev_id option \<Rightarrow> u32 \<Rightarrow> ('h lib, bool) state" where
  "LibRemMemHandler pd hk = done_with True"

section \<open>Ranges of bus addresses\<close>

definition obtain_region :: "pci_device \<Rightarrow> u32 \<Rightarrow> u32 \<Rightarrow> u32" where
  "obtain_region v region sz =
     (case find (\<lambda>b. bar_type b \<noteq> PCI_REGION_IO \<and> region \<ge> bus_addr b \<and> region + sz \<le> bus_addr b + bar_size b)
        (mapped_bars v) of
        Some b \<Rightarrow> virt_addr b + (region - bus_addr b)
      | None \<Rightarrow> 0)"

definition LibObtainPCIRegion :: "pdev_id option \<Rightarrow> u32 \<Rightarrow> u32 \<Rightarrow> ('h lib, u32) state" where
  "LibObtainPCIRegion pd region sz = (case pd of
       None \<Rightarrow> done_with 0
     | Some p \<Rightarrow> if region = 0 then done_with 0
         else get_lib (\<lambda>b. obtain_region (dev (core b) (pcie_dev_from_openpci b p)) region sz))"

definition LibReleasePCIRegion :: "pdev_id option \<Rightarrow> u32 \<Rightarrow> ('h lib, unit) state" where
  "LibReleasePCIRegion pd addr = skip"

lemmas lib_mem_defs = LibAllocDMAMem_def LibFreeDMAMem_def LibAllocDMAForBoard_def LibReleaseDMAForBoard_def
  LibLogicToPhysic_def LibPhysicToLogic_def LibAddMemHandler_def LibRemMemHandler_def
  LibObtainPCIRegion_def LibReleasePCIRegion_def

lemma tame_mem [tamed]:
  "tame (LibAllocDMAMem S sz fl)" "tame (LibFreeDMAMem S buf sz)" "tame (LibAllocDMAForBoard S pd sz fl)"
  "tame (LibReleaseDMAForBoard S pd buf sz)" "tame (LibLogicToPhysic a pd)" "tame (LibPhysicToLogic a pd)"
  "tame (LibAddMemHandler pd hk pri)" "tame (LibRemMemHandler pd hk)" "tame (LibObtainPCIRegion pd r sz)"
  "tame (LibReleasePCIRegion pd a)"
  unfolding lib_mem_defs by (intro tamed tame_hw hwo)+

section \<open>The windows of the BARs\<close>

text \<open>
  \<open>in_virt b a n\<close>: the \<open>n\<close> bytes from CPU address \<open>a\<close> are in the window of \<open>b\<close>; \<open>in_bus\<close> the
  same for bus addresses.  \<open>bars_ok v\<close>: no window wraps, and neither the CPU windows nor the
  bus ranges of two BARs overlap.
\<close>

definition in_virt :: "pci_bar_info \<Rightarrow> nat \<Rightarrow> bool" where
  "in_virt b a \<longleftrightarrow> unat (virt_addr b) \<le> a \<and> a < unat (virt_addr b) + unat (bar_size b)"

definition in_bus :: "pci_bar_info \<Rightarrow> nat \<Rightarrow> nat \<Rightarrow> bool" where
  "in_bus b a n \<longleftrightarrow> unat (bus_addr b) \<le> a \<and> a + n \<le> unat (bus_addr b) + unat (bar_size b)"

definition bar_fits :: "pci_bar_info \<Rightarrow> bool" where
  "bar_fits b \<longleftrightarrow> unat (virt_addr b) + unat (bar_size b) < 2 ^ 32 \<and> unat (bus_addr b) + unat (bar_size b) < 2 ^ 32"

definition bars_apart :: "pci_bar_info \<Rightarrow> pci_bar_info \<Rightarrow> bool" where
  "bars_apart b d \<longleftrightarrow> (\<forall>a. \<not> (in_virt b a \<and> in_virt d a)) \<and> (\<forall>a. \<not> (in_bus b a 1 \<and> in_bus d a 1))"

fun bars_ok :: "pci_bar_info list \<Rightarrow> bool" where
  "bars_ok [] = True"
| "bars_ok (b # bs) = (bar_fits b \<and> list_all (bars_apart b) bs \<and> bars_ok bs)"

lemma unat_window: "unat (x :: u32) + unat y < 2 ^ 32 \<Longrightarrow> unat (x + y) = unat x + unat y"
  by (subst unat_add_lem [THEN iffD1]) simp_all

lemma bar_virt_guard: "bar_fits b \<Longrightarrow> (addr \<ge> virt_addr b \<and> addr < virt_addr b + bar_size b) = in_virt b (unat addr)"
  by (simp add: bar_fits_def in_virt_def word_le_nat_alt word_less_nat_alt unat_window)

lemma bar_bus_guard: "bar_fits b \<Longrightarrow> (addr \<ge> bus_addr b \<and> addr < bus_addr b + bar_size b) = in_bus b (unat addr) 1"
  by (simp add: bar_fits_def in_bus_def word_le_nat_alt word_less_nat_alt unat_window Suc_le_eq)

lemma bars_ok_fits: "bars_ok bs \<Longrightarrow> b \<in> set bs \<Longrightarrow> bar_fits b"
  by (induction bs) auto

lemma find_only:
  assumes "b \<in> set bs" and "Q b" and "\<And>d. d \<in> set bs \<Longrightarrow> Q d \<Longrightarrow> d = b"
  shows "find Q bs = Some b"
  using assms
proof (induction bs)
  case (Cons c bs)
  show ?case
  proof (cases "Q c")
    case True
    have "c = b" by (rule Cons.prems(3) [OF _ True]) simp
    then show ?thesis using True by simp
  next
    case False
    then have "b \<in> set bs" using Cons.prems(1,2) by auto
    then have "find Q bs = Some b"
      by (rule Cons.IH [OF _ Cons.prems(2)]) (rule Cons.prems(3), simp)
    then show ?thesis using False by simp
  qed
qed simp

lemma bars_ok_apart:
  "bars_ok bs \<Longrightarrow> b \<in> set bs \<Longrightarrow> d \<in> set bs \<Longrightarrow> b = d \<or> bars_apart b d \<or> bars_apart d b"
  unfolding list_all_iff by (induction bs) (auto simp: list_all_iff)

lemma bars_ok_unique:
  assumes "bars_ok bs" "b \<in> set bs" "d \<in> set bs"
  shows "in_virt b a \<Longrightarrow> in_virt d a \<Longrightarrow> d = b" "in_bus b a 1 \<Longrightarrow> in_bus d a 1 \<Longrightarrow> d = b"
  using bars_ok_apart [OF assms] unfolding bars_apart_def by blast+

text \<open>The BAR of an address, for both directions.\<close>

lemma find_virt:
  assumes "bars_ok bs" and "b \<in> set bs" and "in_virt b (unat addr)"
  shows "find (\<lambda>b. addr \<ge> virt_addr b \<and> addr < virt_addr b + bar_size b) bs = Some b"
proof (rule find_only [OF assms(2)])
  show "addr \<ge> virt_addr b \<and> addr < virt_addr b + bar_size b"
    using assms(3) bar_virt_guard [OF bars_ok_fits [OF assms(1,2)]] by simp
  fix d assume d: "d \<in> set bs" "addr \<ge> virt_addr d \<and> addr < virt_addr d + bar_size d"
  then have "in_virt d (unat addr)" using bar_virt_guard [OF bars_ok_fits [OF assms(1) d(1)]] by simp
  then show "d = b" by (rule bars_ok_unique(1) [OF assms(1,2) d(1) assms(3)])
qed

lemma find_bus:
  assumes "bars_ok bs" and "b \<in> set bs" and "in_bus b (unat addr) 1"
  shows "find (\<lambda>b. addr \<ge> bus_addr b \<and> addr < bus_addr b + bar_size b) bs = Some b"
proof (rule find_only [OF assms(2)])
  show "addr \<ge> bus_addr b \<and> addr < bus_addr b + bar_size b"
    using assms(3) bar_bus_guard [OF bars_ok_fits [OF assms(1,2)]] by simp
  fix d assume d: "d \<in> set bs" "addr \<ge> bus_addr d \<and> addr < bus_addr d + bar_size d"
  then have "in_bus d (unat addr) 1" using bar_bus_guard [OF bars_ok_fits [OF assms(1) d(1)]] by simp
  then show "d = b" by (rule bars_ok_unique(2) [OF assms(1,2) d(1) assms(3)])
qed

lemma bus_of_virt:
  assumes "bar_fits b" and "in_virt b (unat addr)"
  shows "in_bus b (unat (bus_addr b + (addr - virt_addr b))) 1"
proof -
  have off: "unat (addr - virt_addr b) = unat addr - unat (virt_addr b)"
    using assms(2) by (intro unat_sub) (simp add: in_virt_def word_le_nat_alt)
  have "unat (bus_addr b + (addr - virt_addr b)) = unat (bus_addr b) + (unat addr - unat (virt_addr b))"
    using assms off by (subst unat_window) (auto simp: bar_fits_def in_virt_def)
  then show ?thesis using assms(2) by (auto simp: in_bus_def in_virt_def)
qed


text \<open>
  C40: what \<open>LibObtainPCIRegion\<close> returns for a range that does not wrap is the address
  of the range in the window of one memory BAR of the device, which contains the whole
  range, or \<open>0\<close>.
\<close>

theorem obtain_region_covers:
  fixes b :: "'h lib"
  assumes "list_all bar_fits (mapped_bars (dev (core b) (pcie_dev_from_openpci b p)))"
    and "unat region + unat sz < 2 ^ 32"
    and "run_state (LibObtainPCIRegion (Some p) region sz) b = (a, b')" and "a \<noteq> 0"
  shows "\<exists>bar \<in> set (mapped_bars (dev (core b) (pcie_dev_from_openpci b p))).
    bar_type bar \<noteq> PCI_REGION_IO \<and> in_bus bar (unat region) (unat sz) \<and>
    unat a - unat (virt_addr bar) = unat region - unat (bus_addr bar) \<and> unat (virt_addr bar) \<le> unat a"
proof -
  let ?bars = "mapped_bars (dev (core b) (pcie_dev_from_openpci b p))"
  let ?Q = "\<lambda>b. bar_type b \<noteq> PCI_REGION_IO \<and> region \<ge> bus_addr b \<and> region + sz \<le> bus_addr b + bar_size b"
  obtain bar where bar: "find ?Q ?bars = Some bar" "a = virt_addr bar + (region - bus_addr bar)"
    using assms(3,4) by (auto simp: LibObtainPCIRegion_def obtain_region_def split: if_splits option.splits)
  then have mem: "bar \<in> set ?bars" "?Q bar" by (auto simp: find_Some_iff)
  then have fits: "bar_fits bar" using assms(1) by (simp add: list_all_iff)
  have off: "unat (region - bus_addr bar) = unat region - unat (bus_addr bar)"
    using mem(2) by (intro unat_sub) simp
  have inb: "in_bus bar (unat region) (unat sz)"
    using mem(2) fits unat_window [OF assms(2)]
    by (simp add: in_bus_def bar_fits_def word_le_nat_alt unat_window)
  have "unat a = unat (virt_addr bar) + (unat region - unat (bus_addr bar))"
    unfolding bar(2) using inb fits off by (subst unat_window) (auto simp: in_bus_def bar_fits_def)
  then show ?thesis using mem inb by auto
qed

text \<open>
  The end of the range is computed in 32 bits: a range that wraps is granted whenever its
  wrapped end is below the end of the BAR.
\<close>

definition one_bar :: pci_device where
  "one_bar = blank_device\<lparr>bars_num := 1, bars := (\<lambda>_. no_bar)(0 := no_bar\<lparr>present := True, bar_type := PCI_REGION_MEM,
     bus_addr := 0xC0000000, bar_size := 0x1000, virt_addr := 0x60000000\<rparr>)\<rparr>"

lemma one_bar_mapped:
  "mapped_bars one_bar = [no_bar\<lparr>present := True, bar_type := PCI_REGION_MEM, bus_addr := 0xC0000000,
     bar_size := 0x1000, virt_addr := 0x60000000\<rparr>]"
  by (simp add: one_bar_def mapped_bars_def)

lemma obtain_region_wraps: "obtain_region one_bar 0xC0000000 0x50000000 = 0x60000000"
  by (simp add: obtain_region_def one_bar_mapped)

definition one_bar_lib :: "ram_hw lib" where
  "one_bar_lib = blank_lib\<lparr>core := example_world\<lparr>dev := (\<lambda>_. one_bar)\<rparr>\<rparr>"


theorem obtain_region_covers_witness:
  "in_bus (hd (mapped_bars one_bar)) 0xC0000010 0x20"
  using obtain_region_covers [where b = one_bar_lib and p = 0 and region = "0xC0000010" and sz = "0x20" and
      a = "0x60000010" and b' = one_bar_lib]
  by (simp add: one_bar_lib_def one_bar_mapped bar_fits_def LibObtainPCIRegion_def obtain_region_def)

section \<open>Addresses of DMA buffers\<close>

text \<open>
  Memory is handed to a device with the address the processor uses.  \<open>identity_at rs a\<close>: some
  region contains the CPU address \<open>a\<close>, and every region that does has equal bus and CPU
  addresses.
\<close>

definition identity_at :: "pci_region list \<Rightarrow> nat \<Rightarrow> bool" where
  "identity_at rs a \<longleftrightarrow> list_ex (\<lambda>r. phys_covers r a 1) rs \<and>
     list_all (\<lambda>r. phys_covers r a 1 \<longrightarrow> unat (bus_start r) = unat (phys_start r)) rs"

lemma phys_to_bus_identity:
  assumes "list_ex (\<lambda>r. phys_covers r (unat p) 1) rs"
    and "list_all (\<lambda>r. phys_covers r (unat p) 1 \<longrightarrow> unat (bus_start r) = unat (phys_start r)) rs"
  shows "phys_to_bus_loop rs p 1 0 0 = ucast p"
  using assms
proof (induction rs)
  case (Cons r rs)
  show ?case
  proof (cases "phys_covers r (unat p) 1")
    case True
    then have "unat (ucast (bus_start r) :: u64) = unat (phys_start r)"
      using Cons.prems(2) by (simp add: unat_ucast_up)
    then have "(ucast (bus_start r) :: u64) = phys_start r" by (simp only: word_unat_eq_iff)
    then show ?thesis using True by (simp add: phys_to_bus_step)
  qed (use Cons in \<open>simp add: phys_to_bus_step\<close>)
qed simp

text \<open>
  Outside the windows of the device's BARs, a CPU address whose regions map
  memory one to one is its own bus address, as the driver promises its clients.
\<close>

theorem dma_address_identity:
  fixes b :: "'h lib"
  assumes "identity_at (regions (ctl (core b))) (unat addr)" and "addr \<noteq> 0"
    and "bars_ok (mapped_bars (dev (core b) (pcie_dev_from_openpci b p)))"
    and "list_all (\<lambda>bar. \<not> in_virt bar (unat addr)) (mapped_bars (dev (core b) (pcie_dev_from_openpci b p)))"
  shows "run_state (LibLogicToPhysic addr (Some p)) b = (addr, b)"
proof -
  let ?bars = "mapped_bars (dev (core b) (pcie_dev_from_openpci b p))"
  have "find (\<lambda>b. addr \<ge> virt_addr b \<and> addr < virt_addr b + bar_size b) ?bars = None"
    using assms(4) bar_virt_guard [OF bars_ok_fits [OF assms(3)]] by (auto simp: find_None_iff list_all_iff)
  moreover have "regions (ctl (core b)) \<noteq> []" using assms(1) by (auto simp: identity_at_def)
  moreover have "phys_to_bus_loop (regions (ctl (core b))) (ucast addr) 1 0 0 = ucast (ucast addr :: u64)"
    using assms(1) by (intro phys_to_bus_identity) (simp_all add: identity_at_def unat_ucast_up)
  moreover have "ucast (ucast addr :: u64) = addr"
    by (intro word_unat_eq_iff [THEN iffD2]) (use unsigned_less [of addr, where ?'a = nat] in \<open>simp add: unat_ucast_down unat_ucast_up\<close>)
  ultimately show ?thesis
    using assms(2) by (simp add: LibLogicToPhysic_def logic_to_physic_def pci_phys_to_bus_def)
qed

theorem dma_address_identity_witness:
  "run_state (LibLogicToPhysic 0x8000000 (Some 0))
     (one_bar_lib\<lparr>core := (core one_bar_lib)\<lparr>ctl := blank_controller\<lparr>regions :=
        [pci_set_region 0 0 0x40000000 (PCI_REGION_MEM OR PCI_REGION_SYS_MEMORY)]\<rparr>\<rparr>\<rparr>) =
   (0x8000000, one_bar_lib\<lparr>core := (core one_bar_lib)\<lparr>ctl := blank_controller\<lparr>regions :=
        [pci_set_region 0 0 0x40000000 (PCI_REGION_MEM OR PCI_REGION_SYS_MEMORY)]\<rparr>\<rparr>\<rparr>)"
  by (rule dma_address_identity)
    (simp_all add: identity_at_def phys_covers_def pci_set_region_def one_bar_lib_def one_bar_mapped
      bar_fits_def in_virt_def)

end
