(* ===== verification/Pci_Region.thy ===== *)
theory Pci_Region
  imports Pci_Bar
begin

text \<open>
  The resource allocator of \<open>pci_auto.c\<close>: one bump pointer, \<open>bus_lower\<close>, per region.  The
  first part is the code; the second is the abstract allocator on natural numbers, as a
  locale; the third shows that the 32-bit code implements it and interprets the locale.
\<close>

section \<open>pci_auto.c: region allocator\<close>

definition pciauto_region_init :: "pci_region \<Rightarrow> pci_region" where
  "pciauto_region_init res =
     res\<lparr>bus_lower := (if bus_start res < 0x1000 then 0x1000 else bus_start res)\<rparr>"

definition align_up :: "u32 \<Rightarrow> u32 \<Rightarrow> u32" where
  "align_up lower sz = ((lower - 1) OR (sz - 1)) + 1"

definition pciauto_region_align :: "pci_region \<Rightarrow> u32 \<Rightarrow> pci_region" where
  "pciauto_region_align res sz = res\<lparr>bus_lower := align_up (bus_lower res) sz\<rparr>"

text \<open>
  \<open>Some (bar, res)\<close> is the return value \<open>0\<close> with the address stored and the region updated;
  \<open>None\<close> is \<open>-1\<close>, with the region unchanged and \<open>(pci_addr_t)-1\<close> stored for the address.
\<close>

definition pciauto_region_allocate ::
    "bits_h \<Rightarrow> pci_region option \<Rightarrow> u32 \<Rightarrow> bool \<Rightarrow> (u32 \<times> pci_region) option" where
  "pciauto_region_allocate B res sz supports_64bit = (case res of
       None \<Rightarrow> None
     | Some res \<Rightarrow>
         (let addr = align_up (bus_lower res) sz in
          if addr - bus_start res + sz > region_size res then None
          else if u64_hi32 B (ucast addr) \<noteq> 0 \<and> \<not> supports_64bit then None
          else Some (addr, res\<lparr>bus_lower := addr + sz\<rparr>)))"

definition bar_or_ones :: "(u32 \<times> pci_region) option \<Rightarrow> u32" where
  "bar_or_ones r = (case r of None \<Rightarrow> - 1 | Some (a, _) \<Rightarrow> a)"

section \<open>pci_auto.c: pciauto_config_init\<close>

definition larger_region :: "pci_region list \<Rightarrow> nat \<Rightarrow> nat option \<Rightarrow> nat option" where
  "larger_region rs i cur = (case cur of
       None \<Rightarrow> Some i
     | Some j \<Rightarrow> if region_size (rs ! j) < region_size (rs ! i) then Some i else Some j)"

fun pciauto_choose_regions :: "nat \<Rightarrow> pci_region list \<Rightarrow> pci_controller \<Rightarrow> pci_controller" where
  "pciauto_choose_regions i [] c = c"
| "pciauto_choose_regions i (r # rs) c = pciauto_choose_regions (Suc i) rs
     (if flags r = PCI_REGION_IO then c\<lparr>pci_io := larger_region (regions c) i (pci_io c)\<rparr>
      else if flags r = PCI_REGION_MEM then c\<lparr>pci_mem := larger_region (regions c) i (pci_mem c)\<rparr>
      else if flags r = (PCI_REGION_MEM OR PCI_REGION_PREFETCH)
        then c\<lparr>pci_prefetch := larger_region (regions c) i (pci_prefetch c)\<rparr>
      else c)"

definition update_region :: "nat option \<Rightarrow> (pci_region \<Rightarrow> pci_region) \<Rightarrow> pci_controller \<Rightarrow> pci_controller" where
  "update_region i f c = (case i of
       None \<Rightarrow> c | Some i \<Rightarrow> c\<lparr>regions := (regions c)[i := f (regions c ! i)]\<rparr>)"

definition pciauto_config_init :: "pci_controller \<Rightarrow> pci_controller" where
  "pciauto_config_init c =
     (let c = pciauto_choose_regions 0 (regions c)
                (c\<lparr>pci_io := None, pci_mem := None, pci_prefetch := None\<rparr>) in
      update_region (pci_io c) pciauto_region_init
        (update_region (pci_prefetch c) pciauto_region_init
          (update_region (pci_mem c) pciauto_region_init c)))"

section \<open>The abstract allocator\<close>

text \<open>
  An allocator serves requests upwards from a cursor: a granted range starts at or above the
  cursor, is aligned to its size, ends at the new cursor and stays below the limit; a request
  is refused only when the aligned range does not fit.
\<close>

definition ceil_to :: "nat \<Rightarrow> nat \<Rightarrow> nat" where
  "ceil_to c n = (c + n - 1) div n * n"

locale bump_allocator =
  fixes alloc :: "'s \<Rightarrow> nat \<Rightarrow> (nat \<times> 's) option"
    and cursor :: "'s \<Rightarrow> nat"
    and limit :: "'s \<Rightarrow> nat"
    and ok :: "'s \<Rightarrow> nat \<Rightarrow> bool"
  assumes granted: "ok s n \<Longrightarrow> alloc s n = Some (a, s') \<Longrightarrow>
      a = ceil_to (cursor s) n \<and> cursor s' = a + n \<and> a + n \<le> limit s \<and> limit s' = limit s"
    and refused: "ok s n \<Longrightarrow> alloc s n = None \<Longrightarrow> limit s < ceil_to (cursor s) n + n"
    and ok_pos: "ok s n \<Longrightarrow> 0 < n"
    and ok_kept: "ok s n \<Longrightarrow> alloc s n = Some (a, s') \<Longrightarrow> ok s m \<Longrightarrow> ok s' m"

text \<open>A run of requests: the granted ranges in order, refused requests skipped.\<close>

fun serve :: "('s \<Rightarrow> nat \<Rightarrow> (nat \<times> 's) option) \<Rightarrow> 's \<Rightarrow> nat list \<Rightarrow> (nat \<times> nat) list \<times> 's" where
  "serve alloc s [] = ([], s)"
| "serve alloc s (n # ns) = (case alloc s n of
       None \<Rightarrow> serve alloc s ns
     | Some (a, s') \<Rightarrow> (let (rs, s'') = serve alloc s' ns in ((a, n) # rs, s'')))"

definition ranges_within :: "nat \<Rightarrow> nat \<Rightarrow> (nat \<times> nat) list \<Rightarrow> bool" where
  "ranges_within lo hi rs \<longleftrightarrow> (\<forall>(a, n) \<in> set rs. lo \<le> a \<and> a + n \<le> hi \<and> n dvd a)"

definition ranges_disjoint :: "(nat \<times> nat) list \<Rightarrow> bool" where
  "ranges_disjoint rs \<longleftrightarrow> sorted_wrt (\<lambda>(a, n) (b, m). a + n \<le> b) rs"

lemma ceil_to_ge:
  assumes "0 < n"
  shows "c \<le> ceil_to c n"
proof -
  have "(c + n - 1) mod n < n" using assms by simp
  then show ?thesis
    unfolding ceil_to_def minus_mod_eq_div_mult [symmetric] using assms by linarith
qed

lemma ceil_to_le:
  assumes "0 < n"
  shows "ceil_to c n \<le> c + n - 1"
  by (simp add: ceil_to_def)

lemma ceil_to_dvd: "n dvd ceil_to c n"
  by (simp add: ceil_to_def)

lemma ranges_within_mono: "ranges_within lo hi rs \<Longrightarrow> lo' \<le> lo \<Longrightarrow> ranges_within lo' hi rs"
  by (fastforce simp: ranges_within_def)

context bump_allocator
begin

lemma grows:
  assumes "ok s n" and "alloc s n = Some (a, s')"
  shows "cursor s \<le> a" and "a + n = cursor s'" and "cursor s' \<le> limit s" and "n dvd a"
  using granted [OF assms] ceil_to_ge [OF ok_pos [OF assms(1)]] ceil_to_dvd by auto

lemma serve_ok:
  assumes "\<forall>n \<in> set ns. ok s n" and "serve alloc s ns = (rs, s')"
  shows "ranges_within (cursor s) (limit s) rs \<and> ranges_disjoint rs"
  using assms
proof (induction ns arbitrary: s rs)
  case (Cons n ns)
  show ?case
  proof (cases "alloc s n")
    case (Some p)
    then obtain a t where at: "alloc s n = Some (a, t)" by (cases p) auto
    then obtain qs where qs: "serve alloc t ns = (qs, s')" "rs = (a, n) # qs"
      using Cons.prems(2) by (auto split: prod.splits)
    have "\<forall>m \<in> set ns. ok t m" using Cons.prems(1) ok_kept [OF _ at] by auto
    with Cons.IH qs(1) have rest: "ranges_within (cursor t) (limit t) qs" "ranges_disjoint qs"
      by blast+
    have n: "ok s n" using Cons.prems(1) by simp
    have "limit t = limit s" using granted [OF n at] by simp
    with rest(1) grows [OF n at] have "ranges_within (cursor s) (limit s) ((a, n) # qs)"
      by (auto simp: ranges_within_def)
    moreover have "\<forall>q \<in> set qs. a + n \<le> fst q"
      using rest(1) grows(2) [OF n at] by (auto simp: ranges_within_def)
    ultimately show ?thesis
      using rest(2) qs(2) by (auto simp: ranges_disjoint_def case_prod_beta)
  qed (use Cons in auto)
qed (auto simp: ranges_within_def ranges_disjoint_def)

end

section \<open>The code implements the abstract allocator\<close>

text \<open>
  The cursor as a number: \<open>bus_lower\<close> wraps to \<open>0\<close> when a range ends at 4 GiB.  A request is
  a power of two below the start of the region, so no guard of the code wraps.
\<close>

definition region_cursor :: "pci_region \<Rightarrow> nat" where
  "region_cursor r = (if bus_lower r = 0 then 2 ^ 32 else unat (bus_lower r))"

definition region_limit :: "pci_region \<Rightarrow> nat" where
  "region_limit r = unat (bus_start r) + unat (region_size r)"

definition region_inv :: "pci_region \<Rightarrow> bool" where
  "region_inv r \<longleftrightarrow> 0 < bus_start r \<and> unat (bus_start r) \<le> region_cursor r \<and> region_limit r \<le> 2 ^ 32"

definition is_pow2 :: "nat \<Rightarrow> bool" where
  "is_pow2 n \<longleftrightarrow> n \<in> (\<lambda>k. 2 ^ k) ` {..<32}"

definition region_request :: "pci_region \<Rightarrow> nat \<Rightarrow> bool" where
  "region_request r n \<longleftrightarrow> region_inv r \<and> is_pow2 n \<and> n < unat (bus_start r)"

lemma region_cursor_le: "region_cursor r \<le> 2 ^ 32"
  using unsigned_less [of "bus_lower r", where ?'a = nat] by (simp add: region_cursor_def)

lemma nat_or_mask: "(n :: nat) OR mask k = n div 2 ^ k * 2 ^ k + (2 ^ k - 1)"
proof -
  have "n OR mask k = push_bit k (drop_bit k n) OR mask k"
    by (rule bit_eqI) (auto simp: bit_simps)
  also have "\<dots> = push_bit k (drop_bit k n) + mask k"
    by (subst disjunctive_add_eq_or) (auto intro!: bit_eqI simp: bit_simps)
  finally show ?thesis by (simp add: push_bit_eq_mult drop_bit_eq_div mask_eq_exp_minus_1)
qed

lemma unat_or_mask:
  assumes "k < LENGTH('a)"
  shows "unat (x OR mask k :: 'a::len word) = unat x div 2 ^ k * 2 ^ k + (2 ^ k - 1)"
proof -
  have "(2 :: nat) ^ k \<le> 2 ^ LENGTH('a)" using assms by (simp add: power_increasing)
  then have "take_bit LENGTH('a) (mask k :: nat) = mask k"
    by (intro take_bit_nat_eq_self le_less_trans [OF less_imp_le [OF mask_nat_less_exp]])
      (use assms in simp)
  then have "unat (mask k :: 'a word) = mask k"
    by (metis of_nat_mask_eq unsigned_of_nat)
  then show ?thesis by (simp add: unsigned_or_eq nat_or_mask)
qed

lemma unat_minus_1: "unat (l - 1 :: u32) = (if l = 0 then 2 ^ 32 else unat l) - 1"
  using unat_minus_one [of l]
  by (cases "l = 0") (simp_all add: unsigned_minus_1_eq_mask mask_eq_exp_minus_1)

lemma div_add_step: "0 < n \<Longrightarrow> (c + n) div n * n = c div n * n + (n :: nat)"
  by (simp add: div_add_self2)

lemma unat_align_up:
  assumes "k < 32"
  shows "unat (align_up (bus_lower r) (2 ^ k)) = ceil_to (region_cursor r) (2 ^ k) mod 2 ^ 32"
proof -
  have c: "unat (bus_lower r - 1) = region_cursor r - 1" "0 < region_cursor r"
    by (auto simp: unat_minus_1 region_cursor_def unat_gt_0)
  have "region_cursor r + 2 ^ k - 1 = (region_cursor r - 1) + 2 ^ k" using c(2) by simp
  then have "ceil_to (region_cursor r) (2 ^ k) = (region_cursor r - 1) div 2 ^ k * 2 ^ k + 2 ^ k"
    unfolding ceil_to_def by (simp only: div_add_step zero_less_power zero_less_numeral)
  moreover have "unat (align_up (bus_lower r) (2 ^ k)) =
      ((region_cursor r - 1) div 2 ^ k * 2 ^ k + (2 ^ k - 1) + 1) mod 2 ^ 32"
    using assms unat_or_mask [of k "bus_lower r - 1"]
    by (simp add: align_up_def mask_eq_exp_minus_1 unat_word_ariths(1) c)
  ultimately show ?thesis by (simp add: add.assoc)
qed

text \<open>The aligned start never passes 4 GiB, and reaches it only by being refused.\<close>

lemma ceil_cursor_le:
  assumes "k < 32"
  shows "ceil_to (region_cursor r) (2 ^ k) \<le> 2 ^ 32"
    and "ceil_to (region_cursor r) (2 ^ k) < 2 ^ 32 \<Longrightarrow> ceil_to (region_cursor r) (2 ^ k) + 2 ^ k \<le> 2 ^ 32"
proof -
  obtain m where m: "(2 :: nat) ^ 32 = m * 2 ^ k"
    using assms by (metis dvd_div_mult_self le_imp_power_dvd nat_less_le)
  obtain q where q: "ceil_to (region_cursor r) (2 ^ k) = q * 2 ^ k"
    by (simp add: ceil_to_def)
  have "q * 2 ^ k < m * 2 ^ k + 2 ^ k"
    unfolding q [symmetric] m [symmetric] using region_cursor_le [of r]
    by (intro le_less_trans [OF ceil_to_le]) auto
  then have "q * 2 ^ k < Suc m * 2 ^ k" by simp
  then have "q \<le> m" by (metis mult_less_cancel2 less_Suc_eq_le)
  then show "ceil_to (region_cursor r) (2 ^ k) \<le> 2 ^ 32" unfolding q m by simp
  show "ceil_to (region_cursor r) (2 ^ k) + 2 ^ k \<le> 2 ^ 32"
    if "ceil_to (region_cursor r) (2 ^ k) < 2 ^ 32"
  proof -
    have "q < m" using that unfolding q m by (metis mult_less_cancel2)
    then have "Suc q * 2 ^ k \<le> m * 2 ^ k" by (intro mult_le_mono1) simp
    then show ?thesis unfolding q m by simp
  qed
qed

lemma mod_top: "0 < x \<Longrightarrow> x \<le> 2 ^ 32 \<Longrightarrow> (if x mod 2 ^ 32 = 0 then 2 ^ 32 else x mod 2 ^ 32) = (x :: nat)"
  by (cases "x = 2 ^ 32") simp_all

lemma is_pow2E:
  assumes "is_pow2 n"
  obtains k where "k < 32" and "n = 2 ^ k" and "unat (of_nat n :: u32) = n" and "0 < n"
proof -
  obtain k where k: "k < 32" "n = 2 ^ k" using assms by (auto simp: is_pow2_def)
  then have "n < 2 ^ 32" using power_strict_increasing [of k 32 "2 :: nat"] by simp
  then have "unat (of_nat n :: u32) = n" by (simp only: unat_of_nat) (simp add: take_bit_nat_eq_self)
  with k that show thesis by simp
qed

text \<open>The guard of the code, without wrap-around; \<open>A\<close> may be 4 GiB.\<close>

lemma guard_unwrapped:
  fixes a b n :: u32
  assumes "unat a = A mod 2 ^ 32" and "unat b \<le> A" and "A + unat n < 2 ^ 32 + unat b"
  shows "unat (a - b + n) = A - unat b + unat n"
proof -
  have "uint a = int A mod 2 ^ 32"
    unfolding uint_nat assms(1) zmod_int by simp
  then have "int (unat (a - b + n)) = (int A - int (unat b) + int (unat n)) mod 2 ^ 32"
    by (simp add: uint_word_ariths mod_simps flip: uint_nat)
  moreover have "0 \<le> int A - int (unat b) + int (unat n)" using assms(2) by linarith
  moreover have "int (A + unat n) < int (2 ^ 32 + unat b)"
    using assms(3) by (simp only: of_nat_less_iff)
  then have "int A - int (unat b) + int (unat n) < 2 ^ 32" by simp
  ultimately have "int (unat (a - b + n)) = int (A - unat b + unat n)"
    using assms(2) by (simp add: of_nat_diff)
  then show ?thesis by (simp only: of_nat_eq_iff)
qed

lemma allocate_guard:
  assumes "region_request r n" and "0 < n"
    and addr: "addr = align_up (bus_lower r) (of_nat n)"
  shows "addr - bus_start r + of_nat n > region_size r \<longleftrightarrow> region_limit r < ceil_to (region_cursor r) n + n"
    and "ceil_to (region_cursor r) n + n \<le> region_limit r \<Longrightarrow> unat addr = ceil_to (region_cursor r) n"
proof -
  obtain k where k: "k < 32" "n = 2 ^ k" "unat (of_nat n :: u32) = n"
    using assms(1) is_pow2E unfolding region_request_def by metis
  let ?A = "ceil_to (region_cursor r) n" and ?b = "unat (bus_start r)"
  have r: "0 < ?b" "?b \<le> region_cursor r" "region_limit r \<le> 2 ^ 32" "n < ?b"
    using assms(1) by (auto simp: region_request_def region_inv_def unat_gt_0)
  have A: "?b \<le> ?A" "?A \<le> 2 ^ 32" "?A < 2 ^ 32 \<Longrightarrow> ?A + n \<le> 2 ^ 32"
    using ceil_to_ge [OF assms(2), of "region_cursor r"] ceil_cursor_le [OF k(1), of r] r k(2) by auto
  have addr_nat: "unat addr = ?A mod 2 ^ 32"
    unfolding addr k(2) using unat_align_up [OF k(1), of r] by simp
  then show "unat addr = ?A" if "?A + n \<le> region_limit r"
    using that r assms(2) by simp
  have "?A + n < 2 ^ 32 + ?b"
    using A r by (cases "?A = 2 ^ 32") auto
  then have "unat (addr - bus_start r + of_nat n) = ?A - ?b + n"
    using guard_unwrapped [OF addr_nat A(1), of "of_nat n"] k(3) by simp
  then show "addr - bus_start r + of_nat n > region_size r \<longleftrightarrow> region_limit r < ?A + n"
    using A(1) by (auto simp: word_less_nat_alt region_limit_def)
qed

lemma u64_hi32_ucast: "bits_laws B \<Longrightarrow> u64_hi32 B (ucast (a :: u32)) = 0"
proof -
  assume "bits_laws B"
  then have "u64_hi32 B (ucast a) = ucast (drop_bit 32 (ucast a :: u64))"
    by (simp add: bits_laws_def)
  also have "\<dots> = 0"
    by (rule bit_eqI) (auto simp: bit_simps dest: bit_imp_le_length)
  finally show ?thesis .
qed

lemma allocate_keeps:
  "pciauto_region_allocate B (Some r) sz s64 = Some (a, r') \<Longrightarrow> r' = r\<lparr>bus_lower := a + sz\<rparr>"
  by (auto simp: pciauto_region_allocate_def Let_def split: if_splits)

lemma allocate_refines:
  assumes "bits_laws B" and "region_request r n"
  shows "case pciauto_region_allocate B (Some r) (of_nat n) s64 of
      None \<Rightarrow> region_limit r < ceil_to (region_cursor r) n + n
    | Some (addr, r') \<Rightarrow> unat addr = ceil_to (region_cursor r) n \<and>
        ceil_to (region_cursor r) n + n \<le> region_limit r \<and>
        region_cursor r' = unat addr + n \<and> r' = r\<lparr>bus_lower := bus_lower r'\<rparr>"
proof -
  define addr where "addr = align_up (bus_lower r) (of_nat n)"
  obtain n32: "unat (of_nat n :: u32) = n" "0 < n"
    using assms(2) is_pow2E unfolding region_request_def by metis
  note guard = allocate_guard [OF assms(2) n32(2) addr_def]
  show ?thesis
  proof (cases "region_limit r < ceil_to (region_cursor r) n + n")
    case True
    then show ?thesis
      using guard(1) by (simp add: pciauto_region_allocate_def addr_def Let_def)
  next
    case False
    then have fits: "unat addr = ceil_to (region_cursor r) n" "unat addr + n \<le> 2 ^ 32"
      using guard(2) assms(2) by (auto simp: region_request_def region_inv_def)
    have "unat (addr + of_nat n) = (unat addr + n) mod 2 ^ 32"
      using n32(1) by (simp add: unat_word_ariths)
    then have "region_cursor (r\<lparr>bus_lower := addr + of_nat n\<rparr>) = unat addr + n"
      using mod_top [of "unat addr + n"] fits(2) n32(2)
      by (auto simp: region_cursor_def word_unat_eq_iff split: if_splits)
    then show ?thesis
      using False guard fits u64_hi32_ucast [OF assms(1)]
      by (simp add: pciauto_region_allocate_def addr_def [symmetric] Let_def)
  qed
qed

text \<open>
  For any size, a power of two or not: below the start of the region no guard wraps, and the
  allocator only moves forward.
\<close>

lemma allocate_bounds:
  assumes "region_inv r" and "0 < sz" and "sz < bus_start r"
    and got: "pciauto_region_allocate B (Some r) sz s64 = Some (addr, r')"
  shows "region_cursor r \<le> unat addr" "unat addr + unat sz = region_cursor r'"
    "region_cursor r' \<le> region_limit r" "region_inv r'" "bus_start r' = bus_start r"
    "region_limit r' = region_limit r"
proof -
  have addr: "addr = align_up (bus_lower r) sz" "addr - bus_start r + sz \<le> region_size r"
      "r' = r\<lparr>bus_lower := addr + sz\<rparr>"
    using got by (auto simp: pciauto_region_allocate_def Let_def not_less split: if_splits)
  have r: "0 < unat (bus_start r)" "unat (bus_start r) \<le> region_cursor r" "region_limit r \<le> 2 ^ 32"
      "unat sz < unat (bus_start r)" "0 < unat sz"
    using assms(1-3) by (auto simp: region_inv_def word_less_nat_alt unat_gt_0)
  let ?y = "(bus_lower r - 1) OR (sz - 1)"
  have "unat (bus_lower r - 1) \<le> unat ?y" using le_word_or2 by (simp add: word_le_nat_alt [symmetric])
  then have y: "region_cursor r \<le> Suc (unat ?y)"
    by (simp add: unat_minus_1 region_cursor_def split: if_splits)
  have "addr \<noteq> 0"
  proof
    assume "addr = 0"
    then have "unat (addr - bus_start r + sz) = 2 ^ 32 - unat (bus_start r) + unat sz"
      using r unsigned_less [of "bus_start r", where ?'a = nat] by (intro guard_unwrapped) auto
    then show False using addr(2) r by (simp add: word_le_nat_alt region_limit_def)
  qed
  moreover have "addr - 1 = ?y" by (simp add: addr(1) align_up_def)
  ultimately have "unat addr = Suc (unat ?y)"
    using unat_minus_one [of addr] by (simp add: unat_gt_0)
  then show low: "region_cursor r \<le> unat addr" using y by simp
  have small: "unat addr < 2 ^ 32" using unsigned_less [of addr, where ?'a = nat] by simp
  then have "unat (addr - bus_start r + sz) = unat addr - unat (bus_start r) + unat sz"
    using r low by (intro guard_unwrapped) auto
  then have fits: "unat addr + unat sz \<le> region_limit r"
    using addr(2) r low by (simp add: word_le_nat_alt region_limit_def)
  moreover have "unat (addr + sz) = (unat addr + unat sz) mod 2 ^ 32"
    by (simp add: unat_word_ariths)
  ultimately show cursor: "unat addr + unat sz = region_cursor r'"
    using mod_top [of "unat addr + unat sz"] r addr(3)
    by (auto simp: region_cursor_def word_unat_eq_iff split: if_splits)
  then show "region_cursor r' \<le> region_limit r" using fits by simp
  show "region_inv r'"
    using assms(1) addr(3) cursor low by (auto simp: region_inv_def region_limit_def)
  show "bus_start r' = bus_start r" "region_limit r' = region_limit r"
    using addr(3) by (simp_all add: region_limit_def)
qed


definition example_region :: pci_region where
  "example_region = pciauto_region_init (pci_set_region 0xC0000000 0x600000000 0x40000000 PCI_REGION_MEM)"

lemma is_pow2_exp: "k < 32 \<Longrightarrow> is_pow2 (2 ^ k)"
  by (auto simp: is_pow2_def)

lemma example_request: "region_request example_region 4096"
  using is_pow2_exp [of 12]
  by (simp add: region_request_def region_inv_def example_region_def pciauto_region_init_def
      pci_set_region_def region_cursor_def region_limit_def)


section \<open>The code as a bump allocator\<close>

definition region_alloc :: "bits_h \<Rightarrow> pci_region \<Rightarrow> nat \<Rightarrow> (nat \<times> pci_region) option" where
  "region_alloc B r n = (if bits_laws B then
     map_option (\<lambda>(a, r'). (unat a, r')) (pciauto_region_allocate B (Some r) (of_nat n) True) else None)"

interpretation region: bump_allocator "region_alloc B" region_cursor region_limit
    "\<lambda>r n. bits_laws B \<and> region_request r n" for B
proof
  fix r r' n m and a :: nat
  assume ok: "bits_laws B \<and> region_request r n"
  note refines = allocate_refines [OF conjunct1 [OF ok] conjunct2 [OF ok], of True]
  show "0 < n"
    using ok is_pow2E unfolding region_request_def by metis
  show "region_limit r < ceil_to (region_cursor r) n + n" if "region_alloc B r n = None"
    using that ok refines by (simp add: region_alloc_def split: option.splits)
  assume got: "region_alloc B r n = Some (a, r')"
  then show granted: "a = ceil_to (region_cursor r) n \<and> region_cursor r' = a + n \<and>
      a + n \<le> region_limit r \<and> region_limit r' = region_limit r"
    using ok refines
    by (auto simp: region_alloc_def region_limit_def split: option.splits dest: allocate_keeps)
  assume "bits_laws B \<and> region_request r m"
  moreover have "bus_start r' = bus_start r" and "region_limit r' = region_limit r"
    using got by (auto simp: region_alloc_def region_limit_def split: if_splits dest: allocate_keeps)
  moreover have "region_cursor r \<le> a"
    using granted ceil_to_ge [OF \<open>0 < n\<close>] by simp
  ultimately show "bits_laws B \<and> region_request r' m"
    using granted by (auto simp: region_request_def region_inv_def)
qed



end
