(* ===== verification/Brcm_Probe.thy ===== *)
theory Brcm_Probe
  imports Brcm_Msi Pci_Region
begin

text \<open>
  Bringing the root complex up and down (\<open>pcie_brcmstb.c\<close> without the configuration access,
  which is in \<open>Pci_Config\<close>): reading the device tree, the inbound and outbound windows, the
  link, spread-spectrum clocking through MDIO, and \<open>brcm_pcie_probe\<close> and
  \<open>brcm_pcie_remove\<close>.

  The device tree is read through \<open>devicetree.resource\<close>, which is not in the repository: the
  accessors are the fields of \<open>devtree\<close>, a parameter.  They do not change the tree, so they
  are pure.  A property is the list of its 32-bit cells, \<open>DT_GetPropLen / sizeof(u32)\<close> its
  length and a pointer into it what is left of the list.  The numbers of cells are \<open>nat\<close>:
  their sums do not wrap for a property that fits the address space.
\<close>

section \<open>The device tree\<close>

type_synonym dt_key = nat

record devtree =
  dt_present :: bool  \<comment> \<open>OpenResource "devicetree.resource"\<close>
  dt_get_alias :: "string \<Rightarrow> string option"
  dt_open_key :: "string \<Rightarrow> dt_key option"
  dt_find_property :: "dt_key \<Rightarrow> string \<Rightarrow> u32 list option"
  dt_get_number :: "u32 list \<Rightarrow> nat \<Rightarrow> u64"  \<comment> \<open>a number of that many cells\<close>
  dt_get_ulong :: "dt_key option \<Rightarrow> string \<Rightarrow> u32 \<Rightarrow> u32"  \<comment> \<open>with the default\<close>
  dt_get_base_virtual :: "dt_key \<Rightarrow> u32 \<Rightarrow> u32"
  dt_get_interrupt :: "dt_key \<Rightarrow> u32 \<Rightarrow> int"
  dt_find_phandle :: "dt_key option \<Rightarrow> u32 \<Rightarrow> dt_key option"
  dt_get_parent :: "dt_key \<Rightarrow> dt_key option"

section \<open>Register updates\<close>

definition mmio_set16 :: "'h platform \<Rightarrow> u32 \<Rightarrow> u16 \<Rightarrow> ('h world, unit) state" where
  "mmio_set16 P a v = hw_do (io_set16 P a v)"

definition mmio_set32 :: "'h platform \<Rightarrow> u32 \<Rightarrow> u32 \<Rightarrow> ('h world, unit) state" where
  "mmio_set32 P a v = hw_do (io_set32 P a v)"

definition mmio_clear32 :: "'h platform \<Rightarrow> u32 \<Rightarrow> u32 \<Rightarrow> ('h world, unit) state" where
  "mmio_clear32 P a v = hw_do (io_clear32 P a v)"

definition mmio_update32 :: "'h platform \<Rightarrow> u32 \<Rightarrow> u32 \<Rightarrow> u32 \<Rightarrow> ('h world, unit) state" where
  "mmio_update32 P a clr st = hw_do (io_update32 P a clr st)"

definition delay_us :: "'h platform \<Rightarrow> u32 \<Rightarrow> ('h world, unit) state" where
  "delay_us P t = hw_do (wait_us P t)"

definition delay_ms :: "'h platform \<Rightarrow> u32 \<Rightarrow> ('h world, unit) state" where
  "delay_ms P t = hw_do (wait_ms P t)"

section \<open>Inbound window size\<close>

definition brcm_pcie_encode_ibar_size :: "bits_h \<Rightarrow> u64 \<Rightarrow> u32" where
  "brcm_pcie_encode_ibar_size B sz =
     (let log2_in = log2_floor_u64 B sz in
      if log2_in \<ge> 12 \<and> log2_in \<le> 15 then (log2_in - 12) + 0x1C
      else if log2_in \<ge> 16 \<and> log2_in \<le> 37 then log2_in - 15
      else 0)"

section \<open>MDIO and spread-spectrum clocking\<close>

definition brcm_pcie_mdio_form_pkt :: "u32 \<Rightarrow> u32 \<Rightarrow> u32 \<Rightarrow> u32" where
  "brcm_pcie_mdio_form_pkt port regad cmd =
     (push_bit MDIO_PORT_SHIFT port AND MDIO_PORT_MASK) OR
     (push_bit MDIO_REGAD_SHIFT regad AND MDIO_REGAD_MASK) OR
     (push_bit MDIO_CMD_SHIFT cmd AND MDIO_CMD_MASK)"

definition brcm_pcie_wait_mdio_value ::
    "'h platform \<Rightarrow> u32 \<Rightarrow> u32 \<Rightarrow> u32 \<Rightarrow> u32 \<Rightarrow> ('h world, (errno + unit) \<times> u32) state" where
  "brcm_pcie_wait_mdio_value P addr msk expected timeout_us = do {
     current \<leftarrow> hw_get (io_poll P addr msk expected timeout_us);
     done_with (if current AND msk = expected then Ok else Inl ETIMEDOUT, current)
   }"

definition brcm_pcie_mdio_read ::
    "'h platform \<Rightarrow> u32 \<Rightarrow> u32 \<Rightarrow> u32 \<Rightarrow> ('h world, (errno + unit) \<times> u32) state" where
  "brcm_pcie_mdio_read P bas port regad = do {
     mmio_write32 P (brcm_pcie_mdio_form_pkt port regad MDIO_CMD_READ) (bas + PCIE_RC_DL_MDIO_ADDR);
     _ \<leftarrow> mmio_read32 P (bas + PCIE_RC_DL_MDIO_ADDR);
     (ret, data) \<leftarrow> brcm_pcie_wait_mdio_value P (bas + PCIE_RC_DL_MDIO_RD_DATA)
       MDIO_DATA_DONE_MASK MDIO_DATA_DONE_MASK 100;
     done_with (ret, data AND MDIO_DATA_MASK)
   }"

definition brcm_pcie_mdio_write ::
    "'h platform \<Rightarrow> u32 \<Rightarrow> u32 \<Rightarrow> u32 \<Rightarrow> u16 \<Rightarrow> ('h world, errno + unit) state" where
  "brcm_pcie_mdio_write P bas port regad wrdata = do {
     mmio_write32 P (brcm_pcie_mdio_form_pkt port regad MDIO_CMD_WRITE) (bas + PCIE_RC_DL_MDIO_ADDR);
     _ \<leftarrow> mmio_read32 P (bas + PCIE_RC_DL_MDIO_ADDR);
     mmio_write32 P (MDIO_DATA_DONE_MASK OR ucast wrdata) (bas + PCIE_RC_DL_MDIO_WR_DATA);
     (ret, _) \<leftarrow> brcm_pcie_wait_mdio_value P (bas + PCIE_RC_DL_MDIO_WR_DATA) MDIO_DATA_DONE_MASK 0 100;
     done_with ret
   }"

definition brcm_pcie_set_ssc :: "'h platform \<Rightarrow> u32 \<Rightarrow> ('h world, errno + unit) state" where
  "brcm_pcie_set_ssc P bas = do {
     ret \<leftarrow> brcm_pcie_mdio_write P bas MDIO_PORT0 SET_ADDR_OFFSET (ucast SSC_REGS_ADDR);
     if ret \<noteq> Ok then done_with ret
     else do {
       (ret, tmp) \<leftarrow> brcm_pcie_mdio_read P bas MDIO_PORT0 SSC_CNTL_OFFSET;
       if ret \<noteq> Ok then done_with ret
       else do {
         let tmp = tmp OR (SSC_CNTL_OVRD_EN_MASK OR SSC_CNTL_OVRD_VAL_MASK);
         ret \<leftarrow> brcm_pcie_mdio_write P bas MDIO_PORT0 SSC_CNTL_OFFSET (ucast tmp);
         if ret \<noteq> Ok then done_with ret
         else do {
           delay_ms P 1;
           (ret, tmp) \<leftarrow> brcm_pcie_mdio_read P bas MDIO_PORT0 SSC_STATUS_OFFSET;
           if ret \<noteq> Ok then done_with ret
           else
             let ssc_on = drop_bit SSC_STATUS_SSC_SHIFT (tmp AND SSC_STATUS_SSC_MASK);
                 pll = drop_bit SSC_STATUS_PLL_LOCK_SHIFT (tmp AND SSC_STATUS_PLL_LOCK_MASK) in
             done_with (if ssc_on \<noteq> 0 \<and> pll \<noteq> 0 then Ok else Inl EIO)
         }
       }
     }
   }"

section \<open>Link generation and outbound windows\<close>

definition brcm_pcie_set_gen :: "'h platform \<Rightarrow> u32 \<Rightarrow> ('h world, unit) state" where
  "brcm_pcie_set_gen P g = do {
     c \<leftarrow> get_ctl;
     let cap_base = base c + BRCM_PCIE_CAP_REGS;
     lnkctl2 \<leftarrow> mmio_read16 P (cap_base + PCI_EXP_LNKCTL2);
     lnkcap \<leftarrow> mmio_read32 P (cap_base + PCI_EXP_LNKCAP);
     mmio_write32 P ((lnkcap AND NOT PCI_EXP_LNKCAP_SLS) OR g) (cap_base + PCI_EXP_LNKCAP);
     mmio_write16 P (ucast (((ucast lnkctl2 :: u32) AND NOT 0x0F) OR g)) (cap_base + PCI_EXP_LNKCTL2)
   }"

definition PCIE_MEM_WIN0_LO :: "u32 \<Rightarrow> u32" where
  "PCIE_MEM_WIN0_LO win = PCIE_MISC_CPU_2_PCIE_MEM_WIN0_LO + win * 4"

definition PCIE_MEM_WIN0_HI :: "u32 \<Rightarrow> u32" where
  "PCIE_MEM_WIN0_HI win = PCIE_MISC_CPU_2_PCIE_MEM_WIN0_HI + win * 4"

definition PCIE_MEM_WIN0_BASE_LIMIT :: "u32 \<Rightarrow> u32" where
  "PCIE_MEM_WIN0_BASE_LIMIT win = PCIE_MISC_CPU_2_PCIE_MEM_WIN0_BASE_LIMIT + win * 4"

definition PCIE_MEM_WIN0_BASE_HI :: "u32 \<Rightarrow> u32" where
  "PCIE_MEM_WIN0_BASE_HI win = PCIE_MISC_CPU_2_PCIE_MEM_WIN0_BASE_HI + win * 8"

definition PCIE_MEM_WIN0_LIMIT_HI :: "u32 \<Rightarrow> u32" where
  "PCIE_MEM_WIN0_LIMIT_HI win = PCIE_MISC_CPU_2_PCIE_MEM_WIN0_LIMIT_HI + win * 8"

definition SZ_1M :: u64 where
  "SZ_1M = 0x100000"

definition SZ_64M :: u32 where
  "SZ_64M = 0x4000000"

text \<open>
  The low and high halves of a window's bus address are next to each other, but the stride of
  both macros is one register: the low half of the next window is this one's high half.
\<close>

lemma outbound_windows_overlap: "PCIE_MEM_WIN0_LO (win + 1) = PCIE_MEM_WIN0_HI win"
  by (simp add: PCIE_MEM_WIN0_LO_def PCIE_MEM_WIN0_HI_def distrib_right)

text \<open>A read-modify-write of one field of a register.\<close>

definition update_field :: "'h platform \<Rightarrow> u32 \<Rightarrow> u32 \<Rightarrow> u32 \<Rightarrow> ('h world, unit) state" where
  "update_field P addr v msk = do {
     tmp \<leftarrow> mmio_read32 P addr;
     mmio_write32 P (u32_update_mask (bits P) tmp v msk) addr
   }"

definition brcm_pcie_set_outbound_win ::
    "'h platform \<Rightarrow> u32 \<Rightarrow> u64 \<Rightarrow> u64 \<Rightarrow> u64 \<Rightarrow> ('h world, unit) state" where
  "brcm_pcie_set_outbound_win P win phys pcie sz = do {
     c \<leftarrow> get_ctl;
     let bas = base c;
     mmio_write32 P (u64_lo32 (bits P) pcie) (bas + PCIE_MEM_WIN0_LO win);
     mmio_write32 P (u64_hi32 (bits P) pcie) (bas + PCIE_MEM_WIN0_HI win);
     let phys_addr_mb = (ucast (phys div SZ_1M) :: u32);
     let limit_addr_mb = (ucast ((phys + sz - 1) div SZ_1M) :: u32);
     tmp \<leftarrow> mmio_read32 P (bas + PCIE_MEM_WIN0_BASE_LIMIT win);
     let tmp = u32_update_mask (bits P) tmp phys_addr_mb MEM_WIN0_BASE_LIMIT_BASE_MASK;
     let tmp = u32_update_mask (bits P) tmp limit_addr_mb MEM_WIN0_BASE_LIMIT_LIMIT_MASK;
     mmio_write32 P tmp (bas + PCIE_MEM_WIN0_BASE_LIMIT win);
     update_field P (bas + PCIE_MEM_WIN0_BASE_HI win)
       (drop_bit MEM_WIN0_BASE_LIMIT_BASE_HI_SHIFT phys_addr_mb) MEM_WIN0_BASE_HI_BASE_MASK;
     update_field P (bas + PCIE_MEM_WIN0_LIMIT_HI win)
       (drop_bit MEM_WIN0_BASE_LIMIT_BASE_HI_SHIFT limit_addr_mb) PCIE_MEM_WIN0_LIMIT_HI_LIMIT_MASK
   }"

section \<open>Reading the device tree\<close>

text \<open>
  The loop over \<open>interrupt-map\<close>: \<open>ca\<close> and \<open>ci\<close> are the child's address and interrupt cells,
  \<open>entry\<close> and \<open>left\<close> what is left of the property, \<open>m\<close> the mapping so far.
\<close>

function interrupt_map_loop ::
    "devtree \<Rightarrow> dt_key option \<Rightarrow> nat \<Rightarrow> nat \<Rightarrow> u32 list \<Rightarrow> nat \<Rightarrow> (nat \<Rightarrow> u32) \<Rightarrow> nat \<Rightarrow> u32" where
  "interrupt_map_loop D root ca ci entry left m =
     (let child_cells = ca + ci + 1 in
      if left < child_cells then m
      else
        let pin = (ucast (dt_get_number D (drop ca entry) ci) :: u32);
            par = dt_find_phandle D root (entry ! (child_cells - 1));
            parent_addr_cells = unat (dt_get_ulong D par ''#address-cells'' 0);
            parent_int_cells = unat (dt_get_ulong D par ''#interrupt-cells'' 0);
            entry_cells = child_cells + parent_addr_cells + parent_int_cells in
        if par = None \<or> parent_int_cells < 2 \<or> left < entry_cells then m
        else
          let irq = drop (child_cells + parent_addr_cells) entry;
              m = (if 1 \<le> pin \<and> pin \<le> 4 \<and> irq ! 0 = 0 then m(unat (pin - 1) := irq ! 1 + 32) else m) in
          interrupt_map_loop D root ca ci (drop entry_cells entry) (left - entry_cells) m)"
  by auto
termination
  by (relation "measure (\<lambda>(D, root, ca, ci, entry, left, m). left)") (auto simp: Let_def)

definition parse_interrupt_map :: "devtree \<Rightarrow> dt_key \<Rightarrow> pci_controller \<Rightarrow> pci_controller" where
  "parse_interrupt_map D key c = (case dt_find_property D key ''interrupt-map'' of
       None \<Rightarrow> c
     | Some cells \<Rightarrow> c\<lparr>INT_x_mapping := interrupt_map_loop D (dt_open_key D ''/'')
         (unat (dt_get_ulong D (Some key) ''#address-cells'' 2))
         (unat (dt_get_ulong D (Some key) ''#interrupt-cells'' 1)) cells (length cells) (INT_x_mapping c)\<rparr>)"

text \<open>The controller after the parse and the result: \<open>EINVAL\<close> leaves what was already stored.\<close>

definition brcm_devtree_parse :: "devtree \<Rightarrow> pci_controller \<Rightarrow> (errno + unit) \<times> pci_controller" where
  "brcm_devtree_parse D c =
     (if \<not> dt_present D then (Inl ENODEV, c)
      else
        let c = c\<lparr>dt_node_name := dt_get_alias D ''pcie0''\<rparr> in
        case Option.bind (dt_node_name c) (dt_open_key D) of
          None \<Rightarrow> (Inl ENOENT, c)
        | Some key \<Rightarrow>
            let c = c\<lparr>base := dt_get_base_virtual D key 0\<rparr> in
            if base c = 0 then (Inl EINVAL, c)
            else
              let c = c\<lparr>ssc := (ssc c \<or> dt_find_property D key ''brcm,enable-ssc'' \<noteq> None), gen := 0\<rparr> in
              case dt_find_property D key ''emu68,pci-mmio-phys'' of
                None \<Rightarrow> (Inl EINVAL, c)
              | Some cells \<Rightarrow>
                  let c = parse_interrupt_map D key (c\<lparr>
                        mmio_window_phys := dt_get_number D cells (length cells),
                        mmio_window_virtual := dt_get_ulong D (Some key) ''emu68,pci-mmio-virt'' 0,
                        mmio_window_size := ucast (dt_get_ulong D (Some key) ''emu68,pci-mmio-size'' SZ_64M)\<rparr>);
                      c = c\<lparr>msi_gic_irq := dt_get_interrupt D key 1\<rparr> in
                  (if msi_gic_irq c < 0 then Inl EINVAL else Ok, c))"

section \<open>ranges and dma-ranges\<close>

record dt_pci_range =
  range_attr :: u32
  range_bus :: u64
  range_cpu :: u64
  range_size :: u64

record dt_pci_ranges =
  next_cells :: "u32 list"
  cells_left :: nat
  pci_addr_cells :: nat
  cpu_addr_cells :: nat
  size_cells :: nat
  record_cells :: nat

definition dt_pci_ranges_open :: "devtree \<Rightarrow> pci_controller \<Rightarrow> string \<Rightarrow> errno + dt_pci_ranges" where
  "dt_pci_ranges_open D c propname =
     (if \<not> dt_present D then Inl ENODEV
      else case Option.bind (dt_node_name c) (dt_open_key D) of
        None \<Rightarrow> Inl ENOENT
      | Some key \<Rightarrow> (case dt_find_property D key propname of
          None \<Rightarrow> Inl EINVAL
        | Some cells \<Rightarrow>
            let pa = unat (dt_get_ulong D (Some key) ''#address-cells'' 0);
                ca = unat (dt_get_ulong D (dt_get_parent D key) ''#address-cells'' 2);
                sc = unat (dt_get_ulong D (Some key) ''#size-cells'' 1) in
            if pa \<le> unat DT_PCI_ATTR_CELLS then Inl EINVAL
            else Inr \<lparr>next_cells = cells, cells_left = length cells, pci_addr_cells = pa,
                cpu_addr_cells = ca, size_cells = sc, record_cells = pa + ca + sc\<rparr>))"

definition dt_pci_ranges_next :: "devtree \<Rightarrow> dt_pci_ranges \<Rightarrow> (dt_pci_range \<times> dt_pci_ranges) option" where
  "dt_pci_ranges_next D it =
     (if cells_left it < record_cells it then None
      else
        let rec = next_cells it;
            attr_cells = unat DT_PCI_ATTR_CELLS in
        Some (\<lparr>range_attr = rec ! 0,
            range_bus = dt_get_number D (drop attr_cells rec) (pci_addr_cells it - attr_cells),
            range_cpu = dt_get_number D (drop (pci_addr_cells it) rec) (cpu_addr_cells it),
            range_size = dt_get_number D (drop (pci_addr_cells it + cpu_addr_cells it) rec) (size_cells it)\<rparr>,
          it\<lparr>next_cells := drop (record_cells it) rec, cells_left := cells_left it - record_cells it\<rparr>))"

text \<open>The window is a region of which \<open>phys_start\<close>, \<open>bus_start\<close> and \<open>region_size\<close> are set.\<close>

definition brcm_pcie_dma_window :: "devtree \<Rightarrow> pci_controller \<Rightarrow> errno + pci_region" where
  "brcm_pcie_dma_window D c = (case dt_pci_ranges_open D c ''dma-ranges'' of
       Inl e \<Rightarrow> Inl e
     | Inr it \<Rightarrow> (case dt_pci_ranges_next D it of
         None \<Rightarrow> Inl EINVAL
       | Some (dt, it) \<Rightarrow>
           if range_size dt = 0 \<or> range_cpu dt \<ge> PCIE_DMA_WIN_END then Inl EINVAL
           else
             let sz = (if range_size dt > PCIE_DMA_WIN_END - range_cpu dt
                       then PCIE_DMA_WIN_END - range_cpu dt else range_size dt) in
             Inr (pci_set_region (ucast (PCIE_DMA_WIN_BASE + range_cpu dt)) (range_cpu dt) (ucast sz) 0)))"

definition PCI_ADDR_MAX :: u64 where
  "PCI_ADDR_MAX = ucast (NOT (0 :: u32))"

definition PHYS_ADDR_MAX :: u64 where
  "PHYS_ADDR_MAX = NOT 0"

text \<open>The region of a record, \<open>None\<close> for a record that is skipped.\<close>

definition range_type :: "u32 \<Rightarrow> u32 option" where
  "range_type a =
     (if a AND DT_PCI_ATTR_SPACE = DT_PCI_SPACE_IO then Some PCI_REGION_IO
      else if a AND DT_PCI_ATTR_SPACE = DT_PCI_SPACE_MEM32 \<or> a AND DT_PCI_ATTR_SPACE = DT_PCI_SPACE_MEM64
        then Some (if a AND DT_PCI_ATTR_PREFETCH \<noteq> 0 then PCI_REGION_PREFETCH else PCI_REGION_MEM)
      else None)"

definition range_region :: "bits_h \<Rightarrow> dt_pci_range \<Rightarrow> pci_region option" where
  "range_region B r = (case range_type (range_attr r) of
       None \<Rightarrow> None
     | Some type \<Rightarrow>
         if u64_hi32 B (range_bus r) \<noteq> 0 \<or> u64_hi32 B (range_size r) \<noteq> 0 then None
         else if range_size r = 0 \<or> range_size r - 1 > PCI_ADDR_MAX - range_bus r \<or>
                 range_size r - 1 > PHYS_ADDR_MAX - range_cpu r then None
         else Some (pci_set_region (ucast (range_bus r)) (range_cpu r) (ucast (range_size r)) type))"

text \<open>The records of the property; every round takes at least one cell, \<open>n\<close> is enough from \<open>cells_left\<close> on.\<close>

fun devtree_regions_loop :: "devtree \<Rightarrow> bits_h \<Rightarrow> nat \<Rightarrow> dt_pci_ranges \<Rightarrow> pci_region list" where
  "devtree_regions_loop D B 0 it = []"
| "devtree_regions_loop D B (Suc n) it = (case dt_pci_ranges_next D it of
       None \<Rightarrow> []
     | Some (r, it) \<Rightarrow> (case range_region B r of None \<Rightarrow> [] | Some reg \<Rightarrow> [reg]) @ devtree_regions_loop D B n it)"

text \<open>The list of Exec's memory headers, head first.\<close>

record mem_header =
  mh_fast :: bool  \<comment> \<open>\<open>mh_Attributes & MEMF_FAST\<close>\<close>
  mh_lower :: u32
  mh_upper :: u32

fun dram_regions_loop :: "pci_region \<Rightarrow> u32 \<Rightarrow> nat \<Rightarrow> mem_header list \<Rightarrow> pci_region list" where
  "dram_regions_loop win off added [] = []"
| "dram_regions_loop win off added (mh # mhs) =
     (if added \<ge> CONFIG_NR_DRAM_BANKS then []
      else if \<not> mh_fast mh then dram_regions_loop win off added mhs
      else if mh_upper mh \<le> mh_lower mh then dram_regions_loop win off added mhs
      else if (ucast (mh_lower mh) :: u64) < phys_start win \<or>
              (ucast (mh_upper mh) :: u64) > phys_start win + ucast (region_size win)
        then dram_regions_loop win off added mhs
      else pci_set_region (mh_lower mh + off) (ucast (mh_lower mh)) (mh_upper mh - mh_lower mh)
             (PCI_REGION_MEM OR PCI_REGION_SYS_MEMORY) # dram_regions_loop win off (Suc added) mhs)"

definition pci_get_devtree_regions ::
    "'h platform \<Rightarrow> devtree \<Rightarrow> mem_header list \<Rightarrow> pci_region \<Rightarrow> ('h world, errno + unit) state" where
  "pci_get_devtree_regions P D mhs win = do {
     c \<leftarrow> get_ctl;
     case dt_pci_ranges_open D c ''ranges'' of
       Inl e \<Rightarrow> done_with (Inl e)
     | Inr it \<Rightarrow> do {
         ok \<leftarrow> hw_get (exec_alloc P);
         set_ctl (\<lambda>c. c\<lparr>regions_alloc := ok\<rparr>);
         if \<not> ok then done_with (Inl ENOMEM)
         else do {
           let off = (ucast (ucast (bus_start win) - phys_start win) :: u32);
           set_ctl (\<lambda>c. c\<lparr>regions := devtree_regions_loop D (bits P) (cells_left it) it @
             dram_regions_loop win off 0 mhs\<rparr>);
           done_with Ok
         }
       }
   }"

section \<open>brcm_pcie_probe\<close>

definition reset_bridge :: "'h platform \<Rightarrow> u32 \<Rightarrow> ('h world, unit) state" where
  "reset_bridge P bas = do {
     mmio_set32 P (bas + PCIE_RGR1_SW_INIT_1) (PCIE_RGR1_SW_INIT_1_INIT_MASK OR PCIE_RGR1_SW_INIT_1_PERST_MASK);
     delay_us P 100;
     mmio_clear32 P (bas + PCIE_RGR1_SW_INIT_1) PCIE_RGR1_SW_INIT_1_INIT_MASK;
     mmio_clear32 P (bas + PCIE_MISC_HARD_PCIE_HARD_DEBUG) PCIE_HARD_DEBUG_SERDES_IDDQ_MASK;
     delay_us P 100;
     mmio_update32 P (bas + PCIE_MISC_MISC_CTRL) MISC_CTRL_MAX_BURST_SIZE_MASK
       (MISC_CTRL_SCB_ACCESS_EN_MASK OR MISC_CTRL_CFG_READ_UR_MODE_MASK OR MISC_CTRL_MAX_BURST_SIZE_128 OR
        MISC_CTRL_PCIE_RCB_MPS_MODE_MASK OR MISC_CTRL_PCIE_RCB_64B_MODE_MASK)
   }"

text \<open>The inbound window and the MSI target; \<open>win\<close> is the DMA window.\<close>

definition setup_inbound :: "'h platform \<Rightarrow> u32 \<Rightarrow> pci_region \<Rightarrow> ('h world, unit) state" where
  "setup_inbound P bas win = do {
     let B = bits P;
     let rc_bar2_offset = (ucast (bus_start win) - phys_start win :: u64);
     let rc_bar2_size = round_up_pow2_u64 B (ucast (region_size win));
     let tmp = u64_lo32 B rc_bar2_offset;
     let tmp = u32_update_mask B tmp (brcm_pcie_encode_ibar_size B rc_bar2_size) RC_BAR2_CONFIG_LO_SIZE_MASK;
     mmio_write32 P tmp (bas + PCIE_MISC_RC_BAR2_CONFIG_LO);
     mmio_write32 P (u64_hi32 B rc_bar2_offset) (bas + PCIE_MISC_RC_BAR2_CONFIG_HI);
     set_ctl (\<lambda>c. c\<lparr>msi_target_addr := ucast (BRCM_MSI_TARGET_ADDR_LT_4GB)\<rparr>);
     let scb_size_val = (if rc_bar2_size \<noteq> 0 then log2_floor_u64 B rc_bar2_size - 15 else 0xF);
     update_field P (bas + PCIE_MISC_MISC_CTRL) scb_size_val MISC_CTRL_SCB0_SIZE_MASK;
     mmio_clear32 P (bas + PCIE_MISC_RC_BAR1_CONFIG_LO) RC_BAR1_CONFIG_LO_SIZE_MASK;
     mmio_clear32 P (bas + PCIE_MISC_RC_BAR3_CONFIG_LO) RC_BAR3_CONFIG_LO_SIZE_MASK;
     mmio_write32 P 0xFFFFFFFF (bas + PCIE_MSI_INTR2_MASK_SET);
     mmio_write32 P 0xFFFFFFFF (bas + PCIE_MSI_INTR2_CLR)
   }"

text \<open>At most 20 polls, 5 ms apart.\<close>

fun wait_link_loop :: "'h platform \<Rightarrow> nat \<Rightarrow> ('h world, unit) state" where
  "wait_link_loop P 0 = skip"
| "wait_link_loop P (Suc n) = do {
     up \<leftarrow> brcm_pcie_link_up P;
     if up then skip else do { delay_ms P 5; wait_link_loop P n }
   }"

definition start_link :: "'h platform \<Rightarrow> u32 \<Rightarrow> ('h world, errno + unit) state" where
  "start_link P bas = do {
     c \<leftarrow> get_ctl;
     (if gen c \<noteq> 0 then brcm_pcie_set_gen P (gen c) else skip);
     mmio_clear32 P (bas + PCIE_RGR1_SW_INIT_1) PCIE_RGR1_SW_INIT_1_PERST_MASK;
     delay_ms P 100;
     wait_link_loop P 20;
     up \<leftarrow> brcm_pcie_link_up P;
     if \<not> up then done_with (Inl EINVAL)
     else do {
       rc \<leftarrow> brcm_pcie_rc_mode P;
       done_with (if \<not> rc then Inl EINVAL else Ok)
     }
   }"

fun outbound_loop :: "'h platform \<Rightarrow> pci_region list \<Rightarrow> nat \<Rightarrow> ('h world, errno + unit) state" where
  "outbound_loop P [] num_out_wins = done_with Ok"
| "outbound_loop P (reg # regs) num_out_wins =
     (if flags reg \<noteq> PCI_REGION_MEM then outbound_loop P regs num_out_wins
      else if num_out_wins \<ge> BRCM_NUM_PCIE_OUT_WINS then done_with (Inl EINVAL)
      else do {
        brcm_pcie_set_outbound_win P (of_nat num_out_wins) (phys_start reg) (ucast (bus_start reg))
          (ucast (region_size reg));
        outbound_loop P regs (Suc num_out_wins)
      })"

definition setup_root_port :: "'h platform \<Rightarrow> u32 \<Rightarrow> ('h world, unit) state" where
  "setup_root_port P bas = do {
     mmio_update32 P (bas + PCIE_RC_CFG_PRIV1_ID_VAL3) PCIE_RC_CFG_PRIV1_ID_VAL3_CLASS_CODE_MASK 0x060400;
     c \<leftarrow> get_ctl;
     (if ssc c then do { _ \<leftarrow> brcm_pcie_set_ssc P (base c); skip } else skip);
     mmio_update32 P (bas + PCIE_RC_CFG_VENDOR_VENDOR_SPECIFIC_REG1)
       PCIE_RC_CFG_VENDOR_VENDOR_SPECIFIC_REG1_ENDIAN_MODE_BAR2_MASK VENDOR_SPECIFIC_REG1_LITTLE_ENDIAN;
     capreg \<leftarrow> mmio_read16 P (bas + BRCM_PCIE_CAP_REGS + PCI_EXP_RTCAP);
     (if (ucast capreg :: u32) AND PCI_EXP_RTCAP_CRSVIS \<noteq> 0
      then mmio_set16 P (bas + BRCM_PCIE_CAP_REGS + PCI_EXP_RTCTL) (ucast PCI_EXP_RTCTL_CRSSVE)
      else skip);
     mmio_clear32 P (bas + PCIE_RC_CFG_PRIV1_LINK_CAPABILITY) LINK_CAPABILITY_ASPM_SUPPORT_MASK
   }"

definition open_interrupts :: "'h platform \<Rightarrow> u32 \<Rightarrow> ('h world, errno + unit) state" where
  "open_interrupts P bas = do {
     rev \<leftarrow> mmio_read32 P (bas + PCIE_MISC_REVISION);
     set_ctl (\<lambda>c. c\<lparr>hw_rev := rev\<rparr>);
     if rev < BRCM_PCIE_HW_REV_33 then done_with (Inl ENODEV)
     else do {
       ret \<leftarrow> brcm_pcie_open_gic400 P;
       if ret \<noteq> Ok then done_with (Inl ENODEV)
       else do {
         ret \<leftarrow> brcm_msi_demux_enable P;
         (if ret \<noteq> Ok then brcm_pcie_close_gic400 P else skip);
         done_with ret
       }
     }
   }"

definition brcm_pcie_probe ::
    "'h platform \<Rightarrow> devtree \<Rightarrow> mem_header list \<Rightarrow> u32 \<Rightarrow> ('h world, errno + unit) state" where
  "brcm_pcie_probe P D mhs busno = do {
     parsed \<leftarrow> fetch (\<lambda>w. brcm_devtree_parse D (ctl w));
     set_ctl (\<lambda>_. snd parsed);
     if fst parsed \<noteq> Ok then done_with (fst parsed)
     else do {
       set_ctl (\<lambda>c. c\<lparr>bus_number_base := busno, bus_number_last := busno\<rparr>);
       c \<leftarrow> get_ctl;
       reset_bridge P (base c);
       case brcm_pcie_dma_window D c of
         Inl e \<Rightarrow> done_with (Inl e)
       | Inr win \<Rightarrow> do {
           ret \<leftarrow> pci_get_devtree_regions P D mhs win;
           if ret \<noteq> Ok then done_with ret
           else do {
             setup_inbound P (base c) win;
             ret \<leftarrow> start_link P (base c);
             if ret \<noteq> Ok then done_with ret
             else do {
               c \<leftarrow> get_ctl;
               ret \<leftarrow> outbound_loop P (regions c) 0;
               if ret \<noteq> Ok then done_with ret
               else do {
                 setup_root_port P (base c);
                 open_interrupts P (base c)
               }
             }
           }
         }
     }
   }"

definition brcm_pcie_remove :: "'h platform \<Rightarrow> ('h world, errno + unit) state" where
  "brcm_pcie_remove P = do {
     brcm_msi_demux_disable P;
     brcm_pcie_close_gic400 P;
     c \<leftarrow> get_ctl;
     mmio_set32 P (base c + PCIE_RGR1_SW_INIT_1) PCIE_RGR1_SW_INIT_1_PERST_MASK;
     mmio_set32 P (base c + PCIE_MISC_HARD_PCIE_HARD_DEBUG) PCIE_HARD_DEBUG_SERDES_IDDQ_MASK;
     mmio_set32 P (base c + PCIE_RGR1_SW_INIT_1) PCIE_RGR1_SW_INIT_1_INIT_MASK;
     (if regions_alloc c then hw_do (exec_free P) else skip);
     done_with Ok
   }"

section \<open>vl805_reset.c\<close>

text \<open>\<open>MB_RawCommand\<close> answers in the buffer; it is seven cells.\<close>

definition vl805_command :: "u32 list" where
  "vl805_command = [7 * 4, MAILBOX_PROP_REQ_CODE, MAILBOX_TAG_NOTIFY_XHCI_RESET, 4, 4, 0x100000, 0]"

definition bcm2711_reload_vl805_firmware :: "'h platform \<Rightarrow> ('h world, errno + unit) state" where
  "bcm2711_reload_vl805_firmware P = do {
     opened \<leftarrow> hw_get (mb_open P);
     if \<not> opened then done_with (Inl EIO)
     else do {
       answer \<leftarrow> hw_get (mb_raw_command P vl805_command);
       if answer ! 0 = 0xFFFFFFFF \<or> answer ! 1 \<noteq> MAILBOX_PROP_RESP_CODE_SUCCESS then done_with (Inl EIO)
       else do { delay_us P 200; done_with Ok }
     }
   }"

section \<open>The size code of an inbound window\<close>

text \<open>What the hardware reads in the field: the logarithm of the size.\<close>

definition ibar_log2 :: "u32 \<Rightarrow> nat option" where
  "ibar_log2 code = (if code = 0 then None else if code \<ge> 0x1C then Some (unat code - 0x1C + 12) else Some (unat code + 15))"



section \<open>The DMA window and the regions\<close>

lemma dma_window_identity':
  assumes "brcm_pcie_dma_window D c = Inr win"
  shows "0 < region_size win \<and> phys_start win = ucast (bus_start win) \<and>
    unat (bus_start win) + unat (region_size win) \<le> 2 ^ 31"
proof -
  obtain it where it: "dt_pci_ranges_open D c ''dma-ranges'' = Inr it"
    using assms by (auto simp: brcm_pcie_dma_window_def split: sum.splits)
  obtain dt it' where nxt: "dt_pci_ranges_next D it = Some (dt, it')"
    using assms it by (auto simp: brcm_pcie_dma_window_def split: option.splits)
  have dt: "range_size dt \<noteq> 0" "range_cpu dt < 0x80000000"
    "win = pci_set_region (ucast (range_cpu dt)) (range_cpu dt)
       (ucast (if 0x80000000 - range_cpu dt < range_size dt then 0x80000000 - range_cpu dt else range_size dt)) 0"
    using assms it nxt by (auto simp: brcm_pcie_dma_window_def Let_def not_le split: if_splits)
  define cpu where "cpu = range_cpu dt"
  have cpu: "unat cpu < 2 ^ 31" using dt(2) by (simp add: cpu_def word_less_nat_alt)
  then have bus: "unat (ucast cpu :: u32) = unat cpu" by (simp add: unat_ucast_down)
  define sz where "sz = (if 0x80000000 - cpu < range_size dt then 0x80000000 - cpu else range_size dt)"
  have "sz \<le> 0x80000000 - cpu" by (simp add: sz_def not_less)
  moreover have sub: "unat (0x80000000 - cpu :: u64) = 2 ^ 31 - unat cpu"
    using cpu by (simp add: unat_sub word_le_nat_alt)
  ultimately have sz: "unat sz \<le> 2 ^ 31 - unat cpu" by (simp add: word_le_nat_alt)
  have "0x80000000 - cpu \<noteq> 0" using sub cpu by auto
  then have "sz \<noteq> 0" using dt(1) by (simp add: sz_def)
  then have "0 < unat sz" by (simp add: unat_gt_0)
  moreover have small: "unat (ucast sz :: u32) = unat sz" using sz by (simp add: unat_ucast_down)
  ultimately have "0 < (ucast sz :: u32)" by (simp add: word_less_nat_alt)
  moreover have "ucast (ucast cpu :: u32) = cpu"
    using bus by (intro word_unat_eq_iff [THEN iffD2]) (simp add: unat_ucast_up)
  moreover have "win = pci_set_region (ucast cpu) cpu (ucast sz) 0"
    using dt(3) by (simp add: cpu_def sz_def)
  ultimately show ?thesis using bus small sz cpu by (simp add: pci_set_region_def)
qed

text \<open>
  C25: whatever the device tree says, a window the driver accepts is not empty, maps every
  CPU address to the same bus address and ends at or below 2 GiB.
\<close>

theorem dma_window_identity:
  assumes "brcm_pcie_dma_window D c = Inr win"
  shows "0 < region_size win \<and> phys_start win = ucast (bus_start win) \<and>
    unat (bus_start win) + unat (region_size win) \<le> 2 ^ 31"
  by (rule dma_window_identity' [OF assms])

text \<open>A device tree with one record, the 4 GiB inbound window of the CM4 firmware.\<close>

definition example_devtree :: devtree where
  "example_devtree = \<lparr>dt_present = True, dt_get_alias = (\<lambda>_. Some ''/scb/pcie''), dt_open_key = (\<lambda>_. Some 1),
     dt_find_property = (\<lambda>k p. if p = ''dma-ranges''
       then Some [0x02000000, 4, 0, 0, 0, 1, 0] else if p = ''ranges''
       then Some [0x02000000, 0, 0xC0000000, 6, 0, 0, 0x40000000] else None),
     dt_get_number = (\<lambda>cs n. foldl (\<lambda>a c. push_bit 32 a OR ucast c) 0 (take n cs)),
     dt_get_ulong = (\<lambda>k p d. if p = ''#address-cells'' then (if k = Some 1 then 3 else 2)
       else if p = ''#size-cells'' then 2 else d),
     dt_get_base_virtual = (\<lambda>_ _. 0x10000), dt_get_interrupt = (\<lambda>_ _. 180),
     dt_find_phandle = (\<lambda>_ _. None), dt_get_parent = (\<lambda>_. Some 0)\<rparr>"

definition example_parsed :: pci_controller where
  "example_parsed = blank_controller\<lparr>base := 0x10000, dt_node_name := Some ''/scb/pcie''\<rparr>"

lemma example_window:
  "brcm_pcie_dma_window example_devtree example_parsed = Inr (pci_set_region 0 0 0x80000000 0)"
  by code_simp

theorem dma_window_identity_witness:
  "unat (bus_start (pci_set_region 0 0 0x80000000 0)) + unat (region_size (pci_set_region 0 0 0x80000000 0)) \<le> 2 ^ 31"
  using dma_window_identity [OF example_window] by blast

text \<open>
  \<open>region_sound\<close>: the range is not empty and its last byte is inside the bus and the CPU
  address space.
\<close>

definition region_sound :: "pci_region \<Rightarrow> bool" where
  "region_sound r \<longleftrightarrow> 0 < region_size r \<and> unat (bus_start r) + unat (region_size r) \<le> 2 ^ 32 \<and>
     unat (phys_start r) + unat (region_size r) \<le> 2 ^ 64"

lemma address_maxima: "PCI_ADDR_MAX = 0xFFFFFFFF" "PHYS_ADDR_MAX = NOT 0"
  by (simp_all add: PCI_ADDR_MAX_def PHYS_ADDR_MAX_def unsigned_minus_1_eq_mask mask_eq_exp_minus_1)

lemma range_region_sound:
  assumes "bits_laws B" and "range_region B r = Some reg"
  shows "region_sound reg"
proof -
  define x y z where "x = range_bus r" and "y = range_size r" and "z = range_cpu r"
  obtain type where reg: "reg = pci_set_region (ucast x) z (ucast y) type"
    and hi: "(ucast (drop_bit 32 x) :: u32) = 0" "(ucast (drop_bit 32 y) :: u32) = 0" and y: "y \<noteq> 0"
    and fit: "y - 1 \<le> 0xFFFFFFFF - x" "y - 1 \<le> NOT 0 - z"
    using assms
    by (auto simp: range_region_def bits_laws_def address_maxima not_less x_def y_def z_def
        split: option.splits if_splits)
  have low: "unat v < 2 ^ 32" if "(ucast (drop_bit 32 v) :: u32) = 0" for v :: u64
  proof -
    have "unat v div 2 ^ 32 < 2 ^ 32"
      using unsigned_less [of v, where ?'a = nat] by (simp add: less_mult_imp_div_less)
    moreover have "unat (ucast (drop_bit 32 v) :: u32) = (unat v div 2 ^ 32) mod 2 ^ 32"
      by (simp add: unat_ucast_down unat_drop_bit)
    ultimately have "unat v div 2 ^ 32 = 0" using that by simp
    then show ?thesis by (simp add: div_eq_0_iff)
  qed
  note x = low [OF hi(1)] and yl = low [OF hi(2)]
  have y1: "unat (y - 1) = unat y - 1" "0 < unat y" using y by (simp_all add: unat_minus_one unat_gt_0)
  have "unat (0xFFFFFFFF - x) = 0xFFFFFFFF - unat x" using x by (simp add: unat_sub word_le_nat_alt)
  then have 1: "unat x + unat y \<le> 2 ^ 32" using fit(1) y1 x by (simp add: word_le_nat_alt)
  have "unat (NOT 0 - z) = unat (NOT 0 :: u64) - unat z" by (rule unat_sub) simp
  moreover have "unat (NOT 0 :: u64) = 2 ^ 64 - 1"
    by (simp add: unsigned_minus_1_eq_mask mask_eq_exp_minus_1)
  ultimately have 2: "unat z + unat y \<le> 2 ^ 64"
    using fit(2) y1 unsigned_less [of z, where ?'a = nat] by (simp add: word_le_nat_alt)
  have "0 < (ucast y :: u32)" using y1 yl by (simp add: word_less_nat_alt unat_ucast_down)
  then show ?thesis
    using 1 2 x yl by (simp add: reg region_sound_def pci_set_region_def unat_ucast_down)
qed

lemma ranges_next_shape:
  "dt_pci_ranges_next D it = Some (r, it') \<Longrightarrow>
     record_cells it \<le> cells_left it \<and> record_cells it' = record_cells it \<and>
     cells_left it' = cells_left it - record_cells it"
  by (auto simp: dt_pci_ranges_next_def Let_def split: if_splits)

lemma devtree_regions_loop_sound:
  assumes "bits_laws B" and "0 < record_cells it"
  shows "(\<forall>reg \<in> set (devtree_regions_loop D B n it). region_sound reg \<and> flags reg \<noteq> (PCI_REGION_MEM OR PCI_REGION_SYS_MEMORY)) \<and>
    length (devtree_regions_loop D B n it) \<le> cells_left it div record_cells it"
  using assms(2)
proof (induction n arbitrary: it)
  case (Suc n)
  show ?case
  proof (cases "dt_pci_ranges_next D it")
    case (Some p)
    obtain r it' where p: "p = (r, it')" by (cases p)
    note shape = ranges_next_shape [OF Some [unfolded p]]
    have IH: "(\<forall>reg \<in> set (devtree_regions_loop D B n it'). region_sound reg \<and> flags reg \<noteq> (PCI_REGION_MEM OR PCI_REGION_SYS_MEMORY)) \<and>
        length (devtree_regions_loop D B n it') \<le> cells_left it' div record_cells it'"
      using Suc.IH [of it'] Suc.prems shape by simp
    have "cells_left it div record_cells it = Suc (cells_left it' div record_cells it')"
      using shape Suc.prems by (simp add: le_div_geq)
    moreover have "flags reg \<noteq> (PCI_REGION_MEM OR PCI_REGION_SYS_MEMORY)" if "range_region B r = Some reg" for reg
      using that by (auto simp: range_region_def range_type_def pci_set_region_def split: option.splits if_splits)
    ultimately show ?thesis
      using IH range_region_sound [OF assms(1)] by (auto simp: Some p split: option.splits)
  qed simp
qed simp

lemma dram_regions_loop_sound:
  assumes "phys_start win = ucast (bus_start win)" "unat (bus_start win) + unat (region_size win) \<le> 2 ^ 31"
  shows "(\<forall>reg \<in> set (dram_regions_loop win 0 added mhs). region_sound reg \<and>
      flags reg = (PCI_REGION_MEM OR PCI_REGION_SYS_MEMORY) \<and> unat (bus_start reg) = unat (phys_start reg) \<and>
      unat (bus_start win) \<le> unat (bus_start reg) \<and>
      unat (bus_start reg) + unat (region_size reg) \<le> unat (bus_start win) + unat (region_size win)) \<and>
    length (dram_regions_loop win 0 added mhs) \<le> CONFIG_NR_DRAM_BANKS - added"
proof (induction mhs arbitrary: added)
  case (Cons mh mhs)
  let ?reg = "pci_set_region (mh_lower mh) (ucast (mh_lower mh)) (mh_upper mh - mh_lower mh)
      (PCI_REGION_MEM OR PCI_REGION_SYS_MEMORY)"
  show ?case
  proof (cases "added \<ge> CONFIG_NR_DRAM_BANKS \<or> \<not> mh_fast mh \<or> mh_upper mh \<le> mh_lower mh \<or>
      (ucast (mh_lower mh) :: u64) < phys_start win \<or>
      (ucast (mh_upper mh) :: u64) > phys_start win + ucast (region_size win)")
    case True
    then show ?thesis using Cons.IH [of added] by auto
  next
    case False
    have sum: "unat (ucast (bus_start win) + ucast (region_size win) :: u64) = unat (bus_start win) + unat (region_size win)"
      using assms(2) by (simp add: unat_word_ariths unat_ucast_up)
    have size: "unat (mh_upper mh - mh_lower mh) = unat (mh_upper mh) - unat (mh_lower mh)"
      using False by (intro unat_sub) (metis linear)
    have le: "unat (mh_lower mh) < unat (mh_upper mh)" using False by (simp add: word_le_nat_alt)
    have in_win: "unat (bus_start win) \<le> unat (mh_lower mh)"
      "unat (mh_upper mh) \<le> unat (bus_start win) + unat (region_size win)"
      using False assms(1) sum by (simp_all add: word_less_nat_alt unat_ucast_up not_less)
    have reg: "region_sound ?reg" "unat (bus_start ?reg) = unat (phys_start ?reg)"
      using le in_win assms(2) size
      by (simp_all add: region_sound_def pci_set_region_def word_less_nat_alt unat_ucast_up)
    have eq: "dram_regions_loop win 0 added (mh # mhs) = ?reg # dram_regions_loop win 0 (Suc added) mhs"
      using False by simp
    show ?thesis
      unfolding eq using Cons.IH [of "Suc added"] reg in_win size le False
      by (auto simp: pci_set_region_def)
  qed
qed simp


lemma example_ranges:
  "dt_pci_ranges_open example_devtree example_parsed ''ranges'' =
     Inr \<lparr>next_cells = [0x02000000, 0, 0xC0000000, 6, 0, 0, 0x40000000], cells_left = 7, pci_addr_cells = 3,
       cpu_addr_cells = 2, size_cells = 2, record_cells = 7\<rparr>"
  by code_simp

definition parsed_world :: "ram_hw world" where
  "parsed_world = example_world\<lparr>ctl := example_parsed\<rparr>"


end
