(* ===== verification/Pci_Auto.thy ===== *)
theory Pci_Auto
  imports Pci_Region Pci_Irq Pci_Capability
begin

text \<open>
  Auto-configuration (\<open>pci_auto.c\<close>): sizing and placing the BARs of a function, the
  bus numbers and forwarding windows of a bridge, and the repair of a link that does not
  train.  \<open>pciauto_config_device\<close>, which recurses into the enumeration, is in \<open>Pci_Probe\<close>.
  A pointer to a region is its index in \<open>regions\<close>; the allocator works on the region and
  stores it back.
\<close>

section \<open>Regions behind pointers\<close>

definition region_at :: "pci_controller \<Rightarrow> nat option \<Rightarrow> pci_region option" where
  "region_at c i = map_option (\<lambda>i. regions c ! i) i"

definition pciauto_allocate_at ::
    "'h platform \<Rightarrow> nat option \<Rightarrow> u32 \<Rightarrow> bool \<Rightarrow> ('h world, u32 option) state" where
  "pciauto_allocate_at P i sz s64 = do {
     c \<leftarrow> get_ctl;
     case pciauto_region_allocate (bits P) (region_at c i) sz s64 of
       None \<Rightarrow> done_with None
     | Some (addr, res) \<Rightarrow> do {
         set_ctl (update_region i (\<lambda>_. res));
         done_with (Some addr)
       }
   }"

definition pciauto_align_at :: "nat option \<Rightarrow> u32 \<Rightarrow> ('h world, unit) state" where
  "pciauto_align_at i sz = set_ctl (update_region i (\<lambda>r. pciauto_region_align r sz))"

section \<open>pciauto_setup_device: the BARs\<close>

text \<open>What the sizing response of a BAR says: size, full response, 64-bit decoder, region.\<close>

definition bar_size_of :: "u32 \<Rightarrow> u32 \<Rightarrow> u32" where
  "bar_size_of resp m = NOT (resp AND m) + 1"

definition decode_bar ::
    "'h platform \<Rightarrow> dev_id \<Rightarrow> nat option \<Rightarrow> nat option \<Rightarrow> nat option \<Rightarrow> u32 \<Rightarrow> u32 \<Rightarrow>
     ('h world, u32 \<times> u32 \<times> bool \<times> nat option) state" where
  "decode_bar P d mem prefetch io bar resp =
     (if resp AND PCI_BASE_ADDRESS_SPACE \<noteq> 0 then
        done_with (bar_size_of resp PCI_BASE_ADDRESS_IO_MASK, resp, False, io)
      else do {
        let res = (if prefetch \<noteq> None \<and> resp AND PCI_BASE_ADDRESS_MEM_PREFETCH \<noteq> 0 then prefetch else mem);
        if resp AND PCI_BASE_ADDRESS_MEM_TYPE_MASK = PCI_BASE_ADDRESS_MEM_TYPE_64 then do {
          _ \<leftarrow> pci_write_config32 P d (bar + 4) 0xFFFFFFFF;
          (_, upper) \<leftarrow> pci_read_config32 P d (bar + 4);
          let bar64 = (push_bit 32 (ucast upper) OR ucast resp :: u64);
          let sz = (ucast (NOT (bar64 AND ucast (PCI_BASE_ADDRESS_MEM_MASK)) + 1 :: u64) :: u32);
          done_with (sz, ucast bar64, True, res)
        } else done_with (bar_size_of resp PCI_BASE_ADDRESS_MEM_MASK, resp, False, res)
      })"

text \<open>The cached description of a placed BAR.\<close>

definition placed_bar :: "pci_controller \<Rightarrow> u32 \<Rightarrow> u32 \<Rightarrow> u32 \<Rightarrow> bool \<Rightarrow> u32 \<Rightarrow> pci_bar_info" where
  "placed_bar c resp addr sz found64 full =
     (if resp AND PCI_BASE_ADDRESS_SPACE \<noteq> 0 then
        \<lparr>present = True, bar_type = PCI_REGION_IO, is64 = found64, bus_addr = addr, bar_size = sz,
         bar_response = full, phys_addr = 0, virt_addr = 0\<rparr>
      else
        let len = (if sz \<noteq> 0 then ucast sz else 1) in
        \<lparr>present = True, bar_type = PCI_REGION_MEM, is64 = found64, bus_addr = addr, bar_size = sz,
         bar_response = full,
         phys_addr = pci_bus_to_phys c addr len PCI_REGION_TYPE PCI_REGION_MEM,
         virt_addr = pci_bus_to_virt c addr len PCI_REGION_TYPE PCI_REGION_MEM\<rparr>)"

definition set_bar :: "nat \<Rightarrow> pci_bar_info \<Rightarrow> pci_device \<Rightarrow> pci_device" where
  "set_bar slot b v = v\<lparr>bars := (bars v)(slot := b)\<rparr>"

text \<open>One round of the loop: the next slot to look at and the command bits.\<close>

definition setup_bar ::
    "'h platform \<Rightarrow> dev_id \<Rightarrow> nat option \<Rightarrow> nat option \<Rightarrow> nat option \<Rightarrow> nat \<Rightarrow> u32 \<Rightarrow>
     ('h world, nat \<times> u32) state" where
  "setup_bar P d mem prefetch io slot cmdstat = do {
     let bar = PCI_BASE_ADDRESS_0 + of_nat slot * 4;
     _ \<leftarrow> pci_write_config32 P d bar 0xFFFFFFFF;
     (_, resp) \<leftarrow> pci_read_config32 P d bar;
     if resp = 0 \<or> resp = 0xFFFFFFFF then done_with (Suc slot, cmdstat)
     else do {
       (sz, full, found64, res) \<leftarrow> decode_bar P d mem prefetch io bar resp;
       placed \<leftarrow> pciauto_allocate_at P res sz found64;
       next \<leftarrow> (case placed of
           None \<Rightarrow> done_with (Suc slot)
         | Some addr \<Rightarrow> do {
             _ \<leftarrow> pci_write_config32 P d bar addr;
             next \<leftarrow> (if found64 then do {
                 _ \<leftarrow> pci_write_config32 P d (bar + 4) 0;
                 done_with (Suc (Suc slot))
               } else done_with (Suc slot));
             c \<leftarrow> get_ctl;
             set_dev d (set_bar slot (placed_bar c resp addr sz found64 full));
             done_with next
           });
       done_with (next, cmdstat OR
         (if resp AND PCI_BASE_ADDRESS_SPACE \<noteq> 0 then PCI_COMMAND_IO else PCI_COMMAND_MEMORY))
     }
   }"

text \<open>The loop; \<open>n\<close> bounds the rounds, one per BAR slot at most.\<close>

fun setup_bars ::
    "'h platform \<Rightarrow> dev_id \<Rightarrow> nat option \<Rightarrow> nat option \<Rightarrow> nat option \<Rightarrow> nat \<Rightarrow> nat \<Rightarrow> nat \<Rightarrow> u32 \<Rightarrow>
     ('h world, u32) state" where
  "setup_bars P d mem prefetch io bnum 0 slot cmdstat = done_with cmdstat"
| "setup_bars P d mem prefetch io bnum (Suc n) slot cmdstat =
     (if slot \<ge> bnum then done_with cmdstat
      else do {
        (next, cmdstat) \<leftarrow> setup_bar P d mem prefetch io slot cmdstat;
        setup_bars P d mem prefetch io bnum n next cmdstat
      })"

section \<open>pciauto_setup_device: the rest\<close>

definition setup_rom :: "'h platform \<Rightarrow> dev_id \<Rightarrow> nat option \<Rightarrow> u32 \<Rightarrow> ('h world, u32) state" where
  "setup_rom P d mem cmdstat = do {
     v \<leftarrow> get_dev d;
     if ucast (header_type v) = PCI_HEADER_TYPE_NORMAL \<or> ucast (header_type v) = PCI_HEADER_TYPE_BRIDGE
     then do {
       let rom_addr = (if ucast (header_type v) = PCI_HEADER_TYPE_NORMAL
                       then PCI_ROM_ADDRESS else PCI_ROM_ADDRESS1);
       _ \<leftarrow> pci_write_config32 P d rom_addr 0xFFFFFFFE;
       (_, resp) \<leftarrow> pci_read_config32 P d rom_addr;
       if resp \<noteq> 0 then do {
         placed \<leftarrow> pciauto_allocate_at P mem (- (resp AND NOT 1)) False;
         (case placed of
            None \<Rightarrow> skip
          | Some addr \<Rightarrow> do { _ \<leftarrow> pci_write_config32 P d rom_addr addr; skip });
         done_with (cmdstat OR PCI_COMMAND_MEMORY)
       } else done_with cmdstat
     } else done_with cmdstat
   }"

definition pciauto_setup_device ::
    "'h platform \<Rightarrow> dev_id \<Rightarrow> nat option \<Rightarrow> nat option \<Rightarrow> nat option \<Rightarrow> ('h world, unit) state" where
  "pciauto_setup_device P d mem prefetch io = do {
     v \<leftarrow> get_dev d;
     (_, raw) \<leftarrow> pci_read_config16 P d PCI_COMMAND;
     let cmdstat = (((ucast raw :: u32) AND NOT (PCI_COMMAND_IO OR PCI_COMMAND_MEMORY)) OR PCI_COMMAND_MASTER);
     cmdstat \<leftarrow> setup_bars P d mem prefetch io (bars_num v) (bars_num v) 0 cmdstat;
     cmdstat \<leftarrow> setup_rom P d mem cmdstat;
     (_, cls) \<leftarrow> pci_read_config16 P d PCI_CLASS_DEVICE;
     let cmdstat = (if ucast cls = PCI_CLASS_DISPLAY_VGA then cmdstat OR PCI_COMMAND_IO else cmdstat);
     _ \<leftarrow> pci_write_config16 P d PCI_COMMAND cmdstat;
     _ \<leftarrow> pci_write_config8 P d PCI_CACHE_LINE_SIZE CFG_SYS_PCI_CACHE_LINE_SIZE;
     _ \<leftarrow> pci_write_config8 P d PCI_LATENCY_TIMER 0x80;
     pci_assign_irq P d;
     pci_msi_init P d;
     pci_msix_init P d
   }"

section \<open>The link behind a downstream port\<close>

text \<open>
  The polling loop reads the clock once a round, so it ends within 200001 rounds of a clock
  that advances by at least a microsecond per reading; \<open>rounds\<close> is that bound.
\<close>

fun link_stable_loop ::
    "'h platform \<Rightarrow> dev_id \<Rightarrow> u32 \<Rightarrow> u32 \<Rightarrow> nat \<Rightarrow> u32 \<Rightarrow> u32 \<Rightarrow> ('h world, bool \<times> u32 \<times> u32) state" where
  "link_stable_loop P d pcie_off end_time 0 loops ntrcount = done_with (False, loops, ntrcount)"
| "link_stable_loop P d pcie_off end_time (Suc rounds) loops ntrcount = do {
     (_, sta) \<leftarrow> pci_read_config16 P d (pcie_off + PCI_EXP_LNKSTA);
     let dllla = ((ucast sta :: u32) AND PCI_EXP_LNKSTA_DLLLA \<noteq> 0);
     let lnktr = ((ucast sta :: u32) AND PCI_EXP_LNKSTA_LT \<noteq> 0);
     let ntrcount = (if lnktr then 0 else ntrcount + 1);
     let loops = loops + 1;
     if dllla then done_with (dllla, loops, ntrcount)
     else do {
       now \<leftarrow> hw_get (time_us P);
       if now < end_time then link_stable_loop P d pcie_off end_time rounds loops ntrcount
       else done_with (dllla, loops, ntrcount)
     }
   }"

definition LINK_POLL_ROUNDS :: nat where
  "LINK_POLL_ROUNDS = 200001"

definition pciauto_exp_link_stable :: "'h platform \<Rightarrow> dev_id \<Rightarrow> u32 \<Rightarrow> ('h world, bool) state" where
  "pciauto_exp_link_stable P d pcie_off = do {
     _ \<leftarrow> pci_read_config16 P d (pcie_off + PCI_EXP_LNKSTA);
     now \<leftarrow> hw_get (time_us P);
     (dllla, loops, ntrcount) \<leftarrow> link_stable_loop P d pcie_off (now + 200000) LINK_POLL_ROUNDS 0 0;
     done_with (dllla \<or> ntrcount \<ge> loops div 2)
   }"

definition pciauto_exp_fixup_link :: "'h platform \<Rightarrow> dev_id \<Rightarrow> u32 \<Rightarrow> ('h world, unit) state" where
  "pciauto_exp_fixup_link P d pcie_off = do {
     (_, exp_flags) \<leftarrow> pci_read_config16 P d (pcie_off + PCI_EXP_FLAGS);
     let exp_version = (ucast exp_flags :: u32) AND PCI_EXP_FLAGS_VERS;
     let exp_type = drop_bit 4 ((ucast exp_flags :: u32) AND PCI_EXP_FLAGS_TYPE);
     if exp_version < 2 then skip
     else if exp_type \<noteq> PCI_EXP_TYPE_ROOT_PORT \<and> exp_type \<noteq> PCI_EXP_TYPE_DOWNSTREAM \<and>
             exp_type \<noteq> PCI_EXP_TYPE_PCIE_BRIDGE then skip
     else do {
       (_, lnkcap) \<leftarrow> pci_read_config32 P d (pcie_off + PCI_EXP_LNKCAP);
       if lnkcap AND PCI_EXP_LNKCAP_SLS \<le> PCI_EXP_LNKCAP_SLS_2_5GB then skip
       else do {
         (_, lnksta) \<leftarrow> pci_read_config16 P d (pcie_off + PCI_EXP_LNKSTA);
         if (ucast lnksta :: u32) AND (PCI_EXP_LNKSTA_LBMS OR PCI_EXP_LNKSTA_DLLLA) \<noteq> PCI_EXP_LNKSTA_LBMS
         then skip
         else do {
           stable \<leftarrow> pciauto_exp_link_stable P d pcie_off;
           if stable then skip
           else do {
             (_, lnkctl) \<leftarrow> pci_read_config16 P d (pcie_off + PCI_EXP_LNKCTL);
             (_, lnkctl2) \<leftarrow> pci_read_config16 P d (pcie_off + PCI_EXP_LNKCTL2);
             _ \<leftarrow> pci_write_config16 P d (pcie_off + PCI_EXP_LNKCTL2)
               (((ucast lnkctl2 :: u32) AND NOT PCI_EXP_LNKCTL2_TLS) OR PCI_EXP_LNKCTL2_TLS_2_5GT);
             _ \<leftarrow> pci_write_config16 P d (pcie_off + PCI_EXP_LNKCTL) (ucast lnkctl OR PCI_EXP_LNKCTL_RL);
             stable \<leftarrow> pciauto_exp_link_stable P d pcie_off;
             if stable then skip
             else do {
               _ \<leftarrow> pci_write_config16 P d (pcie_off + PCI_EXP_LNKCTL2) (ucast lnkctl2);
               _ \<leftarrow> pci_write_config16 P d (pcie_off + PCI_EXP_LNKCTL) (ucast lnkctl OR PCI_EXP_LNKCTL_RL);
               skip
             }
           }
         }
       }
     }
   }"

section \<open>Bridge windows\<close>

text \<open>The cursor of a region as it is now.\<close>

definition lower_at :: "nat \<Rightarrow> ('h world, u32) state" where
  "lower_at i = fetch (\<lambda>w. bus_lower (regions (ctl w) ! i))"

text \<open>
  The window registers of a bridge. The start of a window is written from the aligned cursor
  before the bus behind the bridge is configured, its end from the aligned cursor after.
\<close>

definition mem_base_reg :: "u32 \<Rightarrow> u32" where
  "mem_base_reg lower = drop_bit 16 (lower AND 0xFFF00000) AND PCI_MEMORY_RANGE_MASK"

definition mem_limit_reg :: "u32 \<Rightarrow> u32" where
  "mem_limit_reg lower = drop_bit 16 (lower - 1) AND PCI_MEMORY_RANGE_MASK"

definition pref_base_reg :: "u32 \<Rightarrow> u32 \<Rightarrow> u32" where
  "pref_base_reg lower pref64 = (drop_bit 16 (lower AND 0xFFF00000) AND PCI_PREF_RANGE_MASK) OR pref64"

definition pref_limit_reg :: "u32 \<Rightarrow> u32 \<Rightarrow> u32" where
  "pref_limit_reg lower pref64 = (drop_bit 16 (lower - 1) AND PCI_PREF_RANGE_MASK) OR pref64"

definition io_base_reg :: "u32 \<Rightarrow> u32 \<Rightarrow> u32" where
  "io_base_reg lower io32 = (drop_bit 8 (lower AND 0x0000F000) AND PCI_IO_RANGE_MASK) OR io32"

definition io_base_upper_reg :: "u32 \<Rightarrow> u32" where
  "io_base_upper_reg lower = drop_bit 16 (lower AND 0xFFFF0000)"

definition io_limit_reg :: "u32 \<Rightarrow> u32 \<Rightarrow> u32" where
  "io_limit_reg lower io32 = (drop_bit 8 ((lower - 1) AND 0x0000F000) AND PCI_IO_RANGE_MASK) OR io32"

definition io_limit_upper_reg :: "u32 \<Rightarrow> u32" where
  "io_limit_upper_reg lower = drop_bit 16 ((lower - 1) AND 0xFFFF0000)"

definition prescan_mem :: "'h platform \<Rightarrow> dev_id \<Rightarrow> nat option \<Rightarrow> u32 \<Rightarrow> ('h world, u32) state" where
  "prescan_mem P d mem cmdstat = (case mem of
       None \<Rightarrow> done_with cmdstat
     | Some i \<Rightarrow> do {
         pciauto_align_at mem CONFIG_PCI_BRIDGE_MEM_ALIGNMENT;
         lower \<leftarrow> lower_at i;
         _ \<leftarrow> pci_write_config16 P d PCI_MEMORY_BASE (mem_base_reg lower);
         done_with (cmdstat OR PCI_COMMAND_MEMORY)
       })"

definition prescan_prefetch ::
    "'h platform \<Rightarrow> dev_id \<Rightarrow> nat option \<Rightarrow> u32 \<Rightarrow> u32 \<Rightarrow> ('h world, u32) state" where
  "prescan_prefetch P d prefetch pref64 cmdstat = (case prefetch of
       Some i \<Rightarrow> do {
         pciauto_align_at prefetch CONFIG_PCI_BRIDGE_MEM_ALIGNMENT;
         lower \<leftarrow> lower_at i;
         _ \<leftarrow> pci_write_config16 P d PCI_PREF_MEMORY_BASE (pref_base_reg lower pref64);
         (if pref64 = PCI_PREF_RANGE_TYPE_64
          then do { _ \<leftarrow> pci_write_config32 P d PCI_PREF_BASE_UPPER32 0; skip } else skip);
         done_with (cmdstat OR PCI_COMMAND_MEMORY)
       }
     | None \<Rightarrow> do {
         _ \<leftarrow> pci_write_config16 P d PCI_PREF_MEMORY_BASE (0xFFF0 OR pref64);
         _ \<leftarrow> pci_write_config16 P d PCI_PREF_MEMORY_LIMIT (0 OR pref64);
         (if pref64 = PCI_PREF_RANGE_TYPE_64 then do {
            _ \<leftarrow> pci_write_config16 P d PCI_PREF_BASE_UPPER32 0;
            _ \<leftarrow> pci_write_config16 P d PCI_PREF_LIMIT_UPPER32 0;
            skip
          } else skip);
         done_with cmdstat
       })"

definition prescan_io :: "'h platform \<Rightarrow> dev_id \<Rightarrow> nat option \<Rightarrow> u32 \<Rightarrow> u32 \<Rightarrow> ('h world, u32) state" where
  "prescan_io P d io io32 cmdstat = (case io of
       Some i \<Rightarrow> do {
         pciauto_align_at io 0x1000;
         lower \<leftarrow> lower_at i;
         _ \<leftarrow> pci_write_config8 P d PCI_IO_BASE (io_base_reg lower io32);
         (if io32 = PCI_IO_RANGE_TYPE_32
          then do { _ \<leftarrow> pci_write_config16 P d PCI_IO_BASE_UPPER16 (io_base_upper_reg lower); skip }
          else skip);
         done_with (cmdstat OR PCI_COMMAND_IO)
       }
     | None \<Rightarrow> do {
         _ \<leftarrow> pci_write_config8 P d PCI_IO_BASE (0xF0 OR io32);
         _ \<leftarrow> pci_write_config8 P d PCI_IO_LIMIT (0 OR io32);
         (if io32 = PCI_IO_RANGE_TYPE_32 then do {
            _ \<leftarrow> pci_write_config16 P d PCI_IO_BASE_UPPER16 0;
            _ \<leftarrow> pci_write_config16 P d PCI_IO_LIMIT_UPPER16 0;
            skip
          } else skip);
         done_with cmdstat
       })"

text \<open>\<open>d\<close> is the bridge of bus \<open>b\<close>.\<close>

definition pciauto_prescan_setup_bridge :: "'h platform \<Rightarrow> bus_id \<Rightarrow> dev_id \<Rightarrow> ('h world, unit) state" where
  "pciauto_prescan_setup_bridge P b d = do {
     c \<leftarrow> get_ctl;
     brd \<leftarrow> get_bus b;
     v \<leftarrow> get_dev d;
     (_, raw) \<leftarrow> pci_read_config16 P d PCI_COMMAND;
     (_, pref) \<leftarrow> pci_read_config16 P d PCI_PREF_MEMORY_BASE;
     let pref64 = (ucast pref :: u32) AND PCI_PREF_RANGE_TYPE_MASK;
     (_, io_base) \<leftarrow> pci_read_config8 P d PCI_IO_BASE;
     let io32 = (ucast io_base :: u32) AND PCI_IO_RANGE_TYPE_MASK;
     _ \<leftarrow> pci_write_config8 P d PCI_PRIMARY_BUS (PCI_BUS (bdf v) - bus_number_base c);
     _ \<leftarrow> pci_write_config8 P d PCI_SECONDARY_BUS (bus_number brd - bus_number_base c);
     _ \<leftarrow> pci_write_config8 P d PCI_SUBORDINATE_BUS 0xFF;
     cmdstat \<leftarrow> prescan_mem P d (pci_mem c) (ucast raw);
     cmdstat \<leftarrow> prescan_prefetch P d (pci_prefetch c) pref64 cmdstat;
     cmdstat \<leftarrow> prescan_io P d (pci_io c) io32 cmdstat;
     pcie_off \<leftarrow> pci_find_capability P d (ucast PCI_CAP_ID_EXP);
     (if pcie_off \<noteq> 0 then pciauto_exp_fixup_link P d pcie_off else skip);
     _ \<leftarrow> pci_write_config16 P d PCI_COMMAND (cmdstat OR PCI_COMMAND_MASTER);
     skip
   }"

definition postscan_mem :: "'h platform \<Rightarrow> dev_id \<Rightarrow> nat option \<Rightarrow> ('h world, unit) state" where
  "postscan_mem P d mem = (case mem of
       None \<Rightarrow> skip
     | Some i \<Rightarrow> do {
         pciauto_align_at mem CONFIG_PCI_BRIDGE_MEM_ALIGNMENT;
         lower \<leftarrow> lower_at i;
         _ \<leftarrow> pci_write_config16 P d PCI_MEMORY_LIMIT (mem_limit_reg lower);
         skip
       })"

definition postscan_prefetch :: "'h platform \<Rightarrow> dev_id \<Rightarrow> nat option \<Rightarrow> ('h world, unit) state" where
  "postscan_prefetch P d prefetch = (case prefetch of
       None \<Rightarrow> skip
     | Some i \<Rightarrow> do {
         (_, pref) \<leftarrow> pci_read_config16 P d PCI_PREF_MEMORY_LIMIT;
         let pref64 = (ucast pref :: u32) AND PCI_PREF_RANGE_TYPE_MASK;
         pciauto_align_at prefetch CONFIG_PCI_BRIDGE_MEM_ALIGNMENT;
         lower \<leftarrow> lower_at i;
         _ \<leftarrow> pci_write_config16 P d PCI_PREF_MEMORY_LIMIT (pref_limit_reg lower pref64);
         (if pref64 = PCI_PREF_RANGE_TYPE_64
          then do { _ \<leftarrow> pci_write_config32 P d PCI_PREF_LIMIT_UPPER32 0; skip } else skip)
       })"

definition postscan_io :: "'h platform \<Rightarrow> dev_id \<Rightarrow> nat option \<Rightarrow> ('h world, unit) state" where
  "postscan_io P d io = (case io of
       None \<Rightarrow> skip
     | Some i \<Rightarrow> do {
         (_, io_limit) \<leftarrow> pci_read_config8 P d PCI_IO_LIMIT;
         let io32 = (ucast io_limit :: u32) AND PCI_IO_RANGE_TYPE_MASK;
         pciauto_align_at io 0x1000;
         lower \<leftarrow> lower_at i;
         _ \<leftarrow> pci_write_config8 P d PCI_IO_LIMIT (io_limit_reg lower io32);
         (if io32 = PCI_IO_RANGE_TYPE_32
          then do { _ \<leftarrow> pci_write_config16 P d PCI_IO_LIMIT_UPPER16 (io_limit_upper_reg lower); skip }
          else skip)
       })"

definition pciauto_postscan_setup_bridge :: "'h platform \<Rightarrow> bus_id \<Rightarrow> dev_id \<Rightarrow> ('h world, unit) state" where
  "pciauto_postscan_setup_bridge P b d = do {
     c \<leftarrow> get_ctl;
     brd \<leftarrow> get_bus b;
     _ \<leftarrow> pci_write_config8 P d PCI_SUBORDINATE_BUS (bus_number_last_sub brd - bus_number_base c);
     postscan_mem P d (pci_mem c);
     postscan_prefetch P d (pci_prefetch c);
     postscan_io P d (pci_io c)
   }"

section \<open>What one round of the BAR loop does\<close>

lemma hw_only_decode [hwo]: "hw_only (decode_bar P d mem pre io bar resp)"
  by (auto simp: decode_bar_def Let_def intro!: hwo)

definition bar_region :: "nat option \<Rightarrow> nat option \<Rightarrow> nat option \<Rightarrow> u32 \<Rightarrow> nat option" where
  "bar_region mem pre io resp = (if resp AND PCI_BASE_ADDRESS_SPACE \<noteq> 0 then io
     else if pre \<noteq> None \<and> resp AND PCI_BASE_ADDRESS_MEM_PREFETCH \<noteq> 0 then pre else mem)"

lemma decode_bar_region:
  "fst (run_state (decode_bar P d mem pre io bar resp) w) = (sz, full, found64, res) \<Longrightarrow>
     res = bar_region mem pre io resp"
  by (auto simp: decode_bar_def bar_region_def Let_def case_prod_beta split: if_splits)

lemma run_allocate_at:
  "run_state (pciauto_allocate_at P i sz s64) w =
     (case pciauto_region_allocate (bits P) (region_at (ctl w) i) sz s64 of
        None \<Rightarrow> (None, w)
      | Some (addr, r') \<Rightarrow> (Some addr, w\<lparr>ctl := update_region i (\<lambda>_. r') (ctl w)\<rparr>))"
  by (simp add: pciauto_allocate_at_def split: option.splits)

lemma setup_bar_cases:
  assumes "run_state (setup_bar P d mem pre io slot cmd) w = ((next, cmd'), w')"
  shows "(next = Suc slot \<or> next = Suc (Suc slot)) \<and>
    (ctl w' = ctl w \<and> dev w' = dev w \<or>
     (\<exists>resp sz full f64 addr r'.
        pciauto_region_allocate (bits P) (region_at (ctl w) (bar_region mem pre io resp)) sz f64 = Some (addr, r') \<and>
        ctl w' = update_region (bar_region mem pre io resp) (\<lambda>_. r') (ctl w) \<and>
        dev w' = (dev w)(d := set_bar slot (placed_bar (ctl w') resp addr sz f64 full) (dev w d))))"
proof -
  let ?bar = "PCI_BASE_ADDRESS_0 + of_nat slot * 4"
  obtain u w1 where r1: "run_state (pci_write_config32 P d ?bar 0xFFFFFFFF) w = (u, w1)"
    by (metis surj_pair)
  obtain st resp w2 where r2: "run_state (pci_read_config32 P d ?bar) w1 = ((st, resp), w2)"
    by (metis surj_pair)
  have w2: "ctl w2 = ctl w" "dev w2 = dev w"
    using hw_only_run [OF hw_only_config(6) r1] hw_only_run [OF hw_only_config(3) r2] by simp_all
  show ?thesis
  proof (cases "resp = 0 \<or> resp = 0xFFFFFFFF")
    case True
    then have "((next, cmd'), w') = ((Suc slot, cmd), w2)"
      using assms r2 by (auto simp: setup_bar_def Let_def case_prod_beta r1)
    then show ?thesis using w2 by simp
  next
    case False
    obtain sz full f64 res w3 where r3:
      "run_state (decode_bar P d mem pre io ?bar resp) w2 = ((sz, full, f64, res), w3)"
      by (metis surj_pair)
    then have res: "res = bar_region mem pre io resp"
      using decode_bar_region by (metis fst_conv)
    have w3: "ctl w3 = ctl w" "dev w3 = dev w"
      using hw_only_run [OF hw_only_decode r3] w2 by simp_all
    show ?thesis
    proof (cases "pciauto_region_allocate (bits P) (region_at (ctl w) res) sz f64")
      case None
      then have "next = Suc slot \<and> w' = w3"
        using assms False r2 r3 w3
        by (simp add: setup_bar_def Let_def case_prod_beta r1 run_allocate_at)
      then show ?thesis using w3 by simp
    next
      case (Some p)
      then obtain addr r' where p: "pciauto_region_allocate (bits P) (region_at (ctl w) res) sz f64 = Some (addr, r')"
        by (cases p) auto
      have "next = (if f64 then Suc (Suc slot) else Suc slot) \<and>
          ctl w' = update_region res (\<lambda>_. r') (ctl w) \<and>
          dev w' = (dev w)(d := set_bar slot (placed_bar (ctl w') resp addr sz f64 full) (dev w d))"
        using assms False r2 r3 w3 p
        by (auto simp add: setup_bar_def Let_def case_prod_beta r1 run_allocate_at hwo
            split: if_splits)
      moreover from this have "next = Suc slot \<or> next = Suc (Suc slot)" by (cases f64) simp_all
      ultimately show ?thesis using p unfolding res by blast
    qed
  qed
qed

section \<open>The BARs of one function do not overlap\<close>

definition placed_mem :: "pci_device \<Rightarrow> nat \<Rightarrow> bool" where
  "placed_mem v s \<longleftrightarrow> present (bars v s) \<and> bar_type (bars v s) = PCI_REGION_MEM"

definition bar_lo :: "pci_device \<Rightarrow> nat \<Rightarrow> nat" where
  "bar_lo v s = unat (bus_addr (bars v s))"

definition bar_end :: "pci_device \<Rightarrow> nat \<Rightarrow> nat" where
  "bar_end v s = unat (bus_addr (bars v s)) + unat (bar_size (bars v s))"

text \<open>
  The state of the loop before slot \<open>k\<close>: \<open>i\<close> is the memory region, \<open>r0\<close> what it was, and the
  sizes seen so far are below its start.
\<close>

definition sizes_below :: "pci_region \<Rightarrow> pci_device \<Rightarrow> bool" where
  "sizes_below r v \<longleftrightarrow> (\<forall>s. placed_mem v s \<longrightarrow> 0 < bar_size (bars v s) \<and> bar_size (bars v s) < bus_start r)"

definition bars_packed :: "nat \<Rightarrow> nat \<Rightarrow> pci_device \<Rightarrow> bool" where
  "bars_packed lo hi v \<longleftrightarrow> lo \<le> hi \<and> (\<forall>s. placed_mem v s \<longrightarrow> lo \<le> bar_lo v s \<and> bar_end v s \<le> hi) \<and>
     (\<forall>s t. s < t \<and> placed_mem v s \<and> placed_mem v t \<longrightarrow> bar_end v s \<le> bar_lo v t)"

definition bars_state :: "nat \<Rightarrow> pci_region \<Rightarrow> dev_id \<Rightarrow> nat \<Rightarrow> 'h world \<Rightarrow> bool" where
  "bars_state i r0 d k w \<longleftrightarrow>
      i < length (regions (ctl w)) \<and> bus_start (regions (ctl w) ! i) = bus_start r0 \<and>
      region_limit (regions (ctl w) ! i) = region_limit r0 \<and>
      (\<forall>s \<ge> k. \<not> present (bars (dev w d) s)) \<and>
      (sizes_below r0 (dev w d) \<longrightarrow> region_inv (regions (ctl w) ! i) \<and>
         region_cursor (regions (ctl w) ! i) \<le> region_limit r0 \<and>
         bars_packed (region_cursor r0) (region_cursor (regions (ctl w) ! i)) (dev w d))"

lemma placed_bar_simps [simp]:
  "present (placed_bar c resp addr sz f full)" "bus_addr (placed_bar c resp addr sz f full) = addr"
  "bar_size (placed_bar c resp addr sz f full) = sz"
  "bar_type (placed_bar c resp addr sz f full) =
     (if resp AND PCI_BASE_ADDRESS_SPACE \<noteq> 0 then PCI_REGION_IO else PCI_REGION_MEM)"
  by (simp_all add: placed_bar_def Let_def)

lemma set_bar_bars [simp]: "bars (set_bar k b v) s = (if s = k then b else bars v s)"
  by (simp add: set_bar_def)

lemma bars_packed_io:
  assumes "\<not> present (bars v k)" and "bar_type b \<noteq> PCI_REGION_MEM"
  shows "bars_packed lo hi (set_bar k b v) = bars_packed lo hi v"
    "sizes_below r (set_bar k b v) = sizes_below r v"
proof -
  have "placed_mem (set_bar k b v) s = placed_mem v s" for s
    using assms by (simp add: placed_mem_def)
  moreover have "s \<noteq> k" if "placed_mem v s" for s
    using that assms by (auto simp: placed_mem_def)
  ultimately show "bars_packed lo hi (set_bar k b v) = bars_packed lo hi v"
    "sizes_below r (set_bar k b v) = sizes_below r v"
    by (auto simp: bars_packed_def sizes_below_def bar_lo_def bar_end_def)
qed

lemma bars_packed_put:
  assumes packed: "bars_packed lo hi v" and fresh: "\<forall>s \<ge> k. \<not> present (bars v s)"
    and b: "hi \<le> unat (bus_addr b)" "unat (bus_addr b) + unat (bar_size b) = hi'"
      "present b" "bar_type b = PCI_REGION_MEM"
  shows "bars_packed lo hi' (set_bar k b v)"
proof -
  have below: "s < k" if "placed_mem v s" for s
    using that fresh by (auto simp: placed_mem_def not_less [symmetric])
  have placed: "placed_mem (set_bar k b v) s \<longleftrightarrow> s = k \<or> placed_mem v s" for s
    using b by (simp add: placed_mem_def)
  have ends: "bar_lo (set_bar k b v) s = (if s = k then unat (bus_addr b) else bar_lo v s)"
    "bar_end (set_bar k b v) s = (if s = k then hi' else bar_end v s)" for s
    using b by (simp_all add: bar_lo_def bar_end_def)
  have "hi \<le> hi'" using b(1,2) by linarith
  then have "lo \<le> hi'" using packed by (simp add: bars_packed_def)
  moreover have "lo \<le> bar_lo (set_bar k b v) s \<and> bar_end (set_bar k b v) s \<le> hi'"
    if "placed_mem (set_bar k b v) s" for s
  proof (cases "s = k")
    case True
    then show ?thesis using packed b(1) by (simp add: ends bars_packed_def)
  next
    case False
    then have "lo \<le> bar_lo v s" "bar_end v s \<le> hi"
      using that packed by (simp_all add: placed bars_packed_def)
    then show ?thesis using False \<open>hi \<le> hi'\<close> by (simp add: ends)
  qed
  moreover have "bar_end (set_bar k b v) s \<le> bar_lo (set_bar k b v) t"
    if st: "s < t" "placed_mem (set_bar k b v) s" "placed_mem (set_bar k b v) t" for s t
  proof -
    have s: "s \<noteq> k" using st below [of t] by (auto simp: placed)
    then have old: "placed_mem v s" using st by (simp add: placed)
    show ?thesis
    proof (cases "t = k")
      case True
      have "bar_end v s \<le> hi" using old packed by (simp add: bars_packed_def)
      then show ?thesis using True s b(1) by (simp add: ends)
    next
      case False
      then have "bar_end v s \<le> bar_lo v t"
        using st old packed by (simp add: placed bars_packed_def)
      then show ?thesis using False s by (simp add: ends)
    qed
  qed
  ultimately show ?thesis by (simp add: bars_packed_def)
qed

lemma sizes_below_put:
  assumes "sizes_below r (set_bar k b v)" "present b" "bar_type b = PCI_REGION_MEM" "\<not> present (bars v k)"
  shows "0 < bar_size b" "bar_size b < bus_start r" "sizes_below r v"
proof -
  have "placed_mem (set_bar k b v) k" using assms by (simp add: placed_mem_def)
  then show "0 < bar_size b" "bar_size b < bus_start r"
    using assms(1) by (auto simp: sizes_below_def)
  have "placed_mem v s \<Longrightarrow> s \<noteq> k \<and> placed_mem (set_bar k b v) s" for s
    using assms(4) by (auto simp: placed_mem_def)
  then show "sizes_below r v" using assms(1) unfolding sizes_below_def set_bar_bars by metis
qed

lemma bars_state_put:
  assumes st: "bars_state i r0 d k w" and "k < next" and len: "length (regions (ctl w')) = length (regions (ctl w))"
    and got: "pciauto_region_allocate B (Some (regions (ctl w) ! i)) (bar_size b) s64 = Some (bus_addr b, r')"
    and reg: "regions (ctl w') ! i = r'" and v': "dev w' d = set_bar k b (dev w d)"
    and b: "present b" "bar_type b = PCI_REGION_MEM"
  shows "bars_state i r0 d next w'"
proof -
  have i: "i < length (regions (ctl w))" and fresh: "\<forall>s \<ge> k. \<not> present (bars (dev w d) s)"
    and same: "bus_start (regions (ctl w) ! i) = bus_start r0"
      "region_limit (regions (ctl w) ! i) = region_limit r0"
    using st by (simp_all add: bars_state_def)
  have packed: "region_inv r' \<and> region_cursor r' \<le> region_limit r0 \<and> bars_packed (region_cursor r0) (region_cursor r') (dev w' d)"
    if sizes: "sizes_below r0 (dev w' d)"
  proof -
    note sz = sizes_below_put [OF sizes [unfolded v'] b fresh [rule_format, OF order_refl]]
    have IH: "region_inv (regions (ctl w) ! i)"
      "bars_packed (region_cursor r0) (region_cursor (regions (ctl w) ! i)) (dev w d)"
      using st sz(3) by (simp_all add: bars_state_def)
    note a = allocate_bounds [OF IH(1) sz(1) _ got, unfolded same, OF sz(2)]
    show ?thesis
      using bars_packed_put [OF IH(2) fresh a(1,2) b] a(3,4) by (simp only: v' simp_thms)
  qed
  have "bus_start r' = bus_start r0" "region_limit r' = region_limit r0"
    using allocate_keeps [OF got] same by (simp_all add: region_limit_def)
  moreover have "\<not> present (bars (dev w' d) s)" if "next \<le> s" for s
    using that \<open>k < next\<close> fresh unfolding v' by simp
  ultimately show ?thesis
    using i len packed by (simp add: bars_state_def reg)
qed

lemma bars_state_step:
  assumes st: "bars_state i r0 d k w" and io: "io \<noteq> Some i"
    and run: "run_state (setup_bar P d (Some i) None io k cmd) w = ((next, cmd'), w')"
  shows "bars_state i r0 d next w' \<and> k < next"
proof -
  consider (same) "ctl w' = ctl w" "dev w' = dev w"
    | (put) resp sz full f64 addr r' where
        "pciauto_region_allocate (bits P) (region_at (ctl w) (bar_region (Some i) None io resp)) sz f64 = Some (addr, r')"
        "ctl w' = update_region (bar_region (Some i) None io resp) (\<lambda>_. r') (ctl w)"
        "dev w' = (dev w)(d := set_bar k (placed_bar (ctl w') resp addr sz f64 full) (dev w d))"
    using setup_bar_cases [OF run] by blast
  moreover have nxt: "k < next" using setup_bar_cases [OF run] by auto
  ultimately show ?thesis
  proof cases
    case same
    then show ?thesis using st nxt by (simp add: bars_state_def)
  next
    case put
    have free: "\<not> present (bars (dev w d) k)" using st by (simp add: bars_state_def)
    have v': "dev w' d = set_bar k (placed_bar (ctl w') resp addr sz f64 full) (dev w d)"
      using put(3) by simp
    show ?thesis
    proof (cases "resp AND PCI_BASE_ADDRESS_SPACE \<noteq> 0")
      case True
      then have res: "bar_region (Some i) None io resp = io" by (simp add: bar_region_def)
      have "regions (ctl w') ! i = regions (ctl w) ! i" "length (regions (ctl w')) = length (regions (ctl w))"
        using put(2) io unfolding res by (auto simp: update_region_def split: option.splits)
      then show ?thesis
        using st nxt True v' bars_packed_io [OF free, of "placed_bar (ctl w') resp addr sz f64 full"]
        by (simp add: bars_state_def)
    next
      case False
      then have res: "bar_region (Some i) None io resp = Some i" by (simp add: bar_region_def)
      have i: "i < length (regions (ctl w))" using st by (simp add: bars_state_def)
      have "bars_state i r0 d next w'"
        using False put(1,2) i unfolding res
        by (intro bars_state_put [OF st nxt _ _ _ v', of "bits P" f64 r'])
          (simp_all add: region_at_def update_region_def)
      then show ?thesis using nxt by simp
    qed
  qed
qed

lemma setup_bars_state:
  assumes "bars_state i r0 d k w" and "io \<noteq> Some i"
    and "run_state (setup_bars P d (Some i) None io bnum n k cmd) w = (cmd', w')"
  shows "\<exists>k'. bars_state i r0 d k' w'"
  using assms(1,3)
proof (induction n arbitrary: k w cmd)
  case 0
  then show ?case by auto
next
  case (Suc n)
  show ?case
  proof (cases "bnum \<le> k")
    case True
    then show ?thesis using Suc.prems by auto
  next
    case False
    obtain nk c1 w1 where r1: "run_state (setup_bar P d (Some i) None io k cmd) w = ((nk, c1), w1)"
      by (metis surj_pair)
    then have "run_state (setup_bars P d (Some i) None io bnum n nk c1) w1 = (cmd', w')"
      using Suc.prems(2) False by simp
    then show ?thesis
      using Suc.IH bars_state_step [OF Suc.prems(1) assms(2) r1] by blast
  qed
qed

text \<open>The steps of \<open>pciauto_setup_device\<close> after the loop leave the cached BARs alone.\<close>

definition bars_of :: "dev_id \<Rightarrow> 'h world \<Rightarrow> nat \<Rightarrow> pci_bar_info" where
  "bars_of d w = bars (dev w d)"

lemma bars_of_hw [kept]: "hw_only m \<Longrightarrow> keeps (bars_of d) m"
  by (rule hw_only_keeps_view) (simp_all add: bars_of_def)

lemma bars_of_set_dev: "(\<And>v. bars (f v) = bars v) \<Longrightarrow> keeps (bars_of d) (set_dev d' f)"
  unfolding set_dev_def by (rule keeps_modify) (auto simp: bars_of_def)

lemma bars_of_set_ctl [kept]: "keeps (bars_of d) (set_ctl f)"
  unfolding set_ctl_def by (rule keeps_modify) (auto simp: bars_of_def)

lemma bars_of_allocate_at [kept]: "keeps (bars_of d) (pciauto_allocate_at P i sz s64)"
  unfolding pciauto_allocate_at_def by (intro kept hwo)

lemma bars_of_setup_rest [kept]:
  "keeps (bars_of d) (setup_rom P d' mem cmd)" "keeps (bars_of d) (pci_assign_irq P d')"
  "keeps (bars_of d) (pci_msi_init P d')" "keeps (bars_of d) (pci_msix_init P d')"
  unfolding setup_rom_def pci_assign_irq_def pci_msi_init_def pci_msix_init_def Let_def
  by (intro kept hwo bars_of_set_dev; simp)+

lemma bars_packed_cong:
  assumes "bars v = bars v'"
  shows "bars_packed lo hi v = bars_packed lo hi v'" "sizes_below r v = sizes_below r v'"
  using assms by (simp_all add: bars_packed_def sizes_below_def placed_mem_def bar_lo_def bar_end_def)

lemma setup_device_bars:
  assumes "run_state (pciauto_setup_device P d mem pre io) w = (u, w')"
  shows "\<exists>w0 cmd cmd' w1. dev w0 = dev w \<and> ctl w0 = ctl w \<and> bars_of d w' = bars_of d w1 \<and>
    run_state (setup_bars P d mem pre io (bars_num (dev w d)) (bars_num (dev w d)) 0 cmd) w0 = (cmd', w1)"
proof -
  obtain st raw w0 where r0: "run_state (pci_read_config16 P d PCI_COMMAND) w = ((st, raw), w0)"
    by (metis surj_pair)
  define cmd where "cmd = (((ucast raw :: u32) AND NOT (PCI_COMMAND_IO OR PCI_COMMAND_MEMORY)) OR PCI_COMMAND_MASTER)"
  obtain cmd' w1 where r1: "run_state (setup_bars P d mem pre io (bars_num (dev w d)) (bars_num (dev w d)) 0 cmd) w0 = (cmd', w1)"
    by (metis surj_pair)
  define rest where "rest = do {
     cmdstat \<leftarrow> setup_rom P d mem cmd';
     (_, cls) \<leftarrow> pci_read_config16 P d PCI_CLASS_DEVICE;
     let cmdstat = (if ucast cls = PCI_CLASS_DISPLAY_VGA then cmdstat OR PCI_COMMAND_IO else cmdstat);
     _ \<leftarrow> pci_write_config16 P d PCI_COMMAND cmdstat;
     _ \<leftarrow> pci_write_config8 P d PCI_CACHE_LINE_SIZE CFG_SYS_PCI_CACHE_LINE_SIZE;
     _ \<leftarrow> pci_write_config8 P d PCI_LATENCY_TIMER 0x80;
     pci_assign_irq P d;
     pci_msi_init P d;
     pci_msix_init P d
   }"
  have "run_state (pciauto_setup_device P d mem pre io) w = run_state rest w1"
    using r0 r1 by (simp add: pciauto_setup_device_def rest_def Let_def case_prod_beta cmd_def)
  moreover have "keeps (bars_of d) rest"
    unfolding rest_def Let_def by (intro kept hwo)
  ultimately have "bars_of d w' = bars_of d w1"
    using keeps_run [of "bars_of d" rest w1 u w'] assms by simp
  then show ?thesis
    using hw_only_run [OF hw_only_config(2) r0] r1 by blast
qed

text \<open>
  C12: after \<open>pciauto_setup_device\<close> with no prefetch region, the
  memory BARs placed for a function lie between the cursor the memory region had and the end
  of the region, and no two of them overlap, whatever the hardware answers to the sizing,
  as long as the sizes are not \<open>0\<close> and below the start of the region.
\<close>

theorem setup_device_bars_packed:
  fixes w w' :: "'h world"
  assumes run: "run_state (pciauto_setup_device P d (Some i) None io) w = ((), w')"
    and i: "i < length (regions (ctl w))" and io: "io \<noteq> Some i"
    and inv: "region_inv (regions (ctl w) ! i)"
      "region_cursor (regions (ctl w) ! i) \<le> region_limit (regions (ctl w) ! i)"
    and fresh: "\<forall>s. \<not> present (bars (dev w d) s)"
    and sizes: "sizes_below (regions (ctl w) ! i) (dev w' d)"
  shows "bars_packed (region_cursor (regions (ctl w) ! i)) (region_limit (regions (ctl w) ! i)) (dev w' d)"
proof -
  obtain w0 cmd cmd' w1 where w0: "dev w0 = dev w" "ctl w0 = ctl w" and same: "bars_of d w' = bars_of d w1"
    and loop: "run_state (setup_bars P d (Some i) None io (bars_num (dev w d)) (bars_num (dev w d)) 0 cmd) w0 = (cmd', w1)"
    using setup_device_bars [OF run] by blast
  have "bars_state i (regions (ctl w) ! i) d 0 w0"
    using i inv fresh by (simp add: bars_state_def w0 bars_packed_def placed_mem_def)
  then obtain k where k: "bars_state i (regions (ctl w) ! i) d k w1"
    using setup_bars_state [OF _ io loop] by blast
  have v: "bars (dev w' d) = bars (dev w1 d)" using same by (simp add: bars_of_def)
  show ?thesis
    using k sizes unfolding bars_state_def bars_packed_cong [OF v] by (auto simp: bars_packed_def)
qed

text \<open>A function that sizes as two 4 KiB memory BARs, behind a window of 64 KiB.\<close>

definition bars_platform :: "ram_hw platform" where
  "bars_platform = ram_platform\<lparr>
     io_read8 := (\<lambda>a h. (0, h)), io_read16 := (\<lambda>a h. (0, h)),
     io_read32 := (\<lambda>a h. (if a = 0x10010 \<or> a = 0x10014 then 0xFFFFF000 else 0, h)),
     io_write8 := (\<lambda>v a h. h), io_write16 := (\<lambda>v a h. h), io_write32 := (\<lambda>v a h. h)\<rparr>"

definition bars_world :: "ram_hw world" where
  "bars_world = example_world
     \<lparr>ctl := blank_controller\<lparr>base := 0x10000, pci_mem := Some 0, regions :=
        [(pci_set_region 0xC0000000 0x600000000 0x10000 PCI_REGION_MEM)\<lparr>bus_lower := 0xC0000000\<rparr>]\<rparr>,
      dev := (\<lambda>_. blank_device)(0 := blank_device\<lparr>bars_num := 2\<rparr>)\<rparr>"

lemma bars_platform_run:
  assumes "base (ctl w) = 0x10000" "bdf (dev w 0) = 0" "off < 4096"
  shows "run_state (pci_write_config8 bars_platform 0 off v) w = (Ok, w)"
    "run_state (pci_write_config16 bars_platform 0 off v) w = (Ok, w)"
    "run_state (pci_write_config32 bars_platform 0 off v) w = (Ok, w)"
    "run_state (pci_read_config8 bars_platform 0 off) w = ((Ok, 0), w)"
    "run_state (pci_read_config16 bars_platform 0 off) w = ((Ok, 0), w)"
    "run_state (pci_read_config32 bars_platform 0 off) w =
       ((Ok, if off = 0x10 \<or> off = 0x14 then 0xFFFFF000 else 0), w)"
  using assms
  by (simp_all add: config_defs brcm_pcie_config_address_def PCI_BUS_def PCI_DEV_def mmio_defs
      case_prod_beta bars_platform_def not_le [symmetric])

lemma bars_platform_bits: "bits bars_platform = ref_bits"
  by (simp add: bars_platform_def ram_platform_def)

lemma bars_platform_decode:
  "run_state (decode_bar bars_platform 0 (Some 0) None None bar 0xFFFFF000) w =
     ((0x1000, 0xFFFFF000, False, Some 0), w)"
  by (simp add: decode_bar_def bar_size_of_def)

lemma bars_platform_step:
  assumes ok: "base (ctl w) = 0x10000" "bdf (dev w 0) = 0" and "slot < 2"
    and got: "pciauto_region_allocate ref_bits (region_at (ctl w) (Some 0)) 0x1000 False = Some (addr, r')"
  shows "run_state (setup_bar bars_platform 0 (Some 0) None None slot cmd) w =
    ((Suc slot, cmd OR PCI_COMMAND_MEMORY), w\<lparr>ctl := update_region (Some 0) (\<lambda>_. r') (ctl w),
       dev := (dev w)(0 := set_bar slot (placed_bar (update_region (Some 0) (\<lambda>_. r') (ctl w))
         0xFFFFF000 addr 0x1000 False 0xFFFFF000) (dev w 0))\<rparr>)"
proof -
  let ?bar = "PCI_BASE_ADDRESS_0 + of_nat slot * 4 :: u32"
  have bar: "?bar = 0x10 \<or> ?bar = 0x14" "?bar < 4096"
    using \<open>slot < 2\<close> by (auto simp: less_2_cases_iff)
  have slot: "\<not> (of_nat slot * 4 \<noteq> (0 :: u32) \<and> of_nat slot * 4 \<noteq> (4 :: u32))"
    using \<open>slot < 2\<close> by (auto simp: less_2_cases_iff)
  have keep: "base (update_region (Some 0) (\<lambda>_. r') (ctl w)) = 0x10000"
    using ok by (simp add: update_region_def)
  have alloc: "run_state (pciauto_allocate_at bars_platform (Some 0) 0x1000 False) w =
      (Some addr, w\<lparr>ctl := update_region (Some 0) (\<lambda>_. r') (ctl w)\<rparr>)"
    by (simp add: run_allocate_at bars_platform_bits got)
  show ?thesis
    unfolding setup_bar_def Let_def
    by (simp add: bars_platform_run ok keep bar slot alloc bars_platform_decode del: fun_upd_apply)
qed

lemma bars_allocate:
  "pciauto_region_allocate ref_bits (region_at (ctl bars_world) (Some 0)) 0x1000 False =
     Some (0xC0000000, (regions (ctl bars_world) ! 0)\<lparr>bus_lower := 0xC0001000\<rparr>)"
  "pciauto_region_allocate ref_bits (region_at ((ctl bars_world)\<lparr>regions :=
       (regions (ctl bars_world))[0 := (regions (ctl bars_world) ! 0)\<lparr>bus_lower := 0xC0001000\<rparr>]\<rparr>) (Some 0)) 0x1000 False =
     Some (0xC0001000, (regions (ctl bars_world) ! 0)\<lparr>bus_lower := 0xC0002000\<rparr>)"
  by (simp_all add: pciauto_region_allocate_def region_at_def bars_world_def pci_set_region_def
      align_up_def ref_bits_def Let_def)

theorem setup_device_bars_packed_witness:
  "bars_packed 0xC0000000 0xC0010000
     (dev (snd (run_state (pciauto_setup_device bars_platform 0 (Some 0) None None) bars_world)) 0)"
proof -
  let ?m = "pciauto_setup_device bars_platform 0 (Some 0) None None"
  let ?r = "regions (ctl bars_world) ! 0"
  have run: "run_state ?m bars_world = ((), snd (run_state ?m bars_world))" by (simp add: prod_eq_iff)
  have two: "bars_num (dev bars_world 0) = 2" by (simp add: bars_world_def)
  obtain w0 cmd cmd' w1 where w0: "dev w0 = dev bars_world" "ctl w0 = ctl bars_world"
    and same: "bars_of 0 (snd (run_state ?m bars_world)) = bars_of 0 w1"
    and loop: "run_state (setup_bars bars_platform 0 (Some 0) None None 2 2 0 cmd) w0 = (cmd', w1)"
    using setup_device_bars [OF run] unfolding two by blast
  have keep: "base (ctl bars_world) = 0x10000" "bdf (dev bars_world 0) = 0" "length (regions (ctl bars_world)) = 1"
    by (simp_all add: bars_world_def example_defs)
  define b where "b = (\<lambda>a c. placed_bar c 0xFFFFF000 a 0x1000 False 0xFFFFF000)"
  have "\<exists>c c'. bars (dev w1 0) = (bars (dev bars_world 0))(0 := b 0xC0000000 c, 1 := b 0xC0001000 c')"
    using loop keep(1,2) w0 bars_allocate
    by (clarsimp simp add: numeral_2_eq_2 bars_platform_step update_region_def set_bar_def b_def) blast
  then obtain c c' where "bars (dev w1 0) = (bars (dev bars_world 0))(0 := b 0xC0000000 c, 1 := b 0xC0001000 c')"
    by blast
  then have "bars (dev (snd (run_state ?m bars_world)) 0) =
      (bars (dev bars_world 0))(0 := b 0xC0000000 c, 1 := b 0xC0001000 c')"
    using same by (simp add: bars_of_def)
  then have "sizes_below ?r (dev (snd (run_state ?m bars_world)) 0)"
    by (simp add: sizes_below_def placed_mem_def b_def bars_world_def example_defs no_bar_def pci_set_region_def)
  moreover have "region_inv ?r" "region_cursor ?r = 0xC0000000" "region_limit ?r = 0xC0010000"
    by (simp_all add: region_inv_def region_cursor_def region_limit_def bars_world_def pci_set_region_def)
  ultimately show ?thesis
    using setup_device_bars_packed [OF run]
    by (simp add: bars_world_def example_defs no_bar_def)
qed

section \<open>A BAR of 4 GiB or more\<close>

text \<open>
  The size of a 64-bit BAR is kept in 32 bits.  A BAR whose low half sizes with no address
  bit, which is one of 4 GiB or more, has size \<open>0\<close> for the code.
\<close>

lemma big_bar_size:
  assumes "resp AND PCI_BASE_ADDRESS_SPACE = 0" and "resp AND PCI_BASE_ADDRESS_MEM_TYPE_MASK = PCI_BASE_ADDRESS_MEM_TYPE_64"
    and "resp AND PCI_BASE_ADDRESS_MEM_MASK = 0"
  shows "fst (fst (run_state (decode_bar P d mem pre io bar resp) w)) = 0"
proof -
  have low: "(push_bit 32 (ucast up) OR ucast resp) AND ucast m = (ucast (resp AND m) :: u64)" for up m :: u32
    by (rule bit_word_eqI) (auto simp: bit_simps dest: bit_imp_le_length)
  have "ucast (NOT ((push_bit 32 (ucast up) OR ucast resp) AND ucast (PCI_BASE_ADDRESS_MEM_MASK :: u32)) + 1 :: u64) = (0 :: u32)"
    for up :: u32
    unfolding low assms(3) by simp
  then show ?thesis
    using assms(1,2) by (simp add: decode_bar_def Let_def case_prod_beta)
qed

text \<open>
  C21: in a region that ends at 4 GiB the allocator grants such a request at bus
  address 0, outside the region, and afterwards refuses every request that is smaller than
  the start of the region: the rest of the window is lost.
\<close>

theorem big_bar_exhausts_window:
  assumes "0 < bus_start r" and "region_size r = - bus_start r"
  shows "pciauto_region_allocate B (Some r) 0 True = Some (0, r\<lparr>bus_lower := 0\<rparr>) \<and>
    (\<forall>sz s64. 0 < sz \<and> sz < bus_start r \<longrightarrow> pciauto_region_allocate B (Some (r\<lparr>bus_lower := 0\<rparr>)) sz s64 = None)"
proof (intro conjI allI impI)
  show "pciauto_region_allocate B (Some r) 0 True = Some (0, r\<lparr>bus_lower := 0\<rparr>)"
    using assms(2) by (simp add: pciauto_region_allocate_def align_up_def)
  fix sz :: u32 and s64
  assume sz: "0 < sz \<and> sz < bus_start r"
  have "uint (- bus_start r) = 2 ^ 32 - uint (bus_start r)"
    using assms(1) uint_lt2p [of "bus_start r"]
    by (simp add: uint_word_ariths zmod_zminus1_eq_if word_less_def)
  moreover have "uint sz < uint (bus_start r)" "0 < uint sz"
    using sz by (simp_all add: word_less_def)
  ultimately have "- bus_start r < - bus_start r + sz"
    unfolding word_less_def uint_word_ariths(1) using uint_lt2p [of "bus_start r"] by (simp add: mod_pos_pos_trivial)
  then show "pciauto_region_allocate B (Some (r\<lparr>bus_lower := 0\<rparr>)) sz s64 = None"
    using assms(2) by (simp add: pciauto_region_allocate_def align_up_def Let_def)
qed

theorem big_bar_exhausts_window_witness:
  "pciauto_region_allocate ref_bits
     (Some ((pci_set_region 0xC0000000 0x600000000 0x40000000 PCI_REGION_MEM)\<lparr>bus_lower := 0\<rparr>)) 0x1000 False = None"
  using big_bar_exhausts_window [of "pci_set_region 0xC0000000 0x600000000 0x40000000 PCI_REGION_MEM" ref_bits]
  by (simp add: pci_set_region_def)

end
