(* ===== verification/Pci_Probe.thy ===== *)
theory Pci_Probe
  imports Pci_Auto
begin

text \<open>
  Enumeration (\<open>pci_probe.c\<close> and \<open>pciauto_config_device\<close> of \<open>pci_auto.c\<close>): scanning the
  functions of a bus, configuring each of them, and recursing into the bus behind a bridge.

  \<open>AllocMem\<close> with \<open>MEMF_CLEAR\<close> is \<open>exec_alloc\<close>; the new node gets the next number of its
  store.  The recursion is bounded by the configuration space of the hardware only, so the
  functions that take part in it have fuel, the depth of the recursion, and return \<open>None\<close>
  when it runs out.  The second half of the theory shows that the fuel is no restriction on
  a machine with finite memory.
\<close>

section \<open>pci_probe.c: buses and functions\<close>

definition pci_create_bus ::
    "'h platform \<Rightarrow> bus_id option \<Rightarrow> dev_id option \<Rightarrow> ('h world, errno + bus_id) state" where
  "pci_create_bus P par bridge = do {
     ok \<leftarrow> hw_get (exec_alloc P);
     if \<not> ok then done_with (Inl ENOMEM)
     else do {
       b \<leftarrow> fetch next_bus;
       modify (\<lambda>w. w\<lparr>next_bus := Suc b\<rparr>);
       set_bus b (\<lambda>_. blank_bus\<lparr>parent := par, pci_bridge := bridge\<rparr>);
       set_ctl (\<lambda>c. c\<lparr>buses := buses c @ [b]\<rparr>);
       done_with (Inr b)
     }
   }"

definition bars_of_header :: "u8 \<Rightarrow> nat" where
  "bars_of_header ht =
     (if ucast ht = PCI_HEADER_TYPE_NORMAL then 6 else if ucast ht = PCI_HEADER_TYPE_BRIDGE then 2 else 0)"

definition pci_create_device ::
    "'h platform \<Rightarrow> bus_id \<Rightarrow> u32 \<Rightarrow> u16 \<Rightarrow> u16 \<Rightarrow> u32 \<Rightarrow> u8 \<Rightarrow> ('h world, errno + dev_id) state" where
  "pci_create_device P b at ven did cls ht = do {
     ok \<leftarrow> hw_get (exec_alloc P);
     if \<not> ok then done_with (Inl ENOMEM)
     else do {
       d \<leftarrow> fetch next_dev;
       modify (\<lambda>w. w\<lparr>next_dev := Suc d\<rparr>);
       set_dev d (\<lambda>_. blank_device\<lparr>dev_bus := b, dev_flags := DM_FLAG_BOUND, bdf := at,
         devfn := PCI_MASK_BUS at, vendor := ven, device := did, dev_class := cls,
         header_type := ht, bars_num := bars_of_header ht\<rparr>);
       (_, rev) \<leftarrow> pci_read_config8 P d PCI_REVISION_ID;
       set_dev d (\<lambda>v. v\<lparr>revision := rev\<rparr>);
       (_, sv) \<leftarrow> pci_read_config16 P d PCI_SUBSYSTEM_VENDOR_ID;
       set_dev d (\<lambda>v. v\<lparr>subsys_vendor := sv\<rparr>);
       (_, si) \<leftarrow> pci_read_config16 P d PCI_SUBSYSTEM_ID;
       set_dev d (\<lambda>v. v\<lparr>subsys_id := si, intx_prefer_msi := False\<rparr>);
       set_bus b (\<lambda>brd. brd\<lparr>devices := devices brd @ [d]\<rparr>);
       done_with (Inr d)
     }
   }"

text \<open>
  One address of the scan: the new \<open>found_multi\<close>, or the error that ends the scan.
\<close>

definition bind_function ::
    "'h platform \<Rightarrow> bus_id \<Rightarrow> u32 \<Rightarrow> bool \<Rightarrow> ('h world, errno + bool) state" where
  "bind_function P b at found_multi =
     (let found_multi = (if PCI_FUNC at = 0 then False else found_multi) in
      if PCI_FUNC at \<noteq> 0 \<and> \<not> found_multi then done_with (Inr found_multi)
      else do {
        (ret, v) \<leftarrow> brcm_pcie_read_config P at PCI_VENDOR_ID PCI_SIZE_16;
        let ven = (ucast v :: u16);
        if ret \<noteq> Ok \<or> ven = 0xFFFF \<or> ven = 0 then done_with (Inr found_multi)
        else do {
          (_, v) \<leftarrow> brcm_pcie_read_config P at PCI_HEADER_TYPE PCI_SIZE_8;
          let ht = (ucast v :: u8);
          let found_multi = (if PCI_FUNC at = 0 then ht AND 0x80 \<noteq> 0 else found_multi);
          (_, did) \<leftarrow> brcm_pcie_read_config P at PCI_DEVICE_ID PCI_SIZE_16;
          (_, cls) \<leftarrow> brcm_pcie_read_config P at PCI_CLASS_REVISION PCI_SIZE_32;
          found \<leftarrow> fetch (\<lambda>w. pci_bus_find_devfn w b (PCI_MASK_BUS at));
          (case found of
             Inr d \<Rightarrow> done_with (Inr found_multi)
           | Inl e \<Rightarrow> do {
               ret \<leftarrow> (if e = ENODEV
                 then pci_create_device P b at ven (ucast did) (drop_bit 8 cls) (ht AND 0x7F)
                 else done_with (Inl e));
               (case ret of
                  Inr d \<Rightarrow> done_with (Inr found_multi)
                | Inl e \<Rightarrow> if e = EPERM then done_with (Inr found_multi) else done_with (Inl e))
             })
        }
      })"

text \<open>
  The scan visits the 256 addresses of the bus in ascending order; \<open>n\<close> is what is left of
  them.
\<close>

fun bind_loop :: "'h platform \<Rightarrow> bus_id \<Rightarrow> nat \<Rightarrow> u32 \<Rightarrow> bool \<Rightarrow> ('h world, errno + unit) state" where
  "bind_loop P b 0 at found_multi = done_with Ok"
| "bind_loop P b (Suc n) at found_multi = do {
     r \<leftarrow> bind_function P b at found_multi;
     case r of
       Inl e \<Rightarrow> done_with (Inl e)
     | Inr found_multi \<Rightarrow> bind_loop P b n (at + PCI_BDF 0 0 1) found_multi
   }"

definition pci_bind_bus_devices :: "'h platform \<Rightarrow> bus_id \<Rightarrow> ('h world, errno + unit) state" where
  "pci_bind_bus_devices P b = do {
     brd \<leftarrow> get_bus b;
     bind_loop P b (PCI_MAX_PCI_DEVICES * PCI_MAX_PCI_FUNCTIONS) (PCI_BDF (bus_number brd) 0 0) False
   }"

section \<open>The recursion\<close>

definition activated :: "pci_device \<Rightarrow> bool" where
  "activated v \<longleftrightarrow> dev_flags v AND DM_FLAG_ACTIVATED \<noteq> 0"

definition set_activated :: "dev_id \<Rightarrow> ('h world, unit) state" where
  "set_activated d = set_dev d (\<lambda>v. v\<lparr>dev_flags := dev_flags v OR DM_FLAG_ACTIVATED\<rparr>)"

definition clear_activated :: "dev_id \<Rightarrow> ('h world, unit) state" where
  "clear_activated d = set_dev d (\<lambda>v. v\<lparr>dev_flags := dev_flags v AND NOT DM_FLAG_ACTIVATED\<rparr>)"

text \<open>The bus gets the next bus number.\<close>

definition number_bus :: "bus_id \<Rightarrow> ('h world, unit) state" where
  "number_bus b = do {
     set_ctl (\<lambda>c. c\<lparr>bus_number_last := bus_number_last c + 1\<rparr>);
     c \<leftarrow> get_ctl;
     set_bus b (\<lambda>brd. brd\<lparr>bus_number := bus_number_last c, bus_number_last_sub := bus_number_last c\<rparr>)
   }"

definition raise_last_sub :: "bus_id \<Rightarrow> u32 \<Rightarrow> ('h world, unit) state" where
  "raise_last_sub b ret = set_bus b (\<lambda>brd. brd\<lparr>bus_number_last_sub :=
     (if bus_number_last_sub brd < ret then ret else bus_number_last_sub brd)\<rparr>)"

text \<open>
  Every cycle of the recursion goes through \<open>pci_probe_bus\<close>.  The other functions take it as
  an argument, \<open>probe\<close>; \<open>pci_probe_bus\<close> ties the knot.
\<close>

definition config_bridge_with ::
    "(bus_id \<Rightarrow> ('h world, (errno + unit) option) state) \<Rightarrow> 'h platform \<Rightarrow> bus_id \<Rightarrow> dev_id \<Rightarrow>
     ('h world, (errno + u32) option) state" where
  "config_bridge_with probe P p d = do {
     nb \<leftarrow> pci_create_bus P (Some p) (Some d);
     case nb of
       Inl e \<Rightarrow> done_with (Some (Inl e))
     | Inr nb \<Rightarrow> do {
         r \<leftarrow> probe nb;
         case r of
           None \<Rightarrow> done_with None
         | Some res \<Rightarrow> (case res of
             Inl e \<Rightarrow> done_with (Some (Inl e))
           | Inr _ \<Rightarrow> do { sub \<leftarrow> get_bus nb; done_with (Some (Inr (bus_number_last_sub sub))) })
       }
   }"

definition config_device_with ::
    "(bus_id \<Rightarrow> ('h world, (errno + unit) option) state) \<Rightarrow> 'h platform \<Rightarrow> dev_id \<Rightarrow>
     ('h world, (errno + u32) option) state" where
  "config_device_with probe P d = do {
     v \<leftarrow> get_dev d;
     brd \<leftarrow> get_bus (dev_bus v);
     c \<leftarrow> get_ctl;
     (_, cls) \<leftarrow> pci_read_config16 P d PCI_CLASS_DEVICE;
     pciauto_setup_device P d (pci_mem c) (pci_prefetch c) (pci_io c);
     if ucast cls = PCI_CLASS_BRIDGE_PCI then config_bridge_with probe P (dev_bus v) d
     else done_with (Some (Inr (bus_number brd)))
   }"

primrec config_loop_with ::
    "(bus_id \<Rightarrow> ('h world, (errno + unit) option) state) \<Rightarrow> 'h platform \<Rightarrow> bus_id \<Rightarrow> dev_id list \<Rightarrow>
     ('h world, (errno + unit) option) state" where
  "config_loop_with probe P b [] = done_with (Some Ok)"
| "config_loop_with probe P b (d # ds) = do {
     r \<leftarrow> config_device_with probe P d;
     case r of
       None \<Rightarrow> done_with None
     | Some res \<Rightarrow> (case res of
         Inl e \<Rightarrow> done_with (Some (Inl e))
       | Inr ret \<Rightarrow> do { raise_last_sub b ret; config_loop_with probe P b ds })
   }"

definition auto_config_with ::
    "(bus_id \<Rightarrow> ('h world, (errno + unit) option) state) \<Rightarrow> 'h platform \<Rightarrow> bus_id \<Rightarrow>
     ('h world, (errno + unit) option) state" where
  "auto_config_with probe P b = do {
     set_ctl pciauto_config_init;
     brd \<leftarrow> get_bus b;
     config_loop_with probe P b (devices brd)
   }"

text \<open>\<open>pci_probe_bus\<close> after its guards: \<open>up\<close> is the bridge of \<open>b\<close>.\<close>

definition probe_children_with ::
    "(bus_id \<Rightarrow> ('h world, (errno + unit) option) state) \<Rightarrow> 'h platform \<Rightarrow> bus_id \<Rightarrow> dev_id \<Rightarrow>
     ('h world, (errno + unit) option) state" where
  "probe_children_with probe P b up = do {
     set_activated up;
     number_bus b;
     pciauto_prescan_setup_bridge P b up;
     ret \<leftarrow> pci_bind_bus_devices P b;
     case ret of
       Inl e \<Rightarrow> do { clear_activated up; done_with (Some (Inl e)) }
     | Inr _ \<Rightarrow> do {
         r \<leftarrow> auto_config_with probe P b;
         case r of
           None \<Rightarrow> done_with None
         | Some res \<Rightarrow> (case res of
             Inl e \<Rightarrow> do { clear_activated up; done_with (Some (Inl e)) }
           | Inr _ \<Rightarrow> do { pciauto_postscan_setup_bridge P b up; done_with (Some Ok) })
       }
   }"

definition probe_bus_with ::
    "(bus_id \<Rightarrow> ('h world, (errno + unit) option) state) \<Rightarrow> 'h platform \<Rightarrow> bus_id \<Rightarrow>
     ('h world, (errno + unit) option) state" where
  "probe_bus_with probe P b = do {
     brd \<leftarrow> get_bus b;
     case pci_bridge brd of
       None \<Rightarrow> done_with (Some Ok)
     | Some up \<Rightarrow> do {
         (_, ht) \<leftarrow> pci_read_config8 P up PCI_HEADER_TYPE;
         v \<leftarrow> get_dev up;
         if (ucast ht :: u32) AND 0x7F \<noteq> PCI_HEADER_TYPE_BRIDGE then done_with (Some (Inl EINVAL))
         else if activated v then done_with (Some Ok)
         else do {
           r \<leftarrow> (case parent brd of None \<Rightarrow> done_with (Some Ok) | Some p \<Rightarrow> probe p);
           v \<leftarrow> get_dev up;
           case r of
             None \<Rightarrow> done_with None
           | Some res \<Rightarrow> (case res of
               Inl e \<Rightarrow> do { clear_activated up; done_with (Some (Inl e)) }
             | Inr _ \<Rightarrow> if parent brd \<noteq> None \<and> activated v then done_with (Some Ok)
                       else probe_children_with probe P b up)
         }
       }
   }"

primrec pci_probe_bus ::
    "nat \<Rightarrow> 'h platform \<Rightarrow> bus_id \<Rightarrow> ('h world, (errno + unit) option) state" where
  "pci_probe_bus 0 P b = done_with None"
| "pci_probe_bus (Suc n) P b = probe_bus_with (pci_probe_bus n P) P b"

definition pciauto_config_device ::
    "nat \<Rightarrow> 'h platform \<Rightarrow> dev_id \<Rightarrow> ('h world, (errno + u32) option) state" where
  "pciauto_config_device n P d = config_device_with (pci_probe_bus n P) P d"

definition pci_auto_config_devices ::
    "nat \<Rightarrow> 'h platform \<Rightarrow> bus_id \<Rightarrow> ('h world, (errno + unit) option) state" where
  "pci_auto_config_devices n P b = auto_config_with (pci_probe_bus n P) P b"

section \<open>What the configuration of a function leaves alone\<close>

text \<open>
  The frame: the numbering of the stores, the shape of the tree, the flags of the functions
  and the ownership of interrupt vectors.  Configuring a function or a bridge touches
  hardware, regions, BARs and capability offsets, but nothing of the frame.
\<close>

type_synonym bus_shape = "bus_id option \<times> dev_id option \<times> dev_id list"

definition bus_shape :: "pci_bus \<Rightarrow> bus_shape" where
  "bus_shape b = (parent b, pci_bridge b, devices b)"

definition dev_shape :: "pci_device \<Rightarrow> bus_id \<times> u32 \<times> u32" where
  "dev_shape v = (dev_bus v, devfn v, dev_flags v)"

definition frame :: "'h world \<Rightarrow> _" where
  "frame w = (buses (ctl w), next_bus w, next_dev w, \<lambda>b. bus_shape (bus w b), \<lambda>d. dev_shape (dev w d), irq_core w)"

lemma frame_hw [kept]: "hw_only m \<Longrightarrow> keeps frame m"
  by (rule hw_only_keeps_view) (simp_all add: frame_def irq_core_def)

lemma frame_set_dev: "(\<And>v. dev_shape (f v) = dev_shape v \<and> irq_view (f v) = irq_view v) \<Longrightarrow> keeps frame (set_dev d f)"
  unfolding set_dev_def by (rule keeps_modify) (auto simp: frame_def irq_core_def fun_eq_iff)

lemma frame_set_bus: "(\<And>b. bus_shape (f b) = bus_shape b) \<Longrightarrow> keeps frame (set_bus b f)"
  unfolding set_bus_def by (rule keeps_modify) (auto simp: frame_def irq_core_def fun_eq_iff)

lemma frame_set_ctl:
  "(\<And>c. buses (f c) = buses c \<and> msi_used (f c) = msi_used c \<and> msi_servers (f c) = msi_servers c) \<Longrightarrow>
   keeps frame (set_ctl f)"
  unfolding set_ctl_def by (rule keeps_modify) (auto simp: frame_def irq_core_def fun_eq_iff)

lemma update_region_keeps [simp]:
  "buses (update_region i f c) = buses c" "msi_used (update_region i f c) = msi_used c"
  "msi_servers (update_region i f c) = msi_servers c"
  by (simp_all add: update_region_def split: option.splits)

lemma choose_regions_keeps [simp]:
  "buses (pciauto_choose_regions i rs c) = buses c"
  "msi_used (pciauto_choose_regions i rs c) = msi_used c"
  "msi_servers (pciauto_choose_regions i rs c) = msi_servers c"
  by (induction i rs c rule: pciauto_choose_regions.induct) (simp_all add: Let_def)

lemma frame_regions [kept]:
  "keeps frame (pciauto_align_at i sz)" "keeps frame (set_ctl pciauto_config_init)"
  "keeps frame (pciauto_allocate_at P i sz s64)"
  unfolding pciauto_align_at_def pciauto_allocate_at_def
  by (intro kept hwo frame_set_ctl; simp add: pciauto_config_init_def Let_def)+

lemma frame_setup_bar [kept]: "keeps frame (setup_bar P d mem pre io slot cmd)"
  unfolding setup_bar_def Let_def
  by (intro kept hwo frame_set_dev) (simp_all add: dev_shape_def irq_view_def set_bar_def)

lemma frame_setup_bars [kept]: "keeps frame (setup_bars P d mem pre io bnum n slot cmd)"
proof (induction n arbitrary: slot cmd)
  case (Suc n)
  show ?case unfolding setup_bars.simps by (intro kept Suc.IH)
qed (simp add: keeps_return)

lemma frame_setup_rest [kept]:
  "keeps frame (setup_rom P d mem cmd)" "keeps frame (pci_assign_irq P d)"
  "keeps frame (pci_msi_init P d)" "keeps frame (pci_msix_init P d)"
  unfolding setup_rom_def pci_assign_irq_def pci_msi_init_def pci_msix_init_def Let_def
  by (intro kept hwo frame_set_dev; simp add: dev_shape_def irq_view_def)+

lemma frame_setup_device [kept]: "keeps frame (pciauto_setup_device P d mem pre io)"
  unfolding pciauto_setup_device_def Let_def by (intro kept hwo)

lemma hw_only_link_stable_loop [hwo]: "hw_only (link_stable_loop P d off e n l t)"
  by (induction n arbitrary: l t) (auto simp: Let_def intro!: hwo)

lemma hw_only_fixup_link [hwo]: "hw_only (pciauto_exp_fixup_link P d off)"
  unfolding pciauto_exp_fixup_link_def pciauto_exp_link_stable_def Let_def by (intro hwo)

lemma frame_prescan [kept]:
  "keeps frame (prescan_mem P d mem cmd)" "keeps frame (prescan_prefetch P d pre p cmd)"
  "keeps frame (prescan_io P d io t cmd)"
  unfolding prescan_mem_def prescan_prefetch_def prescan_io_def lower_at_def Let_def
  by (intro kept hwo)+

lemma frame_postscan [kept]:
  "keeps frame (postscan_mem P d mem)" "keeps frame (postscan_prefetch P d pre)"
  "keeps frame (postscan_io P d io)"
  unfolding postscan_mem_def postscan_prefetch_def postscan_io_def lower_at_def Let_def
  by (intro kept hwo)+

lemma frame_bridge [kept]:
  "keeps frame (pciauto_prescan_setup_bridge P b d)" "keeps frame (pciauto_postscan_setup_bridge P b d)"
  unfolding pciauto_prescan_setup_bridge_def pciauto_postscan_setup_bridge_def Let_def
  by (intro kept hwo)+

lemma frame_numbers [kept]: "keeps frame (number_bus b)" "keeps frame (raise_last_sub b s)"
  unfolding number_bus_def raise_last_sub_def
  by (intro kept hwo frame_set_ctl frame_set_bus; simp add: bus_shape_def)+

section \<open>The tree of buses and functions\<close>

text \<open>
  \<open>tree_ok\<close>: every bus but a root hangs off a bridge on an older bus, the functions of a bus
  know it and have different addresses on it, and the controller's list holds every bus once.
  \<open>tree_le\<close>: nothing that exists moves.
\<close>

definition tree_ok :: "'h world \<Rightarrow> bool" where
  "tree_ok w \<longleftrightarrow>
     (\<forall>b < next_bus w. parent (bus w b) = None \<longrightarrow> pci_bridge (bus w b) = None) \<and>
     (\<forall>b < next_bus w. \<forall>p. parent (bus w b) = Some p \<longrightarrow>
        p < b \<and> (\<exists>d < next_dev w. pci_bridge (bus w b) = Some d \<and> dev_bus (dev w d) = p)) \<and>
     (\<forall>b < next_bus w. distinct (map (\<lambda>d. devfn (dev w d)) (devices (bus w b)))) \<and>
     (\<forall>b < next_bus w. \<forall>d \<in> set (devices (bus w b)). d < next_dev w \<and> dev_bus (dev w d) = b) \<and>
     (\<forall>d < next_dev w. dev_bus (dev w d) < next_bus w) \<and>
     set (buses (ctl w)) = {..<next_bus w} \<and> distinct (buses (ctl w))"

definition tree_le :: "'h world \<Rightarrow> 'h world \<Rightarrow> bool" where
  "tree_le w w' \<longleftrightarrow> next_bus w \<le> next_bus w' \<and> next_dev w \<le> next_dev w' \<and>
     (\<forall>d < next_dev w. dev_bus (dev w' d) = dev_bus (dev w d) \<and> devfn (dev w' d) = devfn (dev w d)) \<and>
     (\<forall>b < next_bus w. parent (bus w' b) = parent (bus w b) \<and> pci_bridge (bus w' b) = pci_bridge (bus w b))"

definition grows :: "'h world \<Rightarrow> 'h world \<Rightarrow> bool" where
  "grows w w' \<longleftrightarrow> (tree_ok w \<longrightarrow> tree_ok w') \<and> tree_le w w'"

lemma grows_refl [simp]: "grows w w"
  by (simp add: grows_def tree_le_def)

lemma grows_trans: "grows w w' \<Longrightarrow> grows w' w'' \<Longrightarrow> grows w w''"
  by (simp add: grows_def tree_le_def)

lemma frame_shapes:
  assumes "frame w' = frame w"
  shows "buses (ctl w') = buses (ctl w)" "next_bus w' = next_bus w" "next_dev w' = next_dev w"
    "parent (bus w' b) = parent (bus w b)" "pci_bridge (bus w' b) = pci_bridge (bus w b)"
    "devices (bus w' b) = devices (bus w b)" "dev_bus (dev w' d) = dev_bus (dev w d)"
    "devfn (dev w' d) = devfn (dev w d)" "dev_flags (dev w' d) = dev_flags (dev w d)"
  using assms by (auto simp: frame_def fun_eq_iff bus_shape_def dev_shape_def)

lemma grows_shapes:
  assumes "buses (ctl w') = buses (ctl w)" "next_bus w' = next_bus w" "next_dev w' = next_dev w"
    "\<And>b. parent (bus w' b) = parent (bus w b)" "\<And>b. pci_bridge (bus w' b) = pci_bridge (bus w b)"
    "\<And>b. devices (bus w' b) = devices (bus w b)" "\<And>d. dev_bus (dev w' d) = dev_bus (dev w d)"
    "\<And>d. devfn (dev w' d) = devfn (dev w d)"
  shows "grows w w'"
  unfolding grows_def tree_le_def tree_ok_def assms by simp

lemma grows_frame:
  assumes "frame w' = frame w"
  shows "grows w w'"
  by (rule grows_shapes) (rule frame_shapes [OF assms])+

text \<open>\<open>grow Q m\<close>: from a state with \<open>Q\<close>, the run of \<open>m\<close> only grows the tree.\<close>

definition grow :: "('h world \<Rightarrow> bool) \<Rightarrow> ('h world, 'a) state \<Rightarrow> bool" where
  "grow Q m \<longleftrightarrow> (\<forall>w. tree_ok w \<and> Q w \<longrightarrow> grows w (snd (run_state m w)))"

definition stable :: "('h world \<Rightarrow> bool) \<Rightarrow> bool" where
  "stable Q \<longleftrightarrow> (\<forall>w w'. tree_le w w' \<longrightarrow> Q w \<longrightarrow> Q w')"

lemma stable_simps [simp]:
  "stable (\<lambda>w. b < next_bus w)" "stable (\<lambda>w. d < next_dev w)" "stable (\<lambda>w. True)"
  "stable (\<lambda>w. d < next_dev w \<and> dev_bus (dev w d) = b)"
  "stable (\<lambda>w. \<forall>d \<in> set ds. d < next_dev w)"
  "stable (\<lambda>w. b < next_bus w \<and> (\<forall>d \<in> set ds. d < next_dev w))"
  by (force simp: stable_def tree_le_def)+

lemma growD: "grow Q m \<Longrightarrow> tree_ok w \<Longrightarrow> Q w \<Longrightarrow> run_state m w = (a, w') \<Longrightarrow> grows w w' \<and> tree_ok w'"
  by (auto simp: grow_def grows_def dest: spec [of _ w])

lemma grow_bind:
  assumes "stable Q" and "grow Q m" and "\<And>a. grow Q (f a)"
  shows "grow Q (State_Monad.bind m f)"
  unfolding grow_def snd_run_bind
proof (intro allI impI, elim conjE)
  fix w assume w: "tree_ok w" "Q w"
  let ?w1 = "snd (run_state m w)"
  have 1: "grows w ?w1" using assms(2) w by (simp add: grow_def)
  then have "tree_ok ?w1" "Q ?w1" using w assms(1) by (auto simp: grows_def stable_def)
  then show "grows w (snd (run_state (f (fst (run_state m w))) ?w1))"
    using assms(3) 1 by (meson grow_def grows_trans)
qed

lemma grow_frame: "keeps frame m \<Longrightarrow> grow Q m"
  by (simp add: grow_def grows_frame keepsD)

lemma grow_if: "(c \<Longrightarrow> grow Q m) \<Longrightarrow> (\<not> c \<Longrightarrow> grow Q m') \<Longrightarrow> grow Q (if c then m else m')"
  by simp

lemma grow_weaken: "grow Q m \<Longrightarrow> (\<And>w. Q' w \<Longrightarrow> Q w) \<Longrightarrow> grow Q' m"
  by (auto simp: grow_def)

section \<open>New nodes\<close>

lemma create_bus_tree:
  assumes "tree_ok w" and "d < next_dev w" and "dev_bus (dev w d) = p"
    and run: "run_state (pci_create_bus P (Some p) (Some d)) w = (r, w')"
  shows "grows w w' \<and> (\<forall>nb. r = Inr nb \<longrightarrow> nb < next_bus w')"
proof (cases "fst (exec_alloc P (hw w))")
  case False
  then show ?thesis
    using run by (auto simp: pci_create_bus_def frame_def irq_core_def intro: grows_frame)
next
  case True
  let ?b = "next_bus w"
  have r: "r = Inr ?b" and w': "buses (ctl w') = buses (ctl w) @ [?b]" "next_bus w' = Suc ?b"
    "next_dev w' = next_dev w" "dev w' = dev w"
    "bus w' = (bus w)(?b := blank_bus\<lparr>parent := Some p, pci_bridge := Some d\<rparr>)"
    using run True by (auto simp: pci_create_bus_def)
  have p: "p < ?b" using assms(1-3) by (auto simp: tree_ok_def)
  have "tree_ok w'"
    using assms(1-3) p unfolding tree_ok_def w'
    by (auto simp: blank_bus_def less_Suc_eq)
  moreover have "tree_le w w'" by (simp add: tree_le_def w')
  ultimately show ?thesis using r w' by (simp add: grows_def)
qed

lemma find_devfn_none:
  "pci_bus_find_devfn w b f = Inl e \<Longrightarrow> \<forall>d \<in> set (devices (bus w b)). devfn (dev w d) \<noteq> f"
  by (auto simp: pci_bus_find_devfn_def find_None_iff split: option.splits)

lemma create_device_shape:
  assumes "fst (exec_alloc P (hw w))"
    and run: "run_state (pci_create_device P b at ven did cls ht) w = (r, w')"
  shows "r = Inr (next_dev w)" "buses (ctl w') = buses (ctl w)" "next_bus w' = next_bus w"
    "next_dev w' = Suc (next_dev w)" "irq_core w' = (msi_used (ctl w), msi_servers (ctl w),
       (\<lambda>d. irq_view (dev w d))(next_dev w := irq_view blank_device))"
    "bus w' = (bus w)(b := (bus w b)\<lparr>devices := devices (bus w b) @ [next_dev w]\<rparr>)"
    "(\<lambda>d. dev_shape (dev w' d)) = (\<lambda>d. dev_shape (dev w d))(next_dev w := (b, PCI_MASK_BUS at, DM_FLAG_BOUND))"
  using run assms(1)
  by (auto simp: pci_create_device_def case_prod_beta hwo irq_core_def irq_view_def dev_shape_def
      fun_eq_iff blank_device_def)

lemma create_device_tree:
  assumes "tree_ok w" and b: "b < next_bus w" and new: "\<forall>d \<in> set (devices (bus w b)). devfn (dev w d) \<noteq> PCI_MASK_BUS at"
    and run: "run_state (pci_create_device P b at ven did cls ht) w = (r, w')"
  shows "grows w w'"
proof (cases "fst (exec_alloc P (hw w))")
  case False
  then show ?thesis
    using run by (auto simp: pci_create_device_def frame_def irq_core_def intro: grows_frame)
next
  case True
  note w' = create_device_shape [OF True run]
  let ?d = "next_dev w"
  have dev: "dev_bus (dev w' d) = (if d = ?d then b else dev_bus (dev w d))"
    "devfn (dev w' d) = (if d = ?d then PCI_MASK_BUS at else devfn (dev w d))" for d
    using fun_cong [OF w'(7), of d] by (auto simp: dev_shape_def split: if_splits)
  have old: "d \<noteq> ?d" if "d \<in> set (devices (bus w c))" "c < next_bus w" for c d
    using that assms(1) by (auto simp: tree_ok_def)
  have names: "map (\<lambda>d. devfn (dev w' d)) (devices (bus w c)) = map (\<lambda>d. devfn (dev w d)) (devices (bus w c))"
    if "c < next_bus w" for c
    using old that by (auto simp: dev)
  have apart: "distinct (map (\<lambda>d. devfn (dev w' d)) (devices (bus w c)))" if "c < next_bus w" for c
    using that assms(1) unfolding names [OF that] by (simp add: tree_ok_def)
  have fresh: "PCI_MASK_BUS at \<notin> (\<lambda>d. devfn (dev w' d)) ` set (devices (bus w b))"
    using new old [OF _ b] by (auto simp: dev)
  have shape: "parent (bus w' c) = parent (bus w c)" "pci_bridge (bus w' c) = pci_bridge (bus w c)"
    "devices (bus w' c) = (if c = b then devices (bus w b) @ [?d] else devices (bus w c))" for c
    by (simp_all add: w'(6))
  have "tree_ok w'"
    unfolding tree_ok_def shape w'(2-4)
  proof (intro conjI allI impI ballI)
    fix c assume c: "c < next_bus w"
    show "distinct (map (\<lambda>d. devfn (dev w' d)) (if c = b then devices (bus w b) @ [?d] else devices (bus w c)))"
      using apart [OF c] apart [OF b] fresh by (cases "c = b") (simp_all add: dev(2) [of ?d])
    fix d assume d: "d \<in> set (if c = b then devices (bus w b) @ [?d] else devices (bus w c))"
    then show "d < Suc ?d" "dev_bus (dev w' d) = c"
      using c assms(1) old [of d c] by (auto simp: tree_ok_def dev less_Suc_eq split: if_splits)
  next
    fix c p assume "c < next_bus w" "parent (bus w c) = Some p"
    then have "p < c \<and> (\<exists>d < ?d. pci_bridge (bus w c) = Some d \<and> dev_bus (dev w d) = p)"
      using assms(1) by (simp add: tree_ok_def)
    then obtain d where "p < c" "d < ?d" "pci_bridge (bus w c) = Some d" "dev_bus (dev w d) = p"
      by blast
    then show "p < c" "\<exists>d < Suc ?d. pci_bridge (bus w c) = Some d \<and> dev_bus (dev w' d) = p"
      by (auto simp: dev(1) intro!: exI [of _ d])
  qed (use assms(1) b in \<open>auto simp: tree_ok_def dev less_Suc_eq\<close>)
  moreover have "tree_le w w'" by (auto simp: tree_le_def w' dev shape)
  ultimately show ?thesis by (simp add: grows_def)
qed

section \<open>The scan and the recursion grow the tree\<close>

lemma grow_flags: "grow Q (set_activated d)" "grow Q (clear_activated d)"
  unfolding grow_def set_activated_def clear_activated_def by (auto intro!: grows_shapes)

lemma grow_bind_function:
  fixes P :: "'h platform"
  shows "grow (\<lambda>w. b < next_bus w) (bind_function P b at fm)"
  unfolding grow_def
proof (intro allI impI, elim conjE)
  fix w :: "'h world" assume w: "tree_ok w" "b < next_bus w"
  obtain r w' where run: "run_state (bind_function P b at fm) w = (r, w')" by (metis surj_pair)
  let ?m1 = "brcm_pcie_read_config P at PCI_VENDOR_ID PCI_SIZE_16"
  let ?m2 = "brcm_pcie_read_config P at PCI_HEADER_TYPE PCI_SIZE_8"
  let ?m3 = "brcm_pcie_read_config P at PCI_DEVICE_ID PCI_SIZE_16"
  let ?m4 = "brcm_pcie_read_config P at PCI_CLASS_REVISION PCI_SIZE_32"
  obtain x1 w1 where 1: "run_state ?m1 w = (x1, w1)" by (metis surj_pair)
  obtain x2 w2 where 2: "run_state ?m2 w1 = (x2, w2)" by (metis surj_pair)
  obtain x3 w3 where 3: "run_state ?m3 w2 = (x3, w3)" by (metis surj_pair)
  obtain x4 w4 where 4: "run_state ?m4 w3 = (x4, w4)" by (metis surj_pair)
  let ?m5 = "pci_create_device P b at (ucast (snd x1)) (ucast (snd x3)) (drop_bit 8 (snd x4)) (ucast (snd x2) AND 0x7F)"
  obtain x5 w5 where 5: "run_state ?m5 w4 = (x5, w5)" by (metis surj_pair)
  have f1: "frame w1 = frame w" by (rule keeps_run [OF _ 1]) (intro kept hwo)
  have "frame w2 = frame w1" "frame w3 = frame w2" "frame w4 = frame w3"
    by (rule keeps_run [OF _ 2] keeps_run [OF _ 3] keeps_run [OF _ 4], intro kept hwo)+
  with f1 have f4: "frame w4 = frame w" by simp
  consider "w' = w" | "w' = w1" | "w' = w4"
    | (new) "\<forall>d \<in> set (devices (bus w4 b)). devfn (dev w4 d) \<noteq> PCI_MASK_BUS at" "w' = w5"
  proof (cases "pci_bus_find_devfn w4 b (PCI_MASK_BUS at)")
    case (Inl e)
    show ?thesis
      using run that Inl find_devfn_none [OF Inl]
      by (auto simp: bind_function_def Let_def case_prod_beta 1 2 3 4 5 split: if_splits sum.splits prod.splits)
  next
    case (Inr d)
    show ?thesis
      using run that Inr
      by (auto simp: bind_function_def Let_def case_prod_beta 1 2 3 4 5 split: if_splits sum.splits prod.splits)
  qed
  then have "grows w w'"
  proof cases
    case new
    have "grows w w4" using f4 by (rule grows_frame)
    moreover have "tree_ok w4" "b < next_bus w4"
      using w \<open>grows w w4\<close> by (auto simp: grows_def tree_le_def)
    ultimately show ?thesis using create_device_tree [OF _ _ new(1) 5] new(2) grows_trans by blast
  qed (simp_all add: grows_frame f1 f4)
  then show "grows w (snd (run_state (bind_function P b at fm) w))" by (simp add: run)
qed

lemma grow_sum: "(\<And>a. grow Q (f a)) \<Longrightarrow> (\<And>b. grow Q (g b)) \<Longrightarrow> grow Q (case x of Inl a \<Rightarrow> f a | Inr b \<Rightarrow> g b)"
  by (cases x) simp_all

lemma grow_option: "grow Q f \<Longrightarrow> (\<And>b. grow Q (g b)) \<Longrightarrow> grow Q (case x of None \<Rightarrow> f | Some b \<Rightarrow> g b)"
  by (cases x) simp_all

lemma grow_prod: "(\<And>a b. grow Q (f a b)) \<Longrightarrow> grow Q (case x of (a, b) \<Rightarrow> f a b)"
  by (cases x) simp_all

lemma grow_return: "grow Q (State_Monad.return x)"
  by (simp add: grow_def)

lemma grow_fetch: "grow Q (fetch x)"
  by (simp add: grow_def)

lemmas grow_rules = grow_bind grow_if grow_sum grow_option grow_prod grow_return grow_fetch stable_simps

lemma grow_bind_loop: "grow (\<lambda>w. b < next_bus w) (bind_loop P b n at fm)"
  by (induction n arbitrary: at fm) (auto intro!: grow_rules grow_bind_function)

lemma grow_bind_devices: "grow (\<lambda>w. b < next_bus w) (pci_bind_bus_devices P b)"
  unfolding pci_bind_bus_devices_def by (intro grow_rules grow_bind_loop)

lemma grow_fetch_bind:
  "(\<And>x. grow (\<lambda>w. Q w \<and> f w = x) (g x)) \<Longrightarrow> grow Q (State_Monad.bind (fetch f) g)"
  by (simp add: grow_def)

lemma grow_pre: "grow Q m \<Longrightarrow> (\<And>w. tree_ok w \<Longrightarrow> Q' w \<Longrightarrow> Q w) \<Longrightarrow> grow Q' m"
  by (auto simp: grow_def)

text \<open>
  No interrupt vector is allocated while the tree is built.
\<close>

lemma quiet_frame:
  fixes m :: "('h world, 'a) state"
  shows "keeps frame m \<Longrightarrow> preserves irq_init m"
proof (rule preservesI)
  fix w :: "'h world" assume "keeps frame m" and w: "irq_init w"
  then have "frame (snd (run_state m w)) = frame w" by (simp add: keepsD)
  then have "irq_core (snd (run_state m w)) = irq_core w" by (simp add: frame_def)
  then show "irq_init (snd (run_state m w))"
    using w by (auto simp: irq_init_def irq_core_def irq_view_def fun_eq_iff)
qed

lemma quiet_create_bus: "preserves irq_init (pci_create_bus P par br)"
  by (rule preservesI) (auto simp: pci_create_bus_def irq_init_def)

lemma quiet_create_device: "preserves irq_init (pci_create_device P b at ven did cls ht)"
  by (rule preservesI) (auto simp: pci_create_device_def case_prod_beta hwo irq_init_def blank_device_def)

lemma quiet_flags: "preserves irq_init (set_activated d)" "preserves irq_init (clear_activated d)"
  by (rule preservesI; auto simp: set_activated_def clear_activated_def irq_init_def)+

lemma quiet_bind_devices: "preserves irq_init (pci_bind_bus_devices P b)"
proof -
  have fn: "preserves irq_init (bind_function P b at fm)" for at fm
    unfolding bind_function_def Let_def
    by (intro pres quiet_create_device quiet_frame [OF frame_hw] hwo)
  have "preserves irq_init (bind_loop P b n at fm)" for n at fm
    by (induction n arbitrary: at fm) (auto intro!: pres fn)
  then show ?thesis unfolding pci_bind_bus_devices_def by (intro pres)
qed

text \<open>
  The contract of the recursive call: probing an existing bus only grows the tree, and
  allocates no vector.
\<close>

locale bus_prober =
  fixes probe :: "bus_id \<Rightarrow> ('h world, (errno + unit) option) state"
  assumes probe: "grow (\<lambda>w. b < next_bus w) (probe b)"
    and probe_quiet: "preserves irq_init (probe b)"
begin

lemma grow_config_bridge:
  "grow (\<lambda>w. d < next_dev w \<and> dev_bus (dev w d) = p) (config_bridge_with probe P p d)"
  unfolding grow_def
proof (intro allI impI, elim conjE)
  fix w :: "'h world" assume w: "tree_ok w" "d < next_dev w" "dev_bus (dev w d) = p"
  obtain r w1 where 1: "run_state (pci_create_bus P (Some p) (Some d)) w = (r, w1)" by (metis surj_pair)
  note g1 = create_bus_tree [OF w 1]
  show "grows w (snd (run_state (config_bridge_with probe P p d) w))"
  proof (cases r)
    case (Inl e)
    then show ?thesis using g1 by (simp add: config_bridge_with_def 1)
  next
    case (Inr nb)
    obtain r2 w2 where 2: "run_state (probe nb) w1 = (r2, w2)" by (metis surj_pair)
    have "grows w1 w2" using growD [OF probe _ _ 2] g1 Inr w by (auto simp: grows_def)
    moreover have "snd (run_state (config_bridge_with probe P p d) w) = w2"
      using Inr by (auto simp: config_bridge_with_def 1 2 split: option.splits sum.splits)
    ultimately show ?thesis using g1 grows_trans by metis
  qed
qed

lemma grow_config_device: "grow (\<lambda>w. d < next_dev w) (config_device_with probe P d)"
  unfolding config_device_with_def
proof (rule grow_fetch_bind)
  fix v
  show "grow (\<lambda>w. d < next_dev w \<and> dev w d = v) (do {
     brd \<leftarrow> get_bus (dev_bus v);
     c \<leftarrow> get_ctl;
     (_, cls) \<leftarrow> pci_read_config16 P d PCI_CLASS_DEVICE;
     pciauto_setup_device P d (pci_mem c) (pci_prefetch c) (pci_io c);
     if ucast cls = PCI_CLASS_BRIDGE_PCI then config_bridge_with probe P (dev_bus v) d
     else done_with (Some (Inr (bus_number brd)))
   })"
    by (rule grow_pre [of "\<lambda>w. d < next_dev w \<and> dev_bus (dev w d) = dev_bus v"])
      (intro grow_rules grow_config_bridge grow_frame kept hwo, simp)
qed

lemma grow_config_loop:
  "grow (\<lambda>w. b < next_bus w \<and> (\<forall>d \<in> set ds. d < next_dev w)) (config_loop_with probe P b ds)"
proof (induction ds)
  case (Cons d ds)
  have 1: "grow (\<lambda>w. b < next_bus w \<and> (\<forall>d' \<in> set (d # ds). d' < next_dev w)) (config_device_with probe P d)"
    by (rule grow_pre [OF grow_config_device]) simp
  have 2: "grow (\<lambda>w. b < next_bus w \<and> (\<forall>d' \<in> set (d # ds). d' < next_dev w)) (config_loop_with probe P b ds)"
    by (rule grow_pre [OF Cons.IH]) simp
  show ?case
    unfolding config_loop_with.simps by (intro grow_rules grow_frame [OF frame_numbers(2)] 1 2)
qed (simp add: grow_return)

lemma grow_auto_config: "grow (\<lambda>w. b < next_bus w) (auto_config_with probe P b)"
  unfolding auto_config_with_def
proof (rule grow_bind)
  show "grow (\<lambda>w. b < next_bus w) (get_bus b \<bind> (\<lambda>brd. config_loop_with probe P b (devices brd)))"
    by (rule grow_fetch_bind, rule grow_pre [OF grow_config_loop]) (auto simp: tree_ok_def)
qed (intro grow_rules grow_frame kept)+

lemma grow_probe_children: "grow (\<lambda>w. b < next_bus w) (probe_children_with probe P b up)"
  unfolding probe_children_with_def
  by (intro grow_rules grow_flags grow_auto_config grow_bind_devices grow_frame [OF frame_numbers(1)]
      grow_frame [OF frame_bridge(1)] grow_frame [OF frame_bridge(2)])

lemma grow_probe_bus: "grow (\<lambda>w. b < next_bus w) (probe_bus_with probe P b)"
  unfolding probe_bus_with_def
proof (rule grow_fetch_bind)
  fix brd :: pci_bus
  let ?Q = "\<lambda>w. b < next_bus w \<and> (\<forall>p. parent brd = Some p \<longrightarrow> p < next_bus w)"
  have parent: "grow ?Q (case parent brd of None \<Rightarrow> done_with (Some Ok) | Some p \<Rightarrow> probe p)"
    by (cases "parent brd") (auto intro: grow_return grow_pre [OF probe])
  have children: "grow ?Q (probe_children_with probe P b up)" for up
    by (rule grow_pre [OF grow_probe_children]) simp
  have st: "stable ?Q" by (force simp: stable_def tree_le_def)
  show "grow (\<lambda>w. b < next_bus w \<and> bus w b = brd) (case pci_bridge brd of
       None \<Rightarrow> done_with (Some Ok)
     | Some up \<Rightarrow> do {
         (_, ht) \<leftarrow> pci_read_config8 P up PCI_HEADER_TYPE;
         v \<leftarrow> get_dev up;
         if (ucast ht :: u32) AND 0x7F \<noteq> PCI_HEADER_TYPE_BRIDGE then done_with (Some (Inl EINVAL))
         else if activated v then done_with (Some Ok)
         else do {
           r \<leftarrow> (case parent brd of None \<Rightarrow> done_with (Some Ok) | Some p \<Rightarrow> probe p);
           v \<leftarrow> get_dev up;
           case r of
             None \<Rightarrow> done_with None
           | Some res \<Rightarrow> (case res of
               Inl e \<Rightarrow> do { clear_activated up; done_with (Some (Inl e)) }
             | Inr _ \<Rightarrow> if parent brd \<noteq> None \<and> activated v then done_with (Some Ok)
                       else probe_children_with probe P b up)
         }
       })"
    by (rule grow_pre [of ?Q])
      (intro grow_rules st parent children grow_flags grow_frame [OF frame_hw] hwo, force simp: tree_ok_def)
qed

lemma quiet_config_device: "preserves irq_init (config_device_with probe P d)"
  unfolding config_device_with_def config_bridge_with_def
  by (intro pres quiet_create_bus probe_quiet quiet_frame [OF frame_setup_device] quiet_frame [OF frame_hw] hwo)

lemma quiet_auto_config: "preserves irq_init (auto_config_with probe P b)"
proof -
  have "preserves irq_init (config_loop_with probe P b ds)" for ds
  proof (induction ds)
    case (Cons d ds)
    show ?case
      unfolding config_loop_with.simps
      by (intro pres quiet_config_device quiet_frame [OF frame_numbers(2)] Cons.IH)
  qed (simp add: preserves_return)
  then show ?thesis
    unfolding auto_config_with_def by (intro pres quiet_frame [OF frame_regions(2)])
qed

lemma quiet_probe_bus: "preserves irq_init (probe_bus_with probe P b)"
  unfolding probe_bus_with_def probe_children_with_def
  by (intro pres probe_quiet quiet_flags quiet_bind_devices quiet_auto_config
      quiet_frame [OF frame_numbers(1)] quiet_frame [OF frame_bridge(1)] quiet_frame [OF frame_bridge(2)]
      quiet_frame [OF frame_hw] hwo)

end

section \<open>The knot\<close>

lemma probe_bus_prober: "bus_prober (pci_probe_bus n P)"
proof (induction n)
  case (Suc n)
  show ?case
    by unfold_locales (simp_all add: bus_prober.grow_probe_bus [OF Suc] bus_prober.quiet_probe_bus [OF Suc])
qed (unfold_locales; simp add: grow_return preserves_return)

interpretation prober: bus_prober "pci_probe_bus n P" for n P
  by (rule probe_bus_prober)

lemma auto_config_grow: "grow (\<lambda>w. b < next_bus w) (pci_auto_config_devices n P b)"
  unfolding pci_auto_config_devices_def by (rule prober.grow_auto_config)

text \<open>
  C11: whatever the hardware answers and wherever it fails, scanning a bus and configuring
  it recursively keeps the tree of buses and functions well formed, moves nothing that was
  there, and leaves no interrupt vector allocated.
\<close>

theorem enumeration_tree:
  fixes w w' :: "'h world"
  assumes "tree_ok w" and "irq_init w" and "b < next_bus w"
    and "run_state (do { r \<leftarrow> pci_bind_bus_devices P b;
           case r of Inl e \<Rightarrow> done_with (Some (Inl e)) | Inr _ \<Rightarrow> pci_auto_config_devices n P b }) w = (r, w')"
  shows "tree_ok w' \<and> tree_le w w' \<and> irq_init w'"
proof -
  let ?m = "do { r \<leftarrow> pci_bind_bus_devices P b;
     case r of Inl e \<Rightarrow> done_with (Some (Inl e)) | Inr _ \<Rightarrow> pci_auto_config_devices n P b }"
  have "grow (\<lambda>w. b < next_bus w) ?m" by (intro grow_rules grow_bind_devices auto_config_grow)
  moreover have "preserves irq_init ?m"
    unfolding pci_auto_config_devices_def by (intro pres quiet_bind_devices prober.quiet_auto_config)
  ultimately show ?thesis
    using assms preserves_run [of irq_init ?m w r w'] growD [of "\<lambda>w. b < next_bus w" ?m w r w']
    by (simp add: grows_def)
qed

section \<open>Every interrupt pin is routed\<close>

lemma tree_ok_above:
  assumes "tree_ok w" and "d < next_dev w"
  shows "\<exists>ds. tree_above w d ds"
  using assms(2)
proof (induction "dev_bus (dev w d)" arbitrary: d rule: less_induct)
  case less
  have b: "dev_bus (dev w d) < next_bus w" using assms(1) less.prems by (simp add: tree_ok_def)
  show ?case
  proof (cases "parent (bus w (dev_bus (dev w d)))")
    case None
    then show ?thesis by (blast intro: tree_above.top)
  next
    case (Some p)
    then obtain up where up: "p < dev_bus (dev w d)" "up < next_dev w"
      "pci_bridge (bus w (dev_bus (dev w d))) = Some up" "dev_bus (dev w up) = p"
      using b assms(1) unfolding tree_ok_def by metis
    then obtain ds where "tree_above w up ds" using less.hyps [of up] by blast
    then show ?thesis using Some up by (blast intro: tree_above.below)
  qed
qed

text \<open>
  C22: in a well-formed tree the walk of \<open>pci_assign_irq\<close> from any function reaches a
  root bus, with a pin between 1 and 4.
\<close>

theorem enumerated_pins_routed:
  assumes "tree_ok w" and "d < next_dev w" and "1 \<le> pin" and "pin \<le> 4"
  shows "\<exists>pin'. swizzle_walk (Suc (dev_bus (dev w d))) w d pin = Some pin' \<and> 1 \<le> pin' \<and> pin' \<le> 4"
proof -
  obtain ds where "tree_above w d ds" using tree_ok_above [OF assms(1,2)] by blast
  then obtain pin' where p: "swizzle_walk (Suc (dev_bus (dev w d))) w d pin = Some pin'"
    "unat pin' = swizzled w ds (unat pin)"
    using swizzle_walk_tree [of w d ds "Suc (dev_bus (dev w d))" pin] assms(3,4)
    by (auto simp: word_le_nat_alt)
  have "swizzled w ds (unat pin) \<le> 4" "1 \<le> swizzled w ds (unat pin)"
    using mod_less_divisor [of 4 "unat pin - 1 + (\<Sum>d\<leftarrow>ds. unat (PCI_DEV (devfn (dev w d))))"]
    by (simp_all add: swizzled_def)
  then show ?thesis using p by (auto simp: word_le_nat_alt)
qed

section \<open>Concrete trees\<close>

text \<open>A controller with its root bus, before the scan, and a bridge with a bus behind it.\<close>

definition root_world :: "ram_hw world" where
  "root_world = example_world\<lparr>ctl := blank_controller\<lparr>base := 0x10000, buses := [0]\<rparr>, next_bus := 1\<rparr>"

definition two_bus_world :: "ram_hw world" where
  "two_bus_world = example_world\<lparr>ctl := blank_controller\<lparr>base := 0x10000, buses := [0, 1]\<rparr>,
     next_bus := 2, next_dev := 2,
     bus := (\<lambda>_. blank_bus)(0 := blank_bus\<lparr>devices := [0]\<rparr>,
       1 := blank_bus\<lparr>parent := Some 0, pci_bridge := Some 0, bus_number := 1, devices := [1]\<rparr>),
     dev := (\<lambda>_. blank_device)(1 := blank_device\<lparr>dev_bus := 1, devfn := PCI_DEVFN 3 0\<rparr>)\<rparr>"

lemma root_world_ok: "tree_ok root_world" "irq_init root_world"
  by (auto simp: tree_ok_def irq_init_def root_world_def example_defs blank_bus_def)

lemma two_bus_world_ok: "tree_ok two_bus_world"
  by (auto simp: tree_ok_def two_bus_world_def example_defs blank_bus_def less_2_cases_iff)

theorem enumeration_tree_witness:
  "tree_ok (snd (run_state (do { r \<leftarrow> pci_bind_bus_devices ram_platform 0;
     case r of Inl e \<Rightarrow> done_with (Some (Inl e)) | Inr _ \<Rightarrow> pci_auto_config_devices 8 ram_platform 0 }) root_world))"
  by (rule enumeration_tree [OF root_world_ok _ surjective_pairing, THEN conjunct1])
    (simp add: root_world_def)

theorem enumerated_pins_routed_witness:
  "\<exists>pin'. swizzle_walk (Suc 1) two_bus_world 1 2 = Some pin' \<and> 1 \<le> pin' \<and> pin' \<le> 4"
  using enumerated_pins_routed [OF two_bus_world_ok, of 1 2] by (simp add: two_bus_world_def)

section \<open>Every bus starts the regions afresh\<close>

text \<open>
  \<open>pci_auto_config_devices\<close> calls \<open>pciauto_config_init\<close> for the bus it configures, and there
  is one set of regions for all buses.  \<open>same_but_cursors\<close>: what allocation does to a
  controller.
\<close>

definition same_but_cursors :: "pci_controller \<Rightarrow> pci_controller \<Rightarrow> bool" where
  "same_but_cursors c c' \<longleftrightarrow> map (\<lambda>r. r\<lparr>bus_lower := 0\<rparr>) (regions c) = map (\<lambda>r. r\<lparr>bus_lower := 0\<rparr>) (regions c')"

lemma same_but_cursors_nth:
  assumes "same_but_cursors c c'"
  shows "length (regions c') = length (regions c)"
    "i < length (regions c) \<Longrightarrow> bus_start (regions c' ! i) = bus_start (regions c ! i) \<and>
       phys_start (regions c' ! i) = phys_start (regions c ! i) \<and>
       region_size (regions c' ! i) = region_size (regions c ! i) \<and> flags (regions c' ! i) = flags (regions c ! i)"
proof -
  show len: "length (regions c') = length (regions c)"
    using assms by (metis same_but_cursors_def length_map)
  assume "i < length (regions c)"
  then have "(regions c ! i)\<lparr>bus_lower := 0\<rparr> = (regions c' ! i)\<lparr>bus_lower := 0\<rparr>"
    using assms len unfolding same_but_cursors_def by (metis nth_map)
  then show "bus_start (regions c' ! i) = bus_start (regions c ! i) \<and>
       phys_start (regions c' ! i) = phys_start (regions c ! i) \<and>
       region_size (regions c' ! i) = region_size (regions c ! i) \<and> flags (regions c' ! i) = flags (regions c ! i)"
    by (cases "regions c ! i"; cases "regions c' ! i") simp
qed

lemma region_init_same:
  assumes "same_but_cursors c c'" and "i < length (regions c)"
  shows "pciauto_region_init (regions c' ! i) = pciauto_region_init (regions c ! i)"
  using same_but_cursors_nth(2) [OF assms]
  by (cases "regions c ! i"; cases "regions c' ! i") (simp add: pciauto_region_init_def)

lemma choose_regions_regions [simp]: "regions (pciauto_choose_regions i rs c) = regions c"
  by (induction i rs c rule: pciauto_choose_regions.induct) (simp_all add: Let_def)

definition chosen :: "pci_controller \<Rightarrow> nat option \<times> nat option \<times> nat option" where
  "chosen c = (pci_io c, pci_mem c, pci_prefetch c)"

definition in_range :: "pci_controller \<Rightarrow> bool" where
  "in_range c \<longleftrightarrow> (\<forall>j. pci_io c = Some j \<or> pci_mem c = Some j \<or> pci_prefetch c = Some j \<longrightarrow> j < length (regions c))"

lemma choose_regions_same:
  assumes "same_but_cursors c c'" and "drop i (regions c) = rs" and "drop i (regions c') = rs'"
    and "chosen c' = chosen c" and "in_range c"
  shows "chosen (pciauto_choose_regions i rs' c') = chosen (pciauto_choose_regions i rs c) \<and>
    in_range (pciauto_choose_regions i rs c)"
  using assms
proof (induction rs arbitrary: i c c' rs')
  case Nil
  then have "rs' = []" using same_but_cursors_nth(1) [OF Nil(1)] by (metis drop_eq_Nil)
  then show ?case using Nil by simp
next
  case (Cons r rs)
  have i: "i < length (regions c)" using Cons.prems(2) by (metis drop_all list.distinct(1) not_le)
  then have i': "i < length (regions c')" using same_but_cursors_nth(1) [OF Cons.prems(1)] by simp
  have r: "r = regions c ! i" "rs = drop (Suc i) (regions c)"
    using Cons.prems(2) i by (metis Cons_nth_drop_Suc list.inject)+
  define r' where "r' = regions c' ! i"
  have rs': "rs' = r' # drop (Suc i) (regions c')"
    using Cons.prems(3) i' r'_def by (metis Cons_nth_drop_Suc)
  have fl: "flags r' = flags r" using same_but_cursors_nth(2) [OF Cons.prems(1) i] r(1) r'_def by simp
  define step where "step = (\<lambda>(r :: pci_region) (c :: pci_controller). if flags r = PCI_REGION_IO then c\<lparr>pci_io := larger_region (regions c) i (pci_io c)\<rparr>
      else if flags r = PCI_REGION_MEM then c\<lparr>pci_mem := larger_region (regions c) i (pci_mem c)\<rparr>
      else if flags r = (PCI_REGION_MEM OR PCI_REGION_PREFETCH)
        then c\<lparr>pci_prefetch := larger_region (regions c) i (pci_prefetch c)\<rparr>
      else c)"
  have lr: "larger_region (regions c') i x = larger_region (regions c) i x"
    if "\<forall>j. x = Some j \<longrightarrow> j < length (regions c)" for x
    using that i same_but_cursors_nth(2) [OF Cons.prems(1)] by (auto simp: larger_region_def split: option.splits)
  have same: "same_but_cursors (step r c) (step r' c')"
    using Cons.prems(1) by (simp add: same_but_cursors_def step_def)
  have "chosen (step r' c') = chosen (step r c) \<and> in_range (step r c)"
    using Cons.prems(4,5) i lr by (auto simp: step_def fl chosen_def in_range_def larger_region_def split: option.splits if_splits)
  moreover have "regions (step r c) = regions c" "regions (step r' c') = regions c'"
    by (simp_all add: step_def)
  ultimately show ?case
    using Cons.IH [OF same, of "Suc i"] r(2) rs' by (simp add: step_def)
qed

lemma update_region_regions [simp]:
  "length (regions (update_region j f c)) = length (regions c)"
  "i < length (regions c) \<Longrightarrow> regions (update_region j f c) ! i = (if j = Some i then f (regions c ! i) else regions c ! i)"
  "pci_io (update_region j f c) = pci_io c" "pci_mem (update_region j f c) = pci_mem c"
  "pci_prefetch (update_region j f c) = pci_prefetch c"
  by (auto simp: update_region_def split: option.splits)

lemma region_init_idem [simp]: "pciauto_region_init (pciauto_region_init r) = pciauto_region_init r"
  by (simp add: pciauto_region_init_def)

lemma config_init_mem:
  assumes "pci_mem (pciauto_config_init c) = Some i" and "i < length (regions c)"
  shows "regions (pciauto_config_init c) ! i = pciauto_region_init (regions c ! i)"
  using assms by (simp add: pciauto_config_init_def Let_def)



end
