(* ===== verification/Pci_Depth.thy ===== *)
theory Pci_Depth
  imports Pci_Probe
begin

text \<open>
  The enumeration ends.  The depth of the recursion is bounded by the memory of the machine:
  every bus behind a bridge is allocated first.  So with fuel above the number of
  allocations that can still succeed, the functions of \<open>Pci_Probe\<close> return, whatever the
  hardware answers, and more fuel does not change what they return.
\<close>

section \<open>A machine with finite memory\<close>

text \<open>
  \<open>m\<close> counts the allocations that can still succeed.  What the code relies on: a successful
  \<open>AllocMem\<close> uses one up, and reading or writing a register, or the clock, gives none back.
\<close>

definition finite_memory :: "'h platform \<Rightarrow> ('h \<Rightarrow> nat) \<Rightarrow> bool" where
  "finite_memory P m \<longleftrightarrow>
     (\<forall>h. fst (exec_alloc P h) \<longrightarrow> m (snd (exec_alloc P h)) < m h) \<and>
     (\<forall>h. \<not> fst (exec_alloc P h) \<longrightarrow> m (snd (exec_alloc P h)) = m h) \<and>
     (\<forall>a h. m (snd (io_read8 P a h)) = m h \<and> m (snd (io_read16 P a h)) = m h \<and> m (snd (io_read32 P a h)) = m h) \<and>
     (\<forall>a v8 v16 v32 h. m (io_write8 P v8 a h) = m h \<and> m (io_write16 P v16 a h) = m h \<and> m (io_write32 P v32 a h) = m h) \<and>
     (\<forall>h. m (snd (time_us P h)) = m h)"

definition left_in :: "('h \<Rightarrow> nat) \<Rightarrow> 'h world \<Rightarrow> nat" where
  "left_in m w = m (hw w)"

named_theorems spares \<open>computations that use no memory\<close>

lemma spares_get: "(\<And>h. m (snd (f h)) = m h) \<Longrightarrow> keeps (left_in m) (hw_get f)"
  by (rule keepsI) (simp add: left_in_def)

lemma spares_do: "(\<And>h. m (f h) = m h) \<Longrightarrow> keeps (left_in m) (hw_do f)"
  by (rule keepsI) (simp add: left_in_def)

lemma spares_state [spares]:
  "keeps (left_in m) (set_ctl f)" "keeps (left_in m) (set_bus b g)" "keeps (left_in m) (set_dev d k)"
  by (rule keepsI; simp add: left_in_def)+

lemma spares_regions [spares]:
  "keeps (left_in m) (pciauto_align_at i sz)" "keeps (left_in m) (pciauto_allocate_at P i sz s64)"
  unfolding pciauto_align_at_def pciauto_allocate_at_def by (intro kept spares)+

lemma spares_flags [spares]:
  "keeps (left_in m) (set_activated d)" "keeps (left_in m) (clear_activated d)"
  "keeps (left_in m) (number_bus b)" "keeps (left_in m) (raise_last_sub b s)"
  unfolding set_activated_def clear_activated_def number_bus_def raise_last_sub_def by (intro kept spares)+

lemma spares_mmio [spares]:
  assumes "finite_memory P m"
  shows "keeps (left_in m) (mmio_read8 P a)" "keeps (left_in m) (mmio_read16 P a)"
    "keeps (left_in m) (mmio_read32 P a)" "keeps (left_in m) (mmio_write8 P v8 a)"
    "keeps (left_in m) (mmio_write16 P v16 a)" "keeps (left_in m) (mmio_write32 P v32 a)"
    "keeps (left_in m) (hw_get (time_us P))"
  using assms by (auto simp: mmio_defs finite_memory_def intro!: spares_get spares_do)

lemma spares_size [spares]:
  "keeps g a \<Longrightarrow> keeps g b \<Longrightarrow> keeps g c \<Longrightarrow>
     keeps g (case s of PCI_SIZE_8 \<Rightarrow> a | PCI_SIZE_16 \<Rightarrow> b | PCI_SIZE_32 \<Rightarrow> c)"
  by (cases s) simp_all

lemma spares_brcm [spares]:
  assumes "finite_memory P m"
  shows "keeps (left_in m) (brcm_pcie_read_config P b off sz)" "keeps (left_in m) (brcm_pcie_write_config P b off v sz)"
proof -
  have 1: "keeps (left_in m) (brcm_pcie_config_address P b off)"
    unfolding brcm_pcie_config_address_def brcm_pcie_link_up_def Let_def by (intro kept spares assms)
  show "keeps (left_in m) (brcm_pcie_read_config P b off sz)" "keeps (left_in m) (brcm_pcie_write_config P b off v sz)"
    unfolding brcm_pcie_read_config_def brcm_pcie_write_config_def by (intro kept spares assms 1)+
qed

lemma spares_config [spares]:
  assumes "finite_memory P m"
  shows "keeps (left_in m) (pci_read_config8 P d off)" "keeps (left_in m) (pci_read_config16 P d off)"
    "keeps (left_in m) (pci_read_config32 P d off)" "keeps (left_in m) (pci_write_config8 P d off v)"
    "keeps (left_in m) (pci_write_config16 P d off v)" "keeps (left_in m) (pci_write_config32 P d off v)"
  unfolding pci_read_config8_def pci_read_config16_def pci_read_config32_def pci_read_config_def
    pci_write_config8_def pci_write_config16_def pci_write_config32_def pci_write_config_def
  by (intro kept spares assms)+

lemma spares_find_capability [spares]:
  assumes "finite_memory P m"
  shows "keeps (left_in m) (pci_find_capability P d cap)"
proof -
  have "keeps (left_in m) (pci_find_next_capability_loop P d cap ttl pos)" for ttl pos
  proof (induction ttl arbitrary: pos)
    case (Suc n)
    show ?case unfolding pci_find_next_capability_loop.simps Let_def by (intro kept spares assms Suc.IH)
  qed (simp add: keeps_return)
  then show ?thesis
    unfolding pci_find_capability_def pci_find_next_capability_def Let_def by (intro kept spares assms)
qed

lemma spares_setup_bars [spares]:
  assumes "finite_memory P m"
  shows "keeps (left_in m) (setup_bars P d mem pre io bnum n slot cmd)"
proof (induction n arbitrary: slot cmd)
  case (Suc n)
  have "keeps (left_in m) (setup_bar P d mem pre io slot cmd)"
    unfolding setup_bar_def decode_bar_def Let_def by (intro kept spares assms)
  then show ?case unfolding setup_bars.simps by (intro kept Suc.IH)
qed (simp add: keeps_return)

lemma spares_setup_rest [spares]:
  assumes "finite_memory P m"
  shows "keeps (left_in m) (setup_rom P d mem cmd)" "keeps (left_in m) (pci_assign_irq P d)"
    "keeps (left_in m) (pci_msi_init P d)" "keeps (left_in m) (pci_msix_init P d)"
  unfolding setup_rom_def pci_assign_irq_def pci_msi_init_def pci_msix_init_def pci_msi_set_enable_def
    pci_msix_set_ctrl_def Let_def
  by (intro kept spares assms)+

lemma spares_setup_device [spares]:
  "finite_memory P m \<Longrightarrow> keeps (left_in m) (pciauto_setup_device P d mem pre io)"
  unfolding pciauto_setup_device_def Let_def by (intro kept spares)

lemma spares_link [spares]:
  assumes "finite_memory P m"
  shows "keeps (left_in m) (pciauto_exp_fixup_link P d off)"
proof -
  have "keeps (left_in m) (link_stable_loop P d off e n l t)" for e n l t
  proof (induction n arbitrary: l t)
    case (Suc n)
    show ?case unfolding link_stable_loop.simps Let_def by (intro kept spares assms Suc.IH)
  qed (simp add: keeps_return)
  then have "keeps (left_in m) (pciauto_exp_link_stable P d off)"
    unfolding pciauto_exp_link_stable_def by (intro kept spares assms)
  then show ?thesis
    unfolding pciauto_exp_fixup_link_def Let_def by (intro kept spares assms)
qed

lemma spares_windows [spares]:
  assumes "finite_memory P m"
  shows "keeps (left_in m) (prescan_mem P d mem cmd)" "keeps (left_in m) (prescan_prefetch P d pre p cmd)"
    "keeps (left_in m) (prescan_io P d io t cmd)" "keeps (left_in m) (postscan_mem P d mem)"
    "keeps (left_in m) (postscan_prefetch P d pre)" "keeps (left_in m) (postscan_io P d io)"
  unfolding prescan_mem_def prescan_prefetch_def prescan_io_def postscan_mem_def postscan_prefetch_def
    postscan_io_def lower_at_def Let_def
  by (intro kept spares assms)+

lemma spares_bridge [spares]:
  assumes "finite_memory P m"
  shows "keeps (left_in m) (pciauto_prescan_setup_bridge P b d)"
    "keeps (left_in m) (pciauto_postscan_setup_bridge P b d)"
  unfolding pciauto_prescan_setup_bridge_def pciauto_postscan_setup_bridge_def Let_def
  by (intro kept spares assms)+

section \<open>Allocations only use memory up\<close>

definition uses_up :: "('h \<Rightarrow> nat) \<Rightarrow> ('h world, 'a) state \<Rightarrow> bool" where
  "uses_up m c \<longleftrightarrow> (\<forall>w. left_in m (snd (run_state c w)) \<le> left_in m w)"

lemma uses_up_spares: "keeps (left_in m) c \<Longrightarrow> uses_up m c"
  by (simp add: uses_up_def keepsD)

lemma uses_up_bind: "uses_up m c \<Longrightarrow> (\<And>a. uses_up m (f a)) \<Longrightarrow> uses_up m (State_Monad.bind c f)"
  unfolding uses_up_def snd_run_bind by (meson le_trans)

lemma uses_up_cases:
  "uses_up m (State_Monad.return x)" "uses_up m (fetch k)"
  "(b \<Longrightarrow> uses_up m c) \<Longrightarrow> (\<not> b \<Longrightarrow> uses_up m c') \<Longrightarrow> uses_up m (if b then c else c')"
  "(\<And>a. uses_up m (f a)) \<Longrightarrow> (\<And>b. uses_up m (g b)) \<Longrightarrow> uses_up m (case s of Inl a \<Rightarrow> f a | Inr b \<Rightarrow> g b)"
  "(\<And>a b. uses_up m (h a b)) \<Longrightarrow> uses_up m (case p of (a, b) \<Rightarrow> h a b)"
  by (auto simp: uses_up_def split: sum.splits prod.splits)

lemmas uses_up_rules = uses_up_bind uses_up_cases

lemma uses_up_create_device:
  assumes "finite_memory P m"
  shows "uses_up m (pci_create_device P b at ven did cls ht)"
proof -
  have alloc: "uses_up m (hw_get (exec_alloc P))"
    using assms by (auto simp: uses_up_def left_in_def finite_memory_def less_imp_le)
      (metis less_imp_le order_refl)
  have number: "keeps (left_in m) (modify (\<lambda>w. w\<lparr>next_dev := d\<rparr>))" for d
    by (rule keepsI) (simp add: left_in_def)
  show ?thesis
    unfolding pci_create_device_def
    by (intro uses_up_rules alloc) (rule uses_up_spares, intro number spares assms)+
qed

lemma uses_up_bind_devices:
  assumes "finite_memory P m"
  shows "uses_up m (pci_bind_bus_devices P b)"
proof -
  have fn: "uses_up m (bind_function P b at fm)" for at fm
    unfolding bind_function_def Let_def
    by (intro uses_up_rules uses_up_create_device uses_up_spares [OF spares_brcm(1)] assms)
  have "uses_up m (bind_loop P b n at fm)" for n at fm
    by (induction n arbitrary: at fm) (auto intro!: uses_up_rules fn)
  then show ?thesis unfolding pci_bind_bus_devices_def by (intro uses_up_rules)
qed

section \<open>The flags of the bridges above are not touched\<close>

definition calm :: "bus_id set \<Rightarrow> 'h world \<Rightarrow> 'h world \<Rightarrow> bool" where
  "calm B w w' \<longleftrightarrow> (\<forall>d < next_dev w. dev_bus (dev w d) \<notin> B \<longrightarrow> dev_flags (dev w' d) = dev_flags (dev w d))"

definition quietly :: "('h \<Rightarrow> nat) \<Rightarrow> bus_id set \<Rightarrow> 'h world \<Rightarrow> 'h world \<Rightarrow> bool" where
  "quietly m B w w' \<longleftrightarrow> grows w w' \<and> left_in m w' \<le> left_in m w \<and> calm B w w'"

lemma quietly_trans: "quietly m B w w1 \<Longrightarrow> quietly m B w1 w2 \<Longrightarrow> quietly m B w w2"
  by (force simp: quietly_def calm_def grows_def tree_le_def)

lemma quietly_mono: "quietly m B w w' \<Longrightarrow> B \<subseteq> C \<Longrightarrow> quietly m C w w'"
  by (auto simp: quietly_def calm_def)

lemma quietly_frame:
  assumes "frame w' = frame w" and "left_in m w' = left_in m w"
  shows "quietly m B w w'"
  unfolding quietly_def calm_def frame_shapes(9) [OF assms(1)] assms(2)
  using grows_frame [OF assms(1)] by simp

lemma quietly_kept:
  "keeps frame c \<Longrightarrow> keeps (left_in m) c \<Longrightarrow> run_state c w = (a, w') \<Longrightarrow> quietly m B w w'"
  by (intro quietly_frame) (rule keeps_run, assumption+)+

lemma quietly_tree: "quietly m B w w' \<Longrightarrow> tree_ok w \<Longrightarrow> tree_ok w' \<and> tree_le w w'"
  by (simp add: quietly_def grows_def)

lemma quietly_flags:
  assumes "d < next_dev w \<Longrightarrow> dev_bus (dev w d) \<in> B"
  shows "run_state (set_activated d) w = (u, w') \<Longrightarrow> quietly m B w w'"
    "run_state (clear_activated d) w = (u, w') \<Longrightarrow> quietly m B w w'"
  using assms
  by (auto simp: quietly_def calm_def set_activated_def clear_activated_def left_in_def intro!: grows_shapes)

text \<open>The scan creates functions and leaves the flags of the others alone.\<close>

lemma create_device_flags:
  "run_state (pci_create_device P b at ven did cls ht) w = (r, w') \<Longrightarrow> d < next_dev w \<Longrightarrow>
     dev_flags (dev w' d) = dev_flags (dev w d) \<and> next_dev w \<le> next_dev w'"
  by (auto simp: pci_create_device_def case_prod_beta hwo split: if_splits)

definition flags_kept :: "('h world, 'a) state \<Rightarrow> bool" where
  "flags_kept c \<longleftrightarrow> (\<forall>w. next_dev w \<le> next_dev (snd (run_state c w)) \<and>
     (\<forall>d < next_dev w. dev_flags (dev (snd (run_state c w)) d) = dev_flags (dev w d)))"

lemma flags_kept_bind: "flags_kept c \<Longrightarrow> (\<And>a. flags_kept (f a)) \<Longrightarrow> flags_kept (State_Monad.bind c f)"
  unfolding flags_kept_def snd_run_bind
proof (intro allI conjI impI)
  fix w d
  assume c: "\<forall>w. next_dev w \<le> next_dev (snd (run_state c w)) \<and>
      (\<forall>d < next_dev w. dev_flags (dev (snd (run_state c w)) d) = dev_flags (dev w d))"
    and f: "\<And>a. \<forall>w. next_dev w \<le> next_dev (snd (run_state (f a) w)) \<and>
      (\<forall>d < next_dev w. dev_flags (dev (snd (run_state (f a) w)) d) = dev_flags (dev w d))"
  let ?w = "snd (run_state c w)" and ?f = "f (fst (run_state c w))"
  have 1: "next_dev w \<le> next_dev ?w" "next_dev ?w \<le> next_dev (snd (run_state ?f ?w))" using c f by blast+
  then show "next_dev w \<le> next_dev (snd (run_state ?f ?w))" by (rule le_trans)
  assume d: "d < next_dev w"
  have "dev_flags (dev ?w d) = dev_flags (dev w d)" using c d by blast
  moreover have "dev_flags (dev (snd (run_state ?f ?w)) d) = dev_flags (dev ?w d)"
    using f 1 d by (meson less_le_trans)
  ultimately show "dev_flags (dev (snd (run_state ?f ?w)) d) = dev_flags (dev w d)" by simp
qed

lemma flags_kept_cases:
  "flags_kept (State_Monad.return x)" "flags_kept (fetch k)" "hw_only c0 \<Longrightarrow> flags_kept c0"
  "(b \<Longrightarrow> flags_kept c) \<Longrightarrow> (\<not> b \<Longrightarrow> flags_kept c') \<Longrightarrow> flags_kept (if b then c else c')"
  "(\<And>a. flags_kept (f a)) \<Longrightarrow> (\<And>b. flags_kept (g b)) \<Longrightarrow> flags_kept (case s of Inl a \<Rightarrow> f a | Inr b \<Rightarrow> g b)"
  "(\<And>a b. flags_kept (h a b)) \<Longrightarrow> flags_kept (case p of (a, b) \<Rightarrow> h a b)"
proof -
  show "flags_kept (State_Monad.return x)" "flags_kept (fetch k)" "hw_only c0 \<Longrightarrow> flags_kept c0"
    by (simp_all add: flags_kept_def)
  show "(\<And>a. flags_kept (f a)) \<Longrightarrow> (\<And>b. flags_kept (g b)) \<Longrightarrow> flags_kept (case s of Inl a \<Rightarrow> f a | Inr b \<Rightarrow> g b)"
    by (cases s) simp_all
  show "(\<And>a b. flags_kept (h a b)) \<Longrightarrow> flags_kept (case p of (a, b) \<Rightarrow> h a b)"
    by (cases p) simp
qed simp

lemma flags_kept_create: "flags_kept (pci_create_device P b at ven did cls ht)"
  unfolding flags_kept_def
proof (intro allI conjI impI)
  fix w d
  have run: "run_state (pci_create_device P b at ven did cls ht) w =
      (fst (run_state (pci_create_device P b at ven did cls ht) w),
       snd (run_state (pci_create_device P b at ven did cls ht) w))" by simp
  show "next_dev w \<le> next_dev (snd (run_state (pci_create_device P b at ven did cls ht) w))"
    by (auto simp: pci_create_device_def case_prod_beta hwo)
  show "d < next_dev w \<Longrightarrow> dev_flags (dev (snd (run_state (pci_create_device P b at ven did cls ht) w)) d) =
      dev_flags (dev w d)"
    using create_device_flags [OF run] by blast
qed

lemma quietly_bind_devices:
  assumes fm: "finite_memory P m" and "tree_ok w" and "b < next_bus w"
    and run: "run_state (pci_bind_bus_devices P b) w = (r, w')"
  shows "quietly m B w w'"
proof -
  have fn: "flags_kept (bind_function P b at fm)" for at fm
    unfolding bind_function_def Let_def
    by (intro flags_kept_bind flags_kept_cases(4-6) flags_kept_create flags_kept_cases(1-3) hwo)
  have "flags_kept (bind_loop P b n at fm)" for n at fm
    by (induction n arbitrary: at fm) (auto intro!: flags_kept_bind flags_kept_cases(1,5) fn)
  then have "flags_kept (pci_bind_bus_devices P b)"
    unfolding pci_bind_bus_devices_def by (intro flags_kept_bind flags_kept_cases(2))
  then have "calm B w w'" using run by (auto simp: flags_kept_def calm_def dest: spec [of _ w])
  moreover have "grows w w'" using growD [OF grow_bind_devices assms(2,3) run] by simp
  moreover have "left_in m w' \<le> left_in m w"
    using uses_up_bind_devices [OF fm, of b] run by (auto simp: uses_up_def dest: spec [of _ w])
  ultimately show ?thesis by (simp add: quietly_def)
qed

section \<open>Enough fuel\<close>

definition parent_ready :: "'h world \<Rightarrow> bus_id \<Rightarrow> bool" where
  "parent_ready w p \<longleftrightarrow> (\<forall>u. pci_bridge (bus w p) = Some u \<longrightarrow> activated (dev w u))"

text \<open>
  \<open>returns m k probe\<close>: with fewer than \<open>k\<close> allocations left, probing a bus whose parent is
  being probed returns, and disturbs only the functions on the two buses.
\<close>

definition returns :: "('h \<Rightarrow> nat) \<Rightarrow> nat \<Rightarrow> (bus_id \<Rightarrow> ('h world, (errno + unit) option) state) \<Rightarrow> bool" where
  "returns m k probe \<longleftrightarrow> (\<forall>w b up p r w'.
     tree_ok w \<and> b < next_bus w \<and> parent (bus w b) = Some p \<and> pci_bridge (bus w b) = Some up \<and>
     parent_ready w p \<and> left_in m w < k \<and> run_state (probe b) w = (r, w') \<longrightarrow>
     r \<noteq> None \<and> quietly m {p, b} w w')"

lemma parent_ready_quietly:
  assumes "quietly m B w w'" and "tree_ok w" and "p < next_bus w" and "parent_ready w p"
    and "\<forall>q. parent (bus w p) = Some q \<longrightarrow> q \<notin> B"
  shows "parent_ready w' p"
  unfolding parent_ready_def
proof (intro allI impI)
  fix u assume "pci_bridge (bus w' p) = Some u"
  then have u: "pci_bridge (bus w p) = Some u"
    using assms(1,3) by (simp add: quietly_def grows_def tree_le_def)
  then obtain q where q: "parent (bus w p) = Some q" "u < next_dev w" "dev_bus (dev w u) = q"
    using assms(2,3) unfolding tree_ok_def by (metis not_None_eq option.inject)
  then have "dev_flags (dev w' u) = dev_flags (dev w u)"
    using assms(1,5) by (simp add: quietly_def calm_def)
  then show "activated (dev w' u)"
    using assms(4) u by (simp add: parent_ready_def activated_def)
qed

lemma config_bridge_returns:
  assumes fm: "finite_memory P m" and IH: "returns m k probe"
    and w: "tree_ok w" "d < next_dev w" "dev_bus (dev w d) = p" "parent_ready w p" "left_in m w < Suc k"
    and run: "run_state (config_bridge_with probe P p d) w = (r, w')"
  shows "r \<noteq> None \<and> quietly m {p} w w'"
proof -
  obtain nb w1 where 1: "run_state (pci_create_bus P (Some p) (Some d)) w = (nb, w1)" by (metis surj_pair)
  have g1: "grows w w1" using create_bus_tree [OF w(1-3) 1] by simp
  have c1: "calm {} w w1" using 1 by (auto simp: pci_create_bus_def calm_def split: if_splits)
  show ?thesis
  proof (cases nb)
    case (Inl e)
    then have "left_in m w1 \<le> left_in m w"
      using 1 fm by (auto simp: pci_create_bus_def left_in_def finite_memory_def split: if_splits)
    then have "quietly m {p} w w1" using g1 c1 by (simp add: quietly_def calm_def)
    then show ?thesis using run Inl by (auto simp: config_bridge_with_def 1)
  next
    case (Inr b)
    have ok: "fst (exec_alloc P (hw w))" using 1 Inr by (auto simp: pci_create_bus_def split: if_splits)
    have left1: "left_in m w1 < left_in m w"
      using 1 ok fm by (auto simp: pci_create_bus_def left_in_def finite_memory_def)
    have new: "b = next_bus w" "parent (bus w1 b) = Some p" "pci_bridge (bus w1 b) = Some d" "b < next_bus w1"
      "dev w1 = dev w" "bus w1 = (bus w)(b := bus w1 b)"
      using 1 ok Inr by (auto simp: pci_create_bus_def blank_bus_def)
    have p: "p < next_bus w" using w(1-3) by (auto simp: tree_ok_def)
    have q1: "quietly m {p} w w1" using g1 c1 left1 by (simp add: quietly_def calm_def)
    have ready: "parent_ready w1 p"
      using w(4) p new by (metis parent_ready_def fun_upd_other nat_less_le)
    obtain r2 w2 where 2: "run_state (probe b) w1 = (r2, w2)" by (metis surj_pair)
    have ret: "r2 \<noteq> None" "quietly m {p, b} w1 w2"
      using IH [unfolded returns_def, rule_format, of w1 b p d r2 w2] g1 w(1,5) new ready left1 2
      by (auto simp: grows_def)
    have "calm {p} w1 w2"
      using ret(2) w(1) new(1,5) g1 unfolding quietly_def calm_def
    proof (clarsimp, goal_cases)
      case (1 e)
      show ?case
      proof (cases "e < next_dev w")
        case True
        then have "dev_bus (dev w e) \<noteq> next_bus w" using w(1) by (auto simp: tree_ok_def)
        then show ?thesis using 1 by simp
      next
        case False
        then have "next_dev w1 = next_dev w" using \<open>run_state (pci_create_bus P (Some p) (Some d)) w = (nb, w1)\<close> ok
          by (auto simp: pci_create_bus_def)
        then show ?thesis using 1 False by simp
      qed
    qed
    then have q2: "quietly m {p} w1 w2" using ret(2) by (simp add: quietly_def)
    have "r \<noteq> None \<and> w' = w2"
      using run ret(1) Inr by (auto simp: config_bridge_with_def 1 2 split: option.splits sum.splits)
    then show ?thesis using quietly_trans [OF q1 q2] by simp
  qed
qed

lemma config_device_returns:
  assumes fm: "finite_memory P m" and IH: "returns m k probe"
    and w: "tree_ok w" "d < next_dev w" "dev_bus (dev w d) = p" "parent_ready w p" "left_in m w < Suc k"
    and run: "run_state (config_device_with probe P d) w = (r, w')"
  shows "r \<noteq> None \<and> quietly m {p} w w'"
proof -
  let ?c = "ctl w"
  obtain x w1 where 1: "run_state (pci_read_config16 P d PCI_CLASS_DEVICE) w = (x, w1)" by (metis surj_pair)
  let ?m2 = "pciauto_setup_device P d (pci_mem ?c) (pci_prefetch ?c) (pci_io ?c)"
  obtain u w2 where 2: "run_state ?m2 w1 = (u, w2)" by (metis surj_pair)
  have f1: "frame w1 = frame w" by (rule keeps_run [OF _ 1]) (intro kept hwo)
  have f2: "frame w2 = frame w1" by (rule keeps_run [OF _ 2]) (intro kept)
  have l1: "left_in m w1 = left_in m w" by (rule keeps_run [OF _ 1]) (intro spares fm)
  have l2: "left_in m w2 = left_in m w1" by (rule keeps_run [OF _ 2]) (intro spares fm)
  have f: "frame w2 = frame w" and l: "left_in m w2 = left_in m w" using f1 f2 l1 l2 by simp_all
  have q: "quietly m {p} w w2" by (rule quietly_frame [OF f l])
  show ?thesis
  proof (cases "(ucast (snd x) :: u32) = PCI_CLASS_BRIDGE_PCI")
    case True
    have "run_state (config_bridge_with probe P p d) w2 = (r, w')"
      using run True w(3) by (simp add: config_device_with_def case_prod_beta 1 2)
    moreover have "tree_ok w2" using quietly_tree [OF q w(1)] by simp
    moreover have "parent_ready w2 p" using w(4) by (simp add: parent_ready_def frame_shapes [OF f] activated_def)
    ultimately show ?thesis
      using config_bridge_returns [OF fm IH, of w2 d p r w'] w q quietly_trans
      by (simp add: frame_shapes [OF f] l) blast
  next
    case False
    then have "w' = w2 \<and> r \<noteq> None" using run by (auto simp: config_device_with_def case_prod_beta 1 2)
    then show ?thesis using q by simp
  qed
qed

lemma not_own_parent:
  "tree_ok w \<Longrightarrow> p < next_bus w \<Longrightarrow> parent (bus w p) = Some q \<Longrightarrow> q \<noteq> p"
  by (auto simp: tree_ok_def)

lemma config_loop_returns:
  assumes fm: "finite_memory P m" and IH: "returns m k probe"
    and "tree_ok w" "p < next_bus w" "\<forall>d \<in> set ds. d < next_dev w \<and> dev_bus (dev w d) = p"
      "parent_ready w p" "left_in m w < Suc k"
    and "run_state (config_loop_with probe P p ds) w = (r, w')"
  shows "r \<noteq> None \<and> quietly m {p} w w'"
  using assms(3-)
proof (induction ds arbitrary: w)
  case Nil
  then show ?case by (auto simp: quietly_def calm_def)
next
  case (Cons d ds)
  obtain x w1 where 1: "run_state (config_device_with probe P d) w = (x, w1)" by (metis surj_pair)
  have dev: "x \<noteq> None" "quietly m {p} w w1"
    using config_device_returns [OF fm IH Cons.prems(1) _ _ Cons.prems(4,5) 1] Cons.prems(3) by auto
  show ?case
  proof (cases "\<exists>ret. x = Some (Inr ret)")
    case False
    then have "r \<noteq> None \<and> w' = w1"
      using Cons.prems(6) dev(1) by (auto simp: 1 split: sum.splits option.splits)
    then show ?thesis using dev(2) by simp
  next
    case True
    then obtain ret where x: "x = Some (Inr ret)" ..
    obtain u w2 where 2: "run_state (raise_last_sub p ret) w1 = (u, w2)" by (metis surj_pair)
    have "keeps frame (raise_last_sub p ret)" "keeps (left_in m) (raise_last_sub p ret)"
      by (intro kept spares)+
    then have q2: "quietly m {p} w1 w2" using 2 by (rule quietly_kept)
    have q: "quietly m {p} w w2" using dev(2) q2 by (rule quietly_trans)
    have t: "tree_ok w2" "tree_le w w2" using quietly_tree [OF q Cons.prems(1)] by simp_all
    have "parent_ready w2 p"
      using parent_ready_quietly [OF q Cons.prems(1,2,4)] not_own_parent [OF Cons.prems(1,2)] by blast
    moreover have "left_in m w2 < Suc k" using q Cons.prems(5) by (simp add: quietly_def)
    moreover have "p < next_bus w2" "\<forall>d \<in> set ds. d < next_dev w2 \<and> dev_bus (dev w2 d) = p"
      using t(2) Cons.prems(2,3) by (auto simp: tree_le_def intro: less_le_trans)
    moreover have "run_state (config_loop_with probe P p ds) w2 = (r, w')"
      using Cons.prems(6) by (simp add: 1 2 x)
    ultimately show ?thesis using Cons.IH [OF t(1)] q quietly_trans by blast
  qed
qed

lemma auto_config_returns:
  assumes fm: "finite_memory P m" and IH: "returns m k probe"
    and w: "tree_ok w" "p < next_bus w" "parent_ready w p" "left_in m w < Suc k"
    and run: "run_state (auto_config_with probe P p) w = (r, w')"
  shows "r \<noteq> None \<and> quietly m {p} w w'"
proof -
  obtain u w1 where 1: "run_state (set_ctl pciauto_config_init) w = (u, w1)" by (metis surj_pair)
  have f: "frame w1 = frame w" by (rule keeps_run [OF _ 1]) (intro kept)
  have l: "left_in m w1 = left_in m w" by (rule keeps_run [OF _ 1]) (intro spares)
  have q: "quietly m {p} w w1" by (rule quietly_frame [OF f l])
  have "run_state (config_loop_with probe P p (devices (bus w1 p))) w1 = (r, w')"
    using run 1 by (auto simp: auto_config_with_def)
  moreover have "parent_ready w1 p" using w(3) by (simp add: parent_ready_def frame_shapes [OF f] activated_def)
  moreover have "\<forall>d \<in> set (devices (bus w1 p)). d < next_dev w1 \<and> dev_bus (dev w1 d) = p"
    using w(1,2) by (simp add: tree_ok_def frame_shapes [OF f])
  ultimately show ?thesis
    using config_loop_returns [OF fm IH, of w1 p "devices (bus w1 p)" r w'] quietly_tree [OF q w(1)] w(2,4) q
      quietly_trans by (simp add: frame_shapes [OF f] l) blast
qed

lemma probe_children_returns:
  assumes fm: "finite_memory P m" and IH: "returns m k probe"
    and w: "tree_ok w" "b < next_bus w" "parent (bus w b) = Some p" "pci_bridge (bus w b) = Some up"
      "left_in m w < Suc k"
    and run: "run_state (probe_children_with probe P b up) w = (r, w')"
  shows "r \<noteq> None \<and> quietly m {p, b} w w'"
proof -
  have up: "dev_bus (dev w up) = p" "up < next_dev w" using w(1-4) by (auto simp: tree_ok_def)
  have pb: "p < b" using w(1-3) by (auto simp: tree_ok_def)
  obtain u1 w1 where 1: "run_state (set_activated up) w = (u1, w1)" by (metis surj_pair)
  obtain u2 w2 where 2: "run_state (number_bus b) w1 = (u2, w2)" by (metis surj_pair)
  obtain u3 w3 where 3: "run_state (pciauto_prescan_setup_bridge P b up) w2 = (u3, w3)" by (metis surj_pair)
  obtain r4 w4 where 4: "run_state (pci_bind_bus_devices P b) w3 = (r4, w4)" by (metis surj_pair)
  obtain r5 w5 where 5: "run_state (auto_config_with probe P b) w4 = (r5, w5)" by (metis surj_pair)
  have q1: "quietly m {p, b} w w1" by (rule quietly_flags(1) [OF _ 1]) (simp add: up)
  have q2: "quietly m {p, b} w1 w2" by (rule quietly_kept [OF _ _ 2]) (intro kept spares)+
  have q3: "quietly m {p, b} w2 w3" by (rule quietly_kept [OF _ _ 3]) (intro kept spares fm)+
  note q13 = quietly_trans [OF q1 quietly_trans [OF q2 q3]]
  have t3: "tree_ok w3" "tree_le w w3" using quietly_tree [OF q13 w(1)] by simp_all
  have b3: "b < next_bus w3" using t3(2) w(2) by (simp add: tree_le_def)
  have q4: "quietly m B w3 w4" for B by (rule quietly_bind_devices [OF fm t3(1) b3 4])
  note q14 = quietly_trans [OF q13 q4]
  have t4: "tree_ok w4" "tree_le w w4" using quietly_tree [OF q14 w(1)] by simp_all
  have b4: "b < next_bus w4" "pci_bridge (bus w4 b) = Some up" "dev_bus (dev w4 up) = p"
    using t4(2) w(2,4) up by (simp_all add: tree_le_def)
  have "activated (dev w1 up)"
    using 1 by (auto simp: set_activated_def activated_def word_ao_absorbs)
  moreover have "dev_flags (dev w2 up) = dev_flags (dev w1 up)"
    by (rule frame_shapes(9), rule keeps_run [OF _ 2], intro kept)
  moreover have "dev_flags (dev w3 up) = dev_flags (dev w2 up)"
    by (rule frame_shapes(9), rule keeps_run [OF _ 3], intro kept)
  moreover have "up < next_dev w3" using t3(2) up by (simp add: tree_le_def)
  then have "dev_flags (dev w4 up) = dev_flags (dev w3 up)" using q4 [of "{}"] by (simp add: quietly_def calm_def)
  ultimately have ready: "parent_ready w4 b" using b4 by (simp add: parent_ready_def activated_def)
  have ret5: "r5 \<noteq> None \<and> quietly m {b} w4 w5"
    using auto_config_returns [OF fm IH t4(1) b4(1) ready _ 5] q14 w(5) by (simp add: quietly_def)
  then have q15: "quietly m {p, b} w w5" using quietly_trans [OF q14 quietly_mono] by blast
  have clear: "quietly m {p, b} v v'"
    if "quietly m {p, b} w v" "run_state (clear_activated up) v = (x, v')" for v v' and x :: unit
  proof (rule quietly_flags(2) [OF _ that(2)])
    show "dev_bus (dev v up) \<in> {p, b}" using that(1) up by (simp add: quietly_def grows_def tree_le_def)
  qed
  show ?thesis
  proof (cases r4)
    case (Inl e)
    then have "r \<noteq> None" "snd (run_state (clear_activated up) w4) = w'"
      using run by (auto simp: probe_children_with_def 1 2 3 4 case_prod_beta)
    then show ?thesis
      using quietly_trans [OF q14 clear [OF q14 surjective_pairing]] by simp
  next
    case (Inr x)
    obtain res where res: "r5 = Some res" using ret5 by auto
    show ?thesis
    proof (cases res)
      case (Inl e)
      then have "r \<noteq> None" "snd (run_state (clear_activated up) w5) = w'"
        using run \<open>r4 = Inr x\<close> res by (auto simp: probe_children_with_def 1 2 3 4 5 case_prod_beta)
      then show ?thesis
        using quietly_trans [OF q15 clear [OF q15 surjective_pairing]] by simp
    next
      case (Inr y)
      obtain u6 w6 where 6: "run_state (pciauto_postscan_setup_bridge P b up) w5 = (u6, w6)" by (metis surj_pair)
      have "quietly m {p, b} w5 w6" by (rule quietly_kept [OF _ _ 6]) (intro kept spares fm)+
      moreover have "r \<noteq> None" "w6 = w'"
        using run \<open>r4 = Inr x\<close> res Inr by (auto simp: probe_children_with_def 1 2 3 4 5 6)
      ultimately show ?thesis using quietly_trans [OF q15] by simp
    qed
  qed
qed

lemma ready_bus_returns:
  assumes fm: "finite_memory P m" and "parent_ready w p"
    and run: "run_state (pci_probe_bus (Suc n) P p) w = (r, w')"
  shows "r \<noteq> None \<and> frame w' = frame w \<and> left_in m w' = left_in m w"
proof (cases "pci_bridge (bus w p)")
  case None
  then show ?thesis using run by (auto simp: probe_bus_with_def)
next
  case (Some u)
  obtain x w1 where 1: "run_state (pci_read_config8 P u PCI_HEADER_TYPE) w = (x, w1)" by (metis surj_pair)
  have f: "frame w1 = frame w" by (rule keeps_run [OF _ 1]) (intro kept hwo)
  have l: "left_in m w1 = left_in m w" by (rule keeps_run [OF _ 1]) (intro spares fm)
  have "activated (dev w1 u)"
    using assms(2) Some by (simp add: parent_ready_def activated_def frame_shapes(9) [OF f])
  then have "r \<noteq> None \<and> w' = w1"
    using run Some by (auto simp: probe_bus_with_def case_prod_beta 1 split: if_splits)
  then show ?thesis using f l by simp
qed

lemma probe_bus_returns: "finite_memory P m \<Longrightarrow> returns m k (pci_probe_bus (Suc k) P)"
proof (induction k)
  case 0
  show ?case by (simp add: returns_def)
next
  case (Suc k)
  let ?probe = "pci_probe_bus (Suc k) P"
  show ?case
    unfolding returns_def
  proof (intro allI impI, elim conjE)
    fix w b up p r w'
    assume w: "tree_ok w" "b < next_bus w" "parent (bus w b) = Some p" "pci_bridge (bus w b) = Some up"
      "parent_ready w p" "left_in m w < Suc k" and run: "run_state (pci_probe_bus (Suc (Suc k)) P b) w = (r, w')"
    from run have run: "run_state (probe_bus_with ?probe P b) w = (r, w')"
      by (simp only: pci_probe_bus.simps(2) [of "Suc k"])
    obtain x w1 where 1: "run_state (pci_read_config8 P up PCI_HEADER_TYPE) w = (x, w1)" by (metis surj_pair)
    have f1: "frame w1 = frame w" by (rule keeps_run [OF _ 1]) (intro kept hwo)
    have l1: "left_in m w1 = left_in m w" by (rule keeps_run [OF _ 1]) (intro spares Suc.prems)
    have q1: "quietly m {p, b} w w1" by (rule quietly_frame [OF f1 l1])
    obtain r2 w2 where 2: "run_state (?probe p) w1 = (r2, w2)" by (metis surj_pair)
    have "parent_ready w1 p" using w(5) by (simp add: parent_ready_def frame_shapes [OF f1] activated_def)
    note par = ready_bus_returns [OF Suc.prems this 2]
    then have f2: "frame w2 = frame w" and l2: "left_in m w2 = left_in m w" using f1 l1 by simp_all
    have q2: "quietly m {p, b} w w2" by (rule quietly_frame [OF f2 l2])
    have t2: "tree_ok w2" using quietly_tree [OF q2 w(1)] by simp
    have up: "dev_bus (dev w up) = p" using w(1-4) by (auto simp: tree_ok_def)
    obtain res where res: "r2 = Some res" using par by auto
    show "r \<noteq> None \<and> quietly m {p, b} w w'"
    proof (cases "(ucast (snd x) :: u32) AND 0x7F \<noteq> PCI_HEADER_TYPE_BRIDGE \<or> activated (dev w1 up)")
      case True
      then have "r \<noteq> None \<and> w' = w1"
        using run w by (auto simp: probe_bus_with_def case_prod_beta 1 simp del: pci_probe_bus.simps split: if_splits)
      then show ?thesis using q1 by simp
    next
      case False
      then have rest: "run_state (case res of
            Inl e \<Rightarrow> do { clear_activated up; done_with (Some (Inl e)) }
          | Inr _ \<Rightarrow> if activated (dev w2 up) then done_with (Some Ok)
                    else probe_children_with ?probe P b up) w2 = (r, w')"
        using run w res
        by (cases res) (simp_all add: probe_bus_with_def case_prod_beta 1 2 del: pci_probe_bus.simps)
      show ?thesis
      proof (cases res)
        case (Inl e)
        have "quietly m {p, b} w2 (snd (run_state (clear_activated up) w2))"
          by (rule quietly_flags(2) [OF _ surjective_pairing]) (simp add: frame_shapes [OF f2] up)
        moreover have "r \<noteq> None" "w' = snd (run_state (clear_activated up) w2)"
          using rest Inl by (auto simp: case_prod_beta simp del: pci_probe_bus.simps)
        ultimately show ?thesis using quietly_trans [OF q2] by simp
      next
        case (Inr y)
        show ?thesis
        proof (cases "activated (dev w2 up)")
          case True
          then show ?thesis using rest Inr q2 by (auto simp del: pci_probe_bus.simps)
        next
          case False
          then have "run_state (probe_children_with ?probe P b up) w2 = (r, w')" using rest Inr by (simp del: pci_probe_bus.simps)
          then have "r \<noteq> None \<and> quietly m {p, b} w2 w'"
            using probe_children_returns [OF Suc.prems Suc.IH [OF Suc.prems] t2] w
            by (simp add: frame_shapes [OF f2] l2 del: pci_probe_bus.simps)
          then show ?thesis using quietly_trans [OF q2] by simp
        qed
      qed
    qed
  qed
qed

lemma auto_config_enough:
  assumes "finite_memory P m" and "tree_ok w" and "b < next_bus w" and "pci_bridge (bus w b) = None"
    and "m (hw w) < n"
  shows "fst (run_state (pci_auto_config_devices n P b) w) \<noteq> None"
proof -
  obtain k where n: "n = Suc k" using assms(5) by (cases n) auto
  have "parent_ready w b" using assms(4) by (simp add: parent_ready_def)
  then show ?thesis
    using auto_config_returns [OF assms(1) probe_bus_returns [OF assms(1)] assms(2,3) _ _ surjective_pairing] assms(5)
    by (simp add: pci_auto_config_devices_def n left_in_def)
qed

text \<open>
  C23: with fuel above the number of allocations the machine has left, configuring a
  bus returns a result, whatever the hardware answers.
\<close>

theorem enumeration_terminates:
  assumes "finite_memory P m" and "tree_ok w" and "b < next_bus w" and "pci_bridge (bus w b) = None"
    and "m (hw w) < n"
  shows "\<exists>res. fst (run_state (pci_auto_config_devices n P b) w) = Some res"
  using auto_config_enough [OF assms] by simp

lemma ram_finite_memory: "finite_memory ram_platform budget"
  by (simp add: finite_memory_def ram_platform_def ram_alloc_def ram_put8_def ram_put16_def ram_put32_def)

theorem enumeration_terminates_witness:
  "\<exists>res. fst (run_state (pci_auto_config_devices 1001 ram_platform 0) root_world) = Some res"
  by (rule enumeration_terminates [OF ram_finite_memory root_world_ok(1)])
    (simp_all add: root_world_def example_defs ram_init_def blank_bus_def)

section \<open>More fuel changes nothing\<close>

definition extends :: "('s, 'a option) state \<Rightarrow> ('s, 'a option) state \<Rightarrow> bool" where
  "extends c c' \<longleftrightarrow> (\<forall>w r w'. run_state c w = (Some r, w') \<longrightarrow> run_state c' w = (Some r, w'))"

named_theorems ext \<open>computations that only become more defined with more fuel\<close>

lemma extends_refl [ext]: "extends c c"
  by (simp add: extends_def)

lemma extends_then [ext]: "(\<And>a. extends (f a) (g a)) \<Longrightarrow> extends (State_Monad.bind c f) (State_Monad.bind c g)"
  by (auto simp: extends_def split: prod.splits)

lemma extends_bind:
  assumes "extends c c'" and "\<And>x. extends (f (Some x)) (g (Some x))"
    and "\<And>w. fst (run_state (f None) w) = None"
  shows "extends (State_Monad.bind c f) (State_Monad.bind c' g)"
  unfolding extends_def
proof (intro allI impI)
  fix w r w' assume run: "run_state (State_Monad.bind c f) w = (Some r, w')"
  obtain x w1 where 1: "run_state c w = (x, w1)" by (metis surj_pair)
  have "x \<noteq> None"
  proof
    assume "x = None"
    then show False using run assms(3) [of w1] by (simp add: 1)
  qed
  then obtain y where y: "x = Some y" by auto
  then have "run_state c' w = (Some y, w1)" using 1 assms(1) by (simp add: extends_def)
  moreover have "run_state (g (Some y)) w1 = (Some r, w')"
    using run assms(2) [of y] 1 y by (simp add: extends_def)
  ultimately show "run_state (State_Monad.bind c' g) w = (Some r, w')" by simp
qed

lemma extends_cases [ext]:
  "(b \<Longrightarrow> extends c c') \<Longrightarrow> (\<not> b \<Longrightarrow> extends d d') \<Longrightarrow> extends (if b then c else d) (if b then c' else d')"
  "(\<And>a. extends (f a) (f' a)) \<Longrightarrow> (\<And>b. extends (g b) (g' b)) \<Longrightarrow>
     extends (case s of Inl a \<Rightarrow> f a | Inr b \<Rightarrow> g b) (case s of Inl a \<Rightarrow> f' a | Inr b \<Rightarrow> g' b)"
  "(\<And>a b. extends (h a b) (h' a b)) \<Longrightarrow>
     extends (case p of (a, b) \<Rightarrow> h a b) (case p of (a, b) \<Rightarrow> h' a b)"
  "extends c c' \<Longrightarrow> (\<And>a. extends (f a) (f' a)) \<Longrightarrow>
     extends (case z of None \<Rightarrow> c | Some a \<Rightarrow> f a) (case z of None \<Rightarrow> c' | Some a \<Rightarrow> f' a)"
  by (cases s; cases p; cases z; simp)+

lemma extends_config_device:
  assumes "\<And>b. extends (probe b) (probe' b)"
  shows "extends (config_device_with probe P d) (config_device_with probe' P d)"
  unfolding config_device_with_def config_bridge_with_def
  by (intro ext extends_bind assms) simp

lemma extends_auto_config:
  assumes "\<And>b. extends (probe b) (probe' b)"
  shows "extends (auto_config_with probe P b) (auto_config_with probe' P b)"
proof -
  have "extends (config_loop_with probe P b ds) (config_loop_with probe' P b ds)" for ds
  proof (induction ds)
    case (Cons d ds)
    show ?case
      unfolding config_loop_with.simps
      by (rule extends_bind [OF extends_config_device [OF assms]]) (simp_all add: ext Cons.IH split: sum.splits)
  qed (simp add: extends_refl)
  then show ?thesis unfolding auto_config_with_def by (intro ext)
qed

lemma extends_probe_bus:
  assumes "\<And>b. extends (probe b) (probe' b)"
  shows "extends (probe_bus_with probe P b) (probe_bus_with probe' P b)"
proof -
  have children: "extends (probe_children_with probe P b up) (probe_children_with probe' P b up)" for up
    unfolding probe_children_with_def
    by (intro ext extends_bind extends_auto_config assms) simp
  show ?thesis
    unfolding probe_bus_with_def by (intro ext extends_bind children assms) (simp_all add: ext children)
qed

lemma extends_more_fuel: "extends (pci_probe_bus n P b) (pci_probe_bus (Suc n) P b)"
proof (induction n arbitrary: b)
  case 0
  show ?case by (simp add: extends_def)
next
  case (Suc n)
  show ?case
    unfolding pci_probe_bus.simps(2) [of "Suc n"] pci_probe_bus.simps(2) [of n]
    using extends_probe_bus [OF Suc.IH] by simp
qed

text \<open>
  A result of the enumeration does not depend on the fuel: with any larger amount
  it is the same, and so is the state.
\<close>

theorem more_fuel_same_result:
  assumes "run_state (pci_auto_config_devices n P b) w = (Some res, w')" and "n \<le> n'"
  shows "run_state (pci_auto_config_devices n' P b) w = (Some res, w')"
  using assms(2,1)
proof (induction rule: dec_induct)
  case (step k)
  then show ?case
    using extends_auto_config [of "pci_probe_bus k P" "pci_probe_bus (Suc k) P" P b, OF extends_more_fuel]
    by (simp add: pci_auto_config_devices_def extends_def)
qed simp

theorem more_fuel_same_result_witness:
  "\<exists>res. run_state (pci_auto_config_devices 2000 ram_platform 0) root_world =
     (Some res, snd (run_state (pci_auto_config_devices 1001 ram_platform 0) root_world))"
proof -
  obtain res where "fst (run_state (pci_auto_config_devices 1001 ram_platform 0) root_world) = Some res"
    using auto_config_enough [OF ram_finite_memory root_world_ok(1), of 0 1001]
    by (auto simp: root_world_def example_defs ram_init_def blank_bus_def)
  then have "run_state (pci_auto_config_devices 1001 ram_platform 0) root_world =
      (Some res, snd (run_state (pci_auto_config_devices 1001 ram_platform 0) root_world))"
    by (simp add: prod_eq_iff)
  from more_fuel_same_result [OF this, of 2000] show ?thesis by auto
qed

end
