(* ===== verification/Lib_Main.thy ===== *)
theory Lib_Main
  imports Lib_Io Lib_Irq Lib_Board Lib_Mem Brcm_Probe Pci_Depth
begin

text \<open>
  The life of the library (\<open>bcmpcie.library/src/pcie_main.c\<close>): the public list of functions,
  bringing the hardware up with the first open and down with the last close, and the
  vectors of an Exec library.

  The enumeration has fuel, \<open>n\<close>, so \<open>LibOpen\<close> has it too: \<open>None\<close> is out of fuel, \<open>Some True\<close>
  the library base and \<open>Some False\<close> \<open>NULL\<close>.
\<close>

section \<open>The public list of functions\<close>

function copy_bars :: "pci_device \<Rightarrow> nat \<Rightarrow> pci_dev \<Rightarrow> pci_dev" where
  "copy_bars v i q =
     (if i \<ge> bars_num v then q
      else if \<not> present (bars v i) then copy_bars v (Suc i) q
      else
        let q = q\<lparr>pd_base_size := (pd_base_size q)(i := bar_response (bars v i)),
                  pd_base_address := (pd_base_address q)(i := virt_addr (bars v i))\<rparr> in
        copy_bars v (if is64 (bars v i) then Suc (Suc i) else Suc i) q)"
  by auto
termination
  by (relation "measure (\<lambda>(v, i, q). bars_num v - i)") auto

definition public_view :: "pci_device \<Rightarrow> dev_id \<Rightarrow> pci_dev" where
  "public_view v d =
     (copy_bars v 0 (blank_pdev\<lparr>
        pd_devfn := ucast (push_bit 3 (PCI_DEV (devfn v)) OR PCI_FUNC (devfn v)),
        pd_vendor := vendor v, pd_device := device v, pd_devclass := dev_class v,
        pd_irq := ucast (intx_pin_routed v)\<rparr>))\<lparr>pd_reserved := d\<rparr>"

definition pcie_make_pdev :: "'h platform \<Rightarrow> dev_id \<Rightarrow> ('h lib, pdev_id option) state" where
  "pcie_make_pdev P d = do {
     ok \<leftarrow> core_do (hw_get (exec_alloc P));
     if \<not> ok then done_with None
     else do {
       p \<leftarrow> get_lib next_pdev;
       v \<leftarrow> get_lib (\<lambda>b. dev (core b) d);
       modify (\<lambda>b. b\<lparr>next_pdev := Suc p\<rparr>);
       set_pdev p (\<lambda>_. public_view v d);
       done_with (Some p)
     }
   }"

text \<open>One node behind \<open>prev\<close>, which is the last one so far.\<close>

definition link_pdev :: "pdev_id option \<Rightarrow> pdev_id \<Rightarrow> ('h lib, unit) state" where
  "link_pdev prev p = do {
     (case prev of
        None \<Rightarrow> do {
          modify (\<lambda>b. b\<lparr>dev_list_head := Some p\<rparr>);
          set_pdev p (\<lambda>v. v\<lparr>pd_pred := None\<rparr>)
        }
      | Some q \<Rightarrow> do {
          set_pdev q (\<lambda>v. v\<lparr>pd_next := Some p\<rparr>);
          set_pdev p (\<lambda>v. v\<lparr>pd_pred := Some q\<rparr>)
        });
     set_pdev p (\<lambda>v. v\<lparr>pd_next := None\<rparr>)
   }"

text \<open>The functions of one bus; the new last node, or \<open>Inl\<close> when memory ran out.\<close>

fun list_functions ::
    "'h platform \<Rightarrow> dev_id list \<Rightarrow> pdev_id option \<Rightarrow> ('h lib, errno + pdev_id option) state" where
  "list_functions P [] prev = done_with (Inr prev)"
| "list_functions P (d # ds) prev = do {
     p \<leftarrow> pcie_make_pdev P d;
     case p of
       None \<Rightarrow> done_with (Inl ENOMEM)
     | Some p \<Rightarrow> do { link_pdev prev p; list_functions P ds (Some p) }
   }"

text \<open>The bus numbers that are left.\<close>

fun list_buses ::
    "'h platform \<Rightarrow> u32 list \<Rightarrow> pdev_id option \<Rightarrow> ('h lib, errno + pdev_id option) state" where
  "list_buses P [] prev = done_with (Inr prev)"
| "list_buses P (i # is) prev = do {
     found \<leftarrow> get_lib (\<lambda>b. pci_get_bus (core b) i);
     case found of
       Inl e \<Rightarrow> list_buses P is prev
     | Inr c \<Rightarrow> do {
         ds \<leftarrow> get_lib (\<lambda>b. devices (bus (core b) c));
         r \<leftarrow> list_functions P ds prev;
         case r of Inl e \<Rightarrow> done_with (Inl e) | Inr prev \<Rightarrow> list_buses P is prev
       }
   }"

definition bus_indices :: "'h world \<Rightarrow> u32 list" where
  "bus_indices w = map of_nat [0..<nat (pci_get_bus_max w + 1)]"

definition pcie_build_dev_list :: "'h platform \<Rightarrow> ('h lib, errno + unit) state" where
  "pcie_build_dev_list P = do {
     is \<leftarrow> get_lib (\<lambda>b. bus_indices (core b));
     r \<leftarrow> list_buses P is None;
     done_with (case r of Inl e \<Rightarrow> Inl e | Inr _ \<Rightarrow> Ok)
   }"

text \<open>
  The walk that frees the nodes; a list cannot have more entries than nodes were ever made.
  It returns the pointer at which it stopped.
\<close>

fun free_nodes :: "'h platform \<Rightarrow> nat \<Rightarrow> pdev_id option \<Rightarrow> ('h lib, pdev_id option) state" where
  "free_nodes P 0 cur = done_with cur"
| "free_nodes P (Suc n) cur = (case cur of
       None \<Rightarrow> done_with None
     | Some p \<Rightarrow> do {
         nxt \<leftarrow> get_lib (\<lambda>b. pd_next (pdevs b p));
         core_do (hw_do (exec_free P));
         free_nodes P n nxt
       })"

definition pcie_free_dev_list :: "'h platform \<Rightarrow> ('h lib, unit) state" where
  "pcie_free_dev_list P = do {
     n \<leftarrow> get_lib next_pdev;
     hd \<leftarrow> get_lib dev_list_head;
     _ \<leftarrow> free_nodes P (Suc n) hd;
     modify (\<lambda>b. b\<lparr>dev_list_head := None\<rparr>)
   }"

section \<open>Up and down\<close>

text \<open>
  The controller is a new, cleared structure without buses.  Nothing points to the buses
  and functions of an earlier life any more, so the numbering starts again.
\<close>

definition fresh_core :: "'h world \<Rightarrow> 'h world" where
  "fresh_core w = w\<lparr>ctl := blank_controller, bus := (\<lambda>_. blank_bus), dev := (\<lambda>_. blank_device),
     next_bus := 0, next_dev := 0\<rparr>"

definition free_ctrl :: "'h platform \<Rightarrow> ('h lib, unit) state" where
  "free_ctrl P = do {
     core_do (hw_do (exec_free P));
     modify (\<lambda>b. b\<lparr>ctrl := False\<rparr>)
   }"

definition free_root :: "'h platform \<Rightarrow> ('h lib, unit) state" where
  "free_root P = do {
     core_do (hw_do (exec_free P));
     modify (\<lambda>b. b\<lparr>root_bus := None\<rparr>)
   }"

text \<open>The exits of \<open>pcie_hw_init\<close>, each falling through to the next.\<close>

definition err_probe :: "'h platform \<Rightarrow> ('h lib, bool option) state" where
  "err_probe P = do { free_ctrl P; done_with (Some False) }"

definition err_root_bus :: "'h platform \<Rightarrow> ('h lib, bool option) state" where
  "err_root_bus P = do { _ \<leftarrow> core_do (brcm_pcie_remove P); err_probe P }"

definition err_dev_list :: "'h platform \<Rightarrow> ('h lib, bool option) state" where
  "err_dev_list P = do { pcie_free_dev_list P; free_root P; err_root_bus P }"

definition err_dma_pool :: "'h platform \<Rightarrow> ('h lib, bool option) state" where
  "err_dma_pool P = do { modify (\<lambda>b. b\<lparr>ctrl_ready := False\<rparr>); err_dev_list P }"

text \<open>From the configured functions to a ready library.\<close>

definition publish :: "'h platform \<Rightarrow> 'h services \<Rightarrow> ('h lib, bool option) state" where
  "publish P S = do {
     _ \<leftarrow> core_do (bcm2711_reload_vl805_firmware P);
     core_do (delay_ms P 1);
     res \<leftarrow> pcie_build_dev_list P;
     if res \<noteq> Ok then err_dev_list P
     else do {
       modify (\<lambda>b. b\<lparr>ctrl_ready := True\<rparr>);
       pool \<leftarrow> core_do (hw_get (dma_create S));
       modify (\<lambda>b. b\<lparr>dma_pool := pool\<rparr>);
       if pool = 0 then err_dma_pool P else done_with (Some True)
     }
   }"

definition bring_up :: "nat \<Rightarrow> 'h platform \<Rightarrow> 'h services \<Rightarrow> bus_id \<Rightarrow> ('h lib, bool option) state" where
  "bring_up n P S rb = do {
     res \<leftarrow> core_do (pci_bind_bus_devices P rb);
     if res \<noteq> Ok then err_dev_list P
     else do {
       r \<leftarrow> core_do (pci_auto_config_devices n P rb);
       case r of
         None \<Rightarrow> done_with None
       | Some res \<Rightarrow> if res \<noteq> Ok then err_dev_list P else publish P S
     }
   }"

definition pcie_hw_init ::
    "nat \<Rightarrow> 'h platform \<Rightarrow> 'h services \<Rightarrow> devtree \<Rightarrow> mem_header list \<Rightarrow> ('h lib, bool option) state" where
  "pcie_hw_init n P S D mhs = do {
     ok \<leftarrow> core_do (hw_get (exec_alloc P));
     modify (\<lambda>b. b\<lparr>ctrl := ok\<rparr>);
     if \<not> ok then done_with (Some False)
     else do {
       core_do (modify fresh_core);
       res \<leftarrow> core_do (brcm_pcie_probe P D mhs 0);
       if res \<noteq> Ok then err_probe P
       else do {
         rb \<leftarrow> core_do (pci_create_bus P None None);
         modify (\<lambda>b. b\<lparr>root_bus := (case rb of Inl e \<Rightarrow> None | Inr rb \<Rightarrow> Some rb)\<rparr>);
         case rb of Inl e \<Rightarrow> err_root_bus P | Inr rb \<Rightarrow> bring_up n P S rb
       }
     }
   }"

definition pcie_hw_shutdown :: "'h platform \<Rightarrow> 'h services \<Rightarrow> ('h lib, unit) state" where
  "pcie_hw_shutdown P S = do {
     pcie_free_dev_list P;
     _ \<leftarrow> core_do (brcm_pcie_remove P);
     free_root P;
     free_ctrl P;
     pool \<leftarrow> get_lib dma_pool;
     only_if (pool \<noteq> 0) (do {
       core_do (hw_do (dma_delete S pool));
       modify (\<lambda>b. b\<lparr>dma_pool := 0\<rparr>)
     });
     modify (\<lambda>b. b\<lparr>ctrl_ready := False\<rparr>)
   }"

section \<open>The vectors of the library\<close>

definition LibExpunge :: "'h platform \<Rightarrow> ('h lib, u32) state" where
  "LibExpunge P = do {
     seg \<leftarrow> get_lib seg_list;
     cnt \<leftarrow> get_lib open_cnt;
     if cnt > 0 then do { modify (\<lambda>b. b\<lparr>delexp := True\<rparr>); done_with 0 }
     else do {
       modify (\<lambda>b. b\<lparr>in_lib_list := False\<rparr>);
       core_do (hw_do (exec_free P));
       done_with seg
     }
   }"

text \<open>\<open>MakeLibrary\<close> has cleared the base.\<close>

definition LibInit :: "u32 \<Rightarrow> ('h lib, unit) state" where
  "LibInit seglist = modify (\<lambda>b. b\<lparr>seg_list := seglist, semaphore := 0, dev_list_head := None,
     ctrl := False, root_bus := None, ctrl_ready := False\<rparr>)"

definition LibOpen ::
    "nat \<Rightarrow> 'h platform \<Rightarrow> 'h services \<Rightarrow> devtree \<Rightarrow> mem_header list \<Rightarrow> ('h lib, bool option) state" where
  "LibOpen n P S D mhs = locked (do {
     ready \<leftarrow> get_lib ctrl_ready;
     r \<leftarrow> (if \<not> ready then pcie_hw_init n P S D mhs else done_with (Some True));
     (if r = Some True
      then modify (\<lambda>b. b\<lparr>open_cnt := open_cnt b + 1, delexp := False\<rparr>)
      else skip);
     done_with r
   })"

definition LibClose :: "'h platform \<Rightarrow> 'h services \<Rightarrow> ('h lib, u32) state" where
  "LibClose P S = do {
     locked (do {
       modify (\<lambda>b. b\<lparr>open_cnt := open_cnt b - 1\<rparr>);
       cnt \<leftarrow> get_lib open_cnt;
       only_if (cnt = 0) (pcie_hw_shutdown P S)
     });
     cnt \<leftarrow> get_lib open_cnt;
     flag \<leftarrow> get_lib delexp;
     if cnt = 0 \<and> flag then LibExpunge P else done_with 0
   }"

definition LibNull :: "('h lib, u32) state" where
  "LibNull = done_with 0"

definition LibPCIBus :: "('h lib, u16) state" where
  "LibPCIBus = get_lib (\<lambda>b. if ctrl_ready b then ucast BCM2711PCIeBus else 0)"

definition LibPrivate :: "('h lib, u32) state" where
  "LibPrivate = done_with 0"

end
