(* ===== verification/Lib_Calls.thy ===== *)
theory Lib_Calls
  imports Lib_Main
begin

text \<open>
  The vectors a client calls (\<open>funcTable\<close> in \<open>bcmpcie.library/src/pcie_main.c\<close>, behind the
  four standard ones), in the order of the table, and what every one of them leaves alone.
\<close>

text \<open>A call with its arguments; one constructor per vector.\<close>

datatype (plugins only: code size) lib_call =
    Null
  | PCIBus
  | PCIInb u32
  | PCIOutb u8 u32
  | PCIInw u32
  | PCIOutw u16 u32
  | PCIInl u32
  | PCIOutl u32 u32
  | PCIToHostCpy u32 u32 u32
  | HostToPCICpy u32 u32 u32
  | PCIToPCICpy u32 u32 u32
  | FindDevice u16 u16 "pdev_id option"
  | FindClass u32 "pdev_id option"
  | FindSlot u8 u32
  | ReadConfigByte u8 "pdev_id option"
  | ReadConfigWord u8 "pdev_id option"
  | ReadConfigLong u8 "pdev_id option"
  | WriteConfigByte u8 u8 "pdev_id option"
  | WriteConfigWord u8 u16 "pdev_id option"
  | WriteConfigLong u8 u32 "pdev_id option"
  | SetMaster "pdev_id option"
  | AddIntServer "isr option" "pdev_id option"
  | RemIntServer "isr option" "pdev_id option"
  | AllocDMAMem u32 u32
  | FreeDMAMem u32 u32
  | LogicToPhysic u32 "pdev_id option"
  | PhysicToLogic u32 "pdev_id option"
  | ObtainCard task "pdev_id option"
  | ReleaseCard task "pdev_id option"
  | Private
  | FindBoardA "pdev_id option" "(u32 \<times> u32) list"
  | GetBoardAttrsA "pdev_id option" "(u32 \<times> u32) list option"
  | SetBoardAttrsA "pdev_id option" "(u32 \<times> u32) list option"
  | AllocDMAForBoard "pdev_id option" u32 u32
  | ReleaseDMAForBoard "pdev_id option" u32 u32
  | AddMemHandler "pdev_id option" u32 u8
  | RemMemHandler "pdev_id option" u32
  | ObtainPCIRegion "pdev_id option" u32 u32
  | ReleasePCIRegion "pdev_id option" u32
  | FindCapability "pdev_id option" u8
  | FindExtCapability "pdev_id option" u16
  | EnableMSI "pdev_id option"
  | DisableMSI "pdev_id option"
  | FLR "pdev_id option"
  | ReadExtConfigByte u32 "pdev_id option"
  | ReadExtConfigWord u32 "pdev_id option"
  | ReadExtConfigLong u32 "pdev_id option"
  | WriteExtConfigByte u32 u8 "pdev_id option"
  | WriteExtConfigWord u32 u16 "pdev_id option"
  | WriteExtConfigLong u32 u32 "pdev_id option"
  | MaskMSI "pdev_id option"
  | UnmaskMSI "pdev_id option"
  | CheckSetINTxMask "pdev_id option" bool
  | AllocIntVectors "pdev_id option" nat nat u32
  | FreeIntVectors "pdev_id option"
  | AddIntVectorServer "pdev_id option" nat "isr option"
  | RemIntVectorServer "pdev_id option" nat "isr option"
  | MaskIntVector "pdev_id option" nat
  | UnmaskIntVector "pdev_id option" nat
  | GetIntVectorType "pdev_id option"

text \<open>What a call does to the library, its result forgotten.\<close>

definition void :: "('h lib, 'a) state \<Rightarrow> ('h lib, unit) state" where
  "void m = do { _ \<leftarrow> m; skip }"

primrec run_call :: "'h platform \<Rightarrow> 'h services \<Rightarrow> lib_call \<Rightarrow> ('h lib, unit) state" where
  "run_call P S Null = void LibNull"
| "run_call P S PCIBus = void LibPCIBus"
| "run_call P S (PCIInb a) = void (LibPCIInb P a)"
| "run_call P S (PCIOutb a b) = void (LibPCIOutb P a b)"
| "run_call P S (PCIInw a) = void (LibPCIInw P a)"
| "run_call P S (PCIOutw a b) = void (LibPCIOutw P a b)"
| "run_call P S (PCIInl a) = void (LibPCIInl P a)"
| "run_call P S (PCIOutl a b) = void (LibPCIOutl P a b)"
| "run_call P S (PCIToHostCpy a b c) = void (LibPCIToHostCpy S a b c)"
| "run_call P S (HostToPCICpy a b c) = void (LibHostToPCICpy S a b c)"
| "run_call P S (PCIToPCICpy a b c) = void (LibPCIToPCICpy S a b c)"
| "run_call P S (FindDevice a b c) = void (LibFindDevice a b c)"
| "run_call P S (FindClass a b) = void (LibFindClass a b)"
| "run_call P S (FindSlot a b) = void (LibFindSlot a b)"
| "run_call P S (ReadConfigByte a b) = void (LibReadConfigByte P a b)"
| "run_call P S (ReadConfigWord a b) = void (LibReadConfigWord P a b)"
| "run_call P S (ReadConfigLong a b) = void (LibReadConfigLong P a b)"
| "run_call P S (WriteConfigByte a b c) = void (LibWriteConfigByte P a b c)"
| "run_call P S (WriteConfigWord a b c) = void (LibWriteConfigWord P a b c)"
| "run_call P S (WriteConfigLong a b c) = void (LibWriteConfigLong P a b c)"
| "run_call P S (SetMaster a) = void (LibSetMaster P a)"
| "run_call P S (AddIntServer a b) = void (LibAddIntServer P a b)"
| "run_call P S (RemIntServer a b) = void (LibRemIntServer P a b)"
| "run_call P S (AllocDMAMem a b) = void (LibAllocDMAMem S a b)"
| "run_call P S (FreeDMAMem a b) = void (LibFreeDMAMem S a b)"
| "run_call P S (LogicToPhysic a b) = void (LibLogicToPhysic a b)"
| "run_call P S (PhysicToLogic a b) = void (LibPhysicToLogic a b)"
| "run_call P S (ObtainCard a b) = void (LibObtainCard a b)"
| "run_call P S (ReleaseCard a b) = void (LibReleaseCard a b)"
| "run_call P S Private = void LibPrivate"
| "run_call P S (FindBoardA a b) = void (LibFindBoardA a b)"
| "run_call P S (GetBoardAttrsA a b) = void (LibGetBoardAttrsA P a b)"
| "run_call P S (SetBoardAttrsA a b) = void (LibSetBoardAttrsA a b)"
| "run_call P S (AllocDMAForBoard a b c) = void (LibAllocDMAForBoard S a b c)"
| "run_call P S (ReleaseDMAForBoard a b c) = void (LibReleaseDMAForBoard S a b c)"
| "run_call P S (AddMemHandler a b c) = void (LibAddMemHandler a b c)"
| "run_call P S (RemMemHandler a b) = void (LibRemMemHandler a b)"
| "run_call P S (ObtainPCIRegion a b c) = void (LibObtainPCIRegion a b c)"
| "run_call P S (ReleasePCIRegion a b) = void (LibReleasePCIRegion a b)"
| "run_call P S (FindCapability a b) = void (LibFindCapability P a b)"
| "run_call P S (FindExtCapability a b) = void (LibFindExtCapability P a b)"
| "run_call P S (EnableMSI a) = void (LibEnableMSI a)"
| "run_call P S (DisableMSI a) = void (LibDisableMSI a)"
| "run_call P S (FLR a) = void (LibFLR P a)"
| "run_call P S (ReadExtConfigByte a b) = void (LibReadExtConfigByte P a b)"
| "run_call P S (ReadExtConfigWord a b) = void (LibReadExtConfigWord P a b)"
| "run_call P S (ReadExtConfigLong a b) = void (LibReadExtConfigLong P a b)"
| "run_call P S (WriteExtConfigByte a b c) = void (LibWriteExtConfigByte P a b c)"
| "run_call P S (WriteExtConfigWord a b c) = void (LibWriteExtConfigWord P a b c)"
| "run_call P S (WriteExtConfigLong a b c) = void (LibWriteExtConfigLong P a b c)"
| "run_call P S (MaskMSI a) = void (LibMaskMSI P a)"
| "run_call P S (UnmaskMSI a) = void (LibUnmaskMSI P a)"
| "run_call P S (CheckSetINTxMask a b) = void (LibCheckSetINTxMask P a b)"
| "run_call P S (AllocIntVectors a b c d) = void (LibAllocIntVectors P a b c d)"
| "run_call P S (FreeIntVectors a) = void (LibFreeIntVectors P a)"
| "run_call P S (AddIntVectorServer a b c) = void (LibAddIntVectorServer P a b c)"
| "run_call P S (RemIntVectorServer a b c) = void (LibRemIntVectorServer P a b c)"
| "run_call P S (MaskIntVector a b) = void (LibMaskIntVector P a b)"
| "run_call P S (UnmaskIntVector a b) = void (LibUnmaskIntVector P a b)"
| "run_call P S (GetIntVectorType a) = void (LibGetIntVectorType a)"

lemma tame_void [tamed]: "tame m \<Longrightarrow> tame (void m)"
  unfolding void_def by (intro tamed)

lemma tame_trivial [tamed]: "tame LibNull" "tame LibPCIBus" "tame LibPrivate"
  unfolding LibNull_def LibPCIBus_def LibPrivate_def by (intro tamed)+

lemma tame_call: "tame (run_call P S c)"
  by (cases c) (simp_all only: run_call.simps, (intro tamed)+)

end
