(* ===== verification/Lib_Bare.thy ===== *)
theory Lib_Bare
  imports Lib_Calls
begin

text \<open>
  A concrete machine for the witnesses: nothing behind the bridge, every register and every
  configuration word reads as ones, writes go nowhere.  The library comes up on it with an
  empty list.
\<close>

definition bare_platform :: "ram_hw platform" where
  "bare_platform = ram_platform\<lparr>
     io_read8 := (\<lambda>a h. (0xFF, h)), io_read16 := (\<lambda>a h. (0xFFFF, h)), io_read32 := (\<lambda>a h. (0xFFFFFFFF, h)),
     io_read32_relaxed := (\<lambda>a h. (0xFFFFFFFF, h)), io_write8 := (\<lambda>v a h. h), io_write16 := (\<lambda>v a h. h),
     io_write32 := (\<lambda>v a h. h), io_write32_relaxed := (\<lambda>v a h. h), io_set16 := (\<lambda>a v h. h), io_set32 := (\<lambda>a v h. h),
     io_clear32 := (\<lambda>a v h. h), io_update32 := (\<lambda>a c v h. h), io_poll := (\<lambda>a m e t h. (0xFFFFFFFF, h))\<rparr>"

definition example_memory :: "mem_header list" where
  "example_memory = [\<lparr>mh_fast = True, mh_lower = 0x8000000, mh_upper = 0x40000000\<rparr>]"

definition bare_devtree :: devtree where
  "bare_devtree = example_devtree\<lparr>dt_find_property := (\<lambda>k p. if p = ''emu68,pci-mmio-phys'' then Some [6, 0]
     else dt_find_property example_devtree k p)\<rparr>"

section \<open>The registers\<close>

lemma bare_reads [simp]:
  "run_state (mmio_read8 bare_platform a) w = (0xFF, w)"
  "run_state (mmio_read16 bare_platform a) w = (0xFFFF, w)"
  "run_state (mmio_read32 bare_platform a) w = (0xFFFFFFFF, w)"
  "run_state (mmio_read32_relaxed bare_platform a) w = (0xFFFFFFFF, w)"
  by (simp_all add: mmio_defs bare_platform_def)

lemma bare_writes [simp]:
  "run_state (mmio_write8 bare_platform v8 a) w = ((), w)"
  "run_state (mmio_write16 bare_platform v16 a) w = ((), w)"
  "run_state (mmio_write32 bare_platform v a) w = ((), w)"
  "run_state (mmio_write32_relaxed bare_platform v a) w = ((), w)"
  "run_state (mmio_set16 bare_platform a v16) w = ((), w)"
  "run_state (mmio_set32 bare_platform a v) w = ((), w)"
  "run_state (mmio_clear32 bare_platform a v) w = ((), w)"
  "run_state (mmio_update32 bare_platform a c v) w = ((), w)"
  by (simp_all add: mmio_defs mmio_set16_def mmio_set32_def mmio_clear32_def mmio_update32_def bare_platform_def)

lemma bare_field [simp]: "run_state (update_field bare_platform a v m) w = ((), w)"
  by (simp add: update_field_def)

lemma bare_link [simp]:
  "run_state (brcm_pcie_link_up bare_platform) w = (True, w)"
  "run_state (brcm_pcie_rc_mode bare_platform) w = (True, w)"
  by (simp_all add: brcm_pcie_link_up_def brcm_pcie_rc_mode_def)

section \<open>No functions\<close>

lemma bare_vendor [simp]:
  "run_state (brcm_pcie_read_config bare_platform at PCI_VENDOR_ID PCI_SIZE_16) w = ((Ok, 0xFFFF), w)"
  by (simp add: brcm_pcie_read_config_def brcm_pcie_config_address_def Let_def pci_get_ff_def)

lemma bare_bind_function: "\<exists>fm'. run_state (bind_function bare_platform b at fm) w = (Inr fm', w)"
  by (simp add: bind_function_def Let_def)

lemma bare_bind_loop: "run_state (bind_loop bare_platform b n at fm) w = (Ok, w)"
proof (induction n arbitrary: at fm)
  case (Suc n)
  obtain fm' where "run_state (bind_function bare_platform b at fm) w = (Inr fm', w)"
    using bare_bind_function by blast
  then show ?case by (simp add: Suc)
qed simp

lemma bare_bind [simp]: "run_state (pci_bind_bus_devices bare_platform b) w = (Ok, w)"
  by (simp add: pci_bind_bus_devices_def bare_bind_loop)

lemma bare_auto_config:
  "devices (bus w b) = [] \<Longrightarrow> run_state (pci_auto_config_devices n bare_platform b) w = (Some Ok, w\<lparr>ctl := pciauto_config_init (ctl w)\<rparr>)"
  by (simp add: pci_auto_config_devices_def auto_config_with_def)

section \<open>The root complex comes up\<close>

lemma bare_parse: "fst (brcm_devtree_parse bare_devtree blank_controller) = Ok"
  by code_simp

definition bare_parsed :: pci_controller where
  "bare_parsed = snd (brcm_devtree_parse bare_devtree blank_controller)"

lemma bare_window: "brcm_pcie_dma_window bare_devtree bare_parsed = Inr (pci_set_region 0 0 0x80000000 0)"
  by code_simp

lemma bare_gen: "gen bare_parsed = 0" "ssc bare_parsed = False" "base bare_parsed = 0x10000"
  by code_simp+

definition bare_it :: dt_pci_ranges where
  "bare_it = \<lparr>next_cells = [0x02000000, 0, 0xC0000000, 6, 0, 0, 0x40000000], cells_left = 7, pci_addr_cells = 3,
     cpu_addr_cells = 2, size_cells = 2, record_cells = 7\<rparr>"

lemma bare_ranges: "dt_pci_ranges_open bare_devtree bare_parsed ''ranges'' = Inr bare_it"
  by code_simp

lemma bare_regions: "length (devtree_regions_loop bare_devtree ref_bits 7 bare_it) = 1"
  by code_simp

text \<open>Neither the window nor the ranges depend on the numbering of the buses.\<close>

lemma ranges_numbered:
  "dt_pci_ranges_open D (c\<lparr>bus_number_base := n, bus_number_last := m\<rparr>) p = dt_pci_ranges_open D c p"
  by (simp add: dt_pci_ranges_open_def cong: option.case_cong)

lemma window_numbered:
  "brcm_pcie_dma_window D (c\<lparr>bus_number_base := n, bus_number_last := m\<rparr>) = brcm_pcie_dma_window D c"
  by (simp only: brcm_pcie_dma_window_def ranges_numbered)

lemmas bare_window_numbered = trans [OF window_numbered bare_window]
lemmas bare_ranges_numbered = trans [OF ranges_numbered bare_ranges]

lemma bare_set_outbound [simp]: "run_state (brcm_pcie_set_outbound_win bare_platform win phys pci sz) w = ((), w)"
  by (simp add: brcm_pcie_set_outbound_win_def Let_def)

lemma bare_outbound: "n + length rs \<le> 4 \<Longrightarrow> run_state (outbound_loop bare_platform rs n) w = (Ok, w)"
  by (induction bare_platform rs n rule: outbound_loop.induct) simp_all

lemma bare_wait [simp]: "run_state (wait_link_loop bare_platform n) w = ((), w)"
  by (cases n) simp_all

lemma bare_fields:
  "bits bare_platform = ref_bits" "exec_alloc bare_platform = ram_alloc" "gic_open bare_platform = (\<lambda>h. (True, h))" "gic_add bare_platform = ram_add_line"
  "wait_us bare_platform t h = h\<lparr>clock := clock h + t\<rparr>" "wait_ms bare_platform t h = h\<lparr>clock := clock h + 1000 * t\<rparr>"
  by (simp_all add: bare_platform_def ram_platform_def)

lemma bare_inbound:
  "run_state (setup_inbound bare_platform bas win) w = ((), w\<lparr>ctl := (ctl w)\<lparr>msi_target_addr := ucast BRCM_MSI_TARGET_ADDR_LT_4GB\<rparr>\<rparr>)"
  by (simp add: setup_inbound_def Let_def)

lemma bare_start_link:
  "gen (ctl w) = 0 \<Longrightarrow> run_state (start_link bare_platform bas) w = (Ok, w\<lparr>hw := (hw w)\<lparr>clock := clock (hw w) + 100000\<rparr>\<rparr>)"
  by (simp add: start_link_def delay_ms_def bare_fields)

lemma bare_root_port: "\<not> ssc (ctl w) \<Longrightarrow> run_state (setup_root_port bare_platform bas) w = ((), w)"
  by (simp add: setup_root_port_def)

lemma bare_interrupts:
  "lines (hw w) = (\<lambda>_. None) \<Longrightarrow> fst (run_state (open_interrupts bare_platform bas) w) = Ok"
  "lines (hw w) = (\<lambda>_. None) \<Longrightarrow> budget (hw (snd (run_state (open_interrupts bare_platform bas) w))) = budget (hw w)"
  by (simp_all add: open_interrupts_def brcm_pcie_open_gic400_def brcm_msi_demux_enable_def brcm_gic_add_server_def
      ram_add_line_def brcm_msi_set_regs_def bare_fields)

lemma bare_dram: "length (dram_regions_loop win off n example_memory) \<le> 1"
  by (simp add: example_memory_def)

lemma bare_probe:
  assumes "ctl w = blank_controller" "budget (hw w) = Suc m" "lines (hw w) = (\<lambda>_. None)"
  shows "fst (run_state (brcm_pcie_probe bare_platform bare_devtree example_memory 0) w) = Ok"
    "budget (hw (snd (run_state (brcm_pcie_probe bare_platform bare_devtree example_memory 0) w))) = m"
proof -
  have "brcm_devtree_parse bare_devtree blank_controller = (Ok, bare_parsed)" using bare_parse by (simp add: bare_parsed_def prod_eq_iff)
  moreover have "length (devtree_regions_loop bare_devtree ref_bits 7 bare_it @ dram_regions_loop win off 0 example_memory) \<le> 4" for win off
    using bare_regions bare_dram [of win off 0] by simp
  ultimately show "fst (run_state (brcm_pcie_probe bare_platform bare_devtree example_memory 0) w) = Ok"
      "budget (hw (snd (run_state (brcm_pcie_probe bare_platform bare_devtree example_memory 0) w))) = m"
    using assms
    by (simp_all add: brcm_pcie_probe_def reset_bridge_def bare_window_numbered bare_inbound bare_start_link
      pci_get_devtree_regions_def bare_ranges_numbered bare_root_port bare_interrupts delay_us_def
      bare_fields ram_alloc_def bare_gen bare_outbound bare_it_def)
qed

end
