(* ===== verification/Lib_List.thy ===== *)
theory Lib_List
  imports Lib_Main
begin

text \<open>
  The public list of functions: it is built as a doubly linked list that shows exactly the
  functions that were enumerated, bus by bus, and it is freed to the last node.
\<close>

section \<open>The public list is built correctly\<close>

lemma chain_cong:
  "(\<And>q. q \<in> set ps \<Longrightarrow> pd_next (st' q) = pd_next (st q) \<and> pd_pred (st' q) = pd_pred (st q)) \<Longrightarrow>
     chain st' pred head ps = chain st pred head ps"
  by (induction ps arbitrary: pred head) auto

lemma chain_snoc:
  assumes "chain st pred head ps" and "ps \<noteq> []" and "p \<notin> set ps" and "distinct ps"
  shows "chain (st(last ps := (st (last ps))\<lparr>pd_next := Some p\<rparr>, p := v\<lparr>pd_pred := Some (last ps), pd_next := None\<rparr>))
    pred head (ps @ [p])"
  using assms
proof (induction ps arbitrary: pred head)
  case (Cons q ps)
  show ?case
  proof (cases "ps = []")
    case False
    then have "last (q # ps) = last ps" "last ps \<in> set ps" by simp_all
    moreover from this have "q \<noteq> last ps" using Cons.prems(4) by auto
    ultimately show ?thesis
      using Cons.IH [of "Some q" "pd_next (st q)"] Cons.prems False by auto
  qed (use Cons.prems in auto)
qed simp

text \<open>\<open>shown q r\<close>: the node \<open>q\<close> is \<open>r\<close> up to its links.\<close>

definition shown :: "pci_dev \<Rightarrow> pci_dev \<Rightarrow> bool" where
  "shown q r \<longleftrightarrow> q\<lparr>pd_next := None, pd_pred := None\<rparr> = r\<lparr>pd_next := None, pd_pred := None\<rparr>"

definition built :: "'h lib \<Rightarrow> pdev_id option \<Rightarrow> dev_id list \<Rightarrow> bool" where
  "built b prev ds \<longleftrightarrow> (\<exists>ps. dev_list b ps \<and> prev = (if ps = [] then None else Some (last ps)) \<and>
     (\<forall>p \<in> set ps. p < next_pdev b) \<and>
     list_all2 (\<lambda>p d. shown (pdevs b p) (public_view (dev (core b) d) d)) ps ds)"

text \<open>The list is in order, whatever it shows.\<close>

definition listed :: "'h lib \<Rightarrow> bool" where
  "listed b \<longleftrightarrow> (\<exists>ps. dev_list b ps \<and> (\<forall>p \<in> set ps. p < next_pdev b))"

lemma built_listed: "built b prev ds \<Longrightarrow> listed b"
  by (auto simp: built_def listed_def)

lemma shown_links [simp]:
  "shown (q\<lparr>pd_next := n\<rparr>) r = shown q r" "shown (q\<lparr>pd_pred := n\<rparr>) r = shown q r" "shown q q"
  by (simp_all add: shown_def)

lemma copy_bars_same: "pd_vendor (copy_bars v i q) = pd_vendor q \<and> pd_device (copy_bars v i q) = pd_device q"
proof (induction v i q rule: copy_bars.induct)
  case (1 v i q)
  show ?case
    unfolding copy_bars.simps [of v i q] using 1 by (simp add: Let_def del: copy_bars.simps)
qed

lemmas copy_bars_ids [simp] = copy_bars_same [THEN conjunct1] copy_bars_same [THEN conjunct2]

lemma shown_ids: "shown q (public_view v d) \<Longrightarrow> pd_vendor q = vendor v \<and> pd_device q = device v"
  unfolding shown_def
  by (drule arg_cong [where f = "\<lambda>q. (pd_vendor q, pd_device q)"]) (simp add: public_view_def del: copy_bars.simps)

lemma built_link:
  assumes "built b prev ds"
  shows "built (snd (run_state (link_pdev prev (next_pdev b))
      (b\<lparr>next_pdev := Suc (next_pdev b), pdevs := (pdevs b)(next_pdev b := public_view (dev (core b) d) d)\<rparr>)))
    (Some (next_pdev b)) (ds @ [d])"
proof -
  let ?p = "next_pdev b" and ?v = "public_view (dev (core b) d) d"
  let ?b = "b\<lparr>next_pdev := Suc ?p, pdevs := (pdevs b)(?p := ?v)\<rparr>"
  let ?b' = "snd (run_state (link_pdev prev ?p) ?b)"
  obtain ps where ps: "dev_list b ps" "prev = (if ps = [] then None else Some (last ps))"
      "\<forall>p \<in> set ps. p < ?p"
      "list_all2 (\<lambda>p d. shown (pdevs b p) (public_view (dev (core b) d) d)) ps ds"
    using assms by (auto simp: built_def)
  have new: "?p \<notin> set ps" using ps(3) by auto
  have core: "core ?b' = core b" "next_pdev ?b' = Suc ?p"
    by (simp_all add: link_pdev_def split: option.split)
  have st: "pdevs ?b' = (if ps = [] then (pdevs b)(?p := ?v\<lparr>pd_pred := None, pd_next := None\<rparr>)
      else (pdevs b)(last ps := (pdevs b (last ps))\<lparr>pd_next := Some ?p\<rparr>,
        ?p := ?v\<lparr>pd_pred := Some (last ps), pd_next := None\<rparr>))"
    using ps(2,3) by (auto simp: link_pdev_def fun_eq_iff)
  have head: "dev_list_head ?b' = (if ps = [] then Some ?p else dev_list_head b)"
    using ps(2) by (simp add: link_pdev_def)
  have "chain (pdevs ?b') None (dev_list_head ?b') (ps @ [?p])"
  proof (cases "ps = []")
    case False
    then show ?thesis unfolding st head using chain_snoc [of "pdevs b" None _ ps ?p ?v] ps(1) new
      by (simp add: dev_list_def)
  qed (simp add: st head)
  then have list: "dev_list ?b' (ps @ [?p])" using ps(1) new by (simp add: dev_list_def)
  have same: "shown (pdevs ?b' q) r = shown (pdevs b q) r" if "q \<in> set ps" for q r
  proof -
    have "q \<noteq> ?p" using that new by auto
    then show ?thesis unfolding st by simp
  qed
  have "list_all2 (\<lambda>p d. shown (pdevs ?b' p) (public_view (dev (core b) d) d)) ps ds"
    using ps(4) by (rule list.rel_mono_strong) (simp add: same)
  moreover have "shown (pdevs ?b' ?p) ?v" unfolding st by simp
  ultimately show ?thesis
    unfolding built_def core using list ps(3)
    by (intro exI [of _ "ps @ [?p]"]) (auto simp: list_all2_appendI)
qed

lemma list_functions_built:
  assumes "built b prev ds0" and "run_state (list_functions P ds prev) b = (r, b')"
  shows "case r of Inr prev' \<Rightarrow> built b' prev' (ds0 @ ds) | Inl _ \<Rightarrow> \<exists>prev' ds'. built b' prev' ds'"
  using assms
proof (induction ds arbitrary: b prev ds0)
  case (Cons d ds)
  let ?b1 = "b\<lparr>core := (core b)\<lparr>hw := snd (exec_alloc P (hw (core b)))\<rparr>\<rparr>"
  have b1: "built ?b1 prev ds0" using Cons.prems(1) by (simp add: built_def dev_list_def)
  show ?case
  proof (cases "fst (exec_alloc P (hw (core b)))")
    case False
    then have "r = Inl ENOMEM" "b' = ?b1"
      using Cons.prems(2) by (simp_all add: pcie_make_pdev_def)
    then show ?thesis using b1 by auto
  next
    case True
    let ?p = "next_pdev b" and ?v = "public_view (dev (core b) d) d"
    let ?b2 = "snd (run_state (link_pdev prev ?p) (?b1\<lparr>next_pdev := Suc ?p, pdevs := (pdevs b)(?p := ?v)\<rparr>))"
    have "built ?b2 (Some ?p) (ds0 @ [d])" using built_link [OF b1, of d] by simp
    moreover have "run_state (list_functions P ds (Some ?p)) ?b2 = (r, b')"
      using Cons.prems(2) True by (simp add: pcie_make_pdev_def split: prod.splits)
    ultimately show ?thesis using Cons.IH [of ?b2 "Some ?p" "ds0 @ [d]"] by (cases r) auto
  qed
qed auto

text \<open>
  What listing leaves alone: the core but for the hardware, and the base but for the list.
\<close>

definition soft :: "'h lib \<Rightarrow> _" where
  "soft b = (ctl (core b), bus (core b), dev (core b), next_bus (core b), next_dev (core b))"

definition base_rest :: "'h lib \<Rightarrow> _" where
  "base_rest b = (ctrl b, root_bus b, ctrl_ready b, dma_pool b, open_cnt b, delexp b, in_lib_list b, seg_list b,
     semaphore b, client b)"

lemma keeps_soft_core: "hw_only m \<Longrightarrow> keeps soft (core_do m)"
  by (rule keepsI) (simp add: soft_def)

lemma keeps_rest_core: "keeps base_rest (core_do m)"
  by (rule keepsI) (simp add: base_rest_def)

lemma keeps_list_pdev:
  "keeps soft (set_pdev p f)" "keeps base_rest (set_pdev p f)"
  "keeps soft (modify (\<lambda>b. b\<lparr>dev_list_head := x\<rparr>))" "keeps base_rest (modify (\<lambda>b. b\<lparr>dev_list_head := x\<rparr>))"
  "keeps soft (modify (\<lambda>b. b\<lparr>next_pdev := y\<rparr>))" "keeps base_rest (modify (\<lambda>b. b\<lparr>next_pdev := y\<rparr>))"
  by (rule keepsI, simp add: soft_def base_rest_def)+

definition unlisted :: "'h lib \<Rightarrow> _" where
  "unlisted b = (soft b, base_rest b)"

lemma keeps_unlisted: "keeps soft m \<Longrightarrow> keeps base_rest m \<Longrightarrow> keeps unlisted m"
  by (rule keepsI) (simp add: unlisted_def keepsD)

lemma unlistedD: "keeps unlisted m \<Longrightarrow> keeps soft m" "keeps unlisted m \<Longrightarrow> keeps base_rest m"
  by (erule keeps_coarser, simp add: unlisted_def)+

lemmas unlisted_rules = keeps_bind keeps_if keeps_option keeps_sum keeps_return keeps_fetch
  keeps_unlisted [OF keeps_soft_core keeps_rest_core]
  keeps_unlisted [OF keeps_list_pdev(1,2)] keeps_unlisted [OF keeps_list_pdev(3,4)]
  keeps_unlisted [OF keeps_list_pdev(5,6)]

lemma keeps_list_functions: "keeps unlisted (list_functions P ds prev)"
proof (induction ds arbitrary: prev)
  case (Cons d ds)
  show ?case
    unfolding list_functions.simps pcie_make_pdev_def link_pdev_def
    by (intro unlisted_rules hwo Cons)
qed (simp add: keeps_return)

lemma keeps_list_buses: "keeps unlisted (list_buses P is prev)"
proof (induction "is" arbitrary: prev)
  case (Cons i "is")
  show ?case unfolding list_buses.simps by (intro unlisted_rules keeps_list_functions Cons)
qed (simp add: keeps_return)

text \<open>The functions of the buses with these numbers, in order.\<close>

definition functions_of :: "'h world \<Rightarrow> u32 list \<Rightarrow> dev_id list" where
  "functions_of w is = concat (map (\<lambda>i. case pci_get_bus w i of Inl _ \<Rightarrow> [] | Inr c \<Rightarrow> devices (bus w c)) is)"

lemma functions_of_simps [simp]:
  "functions_of w [] = []"
  "functions_of w (i # is) = (case pci_get_bus w i of Inl _ \<Rightarrow> [] | Inr c \<Rightarrow> devices (bus w c)) @ functions_of w is"
  by (simp_all add: functions_of_def)

definition enumerated :: "'h world \<Rightarrow> dev_id list" where
  "enumerated w = functions_of w (bus_indices w)"

lemma soft_functions:
  assumes "soft b' = soft b"
  shows "functions_of (core b') is = functions_of (core b) is" "bus_indices (core b') = bus_indices (core b)"
proof -
  have same: "ctl (core b') = ctl (core b)" "bus (core b') = bus (core b)" using assms by (auto simp: soft_def)
  have "pci_get_bus_max_loop (core b') bs r = pci_get_bus_max_loop (core b) bs r" for bs r
    by (induction bs arbitrary: r) (simp_all add: same)
  then show "bus_indices (core b') = bus_indices (core b)"
    by (simp add: bus_indices_def pci_get_bus_max_def same)
  show "functions_of (core b') is = functions_of (core b) is"
    unfolding functions_of_def pci_get_bus_def same by (rule refl)
qed

lemma list_buses_built:
  assumes "built b prev ds0" and "run_state (list_buses P is prev) b = (r, b')"
  shows "case r of Inr prev' \<Rightarrow> built b' prev' (ds0 @ functions_of (core b) is) | Inl _ \<Rightarrow> \<exists>prev' ds'. built b' prev' ds'"
  using assms
proof (induction "is" arbitrary: b prev ds0)
  case (Cons i "is")
  show ?case
  proof (cases "pci_get_bus (core b) i")
    case (Inl e)
    then have "run_state (list_buses P is prev) b = (r, b')" "functions_of (core b) (i # is) = functions_of (core b) is"
      using Cons.prems(2) by simp_all
    then show ?thesis using Cons.IH [OF Cons.prems(1)] by (cases r) simp_all
  next
    case (Inr c)
    obtain r1 b1 where r1: "run_state (list_functions P (devices (bus (core b) c)) prev) b = (r1, b1)"
      by (metis surj_pair)
    note one = list_functions_built [OF Cons.prems(1) r1]
    note same = soft_functions [OF keeps_run [OF unlistedD(1) [OF keeps_list_functions] r1]]
    show ?thesis
    proof (cases r1)
      case (Inl e)
      then have "r = Inl e" "b' = b1" using Cons.prems(2) \<open>pci_get_bus (core b) i = Inr c\<close> r1 by simp_all
      then show ?thesis using one Inl by simp
    next
      case (Inr prev1)
      then have "built b1 prev1 (ds0 @ devices (bus (core b) c))" using one by simp
      moreover have "run_state (list_buses P is prev1) b1 = (r, b')"
        using Cons.prems(2) \<open>pci_get_bus (core b) i = Inr c\<close> r1 Inr by simp
      ultimately show ?thesis
        using Cons.IH [of b1 prev1 "ds0 @ devices (bus (core b) c)"] \<open>pci_get_bus (core b) i = Inr c\<close>
        by (cases r) (auto simp: same(1))
    qed
  qed
qed auto

lemma build_dev_list_built:
  assumes "dev_list_head b = None" and "run_state (pcie_build_dev_list P) b = (r, b')"
  shows "soft b' = soft b" "base_rest b' = base_rest b"
    "\<exists>prev ds. built b' prev ds \<and> (r = Ok \<longrightarrow> ds = enumerated (core b'))"
proof -
  obtain x where x: "run_state (list_buses P (bus_indices (core b)) None) b = (x, b')"
    "r = (case x of Inl e \<Rightarrow> Inl e | Inr _ \<Rightarrow> Ok)"
    using assms(2) by (auto simp: pcie_build_dev_list_def split: prod.splits)
  show soft: "soft b' = soft b" by (rule keeps_run [OF unlistedD(1) [OF keeps_list_buses] x(1)])
  show "base_rest b' = base_rest b" by (rule keeps_run [OF unlistedD(2) [OF keeps_list_buses] x(1)])
  have "built b None []" using assms(1) by (simp add: built_def dev_list_def)
  from list_buses_built [OF this x(1)]
  show "\<exists>prev ds. built b' prev ds \<and> (r = Ok \<longrightarrow> ds = enumerated (core b'))"
    using soft_functions [OF soft] x(2) by (cases x) (auto simp: enumerated_def)
qed

section \<open>The nodes are freed to the last\<close>

lemma free_nodes_end:
  assumes "chain (pdevs b) pred cur ps" and "length ps < n"
  shows "fst (run_state (free_nodes P n cur) b) = None"
  using assms
proof (induction ps arbitrary: pred cur n b)
  case Nil
  then show ?case by (cases n) simp_all
next
  case (Cons p ps)
  obtain m where n: "n = Suc m" using Cons.prems(2) by (cases n) auto
  let ?b = "b\<lparr>core := (core b)\<lparr>hw := exec_free P (hw (core b))\<rparr>\<rparr>"
  have "fst (run_state (free_nodes P m (pd_next (pdevs b p))) ?b) = None"
    using Cons.prems n by (intro Cons.IH [of ?b "Some p"]) simp_all
  then show ?case using Cons.prems(1) by (simp add: n)
qed

lemma dev_list_short:
  assumes "dev_list b ps" "\<forall>p \<in> set ps. p < n"
  shows "length ps \<le> n"
proof -
  have "card (set ps) \<le> card {..<n}" using assms(2) by (intro card_mono) auto
  then show ?thesis using assms(1) by (simp add: distinct_card dev_list_def)
qed

lemma free_list_complete:
  assumes "listed b"
  shows "fst (run_state (free_nodes P (Suc (next_pdev b)) (dev_list_head b)) b) = None"
proof -
  obtain ps where ps: "dev_list b ps" "\<forall>p \<in> set ps. p < next_pdev b" using assms by (auto simp: listed_def)
  have "length ps < Suc (next_pdev b)" using dev_list_short [OF ps] by simp
  moreover have "chain (pdevs b) None (dev_list_head b) ps" using ps(1) by (simp add: dev_list_def)
  ultimately show ?thesis by (intro free_nodes_end)
qed

lemma keeps_free_nodes: "keeps unlisted (free_nodes P n cur)"
proof (induction n arbitrary: cur)
  case (Suc n)
  show ?case unfolding free_nodes.simps by (intro unlisted_rules hwo Suc)
qed (simp add: keeps_return)

lemma free_dev_list:
  "keeps unlisted (pcie_free_dev_list P)" "dev_list_head (snd (run_state (pcie_free_dev_list P) b)) = None"
proof -
  show "keeps unlisted (pcie_free_dev_list P)"
    unfolding pcie_free_dev_list_def by (intro unlisted_rules keeps_free_nodes)
  show "dev_list_head (snd (run_state (pcie_free_dev_list P) b)) = None"
    by (simp add: pcie_free_dev_list_def case_prod_beta)
qed

end
