(* ===== verification/Lib_Life.thy ===== *)
theory Lib_Life
  imports Lib_Bare Lib_List
begin

text \<open>
  What the life of the library guarantees: an open brings the hardware up completely or not
  at all and always returns, the hardware is up exactly while the library is open, and no
  client call disturbs any of this.
\<close>

section \<open>Bringing the root complex up does not touch the tree\<close>

lemma parse_keeps:
  "buses (snd (brcm_devtree_parse D c)) = buses c" "msi_used (snd (brcm_devtree_parse D c)) = msi_used c"
  "msi_servers (snd (brcm_devtree_parse D c)) = msi_servers c"
  by (auto simp: brcm_devtree_parse_def parse_interrupt_map_def Let_def split: option.split)

lemma hw_only_updates [hwo]:
  "hw_only (mmio_set16 P a v16)" "hw_only (mmio_set32 P a v)" "hw_only (mmio_clear32 P a v)"
  "hw_only (mmio_update32 P a c v)" "hw_only (delay_us P t)" "hw_only (delay_ms P t)"
  "hw_only (update_field P a v m)"
  unfolding mmio_set16_def mmio_set32_def mmio_clear32_def mmio_update32_def delay_us_def delay_ms_def update_field_def
  by (intro hwo)+

lemma hw_only_mdio [hwo]:
  "hw_only (brcm_pcie_mdio_read P bas po r)" "hw_only (brcm_pcie_mdio_write P bas po r d)"
  unfolding brcm_pcie_mdio_read_def brcm_pcie_mdio_write_def brcm_pcie_wait_mdio_value_def by (intro hwo)+

lemma hw_only_root_complex [hwo]:
  "hw_only (brcm_pcie_set_ssc P bas)" "hw_only (brcm_pcie_set_gen P g)" "hw_only (reset_bridge P bas)"
  "hw_only (brcm_pcie_set_outbound_win P win phys pci sz)" "hw_only (setup_root_port P bas)"
  unfolding setup_root_port_def brcm_pcie_set_ssc_def brcm_pcie_set_gen_def reset_bridge_def
    brcm_pcie_set_outbound_win_def Let_def
  by (intro hwo)+

lemma hw_only_link [hwo]: "hw_only (wait_link_loop P n)" "hw_only (outbound_loop P rs n)"
proof -
  show "hw_only (wait_link_loop P n)" by (induction n) (auto intro!: hwo)
  show "hw_only (outbound_loop P rs n)" by (induction P rs n rule: outbound_loop.induct) (auto intro!: hwo)
qed

lemma hw_only_start_link [hwo]: "hw_only (start_link P bas)"
  unfolding start_link_def by (intro hwo)

lemma frame_fields:
  "keeps frame (set_ctl (\<lambda>c. c\<lparr>msi_target_addr := t\<rparr>))" "keeps frame (set_ctl (\<lambda>c. c\<lparr>hw_rev := r\<rparr>))"
  "keeps frame (set_ctl (\<lambda>c. c\<lparr>regions_alloc := a\<rparr>))" "keeps frame (set_ctl (\<lambda>c. c\<lparr>regions := rs\<rparr>))"
  "keeps frame (set_ctl (\<lambda>c. c\<lparr>gic400Base := g\<rparr>))"
  "keeps frame (set_ctl (\<lambda>c. c\<lparr>bus_number_base := n, bus_number_last := m\<rparr>))"
  by (intro frame_set_ctl, simp)+

lemma frame_regions_probe: "keeps frame (pci_get_devtree_regions P D mhs win)"
  unfolding pci_get_devtree_regions_def Let_def
  by (intro keeps_bind keeps_fetch keeps_sum keeps_if keeps_return frame_fields frame_hw hwo)

lemma frame_inbound: "keeps frame (setup_inbound P bas win)"
  unfolding setup_inbound_def Let_def
  by (intro keeps_bind keeps_return frame_fields; intro frame_hw hwo)

lemma frame_interrupts: "keeps frame (open_interrupts P bas)"
  unfolding open_interrupts_def brcm_pcie_open_gic400_def brcm_pcie_close_gic400_def brcm_msi_demux_enable_def
    brcm_msi_set_regs_def Let_def
  by (intro keeps_bind keeps_fetch keeps_if keeps_return frame_fields; intro frame_hw hwo)

lemma frame_brcm_probe: "keeps frame (brcm_pcie_probe P D mhs n)"
proof (rule keepsI)
  fix w :: "'a world"
  let ?c = "brcm_devtree_parse D (ctl w)"
  let ?w = "w\<lparr>ctl := snd ?c\<rparr>"
  let ?rest = "do {
       set_ctl (\<lambda>c. c\<lparr>bus_number_base := n, bus_number_last := n\<rparr>);
       c \<leftarrow> get_ctl;
       reset_bridge P (base c);
       case brcm_pcie_dma_window D c of
         Inl e \<Rightarrow> done_with (Inl e)
       | Inr win \<Rightarrow> do {
           ret \<leftarrow> pci_get_devtree_regions P D mhs win;
           if ret \<noteq> Ok then done_with ret
           else do {
             setup_inbound P (base c) win;
             ret \<leftarrow> start_link P (base c);
             if ret \<noteq> Ok then done_with ret
             else do {
               c \<leftarrow> get_ctl;
               ret \<leftarrow> outbound_loop P (regions c) 0;
               if ret \<noteq> Ok then done_with ret
               else do {
                 setup_root_port P (base c);
                 open_interrupts P (base c)
               }
             }
           }
         }
     }"
  have "keeps frame ?rest"
    by (intro keeps_bind keeps_fetch keeps_sum keeps_if keeps_return frame_fields frame_regions_probe frame_inbound
        frame_interrupts; intro frame_hw hwo)
  then have "frame (snd (run_state ?rest ?w)) = frame ?w" by (rule keepsD)
  moreover have "frame ?w = frame w" by (simp add: frame_def irq_core_def parse_keeps)
  moreover have "snd (run_state (brcm_pcie_probe P D mhs n) w) =
      (if fst ?c \<noteq> Ok then ?w else snd (run_state ?rest ?w))"
    by (simp add: brcm_pcie_probe_def del: bind_assoc)
  ultimately show "frame (snd (run_state (brcm_pcie_probe P D mhs n) w)) = frame w" by simp
qed

section \<open>Opening the hardware succeeds completely or not at all\<close>

definition closed :: "'h lib \<Rightarrow> bool" where
  "closed b \<longleftrightarrow> \<not> ctrl b \<and> root_bus b = None \<and> dev_list_head b = None \<and> \<not> ctrl_ready b \<and> dma_pool b = 0"

definition opened :: "'h lib \<Rightarrow> bool" where
  "opened b \<longleftrightarrow> ctrl b \<and> root_bus b \<noteq> None \<and> ctrl_ready b \<and> dma_pool b \<noteq> 0 \<and> listed b \<and> irq_inv (core b)"

definition counters :: "'h lib \<Rightarrow> _" where
  "counters b = (open_cnt b, delexp b, in_lib_list b, seg_list b, semaphore b, client b)"

text \<open>The library describes the hardware: the list shows what the core has enumerated.\<close>

definition describes :: "'h lib \<Rightarrow> bool" where
  "describes b \<longleftrightarrow> (\<exists>prev. built b prev (enumerated (core b))) \<and> tree_ok (core b) \<and> irq_inv (core b)"

lemma rest_counters: "base_rest b' = base_rest b \<Longrightarrow> counters b' = counters b"
  by (simp add: base_rest_def counters_def)

lemma soft_invariants:
  assumes "soft b' = soft b"
  shows "tree_ok (core b') = tree_ok (core b)" "irq_init (core b') = irq_init (core b)"
  using assms by (simp_all add: soft_def tree_ok_def irq_init_def)

lemma run_err_root_bus:
  "\<exists>w. run_state (err_root_bus P) b = (Some False, b\<lparr>core := w, ctrl := False\<rparr>)"
  by (simp add: err_root_bus_def err_probe_def free_ctrl_def case_prod_beta) (rule exI, rule refl)

lemma err_dev_list_closed:
  assumes "\<not> ctrl_ready b" and "dma_pool b = 0" and run: "run_state (err_dev_list P) b = (r, b')"
  shows "r = Some False" "closed b'" "counters b' = counters b"
proof -
  let ?b1 = "snd (run_state (pcie_free_dev_list P) b)"
  have rest: "base_rest ?b1 = base_rest b" by (rule keepsD [OF unlistedD(2) [OF free_dev_list(1)]])
  let ?b2 = "?b1\<lparr>core := (core ?b1)\<lparr>hw := exec_free P (hw (core ?b1))\<rparr>, root_bus := None\<rparr>"
  obtain w where w: "run_state (err_root_bus P) ?b2 = (Some False, ?b2\<lparr>core := w, ctrl := False\<rparr>)"
    using run_err_root_bus by blast
  have "(r, b') = (Some False, ?b2\<lparr>core := w, ctrl := False\<rparr>)"
    using run w by (simp add: err_dev_list_def free_root_def case_prod_beta)
  then have rb: "r = Some False" "b' = ?b2\<lparr>core := w, ctrl := False\<rparr>" by simp_all
  show "r = Some False" by (rule rb)
  have "ctrl_ready ?b1 = ctrl_ready b" "dma_pool ?b1 = dma_pool b" using rest by (simp_all add: base_rest_def)
  then show "closed b'" using assms free_dev_list(2) [of P b] by (simp add: rb(2) closed_def)
  show "counters b' = counters b" using rest by (simp add: rb(2) counters_def base_rest_def)
qed

lemma publish_outcome:
  assumes "ctrl b" "root_bus b \<noteq> None" "dev_list_head b = None" "\<not> ctrl_ready b" "dma_pool b = 0"
    and "tree_ok (core b)" and "irq_init (core b)" and run: "run_state (publish P S) b = (r, b')"
  shows "counters b' = counters b \<and> (r = Some True \<and> opened b' \<and> describes b' \<or> r = Some False \<and> closed b')"
proof -
  let ?b1 = "b\<lparr>core := snd (run_state (delay_ms P 1) (snd (run_state (bcm2711_reload_vl805_firmware P) (core b))))\<rparr>"
  obtain res b2 where b2: "run_state (pcie_build_dev_list P) ?b1 = (res, b2)" by (metis surj_pair)
  have hw: "hw_only (bcm2711_reload_vl805_firmware P)" "hw_only (delay_ms P 1)"
    unfolding bcm2711_reload_vl805_firmware_def by (intro hwo)+
  then have soft1: "soft ?b1 = soft b" by (simp add: soft_def)
  have head1: "dev_list_head ?b1 = None" using assms(3) by simp
  note list = build_dev_list_built [OF head1 b2]
  have soft2: "soft b2 = soft b" using list(1) soft1 by simp
  have rest2: "ctrl b2" "root_bus b2 \<noteq> None" "\<not> ctrl_ready b2" "dma_pool b2 = 0" "counters b2 = counters b"
    using list(2) assms by (auto simp: base_rest_def counters_def)
  show ?thesis
  proof (cases "res = Ok")
    case False
    then have "run_state (err_dev_list P) b2 = (r, b')"
      using run b2 by (simp add: publish_def case_prod_beta)
    from err_dev_list_closed [OF rest2(3,4) this] show ?thesis using rest2(5) by simp
  next
    case True
    define pool where "pool = fst (dma_create S (hw (core b2)))"
    let ?b3 = "b2\<lparr>ctrl_ready := True, core := (core b2)\<lparr>hw := snd (dma_create S (hw (core b2)))\<rparr>, dma_pool := pool\<rparr>"
    have step: "run_state (publish P S) b = run_state (if pool = 0 then err_dma_pool P else done_with (Some True)) ?b3"
      using b2 True by (simp add: publish_def case_prod_beta pool_def)
    show ?thesis
    proof (cases "pool = 0")
      case pool: True
      have "run_state (err_dev_list P) (?b3\<lparr>ctrl_ready := False\<rparr>) = (r, b')"
        using run step pool by (simp add: err_dma_pool_def)
      from err_dev_list_closed [OF _ _ this] show ?thesis using pool rest2(5) by (simp add: counters_def)
    next
      case False
      then have r: "r = Some True" "b' = ?b3" using run step by simp_all
      have soft3: "soft b' = soft b2" by (simp add: r(2) soft_def)
      obtain prev where prev: "built b2 prev (enumerated (core b2))" using list(3) True by blast
      moreover have "enumerated (core b') = enumerated (core b2)"
        unfolding enumerated_def soft_functions [OF soft3] by (rule refl)
      ultimately have "built b' prev (enumerated (core b'))" by (simp add: r(2) built_def dev_list_def)
      moreover have "tree_ok (core b')" "irq_init (core b')"
        using soft_invariants [OF soft3] soft_invariants [OF soft2] assms(6,7) by simp_all
      moreover have "counters b' = counters b" using rest2(5) by (simp add: r(2) counters_def)
      ultimately show ?thesis
        using r rest2 False irq_init_inv built_listed by (auto simp: opened_def describes_def r(2))
    qed
  qed
qed

lemma bring_up_outcome:
  assumes "ctrl b" "root_bus b \<noteq> None" "dev_list_head b = None" "\<not> ctrl_ready b" "dma_pool b = 0"
    and "tree_ok (core b)" "irq_init (core b)" "rb < next_bus (core b)"
    and run: "run_state (bring_up n P S rb) b = (r, b')"
  shows "r = None \<or> counters b' = counters b \<and> (r = Some True \<and> opened b' \<and> describes b' \<or> r = Some False \<and> closed b')"
proof -
  obtain res w1 where w1: "run_state (pci_bind_bus_devices P rb) (core b) = (res, w1)" by (metis surj_pair)
  obtain r2 w2 where w2: "run_state (pci_auto_config_devices n P rb) w1 = (r2, w2)" by (metis surj_pair)
  have g1: "grows (core b) w1" by (rule growD [OF grow_bind_devices assms(6,8) w1, THEN conjunct1])
  then have t1: "tree_ok w1" "rb < next_bus w1" using assms(6,8) by (auto simp: grows_def tree_le_def)
  have i1: "irq_init w1" by (rule preserves_run [OF quiet_bind_devices assms(7) w1])
  have t2: "tree_ok w2" using growD [OF auto_config_grow t1 w2] t1 by (simp add: grows_def)
  have quiet: "preserves irq_init (pci_auto_config_devices n P rb)"
    unfolding pci_auto_config_devices_def by (rule prober.quiet_auto_config)
  have i2: "irq_init w2" by (rule preserves_run [OF quiet i1 w2])
  let ?b1 = "b\<lparr>core := w1\<rparr>" and ?b2 = "b\<lparr>core := w2\<rparr>"
  have undo: "counters b' = counters b \<and> r = Some False \<and> closed b'"
    if "run_state (err_dev_list P) (b\<lparr>core := w\<rparr>) = (r, b')" for w
    using err_dev_list_closed [OF _ _ that] assms(4,5) by (simp add: counters_def)
  show ?thesis
  proof (cases "res = Ok \<and> (r2 = None \<or> r2 = Some Ok)")
    case False
    then have "\<exists>w. run_state (err_dev_list P) (b\<lparr>core := w\<rparr>) = (r, b')"
      using run w1 w2 by (cases "res = Ok"; cases r2) (auto simp: bring_up_def split: if_splits)
    then show ?thesis using undo by blast
  next
    case True
    then have "r = None \<or> run_state (publish P S) ?b2 = (r, b')"
      using run w1 w2 by (auto simp: bring_up_def)
    then show ?thesis
      using publish_outcome [of ?b2 P S r b'] assms t2 i2 by (auto simp: counters_def)
  qed
qed

lemma root_tree:
  fixes v w w' :: "'h world"
  assumes "frame w = frame (fresh_core v)" and run: "run_state (pci_create_bus P None None) w = (r, w')"
  shows "irq_init w'" "r = Inr rb \<Longrightarrow> tree_ok w' \<and> rb < next_bus w' \<and> pci_bridge (bus w' rb) = None"
proof -
  have f: "buses (ctl w) = []" "next_bus w = 0" "next_dev w = 0" "irq_core w = irq_core (fresh_core v)"
    using assms(1) by (simp_all add: frame_def fresh_core_def blank_controller_def)
  then have "msi_used (ctl w) = 0" "msi_servers (ctl w) = (\<lambda>_. None)"
    "mode (dev w d) = 0 \<and> nvec (dev w d) = 0 \<and> intx_server (dev w d) = None" for d
    using core_facts [OF f(4)] by (simp_all add: fresh_core_def blank_controller_def blank_device_def)
  then show "irq_init w'"
    using run by (auto simp: pci_create_bus_def irq_init_def split: if_splits)
  assume "r = Inr rb"
  then have "rb = 0" "buses (ctl w') = [0]" "next_bus w' = 1" "next_dev w' = 0" "bus w' 0 = blank_bus"
    using run f by (auto simp: pci_create_bus_def blank_bus_def split: if_splits)
  then show "tree_ok w' \<and> rb < next_bus w' \<and> pci_bridge (bus w' rb) = None"
    by (auto simp: tree_ok_def blank_bus_def)
qed

lemma hw_init_outcome:
  assumes "closed b" and run: "run_state (pcie_hw_init n P S D mhs) b = (r, b')"
  shows "r = None \<or> counters b' = counters b \<and> (r = Some True \<and> opened b' \<and> describes b' \<or> r = Some False \<and> closed b')"
proof (cases "fst (exec_alloc P (hw (core b)))")
  case False
  then show ?thesis
    using run assms(1) by (auto simp: pcie_hw_init_def closed_def counters_def)
next
  case True
  let ?v = "(core b)\<lparr>hw := snd (exec_alloc P (hw (core b)))\<rparr>"
  obtain res w1 where w1: "run_state (brcm_pcie_probe P D mhs 0) (fresh_core ?v) = (res, w1)" by (metis surj_pair)
  obtain rb w2 where w2: "run_state (pci_create_bus P None None) w1 = (rb, w2)" by (metis surj_pair)
  have "frame w1 = frame (fresh_core ?v)" by (rule keeps_run [OF frame_brcm_probe w1])
  note root = root_tree [OF this w2]
  let ?b1 = "b\<lparr>ctrl := True, core := w1\<rparr>"
  let ?b2 = "b\<lparr>ctrl := True, core := w2, root_bus := (case rb of Inl e \<Rightarrow> None | Inr rb \<Rightarrow> Some rb)\<rparr>"
  have step: "(r, b') = (if res \<noteq> Ok then run_state (err_probe P) ?b1
      else run_state (case rb of Inl e \<Rightarrow> err_root_bus P | Inr rb \<Rightarrow> bring_up n P S rb) ?b2)"
    using run True w1 w2 by (cases "res = Ok") (simp_all add: pcie_hw_init_def)
  show ?thesis
  proof (cases "res = Ok")
    case False
    then show ?thesis
      using step assms(1) by (simp add: err_probe_def free_ctrl_def closed_def counters_def)
  next
    case ok: True
    show ?thesis
    proof (cases rb)
      case (Inl e)
      obtain w where "run_state (err_root_bus P) ?b2 = (Some False, ?b2\<lparr>core := w, ctrl := False\<rparr>)"
        using run_err_root_bus by blast
      then show ?thesis using step ok Inl assms(1) by (simp add: closed_def counters_def)
    next
      case (Inr c)
      then have "run_state (bring_up n P S c) ?b2 = (r, b')" using step ok by simp
      from bring_up_outcome [OF _ _ _ _ _ _ _ _ this] show ?thesis
        using root Inr assms(1) by (simp add: closed_def counters_def)
    qed
  qed
qed

lemma open_outcome:
  assumes "closed b" and "run_state (LibOpen n P S D mhs) b = (Some ok, b')"
  shows "if ok then opened b' \<and> describes b' \<and>
      counters b' = (open_cnt b + 1, False, in_lib_list b, seg_list b, semaphore b, client b)
    else closed b' \<and> counters b' = counters b"
proof -
  let ?b = "b\<lparr>semaphore := Suc (semaphore b)\<rparr>"
  obtain r b1 where b1: "run_state (pcie_hw_init n P S D mhs) ?b = (r, b1)" by (metis surj_pair)
  have ok: "r = Some ok" and b': "b' = (if ok then b1\<lparr>open_cnt := open_cnt b1 + 1, delexp := False,
      semaphore := semaphore b1 - 1\<rparr> else b1\<lparr>semaphore := semaphore b1 - 1\<rparr>)"
    using assms b1 by (auto simp: LibOpen_def run_locked closed_def Let_def split: if_splits)
  have "closed ?b" using assms(1) by (simp add: closed_def)
  from hw_init_outcome [OF this b1] have
    out: "counters b1 = counters ?b" "if ok then opened b1 \<and> describes b1 else closed b1" using ok by auto
  show ?thesis
  proof (cases ok)
    case True
    then show ?thesis using out by (simp add: b' opened_def listed_def describes_def built_def dev_list_def counters_def)
  qed (use out in \<open>simp add: b' closed_def counters_def\<close>)
qed


section \<open>The first open returns\<close>

lemma err_returns: "fst (run_state (err_root_bus P) b) = Some False" "fst (run_state (err_dev_list P) b) = Some False"
proof -
  show one: "fst (run_state (err_root_bus P) b) = Some False" for b :: "'a lib"
    using run_err_root_bus [of P b] by auto
  show "fst (run_state (err_dev_list P) b) = Some False"
    by (simp add: err_dev_list_def case_prod_beta one)
qed

lemma publish_returns: "fst (run_state (publish P S) b) \<noteq> None"
  by (auto simp: publish_def case_prod_beta err_dma_pool_def err_returns)

lemma bring_up_returns:
  assumes "finite_memory P m" "tree_ok (core b)" "rb < next_bus (core b)" "pci_bridge (bus (core b) rb) = None"
  shows "\<exists>k. \<forall>n \<ge> k. fst (run_state (bring_up n P S rb) b) \<noteq> None"
proof -
  obtain res w1 where w1: "run_state (pci_bind_bus_devices P rb) (core b) = (res, w1)" by (metis surj_pair)
  have "grows (core b) w1" by (rule growD [OF grow_bind_devices assms(2,3) w1, THEN conjunct1])
  then have t1: "tree_ok w1" "rb < next_bus w1" "pci_bridge (bus w1 rb) = None"
    using assms(2-4) by (auto simp: grows_def tree_le_def)
  have "fst (run_state (pci_auto_config_devices n P rb) w1) \<noteq> None" if "Suc (m (hw w1)) \<le> n" for n
    using auto_config_enough [OF assms(1) t1] that by simp
  then have "fst (run_state (bring_up n P S rb) b) \<noteq> None" if "Suc (m (hw w1)) \<le> n" for n
    using that w1 publish_returns
    by (fastforce simp: bring_up_def case_prod_beta err_returns split: option.splits)
  then show ?thesis by blast
qed

lemma hw_init_returns:
  assumes "finite_memory P m"
  shows "\<exists>k. \<forall>n \<ge> k. fst (run_state (pcie_hw_init n P S D mhs) b) \<noteq> None"
proof (cases "fst (exec_alloc P (hw (core b)))")
  case True
  let ?v = "(core b)\<lparr>hw := snd (exec_alloc P (hw (core b)))\<rparr>"
  obtain res w1 where w1: "run_state (brcm_pcie_probe P D mhs 0) (fresh_core ?v) = (res, w1)" by (metis surj_pair)
  obtain rb w2 where w2: "run_state (pci_create_bus P None None) w1 = (rb, w2)" by (metis surj_pair)
  have "frame w1 = frame (fresh_core ?v)" by (rule keeps_run [OF frame_brcm_probe w1])
  note root = root_tree [OF this w2]
  show ?thesis
  proof (cases "\<exists>c. res = Ok \<and> rb = Inr c")
    case False
    have "fst (run_state (pcie_hw_init n P S D mhs) b) \<noteq> None" for n
      using False True w1 w2
      by (cases "res = Ok"; cases rb) (auto simp: pcie_hw_init_def err_probe_def free_ctrl_def case_prod_beta err_returns)
    then show ?thesis by blast
  next
    case ok: True
    then obtain c where c: "res = Ok" "rb = Inr c" by blast
    let ?b2 = "b\<lparr>ctrl := True, core := w2, root_bus := Some c\<rparr>"
    have "run_state (pcie_hw_init n P S D mhs) b = run_state (bring_up n P S c) ?b2" for n
      using True w1 w2 c by (simp add: pcie_hw_init_def)
    then show ?thesis using bring_up_returns [OF assms, of ?b2 c S] root(2) [OF c(2)] by simp
  qed
qed (auto simp: pcie_hw_init_def)



section \<open>The hardware is up exactly while the library is open\<close>

lemma shutdown_closes:
  assumes "run_state (pcie_hw_shutdown P S) b = (u, b')"
  shows "closed b'" "counters b' = counters b"
proof -
  let ?b1 = "snd (run_state (pcie_free_dev_list P) b)"
  have rest: "counters ?b1 = counters b"
    by (rule rest_counters [OF keepsD [OF unlistedD(2) [OF free_dev_list(1)]]])
  show "closed b'" "counters b' = counters b"
    using assms rest free_dev_list(2) [of P b]
    by (auto simp: pcie_hw_shutdown_def free_root_def free_ctrl_def case_prod_beta closed_def counters_def
        split: if_splits)
qed

lemma base_view_listed:
  assumes "base_view b' = base_view b"
  shows "listed b' = listed b"
proof -
  have links: "pd_next (pdevs b' p) = pd_next (pdevs b p) \<and> pd_pred (pdevs b' p) = pd_pred (pdevs b p)" for p
    using assms by (simp add: base_view_def fun_eq_iff)
  then have "chain (pdevs b') pr h ps = chain (pdevs b) pr h ps" for pr h ps by (intro chain_cong) simp
  then show ?thesis using assms by (simp add: listed_def dev_list_def base_view_def)
qed

text \<open>
  The life of the library as Exec and its clients drive it: an open while the library is in
  the list and its counter not at the top, a close of an open library, an attempt to
  expunge it, and any call of a client that has it open.
\<close>

datatype lib_event = Open bool | Close u32 | Expunge u32 | Call lib_call

inductive lib_step ::
    "nat \<Rightarrow> 'h platform \<Rightarrow> 'h services \<Rightarrow> devtree \<Rightarrow> mem_header list \<Rightarrow> 'h lib \<Rightarrow> lib_event \<Rightarrow> 'h lib \<Rightarrow> bool"
  for n P S D mhs where
  open_step: "in_lib_list b \<Longrightarrow> open_cnt b < 0xFFFF \<Longrightarrow> run_state (LibOpen n P S D mhs) b = (Some ok, b') \<Longrightarrow>
     lib_step n P S D mhs b (Open ok) b'"
| close_step: "in_lib_list b \<Longrightarrow> 0 < open_cnt b \<Longrightarrow> run_state (LibClose P S) b = (seg, b') \<Longrightarrow>
     lib_step n P S D mhs b (Close seg) b'"
| expunge_step: "in_lib_list b \<Longrightarrow> run_state (LibExpunge P) b = (seg, b') \<Longrightarrow> lib_step n P S D mhs b (Expunge seg) b'"
| call_step: "0 < open_cnt b \<Longrightarrow> run_state (run_call P S c) b = (u, b') \<Longrightarrow> lib_step n P S D mhs b (Call c) b'"

inductive lib_run ::
    "nat \<Rightarrow> 'h platform \<Rightarrow> 'h services \<Rightarrow> devtree \<Rightarrow> mem_header list \<Rightarrow> 'h lib \<Rightarrow> lib_event list \<Rightarrow> 'h lib \<Rightarrow> bool"
  for n P S D mhs where
  lib_stop: "lib_run n P S D mhs b [] b"
| lib_more: "lib_step n P S D mhs b e b1 \<Longrightarrow> lib_run n P S D mhs b1 es b' \<Longrightarrow> lib_run n P S D mhs b (e # es) b'"

inductive_cases lib_step_openE: "lib_step n P S D mhs b (Open ok) b'"
inductive_simps lib_run_simps: "lib_run n P S D mhs b [] b'" "lib_run n P S D mhs b (e # es) b'"

definition lib_inv :: "'h lib \<Rightarrow> bool" where
  "lib_inv b \<longleftrightarrow> (if open_cnt b = 0 then closed b else opened b) \<and> (in_lib_list b \<or> open_cnt b = 0) \<and>
     (delexp b \<and> in_lib_list b \<longrightarrow> open_cnt b \<noteq> 0)"

lemma count_suc:
  fixes c :: u16
  shows "c + 1 \<noteq> 0 \<Longrightarrow> int (unat (c + 1)) = int (unat c) + 1"
  using unat_minus_one [of "c + 1"] by (cases "unat (c + 1)") (simp_all add: unat_eq_zero)

lemma count_up:
  fixes c :: u16
  shows "c < 0xFFFF \<Longrightarrow> c + 1 \<noteq> 0"
proof
  assume *: "c < 0xFFFF" "c + 1 = 0"
  then have "c = - 1" by (metis add_eq_0_iff add.commute)
  with *(1) show False by simp
qed

lemma lib_step_open:
  assumes "lib_inv b" "in_lib_list b" and "open_cnt b < 0xFFFF"
    and run: "run_state (LibOpen n P S D mhs) b = (Some ok, b')"
  shows "lib_inv b'"
proof (cases "open_cnt b = 0")
  case True
  then have "closed b" "\<not> delexp b" using assms(1,2) by (auto simp: lib_inv_def)
  from open_outcome [OF this(1) run] show ?thesis
    using True \<open>\<not> delexp b\<close> assms(2) by (auto simp: lib_inv_def counters_def split: if_splits)
next
  case False
  then have up: "opened b" using assms(1) by (simp add: lib_inv_def)
  then have "b' = b\<lparr>open_cnt := open_cnt b + 1, delexp := False\<rparr>"
    using run by (auto simp: LibOpen_def run_locked opened_def)
  then show ?thesis using up count_up [OF assms(3)] assms(2)
    by (simp add: lib_inv_def opened_def listed_def dev_list_def)
qed

lemma expunge_inv:
  assumes "lib_inv b" and run: "run_state (LibExpunge P) b = (seg, b')"
  shows "lib_inv b'" "open_cnt b' = open_cnt b" "semaphore b' = semaphore b"
  using assms
  by (auto simp: LibExpunge_def lib_inv_def opened_def closed_def listed_def dev_list_def word_gt_0 split: if_splits)

lemma close_inv:
  assumes "lib_inv b" "0 < open_cnt b" and run: "run_state (LibClose P S) b = (seg, b')"
  shows "lib_inv b'" "open_cnt b' = open_cnt b - 1" "semaphore b' = semaphore b"
proof -
  let ?b = "b\<lparr>semaphore := Suc (semaphore b), open_cnt := open_cnt b - 1\<rparr>"
  obtain u b1 where b1: "run_state (only_if (open_cnt b - 1 = 0) (pcie_hw_shutdown P S)) ?b = (u, b1)" by (metis surj_pair)
  let ?b2 = "b1\<lparr>semaphore := semaphore b1 - 1\<rparr>"
  have fin: "(seg, b') = (if open_cnt b1 = 0 \<and> delexp b1 then run_state (LibExpunge P) ?b2 else (0, ?b2))"
    using run b1 by (auto simp: LibClose_def run_locked)
  have up: "opened b" "in_lib_list b" using assms(1,2) by (auto simp: lib_inv_def)
  have one: "counters b1 = counters ?b" "if open_cnt b - 1 = 0 then closed b1 else opened b1"
  proof -
    have "counters b1 = counters ?b \<and> (if open_cnt b - 1 = 0 then closed b1 else opened b1)"
    proof (cases "open_cnt b - 1 = 0")
      case True
      then show ?thesis using b1 shutdown_closes [of P S ?b] by auto
    next
      case False
      then show ?thesis using b1 up(1)
        by (auto simp: opened_def listed_def dev_list_def counters_def)
    qed
    then show "counters b1 = counters ?b" "if open_cnt b - 1 = 0 then closed b1 else opened b1" by simp_all
  qed
  have two: "counters ?b2 = counters (b\<lparr>open_cnt := open_cnt b - 1\<rparr>)"
      "if open_cnt b - 1 = 0 then closed ?b2 else opened ?b2"
    using one by (auto simp: counters_def opened_def closed_def listed_def dev_list_def split: if_splits)
  have "lib_inv b' \<and> open_cnt b' = open_cnt b - 1 \<and> semaphore b' = semaphore b"
  proof (cases "open_cnt b1 = 0 \<and> delexp b1")
    case True
    then have "b' = ?b2\<lparr>in_lib_list := False, core := (core b1)\<lparr>hw := exec_free P (hw (core b1))\<rparr>\<rparr>"
      using fin by (simp add: LibExpunge_def)
    then show ?thesis using two True by (auto simp: lib_inv_def closed_def counters_def)
  next
    case False
    then have "b' = ?b2" using fin by (simp only: if_False prod.inject)
    then show ?thesis using two False up(2) by (auto simp: lib_inv_def counters_def)
  qed
  then show "lib_inv b'" "open_cnt b' = open_cnt b - 1" "semaphore b' = semaphore b" by simp_all
qed

lemma call_inv:
  assumes "lib_inv b" "0 < open_cnt b" and run: "run_state (run_call P S c) b = (u, b')"
  shows "lib_inv b'" "open_cnt b' = open_cnt b" "semaphore b' = semaphore b"
proof -
  have view: "base_view b' = base_view b" by (rule keeps_run [OF tameD(1) [OF tame_call] run])
  have up: "opened b" using assms(1,2) by (auto simp: lib_inv_def)
  then have inv: "irq_inv (core b)" by (simp add: opened_def)
  have "irq_inv (core b')" by (rule preserves_run [OF tameD(2) [OF tame_call] inv run])
  then have "opened b'" using up view base_view_listed [OF view] by (simp add: opened_def base_view_def)
  then show "lib_inv b'" "open_cnt b' = open_cnt b" "semaphore b' = semaphore b"
    using assms(1,2) view by (auto simp: lib_inv_def base_view_def)
qed

text \<open>What an event means for the number of clients.\<close>

fun opens :: "lib_event \<Rightarrow> int" where
  "opens (Open ok) = (if ok then 1 else 0)"
| "opens (Close seg) = - 1"
| "opens _ = 0"

lemma open_count:
  assumes "lib_inv b" "in_lib_list b" "open_cnt b < 0xFFFF" and run: "run_state (LibOpen n P S D mhs) b = (Some ok, b')"
  shows "int (unat (open_cnt b')) = int (unat (open_cnt b)) + opens (Open ok)"
proof -
  have "open_cnt b' = (if ok then open_cnt b + 1 else open_cnt b)"
  proof (cases "open_cnt b = 0")
    case True
    then have "closed b" using assms(1) by (simp add: lib_inv_def)
    from open_outcome [OF this run] show ?thesis by (auto simp: counters_def split: if_splits)
  next
    case False
    then have "opened b" using assms(1) by (simp add: lib_inv_def)
    then show ?thesis using run by (auto simp: LibOpen_def run_locked opened_def)
  qed
  then show ?thesis using count_suc [OF count_up [OF assms(3)]] by auto
qed

lemma open_semaphore:
  assumes "lib_inv b" and run: "run_state (LibOpen n P S D mhs) b = (Some ok, b')"
  shows "semaphore b' = semaphore b"
proof (cases "open_cnt b = 0")
  case True
  then have "closed b" using assms(1) by (simp add: lib_inv_def)
  from open_outcome [OF this run] show ?thesis by (auto simp: counters_def split: if_splits)
next
  case False
  then have "opened b" using assms(1) by (simp add: lib_inv_def)
  then show ?thesis using run by (auto simp: LibOpen_def run_locked opened_def)
qed

lemma lib_step_inv:
  assumes "lib_step n P S D mhs b e b'" and "lib_inv b"
  shows "lib_inv b' \<and> semaphore b' = semaphore b \<and> int (unat (open_cnt b')) = int (unat (open_cnt b)) + opens e"
  using assms(1)
proof cases
  case open_step
  then show ?thesis
    using lib_step_open [OF assms(2)] open_count [OF assms(2)] open_semaphore [OF assms(2)] by metis
next
  case close_step
  then show ?thesis using close_inv [OF assms(2)] count_suc [of "open_cnt b - 1"] by (simp add: word_gt_0)
next
  case expunge_step
  then show ?thesis using expunge_inv [OF assms(2)] by auto
next
  case call_step
  then show ?thesis using call_inv [OF assms(2)] by auto
qed

lemma lib_run_inv:
  "lib_run n P S D mhs b es b' \<Longrightarrow> lib_inv b \<Longrightarrow>
     lib_inv b' \<and> semaphore b' = semaphore b \<and>
     int (unat (open_cnt b')) = int (unat (open_cnt b)) + sum_list (map opens es)"
  by (induction rule: lib_run.induct) (use lib_step_inv in fastforce)+

lemma gone_for_good: "lib_inv b \<Longrightarrow> \<not> in_lib_list b \<Longrightarrow> \<not> lib_step n P S D mhs b e b'"
  by (auto simp: lib_inv_def elim: lib_step.cases)


section \<open>Witnesses\<close>

text \<open>On the bare machine the library comes up with an empty list.\<close>

lemma bare_firmware: "\<exists>h. run_state (bcm2711_reload_vl805_firmware bare_platform) w = (Ok, w\<lparr>hw := h\<rparr>)"
  by (simp add: bcm2711_reload_vl805_firmware_def bare_platform_def ram_platform_def vl805_command_def delay_us_def)
    (rule exI, rule refl)

lemma bare_publish:
  assumes "buses (ctl (core b)) = [c]" "bus_number (bus (core b) c) = 0" "devices (bus (core b) c) = []"
  shows "fst (run_state (publish bare_platform ram_services) b) = Some True"
proof -
  obtain h where h: "run_state (bcm2711_reload_vl805_firmware bare_platform) (core b) = (Ok, (core b)\<lparr>hw := h\<rparr>)"
    using bare_firmware by blast
  show ?thesis using assms
    by (simp add: publish_def h delay_ms_def pcie_build_dev_list_def bus_indices_def pci_get_bus_max_def
        pci_get_bus_def ram_services_def)
qed

lemma config_init_buses: "buses (pciauto_config_init c) = buses c"
  by (simp add: pciauto_config_init_def Let_def)

lemma bare_hw_init:
  assumes "budget (hw (core b)) = Suc (Suc (Suc m))" "lines (hw (core b)) = (\<lambda>_. None)"
  shows "fst (run_state (pcie_hw_init n bare_platform ram_services bare_devtree example_memory) b) = Some True"
proof -
  let ?w = "fresh_core ((core b)\<lparr>hw := snd (ram_alloc (hw (core b)))\<rparr>)"
  obtain res w1 where w1: "run_state (brcm_pcie_probe bare_platform bare_devtree example_memory 0) ?w = (res, w1)"
    by (metis surj_pair)
  have hw: "budget (hw ?w) = Suc (Suc m)" "lines (hw ?w) = (\<lambda>_. None)" "ctl ?w = blank_controller"
    using assms by (simp_all add: ram_alloc_def fresh_core_def)
  have ok: "res = Ok" "budget (hw w1) = Suc m" using bare_probe [OF hw(3,1,2)] w1 by simp_all
  have f: "frame w1 = frame ?w" by (rule keeps_run [OF frame_brcm_probe w1])
  then have f': "buses (ctl w1) = []" "next_bus w1 = 0" by (simp_all add: frame_def fresh_core_def blank_controller_def)
  show ?thesis
    using assms w1 ok f'
    by (simp add: pcie_hw_init_def bare_fields ram_alloc_def pci_create_bus_def bring_up_def bare_auto_config
        bare_publish blank_bus_def config_init_buses)
qed

lemma bare_open: "fst (run_state (LibOpen n bare_platform ram_services bare_devtree example_memory) blank_lib) = Some True"
proof -
  let ?b = "blank_lib\<lparr>semaphore := Suc (semaphore blank_lib)\<rparr>"
  have "fst (run_state (pcie_hw_init n bare_platform ram_services bare_devtree example_memory) ?b) = Some True"
    by (rule bare_hw_init [where m = 997]) (simp_all add: blank_lib_def example_world_def ram_init_def)
  moreover have "\<not> ctrl_ready blank_lib" by (simp add: blank_lib_def)
  ultimately show ?thesis by (simp add: LibOpen_def run_locked case_prod_beta)
qed

lemma blank_closed: "closed blank_lib" "open_cnt blank_lib = 0" "in_lib_list blank_lib" "\<not> delexp blank_lib"
  by (simp_all add: closed_def blank_lib_def)

definition bare_lib :: "ram_hw lib" where
  "bare_lib = snd (run_state (LibOpen 1 bare_platform ram_services bare_devtree example_memory) blank_lib)"


text \<open>An open, a search, an expunge that has to wait and the close that carries it out.\<close>

definition bare_end :: "ram_hw lib" where
  "bare_end = snd (run_state (LibClose bare_platform ram_services) (bare_lib\<lparr>delexp := True\<rparr>))"

lemma bare_run:
  "\<exists>seg. lib_run 1 bare_platform ram_services bare_devtree example_memory blank_lib
     [Open True, Call PCIBus, Expunge 0, Close seg] bare_end"
proof -
  let ?step = "lib_step 1 bare_platform ram_services bare_devtree example_memory"
  have run: "run_state (LibOpen 1 bare_platform ram_services bare_devtree example_memory) blank_lib = (Some True, bare_lib)"
    using bare_open by (simp add: bare_lib_def prod_eq_iff)
  then have up: "open_cnt bare_lib = 1" "in_lib_list bare_lib"
    using open_outcome [OF blank_closed(1) run] by (simp_all add: counters_def blank_closed)
  have "?step blank_lib (Open True) bare_lib"
    by (rule open_step [OF _ _ run]) (simp_all add: blank_closed)
  moreover have "?step bare_lib (Call PCIBus) bare_lib"
    by (rule call_step) (simp_all add: up void_def LibPCIBus_def)
  moreover have "?step bare_lib (Expunge 0) (bare_lib\<lparr>delexp := True\<rparr>)"
    by (rule expunge_step) (simp_all add: up LibExpunge_def)
  moreover obtain seg where "run_state (LibClose bare_platform ram_services) (bare_lib\<lparr>delexp := True\<rparr>) = (seg, bare_end)"
    by (metis bare_end_def surj_pair snd_conv)
  then have "?step (bare_lib\<lparr>delexp := True\<rparr>) (Close seg) bare_end"
    by (intro close_step) (simp_all add: up)
  ultimately show ?thesis by (auto simp: lib_run_simps)
qed


end
