(* ===== verification/Openpci_Shim.thy ===== *)
theory Openpci_Shim
  imports Lib_Life
begin

text \<open>
  \<open>openpci.library\<close> (\<open>openpci.library/src/openpci_main.c\<close>): a library that holds
  \<open>bcmpcie.library\<close> open while it is open itself, and forwards its vectors to it.

  \<open>OpenLibrary\<close> and \<open>CloseLibrary\<close> belong to Exec and are arguments of the definitions; the
  safety theorem runs them on the model of \<open>bcmpcie.library\<close>, whose \<open>LibOpen\<close> and \<open>LibClose\<close>
  Exec calls for them.
\<close>

section \<open>The base and its vectors\<close>

record 'x shim =
  env :: 'x  \<comment> \<open>the system behind it\<close>
  bcm_base :: bool  \<comment> \<open>\<open>bcmBase\<close> is not \<open>NULL\<close>\<close>
  shim_cnt :: u16
  shim_delexp :: bool
  shim_listed :: bool  \<comment> \<open>in Exec's library list, the base not freed\<close>
  shim_seg :: u32

definition env_do :: "('x, 'a) state \<Rightarrow> ('x shim, 'a) state" where
  "env_do m = State (\<lambda>s. (fst (run_state m (env s)), s\<lparr>env := snd (run_state m (env s))\<rparr>))"

definition ShimExpunge :: "('x shim, u32) state" where
  "ShimExpunge = do {
     seg \<leftarrow> fetch shim_seg;
     cnt \<leftarrow> fetch shim_cnt;
     if cnt > 0 then do { modify (\<lambda>s. s\<lparr>shim_delexp := True\<rparr>); done_with 0 }
     else do { modify (\<lambda>s. s\<lparr>shim_listed := False\<rparr>); done_with seg }
   }"

definition ShimClose :: "('x, unit) state \<Rightarrow> ('x shim, u32) state" where
  "ShimClose close_library = do {
     modify (\<lambda>s. s\<lparr>shim_cnt := shim_cnt s - 1\<rparr>);
     cnt \<leftarrow> fetch shim_cnt;
     if cnt = 0 then do {
       env_do close_library;
       modify (\<lambda>s. s\<lparr>bcm_base := False\<rparr>);
       flag \<leftarrow> fetch shim_delexp;
       if flag then ShimExpunge else done_with 0
     } else done_with 0
   }"

text \<open>As for \<open>LibOpen\<close>: \<open>None\<close> is out of fuel, \<open>Some False\<close> is \<open>NULL\<close>.\<close>

definition ShimOpen :: "('x, bool option) state \<Rightarrow> ('x shim, bool option) state" where
  "ShimOpen open_library = do {
     held \<leftarrow> fetch bcm_base;
     r \<leftarrow> (if \<not> held then do {
            r \<leftarrow> env_do open_library;
            modify (\<lambda>s. s\<lparr>bcm_base := (r = Some True)\<rparr>);
            done_with r
          } else done_with (Some True));
     (if r = Some True then modify (\<lambda>s. s\<lparr>shim_cnt := shim_cnt s + 1, shim_delexp := False\<rparr>) else skip);
     done_with r
   }"

definition ShimInit :: "u32 \<Rightarrow> ('x shim, unit) state" where
  "ShimInit seglist = modify (\<lambda>s. s\<lparr>shim_seg := seglist, bcm_base := False\<rparr>)"

lemma run_env_do [simp]:
  "run_state (env_do m) s = (fst (run_state m (env s)), s\<lparr>env := snd (run_state m (env s))\<rparr>)"
  by (simp add: env_do_def)

section \<open>The trampolines\<close>

text \<open>
  The vectors behind the four standard ones, the first at offset \<open>-30\<close> and each 6 bytes
  below the last, of both libraries, and the jumps of \<open>openpci_trampolines.S\<close>.
\<close>

definition shim_table :: "string list" where
  "shim_table = [
    ''ShimPCIBus'', ''ShimPCIInb'', ''ShimPCIOutb'', ''ShimPCIInw'', ''ShimPCIOutw'',
    ''ShimPCIInl'', ''ShimPCIOutl'', ''ShimPCIToHostCpy'', ''ShimHostToPCICpy'',
    ''ShimPCIToPCICpy'', ''ShimFindDevice'', ''ShimFindClass'', ''ShimFindSlot'',
    ''ShimReadConfigByte'', ''ShimReadConfigWord'', ''ShimReadConfigLong'',
    ''ShimWriteConfigByte'', ''ShimWriteConfigWord'', ''ShimWriteConfigLong'', ''ShimSetMaster'',
    ''ShimAddIntServer'', ''ShimRemIntServer'', ''ShimAllocDMAMem'', ''ShimFreeDMAMem'',
    ''ShimLogicToPhysic'', ''ShimPhysicToLogic'', ''ShimObtainCard'', ''ShimReleaseCard'',
    ''LibNull'', ''ShimFindBoardA'', ''ShimGetBoardAttrsA'', ''ShimSetBoardAttrsA'',
    ''ShimAllocDMAForBoard'', ''ShimReleaseDMAForBoard'', ''ShimAddMemHandler'',
    ''ShimRemMemHandler'', ''ShimObtainPCIRegion'', ''ShimReleasePCIRegion'']"

definition lib_table :: "string list" where
  "lib_table = [
    ''LibPCIBus'', ''LibPCIInb'', ''LibPCIOutb'', ''LibPCIInw'', ''LibPCIOutw'', ''LibPCIInl'',
    ''LibPCIOutl'', ''LibPCIToHostCpy'', ''LibHostToPCICpy'', ''LibPCIToPCICpy'',
    ''LibFindDevice'', ''LibFindClass'', ''LibFindSlot'', ''LibReadConfigByte'',
    ''LibReadConfigWord'', ''LibReadConfigLong'', ''LibWriteConfigByte'', ''LibWriteConfigWord'',
    ''LibWriteConfigLong'', ''LibSetMaster'', ''LibAddIntServer'', ''LibRemIntServer'',
    ''LibAllocDMAMem'', ''LibFreeDMAMem'', ''LibLogicToPhysic'', ''LibPhysicToLogic'',
    ''LibObtainCard'', ''LibReleaseCard'', ''LibPrivate'', ''LibFindBoardA'',
    ''LibGetBoardAttrsA'', ''LibSetBoardAttrsA'', ''LibAllocDMAForBoard'',
    ''LibReleaseDMAForBoard'', ''LibAddMemHandler'', ''LibRemMemHandler'',
    ''LibObtainPCIRegion'', ''LibReleasePCIRegion'', ''LibFindCapability'',
    ''LibFindExtCapability'', ''LibEnableMSI'', ''LibDisableMSI'', ''LibFLR'',
    ''LibReadExtConfigByte'', ''LibReadExtConfigWord'', ''LibReadExtConfigLong'',
    ''LibWriteExtConfigByte'', ''LibWriteExtConfigWord'', ''LibWriteExtConfigLong'',
    ''LibMaskMSI'', ''LibUnmaskMSI'', ''LibCheckSetINTxMask'', ''LibAllocIntVectors'',
    ''LibFreeIntVectors'', ''LibAddIntVectorServer'', ''LibRemIntVectorServer'',
    ''LibMaskIntVector'', ''LibUnmaskIntVector'', ''LibGetIntVectorType'']"

definition trampolines :: "(string \<times> int) list" where
  "trampolines = [
    (''ShimPCIBus'', - 30), (''ShimPCIInb'', - 36), (''ShimPCIOutb'', - 42),
    (''ShimPCIInw'', - 48), (''ShimPCIOutw'', - 54), (''ShimPCIInl'', - 60),
    (''ShimPCIOutl'', - 66), (''ShimPCIToHostCpy'', - 72), (''ShimHostToPCICpy'', - 78),
    (''ShimPCIToPCICpy'', - 84), (''ShimFindDevice'', - 90), (''ShimFindClass'', - 96),
    (''ShimFindSlot'', - 102), (''ShimReadConfigByte'', - 108), (''ShimReadConfigWord'', - 114),
    (''ShimReadConfigLong'', - 120), (''ShimWriteConfigByte'', - 126),
    (''ShimWriteConfigWord'', - 132), (''ShimWriteConfigLong'', - 138),
    (''ShimSetMaster'', - 144), (''ShimAddIntServer'', - 150), (''ShimRemIntServer'', - 156),
    (''ShimAllocDMAMem'', - 162), (''ShimFreeDMAMem'', - 168), (''ShimLogicToPhysic'', - 174),
    (''ShimPhysicToLogic'', - 180), (''ShimObtainCard'', - 186), (''ShimReleaseCard'', - 192),
    (''ShimFindBoardA'', - 204), (''ShimGetBoardAttrsA'', - 210),
    (''ShimSetBoardAttrsA'', - 216), (''ShimAllocDMAForBoard'', - 222),
    (''ShimReleaseDMAForBoard'', - 228), (''ShimAddMemHandler'', - 234),
    (''ShimRemMemHandler'', - 240), (''ShimObtainPCIRegion'', - 246),
    (''ShimReleasePCIRegion'', - 252)]"

definition slot_offset :: "nat \<Rightarrow> int" where
  "slot_offset i = - 30 - 6 * int i"

text \<open>A slot forwards when its trampoline jumps to the same slot of the other library, which holds
  the function of that name.\<close>

definition forwards :: "nat \<Rightarrow> bool" where
  "forwards i \<longleftrightarrow> map_of trampolines (shim_table ! i) = Some (slot_offset i) \<and>
     take 4 (shim_table ! i) = ''Shim'' \<and> lib_table ! i = ''Lib'' @ drop 4 (shim_table ! i)"


section \<open>The shim holds the library open\<close>

text \<open>
  The shim over \<open>bcmpcie.library\<close>, with other clients of that library beside it: \<open>k\<close> is how
  often they have it open.  They close only what they opened.
\<close>

datatype sys_event = Shim_Open bool | Shim_Close u32 | Shim_Expunge u32 | Shim_Call lib_call | Other lib_event

inductive sys_step ::
    "nat \<Rightarrow> 'h platform \<Rightarrow> 'h services \<Rightarrow> devtree \<Rightarrow> mem_header list \<Rightarrow>
     int \<times> 'h lib shim \<Rightarrow> sys_event \<Rightarrow> int \<times> 'h lib shim \<Rightarrow> bool"
  for n P S D mhs where
  shim_open: "shim_listed s \<Longrightarrow> shim_cnt s < 0xFFFF \<Longrightarrow> in_lib_list (env s) \<Longrightarrow> open_cnt (env s) < 0xFFFF \<Longrightarrow>
     run_state (ShimOpen (LibOpen n P S D mhs)) s = (Some ok, s') \<Longrightarrow> sys_step n P S D mhs (k, s) (Shim_Open ok) (k, s')"
| shim_close: "0 < shim_cnt s \<Longrightarrow> run_state (ShimClose (void (LibClose P S))) s = (seg, s') \<Longrightarrow>
     sys_step n P S D mhs (k, s) (Shim_Close seg) (k, s')"
| shim_expunge: "shim_listed s \<Longrightarrow> run_state ShimExpunge s = (seg, s') \<Longrightarrow> sys_step n P S D mhs (k, s) (Shim_Expunge seg) (k, s')"
| shim_call: "0 < shim_cnt s \<Longrightarrow> run_state (env_do (run_call P S c)) s = (u, s') \<Longrightarrow>
     sys_step n P S D mhs (k, s) (Shim_Call c) (k, s')"
| other_step: "lib_step n P S D mhs (env s) e b \<Longrightarrow> 0 \<le> k + opens e \<Longrightarrow>
     sys_step n P S D mhs (k, s) (Other e) (k + opens e, s\<lparr>env := b\<rparr>)"

inductive sys_run ::
    "nat \<Rightarrow> 'h platform \<Rightarrow> 'h services \<Rightarrow> devtree \<Rightarrow> mem_header list \<Rightarrow>
     int \<times> 'h lib shim \<Rightarrow> sys_event list \<Rightarrow> int \<times> 'h lib shim \<Rightarrow> bool"
  for n P S D mhs where
  sys_stop: "sys_run n P S D mhs s [] s"
| sys_more: "sys_step n P S D mhs s e s1 \<Longrightarrow> sys_run n P S D mhs s1 es s' \<Longrightarrow> sys_run n P S D mhs s (e # es) s'"

inductive_simps sys_run_simps: "sys_run n P S D mhs s [] s'" "sys_run n P S D mhs s (e # es) s'"

fun sys_inv :: "int \<times> 'h lib shim \<Rightarrow> bool" where
  "sys_inv (k, s) \<longleftrightarrow> lib_inv (env s) \<and> 0 \<le> k \<and> int (unat (open_cnt (env s))) = k + (if bcm_base s then 1 else 0) \<and>
     (bcm_base s \<longleftrightarrow> shim_cnt s \<noteq> 0) \<and> (shim_listed s \<or> shim_cnt s = 0)"

lemma shim_open_inv:
  assumes "sys_inv (k, s)" "shim_listed s" "shim_cnt s < 0xFFFF" "in_lib_list (env s)" "open_cnt (env s) < 0xFFFF"
    and run: "run_state (ShimOpen (LibOpen n P S D mhs)) s = (Some ok, s')"
  shows "sys_inv (k, s')"
proof (cases "bcm_base s")
  case True
  then have "s' = s\<lparr>shim_cnt := shim_cnt s + 1, shim_delexp := False\<rparr>" using run by (simp add: ShimOpen_def)
  then show ?thesis using assms(1,2) True count_suc [of "shim_cnt s"] count_up [OF assms(3)] by simp
next
  case False
  obtain r b where opn: "run_state (LibOpen n P S D mhs) (env s) = (r, b)" by (metis surj_pair)
  have r: "r = Some ok" and s': "s' = s\<lparr>env := b, bcm_base := ok, shim_cnt := shim_cnt s + of_bool ok,
      shim_delexp := (shim_delexp s \<and> \<not> ok)\<rparr>"
    using run opn False by (auto simp: ShimOpen_def split: if_splits)
  have "lib_step n P S D mhs (env s) (Open ok) b" using opn r assms(4,5) by (intro open_step) simp_all
  from lib_step_inv [OF this] show ?thesis
    using assms(1,2) False count_up [OF assms(3)] by (cases ok) (auto simp: s')
qed

lemma shim_close_inv:
  assumes "sys_inv (k, s)" "0 < shim_cnt s" and run: "run_state (ShimClose (void (LibClose P S))) s = (seg, s')"
  shows "sys_inv (k, s')"
proof (cases "shim_cnt s - 1 = 0")
  case False
  then have "s' = s\<lparr>shim_cnt := shim_cnt s - 1\<rparr>" using run by (simp add: ShimClose_def)
  then show ?thesis using assms(1,2) False by (auto simp: word_gt_0)
next
  case True
  obtain u b where cls: "run_state (LibClose P S) (env s) = (u, b)" by (metis surj_pair)
  have s': "s' = s\<lparr>env := b, bcm_base := False, shim_cnt := 0,
      shim_listed := (shim_listed s \<and> \<not> shim_delexp s)\<rparr>"
    using run cls True by (auto simp: ShimClose_def ShimExpunge_def void_def split: if_splits)
  have held: "bcm_base s" "lib_inv (env s)" "0 \<le> k" "int (unat (open_cnt (env s))) = k + 1"
    using assms(1,2) by (auto simp: word_gt_0)
  then have "open_cnt (env s) \<noteq> 0" by auto
  then have "lib_step n P S D mhs (env s) (Close u) b" for n D mhs
    using cls held(2) by (intro close_step) (auto simp: lib_inv_def word_gt_0)
  from lib_step_inv [OF this held(2)] show ?thesis using held by (simp add: s')
qed

lemma sys_step_inv:
  assumes "sys_step n P S D mhs z e z'" and "sys_inv z"
  shows "sys_inv z'"
  using assms(1)
proof cases
  case (shim_open s ok s' k)
  then show ?thesis using shim_open_inv assms(2) by blast
next
  case (shim_close s seg s' k)
  then show ?thesis using shim_close_inv assms(2) by blast
next
  case (shim_expunge s seg s' k)
  then show ?thesis using assms(2) by (auto simp: ShimExpunge_def word_gt_0 split: if_splits)
next
  case (shim_call s c u s' k)
  then have "sys_inv (k, s)" using assms(2) by simp
  then have "0 < open_cnt (env s)" using shim_call(4) by (cases "open_cnt (env s) = 0") (auto simp: word_gt_0)
  then have "lib_step n P S D mhs (env s) (Call c) (env s')"
    using shim_call(5) by (intro lib_step.call_step [of _ _ _ _ u]) (auto simp: prod_eq_iff)
  from lib_step_inv [OF this] show ?thesis using shim_call assms(2) by auto
next
  case (other_step s e b k)
  from lib_step_inv [OF other_step(4)] show ?thesis using other_step assms(2) by auto
qed

lemma sys_run_inv: "sys_run n P S D mhs z es z' \<Longrightarrow> sys_inv z \<Longrightarrow> sys_inv z'"
  by (induction rule: sys_run.induct) (use sys_step_inv in blast)+


definition blank_shim :: "ram_hw lib shim" where
  "blank_shim = \<lparr>env = blank_lib, bcm_base = False, shim_cnt = 0, shim_delexp = False, shim_listed = True, shim_seg = 0\<rparr>"

definition open_shim :: "ram_hw lib shim" where
  "open_shim = blank_shim\<lparr>env := bare_lib, bcm_base := True, shim_cnt := 1\<rparr>"


end
