(* ===== verification/Lspci.thy ===== *)
theory Lspci
  imports Lib_Life
begin

text \<open>
  \<open>lspci\<close> (\<open>lspci/src/pcie_list.c\<close>): the tool that prints every function of the public list, a
  client of \<open>bcmpcie.library\<close> that only reads.

  What it prints is a list of lines; a line is a constructor per \<open>Printf\<close> with the values it
  formats.  The local variables that a \<open>GetBoardAttrs\<close> call fills are longwords of \<open>client\<close>
  from an address \<open>sp\<close> on.  A task is printed by its address.
\<close>

section \<open>The names of identifiers\<close>

definition name_of :: "(u32 \<times> string) list \<Rightarrow> u32 \<Rightarrow> string" where
  "name_of names i = (case map_of names i of Some s \<Rightarrow> s | None \<Rightarrow> ''Unknown'')"

definition pci_capability_name :: "u8 \<Rightarrow> string" where
  "pci_capability_name i = name_of [
     (PCI_CAP_ID_PM, ''Power Management''), (PCI_CAP_ID_AGP, ''AGP''), (PCI_CAP_ID_VPD, ''VPD''),
     (PCI_CAP_ID_SLOTID, ''Slot Identification''), (PCI_CAP_ID_MSI, ''MSI''),
     (PCI_CAP_ID_CHSWP, ''Hot Swap''), (PCI_CAP_ID_PCIX, ''PCI-X''),
     (PCI_CAP_ID_HT, ''HyperTransport''), (PCI_CAP_ID_VNDR, ''Vendor-Specific''),
     (PCI_CAP_ID_DBG, ''Debug''), (PCI_CAP_ID_SHPC, ''Hot-Plug''),
     (PCI_CAP_ID_SSVID, ''Subsystem ID''), (PCI_CAP_ID_EXP, ''PCI Express''),
     (PCI_CAP_ID_MSIX, ''MSI-X''), (PCI_CAP_ID_SATA, ''SATA''),
     (PCI_CAP_ID_AF, ''Advanced Features''), (PCI_CAP_ID_EA, ''Enhanced Allocation'')] (ucast i)"

definition pcie_ext_capability_name :: "u16 \<Rightarrow> string" where
  "pcie_ext_capability_name i = name_of [
     (PCI_EXT_CAP_ID_ERR, ''Advanced Error Reporting''), (PCI_EXT_CAP_ID_VC, ''Virtual Channel''),
     (PCI_EXT_CAP_ID_DSN, ''Device Serial Number''), (PCI_EXT_CAP_ID_PWR, ''Power Budgeting''),
     (PCI_EXT_CAP_ID_RCLD, ''RC Link Declaration''), (PCI_EXT_CAP_ID_RCILC, ''RC Internal Link''),
     (PCI_EXT_CAP_ID_RCEC, ''RC Event Collector''), (PCI_EXT_CAP_ID_MFVC, ''Multi-Function VC''),
     (PCI_EXT_CAP_ID_ACS, ''Access Control Services''),
     (PCI_EXT_CAP_ID_ARI, ''Alternate Routing ID''),
     (PCI_EXT_CAP_ID_ATS, ''Address Translation Services''), (PCI_EXT_CAP_ID_SRIOV, ''SR-IOV''),
     (PCI_EXT_CAP_ID_MRIOV, ''MR-IOV''), (PCI_EXT_CAP_ID_REBAR, ''Resizable BAR''),
     (PCI_EXT_CAP_ID_DPA, ''Dynamic Power Allocation''), (PCI_EXT_CAP_ID_TPH, ''TPH Requester''),
     (PCI_EXT_CAP_ID_LTR, ''Latency Tolerance Reporting''), (PCI_EXT_CAP_ID_PASID, ''PASID''),
     (PCI_EXT_CAP_ID_PRI, ''Page Request Interface''),
     (PCI_EXT_CAP_ID_DPC, ''Downstream Port Containment''),
     (PCI_EXT_CAP_ID_L1SS, ''L1 PM Substates''),
     (PCI_EXT_CAP_ID_PTM, ''Precision Time Measurement''),
     (PCI_EXT_CAP_ID_VNDR, ''Vendor-Specific'')] (ucast i)"

definition pci_header_type_name :: "u8 \<Rightarrow> string" where
  "pci_header_type_name i = name_of [
     (PCI_HEADER_TYPE_NORMAL, ''Endpoint''), (PCI_HEADER_TYPE_BRIDGE, ''PCI-to-PCI Bridge''),
     (PCI_HEADER_TYPE_CARDBUS, ''CardBus Bridge'')] (ucast i)"

definition pci_ea_bei_name :: "u8 \<Rightarrow> string" where
  "pci_ea_bei_name i = name_of [
     (PCI_EA_BEI_BAR0, ''BAR0''), (PCI_EA_BEI_BAR0 + 1, ''BAR1''), (PCI_EA_BEI_BAR0 + 2, ''BAR2''),
     (PCI_EA_BEI_BAR0 + 3, ''BAR3''), (PCI_EA_BEI_BAR0 + 4, ''BAR4''), (PCI_EA_BEI_BAR5, ''BAR5''),
     (PCI_EA_BEI_BRIDGE, ''Bridge window''), (PCI_EA_BEI_ENI, ''Equivalent Not Indicated''),
     (PCI_EA_BEI_ROM, ''Expansion ROM''), (PCI_EA_BEI_VF_BAR0, ''VF BAR0''),
     (PCI_EA_BEI_VF_BAR0 + 1, ''VF BAR1''), (PCI_EA_BEI_VF_BAR0 + 2, ''VF BAR2''),
     (PCI_EA_BEI_VF_BAR0 + 3, ''VF BAR3''), (PCI_EA_BEI_VF_BAR0 + 4, ''VF BAR4''),
     (PCI_EA_BEI_VF_BAR5, ''VF BAR5'')] (ucast i)"

definition pci_ea_property_name :: "u8 \<Rightarrow> string" where
  "pci_ea_property_name i = name_of [
     (PCI_EA_P_MEM, ''Non-prefetchable memory''), (PCI_EA_P_MEM_PREFETCH, ''Prefetchable memory''),
     (PCI_EA_P_IO, ''I/O space''), (PCI_EA_P_VF_MEM_PREFETCH, ''VF prefetchable memory''),
     (PCI_EA_P_VF_MEM, ''VF non-prefetchable memory''),
     (PCI_EA_P_BRIDGE_MEM, ''Bridge non-prefetchable memory''),
     (PCI_EA_P_BRIDGE_MEM_PREFETCH, ''Bridge prefetchable memory''),
     (PCI_EA_P_BRIDGE_IO, ''Bridge I/O space''), (PCI_EA_P_MEM_RESERVED, ''Reserved memory''),
     (PCI_EA_P_IO_RESERVED, ''Reserved I/O''), (PCI_EA_P_UNAVAILABLE, ''Unavailable'')] (ucast i)"

section \<open>The lines\<close>

datatype (plugins only: code size) line =
    Bar_Line nat u32 u32  \<comment> \<open>number, address, size\<close>
  | Device_Line u32 u32 u32 u16 u16 "u32 \<times> u32 \<times> u32"  \<comment> \<open>bus, device, function, identifiers, class\<close>
  | Owner_Line task
  | Machine_Line u32 u32 u32 u16 u16 "u32 \<times> u32 \<times> u32" "task option" "(nat \<times> u32 \<times> u32) list"
  | Bus_Numbers_Line u8 u8 u8 u8
  | Io_Range_Line u32 u32 u32
  | Io_Upper_Line u16 u16
  | Mem_Range_Line u32 u32
  | Pref_Range64_Line u32 u32 u32 u32
  | Pref_Range_Line u32 u32
  | Bridge_Status_Line u16 u16
  | Ea_Line u32 u32 u8 string u8 string bool bool
  | Ea_U64_Line string u64
  | Ea_Count_Line u8
  | Ea_Bus_Line u8 u8
  | Ea_No_Bus_Line
  | Ea_Fail_Line u32
  | Class_Line u8 u8 u8 u8
  | Command_Line u16 u16
  | Cap_Pointer_Line u8
  | Interrupt_Line u8 u8
  | Header_Line u8 string
  | Multi_Line
  | No_Caps_Line
  | Caps_Line
  | Cap_Line u32 u32 string u8
  | Dwords_Line u32 u32
  | Msi_Line u16 u32
  | Msix_Line u16 u32 u32
  | Exp_Line u16
  | Ext_Caps_Line
  | Ext_Cap_Line u32 u32 string u32 u32
  | End_Line
  | No_Library_Line

section \<open>Attributes\<close>

text \<open>The locals are cleared, filled by the library through their addresses, and read.\<close>

fun put_clients :: "(u32 \<times> u32) list \<Rightarrow> ('h lib, unit) state" where
  "put_clients [] = skip"
| "put_clients ((a, v) # avs) = do { put_client a v; put_clients avs }"

definition local_attrs :: "'h platform \<Rightarrow> u32 \<Rightarrow> pdev_id \<Rightarrow> u32 list \<Rightarrow> ('h lib, u32 list) state" where
  "local_attrs P sp p tags = do {
     let addrs = map (\<lambda>i. sp + 4 * of_nat i) [0..<length tags];
     put_clients (map (\<lambda>a. (a, 0)) addrs);
     _ \<leftarrow> LibGetBoardAttrsA P (Some p) (Some (zip tags addrs @ [(TAG_DONE, 0)]));
     fetch (\<lambda>b. map (client b) addrs)
   }"

definition addr_tags :: "u32 list" where
  "addr_tags = [PRM_MemoryAddr0, PRM_MemoryAddr1, PRM_MemoryAddr2, PRM_MemoryAddr3, PRM_MemoryAddr4, PRM_MemoryAddr5]"

definition size_tags :: "u32 list" where
  "size_tags = [PRM_MemorySize0, PRM_MemorySize1, PRM_MemorySize2, PRM_MemorySize3, PRM_MemorySize4, PRM_MemorySize5]"

text \<open>The entries of the six BARs that are printed: number, address and size.\<close>

definition printed_size :: "u32 \<Rightarrow> u32" where
  "printed_size sz = (if sz \<noteq> 0 then NOT sz + 1 else 0)"

definition bar_entries :: "u32 list \<Rightarrow> (nat \<times> u32 \<times> u32) list" where
  "bar_entries vals = filter (\<lambda>(i, a, s). a \<noteq> 0 \<or> s \<noteq> 0)
     (map (\<lambda>i. (i, vals ! i, printed_size (vals ! (6 + i)))) [0..<6])"

definition list_bars :: "'h platform \<Rightarrow> u32 \<Rightarrow> pdev_id \<Rightarrow> ('h lib, line list) state" where
  "list_bars P sp p = do {
     vals \<leftarrow> local_attrs P sp p (addr_tags @ size_tags);
     done_with (map (\<lambda>(i, a, s). Bar_Line i a s) (bar_entries vals))
   }"

definition class_bytes :: "pci_dev \<Rightarrow> u32 \<times> u32 \<times> u32" where
  "class_bytes v = (drop_bit 16 (pd_devclass v) AND 0xFF, drop_bit 8 (pd_devclass v) AND 0xFF, pd_devclass v AND 0xFF)"

definition print_device :: "'h platform \<Rightarrow> u32 \<Rightarrow> pdev_id \<Rightarrow> ('h lib, line list) state" where
  "print_device P sp p = do {
     vals \<leftarrow> local_attrs P sp p [PRM_BusNumber, PRM_BoardOwner];
     v \<leftarrow> fetch (\<lambda>b. pdevs b p);
     bars \<leftarrow> list_bars P sp p;
     done_with (Device_Line (vals ! 0) (drop_bit 3 (ucast (pd_devfn v)) AND 0x1F) (ucast (pd_devfn v) AND 7)
         (pd_vendor v) (pd_device v) (class_bytes v) #
       (if vals ! 1 \<noteq> 0 then [Owner_Line (vals ! 1)] else []) @ bars)
   }"

definition print_device_machine :: "'h platform \<Rightarrow> u32 \<Rightarrow> pdev_id \<Rightarrow> ('h lib, line list) state" where
  "print_device_machine P sp p = do {
     vals \<leftarrow> local_attrs P sp p ([PRM_BusNumber, PRM_BoardOwner] @ addr_tags @ size_tags);
     v \<leftarrow> fetch (\<lambda>b. pdevs b p);
     done_with [Machine_Line (vals ! 0) (drop_bit 3 (ucast (pd_devfn v)) AND 0x1F) (ucast (pd_devfn v) AND 7)
       (pd_vendor v) (pd_device v) (class_bytes v) (if vals ! 1 \<noteq> 0 then Some (vals ! 1) else None)
       (bar_entries (drop 2 vals))]
   }"

section \<open>Bridges\<close>

text \<open>The I/O window: its base and its limit.\<close>

definition io_range :: "u8 \<Rightarrow> u8 \<Rightarrow> u16 \<Rightarrow> u16 \<Rightarrow> u32 \<times> u32" where
  "io_range io_base io_limit base_upper limit_upper =
     (let bs = push_bit 8 (ucast (io_base AND 0xF0));
          lim = push_bit 8 (ucast (io_limit AND 0xF0)) OR 0xFFF in
      if ucast io_base AND PCI_IO_RANGE_TYPE_MASK = PCI_IO_RANGE_TYPE_32
      then (bs OR push_bit 16 (ucast base_upper), push_bit 16 (ucast limit_upper) OR lim)
      else (bs, lim))"

text \<open>The base and the limit of a memory window, of which \<open>msk\<close> selects the address bits.\<close>

definition mem_range :: "u32 \<Rightarrow> u16 \<Rightarrow> u16 \<Rightarrow> u32 \<times> u32" where
  "mem_range msk lo hi =
     (push_bit 16 (ucast lo AND msk), push_bit 16 (ucast hi AND msk) OR 0xFFFFF)"

definition dump_bridge_config :: "'h platform \<Rightarrow> pdev_id \<Rightarrow> ('h lib, line list) state" where
  "dump_bridge_config P p = do {
     l0 \<leftarrow> LibReadConfigLong P (ucast PCI_PRIMARY_BUS) (Some p);
     l1 \<leftarrow> LibReadConfigLong P (ucast PCI_PRIMARY_BUS) (Some p);
     l2 \<leftarrow> LibReadConfigLong P (ucast PCI_PRIMARY_BUS) (Some p);
     l3 \<leftarrow> LibReadConfigLong P (ucast PCI_PRIMARY_BUS) (Some p);
     io_base \<leftarrow> LibReadConfigByte P (ucast PCI_IO_BASE) (Some p);
     io_limit \<leftarrow> LibReadConfigByte P (ucast PCI_IO_LIMIT) (Some p);
     io_base_upper \<leftarrow> LibReadConfigWord P (ucast PCI_IO_BASE_UPPER16) (Some p);
     io_limit_upper \<leftarrow> LibReadConfigWord P (ucast PCI_IO_LIMIT_UPPER16) (Some p);
     mem_base \<leftarrow> LibReadConfigWord P (ucast PCI_MEMORY_BASE) (Some p);
     mem_limit \<leftarrow> LibReadConfigWord P (ucast PCI_MEMORY_LIMIT) (Some p);
     pref_base \<leftarrow> LibReadConfigWord P (ucast PCI_PREF_MEMORY_BASE) (Some p);
     pref_limit \<leftarrow> LibReadConfigWord P (ucast PCI_PREF_MEMORY_LIMIT) (Some p);
     pref_base_upper \<leftarrow> LibReadConfigLong P (ucast PCI_PREF_BASE_UPPER32) (Some p);
     pref_limit_upper \<leftarrow> LibReadConfigLong P (ucast PCI_PREF_LIMIT_UPPER32) (Some p);
     sec_status \<leftarrow> LibReadConfigWord P (ucast PCI_SEC_STATUS) (Some p);
     bridge_ctrl \<leftarrow> LibReadConfigWord P (ucast PCI_BRIDGE_CONTROL) (Some p);
     let io = io_range io_base io_limit io_base_upper io_limit_upper;
     let mem = mem_range PCI_MEMORY_RANGE_MASK mem_base mem_limit;
     let pref = mem_range PCI_PREF_RANGE_MASK pref_base pref_limit;
     let io_type = (ucast io_base :: u32) AND PCI_IO_RANGE_TYPE_MASK;
     done_with (
       [Bus_Numbers_Line (ucast (l0 AND 0xFF)) (ucast (drop_bit 8 l1 AND 0xFF)) (ucast (drop_bit 16 l2 AND 0xFF))
          (ucast (drop_bit 24 l3 AND 0xFF)),
        Io_Range_Line io_type (fst io) (snd io)] @
       (if io_type = PCI_IO_RANGE_TYPE_32 then [Io_Upper_Line io_base_upper io_limit_upper] else []) @
       [Mem_Range_Line (fst mem) (snd mem),
        if ucast pref_base AND PCI_PREF_RANGE_TYPE_MASK = PCI_PREF_RANGE_TYPE_64
        then Pref_Range64_Line pref_base_upper (fst pref) pref_limit_upper (snd pref)
        else Pref_Range_Line (fst pref) (snd pref),
        Bridge_Status_Line sec_status bridge_ctrl])
   }"

section \<open>Enhanced Allocation\<close>

definition ea_entry_size :: "u32 \<Rightarrow> u32" where
  "ea_entry_size dw0 = push_bit 2 ((dw0 AND PCI_EA_ES) + 1)"

definition ea_property :: "u32 \<Rightarrow> u8" where
  "ea_property dw0 =
     (let primary = (ucast (drop_bit 8 (dw0 AND PCI_EA_PP)) :: u8);
          secondary = (ucast (drop_bit 16 (dw0 AND PCI_EA_SP)) :: u8) in
      if (ucast primary :: u32) > PCI_EA_P_BRIDGE_IO \<and> (ucast primary :: u32) < PCI_EA_P_MEM_RESERVED
      then secondary else primary)"

text \<open>A field of 32 bits at \<open>off\<close>, of 64 bits when its flag says so, and the offset behind it: the high
  words follow the two low words.\<close>

definition ea_high :: "'h platform \<Rightarrow> pdev_id \<Rightarrow> u32 \<Rightarrow> u32 \<Rightarrow> ('h lib, u64 \<times> u32) state" where
  "ea_high P p lo off =
     (if lo AND PCI_EA_IS_64 \<noteq> 0 then do {
        hi \<leftarrow> LibReadConfigLong P (ucast off) (Some p);
        done_with (ucast (lo AND PCI_EA_FIELD_MASK) OR push_bit 32 (ucast hi), off + 4)
      } else done_with (ucast (lo AND PCI_EA_FIELD_MASK), off))"

definition ea_limit :: "u64 \<Rightarrow> u64 \<Rightarrow> u64" where
  "ea_limit start max_offset = start + (max_offset OR 3)"

definition ea_length :: "u64 \<Rightarrow> u64 \<Rightarrow> u64" where
  "ea_length start limit = (if limit \<ge> start then (limit - start) + 1 else 0)"

definition dump_ea_entry :: "'h platform \<Rightarrow> pdev_id \<Rightarrow> u32 \<Rightarrow> u32 \<Rightarrow> ('h lib, line list \<times> u32) state" where
  "dump_ea_entry P p entry_offset index = do {
     let start_offset = entry_offset;
     dw0 \<leftarrow> LibReadConfigLong P (ucast entry_offset) (Some p);
     let entry_offset = entry_offset + 4;
     let entry_size = ea_entry_size dw0;
     let bei = (ucast (drop_bit 4 (dw0 AND PCI_EA_BEI)) :: u8);
     let prop = ea_property dw0;
     let enabled = (dw0 AND PCI_EA_ENABLE \<noteq> 0);
     let writable = (dw0 AND PCI_EA_WRITABLE \<noteq> 0);
     let hd = Ea_Line index entry_size bei (pci_ea_bei_name bei) prop (pci_ea_property_name prop) enabled writable;
     if \<not> enabled then done_with ([hd], start_offset + entry_size)
     else do {
       base_lo \<leftarrow> LibReadConfigLong P (ucast entry_offset) (Some p);
       let entry_offset = entry_offset + 4;
       max_lo \<leftarrow> LibReadConfigLong P (ucast entry_offset) (Some p);
       let entry_offset = entry_offset + 4;
       (start, entry_offset) \<leftarrow> ea_high P p base_lo entry_offset;
       (max_offset, entry_offset) \<leftarrow> ea_high P p max_lo entry_offset;
       let limit = ea_limit start max_offset;
       let consumed = entry_offset - start_offset;
       done_with ([hd, Ea_U64_Line ''Base'' start, Ea_U64_Line ''Limit'' limit, Ea_U64_Line ''Size'' (ea_length start limit)],
         if consumed < entry_size then start_offset + entry_size else entry_offset)
     }
   }"

text \<open>The loop over the entries; \<open>n\<close> is what is left of them.  The offsets are compared as \<open>s32\<close>.\<close>

fun dump_ea_loop :: "'h platform \<Rightarrow> pdev_id \<Rightarrow> nat \<Rightarrow> u32 \<Rightarrow> u32 \<Rightarrow> ('h lib, line list) state" where
  "dump_ea_loop P p 0 index entry_offset = done_with []"
| "dump_ea_loop P p (Suc n) index entry_offset = do {
     (ls, nxt) \<leftarrow> dump_ea_entry P p entry_offset index;
     if sint nxt \<le> sint entry_offset then done_with (ls @ [Ea_Fail_Line index])
     else do {
       rest \<leftarrow> dump_ea_loop P p n (index + 1) nxt;
       done_with (ls @ rest)
     }
   }"

definition dump_ea_capability :: "'h platform \<Rightarrow> pdev_id \<Rightarrow> u32 \<Rightarrow> u8 \<Rightarrow> ('h lib, line list) state" where
  "dump_ea_capability P p cap_offset header_layout = do {
     num \<leftarrow> LibReadConfigByte P (ucast (cap_offset + PCI_EA_NUM_ENT)) (Some p);
     let num_entries = num AND ucast PCI_EA_NUM_ENT_MASK;
     let bridge = (ucast header_layout = PCI_HEADER_TYPE_BRIDGE);
     buses \<leftarrow> (if bridge then do {
         bus_info \<leftarrow> LibReadConfigLong P (ucast (cap_offset + PCI_EA_FIRST_ENT)) (Some p);
         let sec = (ucast (bus_info AND PCI_EA_SEC_BUS_MASK) :: u8);
         let sub = (ucast (drop_bit PCI_EA_SUB_BUS_SHIFT (bus_info AND PCI_EA_SUB_BUS_MASK)) :: u8);
         done_with [if sec \<noteq> 0 \<and> sub \<ge> sec then Ea_Bus_Line sec sub else Ea_No_Bus_Line]
       } else done_with []);
     entries \<leftarrow> dump_ea_loop P p (unat num_entries) 0
       (cap_offset + (if bridge then PCI_EA_FIRST_ENT_BRIDGE else PCI_EA_FIRST_ENT));
     done_with (Ea_Count_Line num_entries # buses @ entries)
   }"

section \<open>A function in full\<close>

text \<open>The capability with identifier \<open>i\<close>, if the function has it.\<close>

definition list_cap :: "'h platform \<Rightarrow> pdev_id \<Rightarrow> u8 \<Rightarrow> u32 \<Rightarrow> ('h lib, line list) state" where
  "list_cap P p header_layout i = do {
     offset \<leftarrow> LibFindCapability P (Some p) (ucast i);
     if offset = 0 then done_with []
     else do {
       next_ptr \<leftarrow> LibReadConfigByte P (ucast (offset + PCI_CAP_LIST_NEXT)) (Some p);
       dword0 \<leftarrow> LibReadConfigLong P (ucast offset) (Some p);
       dword1 \<leftarrow> LibReadConfigLong P (ucast (offset + 4)) (Some p);
       rest \<leftarrow> (if i = PCI_CAP_ID_MSI then do {
           msg_ctl \<leftarrow> LibReadConfigWord P (ucast (offset + PCI_MSI_FLAGS)) (Some p);
           addr_lo \<leftarrow> LibReadConfigLong P (ucast (offset + PCI_MSI_ADDRESS_LO)) (Some p);
           done_with [Msi_Line msg_ctl addr_lo]
         } else if i = PCI_CAP_ID_MSIX then do {
           msg_ctl \<leftarrow> LibReadConfigWord P (ucast (offset + PCI_MSI_FLAGS)) (Some p);
           table \<leftarrow> LibReadConfigLong P (ucast (offset + 4)) (Some p);
           pba \<leftarrow> LibReadConfigLong P (ucast (offset + 8)) (Some p);
           done_with [Msix_Line msg_ctl table pba]
         } else if i = PCI_CAP_ID_EXP then do {
           exp_flags \<leftarrow> LibReadConfigWord P (ucast (offset + PCI_EXP_FLAGS)) (Some p);
           done_with [Exp_Line exp_flags]
         } else if i = PCI_CAP_ID_EA then dump_ea_capability P p offset header_layout
         else done_with []);
       done_with ([Cap_Line offset i (pci_capability_name (ucast i)) next_ptr, Dwords_Line dword0 dword1] @ rest)
     }
   }"

definition PCI_EXT_CAP_VER :: "u32 \<Rightarrow> u32" where
  "PCI_EXT_CAP_VER header = drop_bit 16 header AND 0xF"

definition list_ext_cap :: "'h platform \<Rightarrow> pdev_id \<Rightarrow> u32 \<Rightarrow> ('h lib, line list) state" where
  "list_ext_cap P p i = do {
     offset \<leftarrow> LibFindExtCapability P (Some p) (ucast i);
     if offset = 0 \<or> offset \<ge> PCI_CFG_SPACE_EXP_SIZE then done_with []
     else do {
       dword0 \<leftarrow> LibReadExtConfigLong P offset (Some p);
       dword1 \<leftarrow> LibReadExtConfigLong P (offset + 4) (Some p);
       done_with [Ext_Cap_Line offset i (pcie_ext_capability_name (ucast i)) (PCI_EXT_CAP_VER dword0) (PCI_EXT_CAP_NEXT dword0),
         Dwords_Line dword0 dword1]
     }
   }"

text \<open>The lines of a loop over identifiers.\<close>

fun collect :: "(u32 \<Rightarrow> ('h lib, line list) state) \<Rightarrow> u32 list \<Rightarrow> ('h lib, line list) state" where
  "collect m [] = done_with []"
| "collect m (i # is) = do { ls \<leftarrow> m i; rest \<leftarrow> collect m is; done_with (ls @ rest) }"

definition up_to :: "u32 \<Rightarrow> u32 list" where
  "up_to n = map of_nat [1..<Suc (unat n)]"

definition probe_pci_device :: "'h platform \<Rightarrow> pdev_id option \<Rightarrow> ('h lib, line list) state" where
  "probe_pci_device P pd = (case pd of
       None \<Rightarrow> done_with []
     | Some p \<Rightarrow> do {
         status \<leftarrow> LibReadConfigWord P (ucast PCI_STATUS) (Some p);
         command \<leftarrow> LibReadConfigWord P (ucast PCI_COMMAND) (Some p);
         rev \<leftarrow> LibReadConfigByte P (ucast PCI_REVISION_ID) (Some p);
         prog_if \<leftarrow> LibReadConfigByte P (ucast PCI_CLASS_PROG) (Some p);
         subclass \<leftarrow> LibReadConfigByte P (ucast PCI_CLASS_DEVICE) (Some p);
         baseclass \<leftarrow> LibReadConfigByte P (ucast (PCI_CLASS_DEVICE + 1)) (Some p);
         cap_pointer \<leftarrow> LibReadConfigByte P (ucast PCI_CAPABILITY_LIST) (Some p);
         int_line \<leftarrow> LibReadConfigByte P (ucast PCI_INTERRUPT_LINE) (Some p);
         int_pin \<leftarrow> LibReadConfigByte P (ucast PCI_INTERRUPT_PIN) (Some p);
         ht \<leftarrow> LibReadConfigByte P (ucast PCI_HEADER_TYPE) (Some p);
         let layout = ht AND 0x7F;
         bridge \<leftarrow> (if ucast layout = PCI_HEADER_TYPE_BRIDGE then dump_bridge_config P p else done_with []);
         caps \<leftarrow> (if (ucast status :: u32) AND PCI_STATUS_CAP_LIST = 0 then done_with [No_Caps_Line]
           else do { ls \<leftarrow> collect (list_cap P p layout) (up_to PCI_CAP_ID_MAX); done_with (Caps_Line # ls) });
         ext \<leftarrow> collect (list_ext_cap P p) (up_to PCI_EXT_CAP_ID_MAX);
         done_with (
           [Class_Line baseclass subclass prog_if rev, Command_Line command status, Cap_Pointer_Line cap_pointer,
            Interrupt_Line int_line int_pin, Header_Line ht (pci_header_type_name layout)] @
           (if ht AND 0x80 \<noteq> 0 then [Multi_Line] else []) @ bridge @ caps @ [Ext_Caps_Line] @ ext @ [End_Line])
       })"

section \<open>The tool\<close>

definition empty_tags :: "(u32 \<times> u32) list" where
  "empty_tags = [(TAG_DONE, 0)]"

definition print_board :: "'h platform \<Rightarrow> u32 \<Rightarrow> bool \<Rightarrow> pdev_id \<Rightarrow> ('h lib, line list) state" where
  "print_board P sp quiet p =
     (if quiet then print_device_machine P sp p
      else do { ls \<leftarrow> print_device P sp p; more \<leftarrow> probe_pci_device P (Some p); done_with (ls @ more) })"

text \<open>
  The loop over the boards, \<open>pd\<close> the one it has reached; \<open>None\<close> is out of fuel or a search that
  does not return.
\<close>

fun board_loop :: "nat \<Rightarrow> 'h platform \<Rightarrow> u32 \<Rightarrow> bool \<Rightarrow> pdev_id option \<Rightarrow> ('h lib, line list option) state" where
  "board_loop n P sp quiet None = done_with (Some [])"
| "board_loop 0 P sp quiet (Some p) = done_with None"
| "board_loop (Suc n) P sp quiet (Some p) = do {
     ls \<leftarrow> print_board P sp quiet p;
     nxt \<leftarrow> LibFindBoardA (Some p) empty_tags;
     case nxt of
       None \<Rightarrow> done_with None
     | Some pd \<Rightarrow> do {
         rest \<leftarrow> board_loop n P sp quiet pd;
         done_with (map_option (\<lambda>rest. ls @ rest) rest)
       }
   }"

text \<open>
  \<open>main\<close>: the return code and the lines.  \<open>OpenLibrary\<close> and \<open>CloseLibrary\<close> are Exec's and
  arguments; \<open>quiet\<close> is what \<open>ReadArgs\<close> found.
\<close>

definition lspci_main :: "nat \<Rightarrow> 'h platform \<Rightarrow> ('h lib, bool option) state \<Rightarrow> ('h lib, unit) state \<Rightarrow> u32 \<Rightarrow> bool \<Rightarrow>
    ('h lib, (u32 \<times> line list) option) state" where
  "lspci_main n P open_library close_library sp quiet = do {
     r \<leftarrow> open_library;
     case r of
       None \<Rightarrow> done_with None
     | Some False \<Rightarrow> done_with (Some (10, [No_Library_Line]))
     | Some True \<Rightarrow> do {
         pd \<leftarrow> LibFindBoardA None empty_tags;
         case pd of
           None \<Rightarrow> done_with None
         | Some pd \<Rightarrow> do {
             out \<leftarrow> board_loop n P sp quiet pd;
             case out of
               None \<Rightarrow> done_with None
             | Some ls \<Rightarrow> do { close_library; done_with (Some (0, ls)) }
           }
       }
   }"

section \<open>The tool only reads\<close>

text \<open>The public list and what its nodes say.\<close>

definition board_view :: "'h lib \<Rightarrow> _" where
  "board_view b = (pdevs b, dev_list_head b, ctrl_ready b)"

named_theorems reads \<open>calls that leave the public list alone\<close>

lemma reads_core [reads]: "keeps board_view (core_do m)"
  by (rule keepsI) (simp add: board_view_def)

lemma reads_client [reads]: "keeps board_view (put_client a v)"
  unfolding put_client_def by (rule keeps_modify) (simp add: board_view_def)

lemma reads_locked [reads]: "keeps board_view m \<Longrightarrow> keeps board_view (locked m)"
  by (intro keepsI) (simp add: run_locked case_prod_beta Let_def board_view_def keeps_def preserves_def)

lemmas [reads] = keeps_return keeps_fetch keeps_bind keeps_if keeps_prod keeps_option keeps_sum

lemma reads_config [reads]:
  "keeps board_view (LibReadConfigByte P r pd)" "keeps board_view (LibReadConfigWord P r pd)"
  "keeps board_view (LibReadConfigLong P r pd)" "keeps board_view (LibReadExtConfigLong P r32 pd)"
  unfolding lib_config_defs config_read_def by (intro reads)+

lemma reads_find [reads]:
  "keeps board_view (LibFindCapability P pd c8)" "keeps board_view (LibFindExtCapability P pd c16)"
  "keeps board_view (LibFindBoardA pd tags)"
  unfolding LibFindCapability_def LibFindExtCapability_def LibFindBoardA_def by (intro reads)+

lemma reads_attr_loop [reads]: "keeps board_view (get_attrs_loop P p tags n)"
  by (induction P p tags n rule: get_attrs_loop.induct)
    (auto intro!: reads simp: get_attr_def config_area_def)

lemma reads_clients [reads]: "keeps board_view (put_clients avs)"
  by (induction avs rule: put_clients.induct) (auto intro!: reads)

lemma reads_attrs [reads]: "keeps board_view (local_attrs P sp p tags)"
  unfolding local_attrs_def LibGetBoardAttrsA_def case_prod_conv Let_def option.case by (intro reads)

lemma reads_print [reads]:
  "keeps board_view (print_device P sp p)" "keeps board_view (print_device_machine P sp p)"
  unfolding print_device_def print_device_machine_def list_bars_def by (intro reads)+

lemma reads_ea [reads]: "keeps board_view (dump_ea_capability P p off layout)"
proof -
  have "keeps board_view (dump_ea_entry P p off index)" for P :: "'a platform" and off index
    unfolding dump_ea_entry_def ea_high_def Let_def by (intro reads)
  then have "keeps board_view (dump_ea_loop P p n index off)" for P :: "'a platform" and n index off
    by (induction P p n index off rule: dump_ea_loop.induct) (auto intro!: reads)
  then show ?thesis unfolding dump_ea_capability_def Let_def by (intro reads)
qed

lemma reads_collect [reads]: "(\<And>i. keeps board_view (m i)) \<Longrightarrow> keeps board_view (collect m is)"
  by (induction m "is" rule: collect.induct) (auto intro!: reads)

lemma reads_probe [reads]: "keeps board_view (probe_pci_device P pd)"
  unfolding probe_pci_device_def dump_bridge_config_def list_cap_def list_ext_cap_def Let_def by (intro reads)

lemma reads_board [reads]: "keeps board_view (print_board P sp quiet p)"
  unfolding print_board_def by (intro reads)

section \<open>Every board is printed once\<close>

text \<open>The identifiers of the boards that a list of lines introduces.\<close>

fun introduces :: "line \<Rightarrow> (u16 \<times> u16) list" where
  "introduces (Device_Line _ _ _ v d _) = [(v, d)]"
| "introduces (Machine_Line _ _ _ v d _ _ _) = [(v, d)]"
| "introduces _ = []"

definition boards_of :: "line list \<Rightarrow> (u16 \<times> u16) list" where
  "boards_of ls = concat (map introduces ls)"

lemma boards_simps [simp]:
  "boards_of [] = []" "boards_of (l # ls) = introduces l @ boards_of ls" "boards_of (ls @ ms) = boards_of ls @ boards_of ms"
  by (simp_all add: boards_of_def)

text \<open>\<open>silent m\<close>: the lines of \<open>m\<close> introduce no board.\<close>

definition silent :: "('h lib, line list) state \<Rightarrow> bool" where
  "silent m \<longleftrightarrow> (\<forall>b. boards_of (fst (run_state m b)) = [])"

lemma silentD [simp]: "silent m \<Longrightarrow> boards_of (fst (run_state m b)) = []"
  by (simp add: silent_def)

lemma silent_return: "boards_of ls = [] \<Longrightarrow> silent (State_Monad.return ls)"
  by (simp add: silent_def)

lemma silent_bind: "(\<And>a. silent (f a)) \<Longrightarrow> silent (State_Monad.bind m f)"
  by (simp add: silent_def case_prod_beta)

lemma silent_if: "(c \<Longrightarrow> silent m) \<Longrightarrow> (\<not> c \<Longrightarrow> silent n) \<Longrightarrow> silent (if c then m else n)"
  by simp

lemma silent_ea: "silent (dump_ea_capability P p off layout)"
proof -
  have one: "boards_of (fst (fst (run_state (dump_ea_entry P p off index) b))) = []" for P :: "'a platform" and p off index b
    by (simp add: dump_ea_entry_def Let_def case_prod_beta)
  have "silent (dump_ea_loop P p n index off)" for P :: "'a platform" and n index off
    by (induction P p n index off rule: dump_ea_loop.induct)
      (simp_all add: silent_def case_prod_beta one)
  then show ?thesis
    by (simp add: silent_def dump_ea_capability_def Let_def case_prod_beta)
qed

lemma silent_bridge: "silent (dump_bridge_config P p)"
  unfolding dump_bridge_config_def Let_def by (intro silent_bind silent_return) simp

lemma silent_cap: "silent (list_cap P p layout i)" "silent (list_ext_cap P p i)"
  unfolding silent_def by (auto simp: list_cap_def list_ext_cap_def case_prod_beta silent_ea)

lemma silent_collect: "(\<And>i. silent (m i)) \<Longrightarrow> silent (collect m is)"
  by (induction m "is" rule: collect.induct) (simp_all add: silent_def case_prod_beta)

lemma silent_probe: "silent (probe_pci_device P (Some p))"
proof -
  have caps: "silent (collect (list_cap P p layout) is)" "silent (collect (list_ext_cap P p) is)" for layout "is"
    by (intro silent_collect silent_cap)+
  show ?thesis
    unfolding silent_def
    by (auto simp: probe_pci_device_def case_prod_beta Let_def caps silent_bridge)
qed

lemma bars_silent: "boards_of (map (\<lambda>(i, a, s). Bar_Line i a s) es) = []"
  by (induction es) auto

lemma board_introduced:
  "boards_of (fst (run_state (print_board P sp quiet p) b)) = [(pd_vendor (pdevs b p), pd_device (pdevs b p))]"
proof -
  have "pdevs (snd (run_state (local_attrs P sp p tags) b)) = pdevs b" for tags
    using keepsD [OF reads_attrs, of P sp p tags b] by (simp add: board_view_def)
  then show ?thesis
    by (simp add: print_board_def print_device_def print_device_machine_def list_bars_def case_prod_beta
        silent_probe bars_silent)
qed

lemma find_next_board:
  assumes "ctrl_ready b" "dev_list b (xs @ p # ys)"
  shows "run_state (LibFindBoardA (Some p) empty_tags) b = (Some (if ys = [] then None else Some (hd ys)), b)"
proof -
  have all: "(\<lambda>q. board_matches b q empty_tags) = (\<lambda>_. True)" for b :: "'a lib" by (simp add: empty_tags_def)
  have "find (\<lambda>_. True) ys = (if ys = [] then None else Some (hd ys))" by (cases ys) simp_all
  then show ?thesis using assms search_after [OF assms(2)]
    by (simp add: LibFindBoardA_def run_locked all search_unlocked)
qed

lemma find_first_board:
  assumes "ctrl_ready b" "dev_list b ps"
  shows "run_state (LibFindBoardA None empty_tags) b = (Some (if ps = [] then None else Some (hd ps)), b)"
proof -
  have all: "(\<lambda>q. board_matches b q empty_tags) = (\<lambda>_. True)" for b :: "'a lib" by (simp add: empty_tags_def)
  have "find (\<lambda>_. True) ps = (if ps = [] then None else Some (hd ps))" by (cases ps) simp_all
  then show ?thesis using assms search_first [OF assms(2)]
    by (simp add: LibFindBoardA_def run_locked all search_unlocked)
qed

lemma same_list:
  assumes "board_view b' = board_view b"
  shows "dev_list b' ps = dev_list b ps" "ctrl_ready b' = ctrl_ready b" "pdevs b' = pdevs b"
  using assms by (simp_all add: board_view_def dev_list_def)

definition ids_of :: "'h lib \<Rightarrow> pdev_id \<Rightarrow> u16 \<times> u16" where
  "ids_of b p = (pd_vendor (pdevs b p), pd_device (pdevs b p))"

lemma board_loop_prints:
  assumes "ctrl_ready b" "dev_list b (xs @ p # ys)" "length ys < n"
  shows "\<exists>out. fst (run_state (board_loop n P sp quiet (Some p)) b) = Some out \<and> boards_of out = map (ids_of b) (p # ys)"
  using assms
proof (induction ys arbitrary: b xs p n)
  case Nil
  obtain m where n: "n = Suc m" using Nil.prems(3) by (cases n) auto
  obtain ls b1 where ls: "run_state (print_board P sp quiet p) b = (ls, b1)" by (metis surj_pair)
  note same = same_list [OF keeps_run [OF reads_board ls]]
  have "run_state (LibFindBoardA (Some p) empty_tags) b1 = (Some None, b1)"
    using find_next_board [of b1 xs p "[]"] Nil.prems(1,2) same by simp
  then show ?case
    using ls board_introduced [of P sp quiet p b] by (simp add: n ids_of_def)
next
  case (Cons y ys)
  obtain m where n: "n = Suc m" "length ys < m" using Cons.prems(3) by (cases n) auto
  obtain ls b1 where ls: "run_state (print_board P sp quiet p) b = (ls, b1)" by (metis surj_pair)
  note same = same_list [OF keeps_run [OF reads_board ls]]
  have nxt: "run_state (LibFindBoardA (Some p) empty_tags) b1 = (Some (Some y), b1)"
    using find_next_board [of b1 xs p "y # ys"] Cons.prems(1,2) same by simp
  obtain out where out: "fst (run_state (board_loop m P sp quiet (Some y)) b1) = Some out"
      "boards_of out = map (ids_of b1) (y # ys)"
    using Cons.IH [of b1 "xs @ [p]" y m] Cons.prems(1,2) same n(2) by auto
  have "ids_of b1 = ids_of b" using same(3) by (simp add: ids_of_def fun_eq_iff)
  then show ?case
    using ls nxt out board_introduced [of P sp quiet p b]
    by (simp add: n(1) case_prod_beta ids_of_def)
qed

section \<open>The tool leaves the library as a client should\<close>

lemma tame_attrs [tamed]: "tame (local_attrs P sp p tags)"
proof -
  have "tame (put_clients avs)" for avs :: "(u32 \<times> u32) list"
    by (induction avs rule: put_clients.induct) (auto intro!: tamed)
  then show ?thesis unfolding local_attrs_def case_prod_conv Let_def by (intro tamed)
qed

lemma tame_print [tamed]: "tame (print_device P sp p)" "tame (print_device_machine P sp p)"
  unfolding print_device_def print_device_machine_def list_bars_def by (intro tamed)+

lemma tame_ea [tamed]: "tame (dump_ea_capability P p off layout)"
proof -
  have "tame (dump_ea_entry P p off index)" for P :: "'a platform" and off index
    unfolding dump_ea_entry_def ea_high_def Let_def by (intro tamed)
  then have "tame (dump_ea_loop P p n index off)" for P :: "'a platform" and n index off
    by (induction P p n index off rule: dump_ea_loop.induct) (auto intro!: tamed)
  then show ?thesis unfolding dump_ea_capability_def Let_def by (intro tamed)
qed

lemma tame_collect [tamed]: "(\<And>i. tame (m i)) \<Longrightarrow> tame (collect m is)"
  by (induction m "is" rule: collect.induct) (auto intro!: tamed)

lemma tame_probe [tamed]: "tame (probe_pci_device P pd)"
  unfolding probe_pci_device_def dump_bridge_config_def list_cap_def list_ext_cap_def Let_def by (intro tamed)

lemma tame_board_loop [tamed]: "tame (board_loop n P sp quiet pd)"
proof (induction n P sp quiet pd rule: board_loop.induct)
  case (3 n P sp quiet p)
  have "tame (print_board P sp quiet p)" unfolding print_board_def by (intro tamed)
  then show ?case unfolding board_loop.simps by (intro tamed 3)
qed (simp_all add: tamed)



section \<open>The windows of a bridge\<close>

text \<open>A cursor behind \<open>pciauto_region_align\<close>, for a power of two.\<close>

lemma aligned_cursor:
  assumes "k < 32"
  shows "align_up l (push_bit k 1) - 1 = (l - 1) OR mask k"
    and "align_up l (push_bit k 1) AND NOT (mask k) = align_up l (push_bit k 1)"
proof -
  have m: "push_bit k 1 - 1 = (mask k :: u32)" by (simp add: mask_eq_exp_minus_1 push_bit_eq_mult)
  then show "align_up l (push_bit k 1) - 1 = (l - 1) OR mask k" by (simp add: align_up_def)
  let ?y = "drop_bit k (l - 1)"
  have "(l - 1) OR mask k = push_bit k ?y OR mask k"
    by (intro bit_eqI) (auto simp: bit_simps)
  also have "\<dots> = push_bit k ?y + mask k"
    by (rule disjunctive_add [symmetric]) (simp add: bit_simps)
  finally have "align_up l (push_bit k 1) = push_bit k (?y + 1)"
    by (simp add: align_up_def m mask_eq_exp_minus_1 push_bit_eq_mult distrib_right)
  then have "\<not> bit (align_up l (push_bit k 1)) n" if "n < k" for n
    using that by (simp add: bit_simps)
  then have "k \<le> n" if "bit (align_up l (push_bit k 1)) n" for n
    using that not_le by blast
  then show "align_up l (push_bit k 1) AND NOT (mask k) = align_up l (push_bit k 1)"
    by (auto intro!: bit_eqI simp: bit_and_iff bit_not_iff bit_mask_iff dest: bit_imp_le_length simp flip: not_le)
qed

lemma low_bits:
  fixes t :: u32
  assumes "t AND mask k = t" "bit t n" shows "n < k"
  using assms by (metis bit_and_iff bit_mask_iff)

lemma window_reg:
  fixes x t :: u32
  assumes "t AND mask 4 = t"
  shows "push_bit 16 (ucast (ucast ((drop_bit 16 x AND NOT (mask 4)) OR t) :: u16) AND NOT (mask 4)) = x AND NOT (mask 20)"
  using low_bits [OF assms] by (intro bit_eqI) (fastforce simp: bit_simps)

lemma window_masks:
  "(0xFFFFFFF0 :: u32) = NOT (mask 4)" "(0xFFF00000 :: u32) = NOT (mask 20)" "(0xFFFFF :: u32) = mask 20"
  "(0xF000 :: u32) = push_bit 12 (mask 4)" "(0xFFFF0000 :: u32) = NOT (mask 16)" "(0xFFF :: u32) = mask 12"
  "(0xF0 :: u8) = NOT (mask 4)" "(0xF :: u32) = mask 4" "(0xFFFF :: u32) = mask 16"
  by (simp_all add: mask_eq_exp_minus_1)

lemma io_reg:
  fixes x t :: u32
  assumes "t AND mask 4 = t"
  shows "push_bit 8 (ucast ((ucast ((drop_bit 8 (x AND push_bit 12 (mask 4)) AND NOT (mask 4)) OR t) :: u8) AND NOT (mask 4))) =
      x AND push_bit 12 (mask 4)"
    and "ucast (ucast ((drop_bit 8 (x AND push_bit 12 (mask 4)) AND NOT (mask 4)) OR t) :: u8) AND mask 4 = t"
  using low_bits [OF assms] by (intro bit_eqI; fastforce simp: bit_simps)+

lemma io_upper_reg:
  "push_bit 16 (ucast (ucast (drop_bit 16 (x AND NOT (mask 16))) :: u16)) = (x AND NOT (mask 16) :: u32)"
  by (intro bit_eqI) (fastforce simp: bit_simps)

lemma mem_window:
  fixes l h t t' :: u32
  assumes "t AND mask 4 = t" "t' AND mask 4 = t'"
  defines "lo \<equiv> align_up l 0x100000" and "hi \<equiv> align_up h 0x100000"
  shows "mem_range PCI_PREF_RANGE_MASK (ucast (pref_base_reg lo t)) (ucast (pref_limit_reg hi t')) = (lo, hi - 1)"
proof -
  have p: "(0x100000 :: u32) = push_bit 20 1" by simp
  have lo: "lo AND NOT (mask 20) = lo" and hi: "hi - 1 = (h - 1) OR mask 20"
    unfolding lo_def hi_def p by (rule aligned_cursor, simp)+
  have "hi - 1 AND NOT (mask 20) OR mask 20 = hi - 1"
    unfolding hi by (auto intro!: bit_eqI simp: bit_simps)
  then show ?thesis
    unfolding mem_range_def pref_base_reg_def pref_limit_reg_def window_masks
    by (simp only: window_reg [OF assms(1)] window_reg [OF assms(2)] lo)
qed

lemma bus_lower_align: "bus_lower (pciauto_region_align r sz) = align_up (bus_lower r) sz"
  by (simp add: pciauto_region_align_def)

text \<open>A cell that is clear below bit 12, and its parts.\<close>

lemma io_parts:
  fixes x :: u32
  assumes "\<And>n. n < 12 \<Longrightarrow> \<not> bit x n"
  shows "x AND push_bit 12 (mask 4) OR (x AND NOT (mask 16)) = x" "x AND push_bit 12 (mask 4) = x AND mask 16"
proof -
  have "12 \<le> n" if "bit x n" for n using assms [of n] that by (metis not_le)
  then show "x AND push_bit 12 (mask 4) OR (x AND NOT (mask 16)) = x" "x AND push_bit 12 (mask 4) = x AND mask 16"
    by (intro bit_eqI; fastforce simp: bit_simps)+
qed

lemma io_window:
  fixes l h t t' :: u32
  assumes "t AND mask 4 = t" "t' AND mask 4 = t'"
  defines "lo \<equiv> align_up l 0x1000" and "hi \<equiv> align_up h 0x1000"
  shows "io_range (ucast (io_base_reg lo t)) (ucast (io_limit_reg hi t')) (ucast (io_base_upper_reg lo)) (ucast (io_limit_upper_reg hi)) =
    (if t = PCI_IO_RANGE_TYPE_32 then (lo, hi - 1) else (lo AND 0xFFFF, hi - 1 AND 0xFFFF))"
proof -
  have p: "(0x1000 :: u32) = push_bit 12 1" by simp
  have lo: "lo AND NOT (mask 12) = lo" and hi: "hi - 1 = (h - 1) OR mask 12"
    unfolding lo_def hi_def p by (rule aligned_cursor, simp)+
  have zero: "\<not> bit lo n" if "n < 12" for n
    using arg_cong [OF lo, of "\<lambda>x. bit x n"] that by (simp add: bit_simps)
  have base: "lo AND push_bit 12 (mask 4) OR (lo AND NOT (mask 16)) = lo" "lo AND push_bit 12 (mask 4) = lo AND mask 16"
    using io_parts zero by blast+
  have limit: "hi - 1 AND NOT (mask 16) OR ((hi - 1 AND push_bit 12 (mask 4)) OR mask 12) = hi - 1"
      "hi - 1 AND push_bit 12 (mask 4) OR mask 12 = hi - 1 AND mask 16"
    unfolding hi by (auto intro!: bit_eqI simp: bit_simps)
  show ?thesis
    unfolding io_range_def io_base_reg_def io_limit_reg_def io_base_upper_reg_def io_limit_upper_reg_def window_masks Let_def
    by (simp only: io_reg [OF assms(1)] io_reg [OF assms(2)] io_upper_reg) (simp only: base(1) limit(1), simp only: base(2) limit(2))
qed

text \<open>
  C38: \<open>lspci\<close> shows the windows that the configuration has programmed into a bridge:
  from the aligned cursor before the bus behind it was configured to the byte before the
  aligned cursor afterwards, for memory, prefetchable memory and 32-bit I/O windows, and the
  low 16 bits of it for a 16-bit I/O window; whatever type bits the registers were read with.
\<close>

theorem bridge_windows_roundtrip:
  "(let lo = bus_lower (pciauto_region_align r CONFIG_PCI_BRIDGE_MEM_ALIGNMENT);
        hi = bus_lower (pciauto_region_align r' CONFIG_PCI_BRIDGE_MEM_ALIGNMENT);
        t = p AND PCI_PREF_RANGE_TYPE_MASK; t' = s AND PCI_PREF_RANGE_TYPE_MASK in
    mem_range PCI_MEMORY_RANGE_MASK (ucast (mem_base_reg lo)) (ucast (mem_limit_reg hi)) = (lo, hi - 1) \<and>
    mem_range PCI_PREF_RANGE_MASK (ucast (pref_base_reg lo t)) (ucast (pref_limit_reg hi t')) = (lo, hi - 1)) \<and>
   (let lo = bus_lower (pciauto_region_align q 0x1000);
        hi = bus_lower (pciauto_region_align q' 0x1000);
        t = p' AND PCI_IO_RANGE_TYPE_MASK; t' = s' AND PCI_IO_RANGE_TYPE_MASK in
    io_range (ucast (io_base_reg lo t)) (ucast (io_limit_reg hi t'))
        (ucast (io_base_upper_reg lo)) (ucast (io_limit_upper_reg hi)) =
      (if t = PCI_IO_RANGE_TYPE_32 then (lo, hi - 1) else (lo AND 0xFFFF, hi - 1 AND 0xFFFF)))"
proof -
  have nibble: "(x AND 0xF) AND mask 4 = x AND 0xF" for x :: u32
    unfolding window_masks by (simp add: and.assoc)
  have "mem_base_reg lo = pref_base_reg lo 0" "mem_limit_reg lo = pref_limit_reg lo 0" for lo
    by (simp_all add: mem_base_reg_def mem_limit_reg_def pref_base_reg_def pref_limit_reg_def)
  then show ?thesis
    using mem_window [of 0 0] mem_window [OF nibble nibble] io_window [OF nibble nibble]
    by (simp only: Let_def bus_lower_align and_zero_eq zero_and_eq simp_thms)
qed

section \<open>Enhanced Allocation entries\<close>

lemma ea_entry_bounds: "4 \<le> unat (ea_entry_size dw0)" "unat (ea_entry_size dw0) \<le> 32"
proof -
  have "unat (dw0 AND 7) < 8" using unat_and_mask [of dw0 3] by (simp only: mask_numerals(3)) simp
  moreover from this have "unat (ea_entry_size dw0) = (unat (dw0 AND 7) + 1) * 4"
    unfolding ea_entry_size_def push_bit_eq_mult by (simp add: unat_word_ariths del: unsigned_and_eq)
  ultimately show "4 \<le> unat (ea_entry_size dw0)" "unat (ea_entry_size dw0) \<le> 32" by simp_all
qed

lemma ea_high_offset: "run_state (ea_high P p lo off) b = ((v, off'), b') \<Longrightarrow> off' = off \<or> off' = off + 4"
  by (auto simp: ea_high_def split: if_splits prod.splits)

lemma small_plus: "unat (off :: u32) < 2 ^ 30 \<Longrightarrow> unat k \<le> 32 \<Longrightarrow> unat (off + k) = unat off + unat k"
  by (simp add: unat_word_ariths)

lemma small_signed:
  fixes x :: u32
  assumes "unat x < 2 ^ 31"
  shows "sint x = int (unat x)"
proof -
  have "uint x < 2 ^ 31" using assms by (metis of_nat_less_numeral_power_cancel_iff of_nat_unat)
  moreover have "0 \<le> uint x" by simp
  ultimately have "signed_take_bit 31 (uint x) = uint x" by (intro signed_take_bit_int_eq_self) linarith+
  then show ?thesis by (simp add: sint_uint)
qed

lemma ea_entry_advances:
  assumes "run_state (dump_ea_entry P p off index) b = ((ls, nxt), b')" "unat off < 2 ^ 30"
  shows "unat off + 4 \<le> unat nxt" "unat nxt \<le> unat off + 32" "sint off < sint nxt"
proof -
  have "(\<exists>dw. nxt = off + ea_entry_size dw) \<or> nxt = off + 12 \<or> nxt = off + 16 \<or> nxt = off + 20"
    using arg_cong [OF assms(1), of "\<lambda>r. snd (fst r)"]
    by (auto simp: dump_ea_entry_def Let_def case_prod_beta ea_high_def algebra_simps split: if_splits)
  then have "\<exists>k. nxt = off + k \<and> 4 \<le> unat k \<and> unat k \<le> 32"
  proof (elim disjE exE)
    fix dw
    assume "nxt = off + ea_entry_size dw"
    then show ?thesis using ea_entry_bounds by blast
  qed (intro exI conjI, assumption, simp_all)+
  then obtain k where k: "nxt = off + k" "4 \<le> unat k" "unat k \<le> 32" by blast
  then have sum: "unat nxt = unat off + unat k" using assms(2) small_plus by simp
  then show "unat off + 4 \<le> unat nxt" "unat nxt \<le> unat off + 32" using k by simp_all
  have "sint off = int (unat off)" "sint nxt = int (unat nxt)"
    using sum k(3) assms(2) by (intro small_signed; simp)+
  then show "sint off < sint nxt" using sum k(2) by (simp only: of_nat_less_iff)
qed

text \<open>What an entry contributes.\<close>

fun ea_entries :: "line list \<Rightarrow> nat" where
  "ea_entries [] = 0"
| "ea_entries (l # ls) = (case l of Ea_Line _ _ _ _ _ _ _ _ \<Rightarrow> Suc (ea_entries ls) | _ \<Rightarrow> ea_entries ls)"

fun ea_failed :: "line list \<Rightarrow> bool" where
  "ea_failed [] = False"
| "ea_failed (l # ls) = (case l of Ea_Fail_Line _ \<Rightarrow> True | _ \<Rightarrow> ea_failed ls)"

lemma ea_lines [simp]:
  "ea_entries (ls @ ms) = ea_entries ls + ea_entries ms" "ea_failed (ls @ ms) = (ea_failed ls \<or> ea_failed ms)"
  by (induction ls) (auto split: line.split)

lemma ea_entry_lines:
  "ea_entries (fst (fst (run_state (dump_ea_entry P p off index) b))) = 1"
  "\<not> ea_failed (fst (fst (run_state (dump_ea_entry P p off index) b)))"
  by (simp_all add: dump_ea_entry_def Let_def case_prod_beta)

lemma ea_loop_complete:
  assumes "unat off + 32 * n < 2 ^ 30"
  shows "ea_entries (fst (run_state (dump_ea_loop P p n index off) b)) = n \<and>
    \<not> ea_failed (fst (run_state (dump_ea_loop P p n index off) b))"
  using assms
proof (induction n arbitrary: index off b)
  case (Suc n)
  obtain ls nxt b1 where entry: "run_state (dump_ea_entry P p off index) b = ((ls, nxt), b1)"
    by (metis surj_pair)
  note step = ea_entry_advances [OF entry]
  have "\<not> sint nxt \<le> sint off" "unat nxt + 32 * n < 2 ^ 30" using step Suc.prems by simp_all
  then show ?case
    using Suc.IH [of nxt "index + 1" b1] ea_entry_lines [of P p off index b] entry
    by (simp add: case_prod_beta)
qed simp

text \<open>
  C31: the walk over the entries of an Enhanced Allocation capability moves
  forward with every entry, whatever the hardware answers, so it prints as many entries as
  the capability announces, at most 63, and never gives up.
\<close>

theorem ea_capability_complete:
  assumes "run_state (dump_ea_capability P p off layout) b = (ls, b')" "unat off < 2 ^ 16"
  shows "\<exists>num rest. ls = Ea_Count_Line num # rest \<and> ea_entries rest = unat num \<and> unat num \<le> 63 \<and> \<not> ea_failed rest"
proof -
  have num: "unat (x AND 0x3F) \<le> 63" for x :: u8
    using unat_and_mask [of x 6] by (simp add: mask_numeral del: unsigned_and_eq)
  have loop: "ea_entries (fst (run_state (dump_ea_loop P p (unat (x AND 0x3F)) 0 (off + k)) c)) = unat (x AND 0x3F)"
      "\<not> ea_failed (fst (run_state (dump_ea_loop P p (unat (x AND 0x3F)) 0 (off + k)) c))"
    if "unat k \<le> 32" for x :: u8 and k c
  proof -
    have "unat (off + k) + 32 * unat (x AND 0x3F) < 2 ^ 30" using small_plus [of off k] that assms(2) num [of x] by simp
    from ea_loop_complete [OF this] show "ea_entries (fst (run_state (dump_ea_loop P p (unat (x AND 0x3F)) 0 (off + k)) c)) = unat (x AND 0x3F)"
      "\<not> ea_failed (fst (run_state (dump_ea_loop P p (unat (x AND 0x3F)) 0 (off + k)) c))"
      by blast+
  qed
  show ?thesis
    using arg_cong [OF assms(1), of fst] loop num
    by (auto simp: dump_ea_capability_def case_prod_beta Let_def simp del: unsigned_and_eq)
qed

theorem ea_capability_complete_witness:
  "\<exists>num rest. fst (run_state (dump_ea_capability ram_platform 0 0x60 0) two_boards) = Ea_Count_Line num # rest \<and>
     ea_entries rest = unat num \<and> unat num \<le> 63 \<and> \<not> ea_failed rest"
  by (rule ea_capability_complete [OF surjective_pairing]) simp

text \<open>
  The size of a memory BAR as \<open>GetBoardAttrs\<close> answers it is decoded already: negating it
  again prints its complement.
\<close>

lemma printed_size_negates:
  assumes "0 < sz"
  shows "unat (printed_size sz) = 2 ^ 32 - unat sz"
proof -
  have "unat sz < 2 ^ 32" using unsigned_less [of sz, where ?'a = nat] by simp
  then have "- sz = of_nat (2 ^ 32 - unat sz)" by (simp add: of_nat_diff)
  moreover have "0 < unat sz" using assms by (simp add: word_less_nat_alt)
  ultimately have "unat (- sz) = 2 ^ 32 - unat sz" by (simp add: unsigned_of_nat take_bit_nat_eq_self)
  then show ?thesis using assms by (simp add: printed_size_def word_gt_0 minus_eq_not_plus_1)
qed

end
