(* ===== verification/Preemption.thy ===== *)
theory Preemption
  imports Pci_Irq
begin

text \<open>
  Programs that an interrupt can preempt.  The functions of the core are single transitions
  of the state monad; here a program is a sequence of atomic actions, and between any two of
  them the demultiplexer may run to completion and the hardware may change.  \<open>prog_wp I Q p w\<close>
  says that \<open>I\<close> holds at every point where \<open>p\<close> can be preempted and \<open>Q\<close> when it returns.
\<close>

section \<open>Programs as sequences of atomic actions\<close>

datatype ('s, 'a) prog = Ret 'a | Act "'s \<Rightarrow> ('s, 'a) prog \<times> 's"

definition atom :: "('s, 'a) state \<Rightarrow> ('s, 'a) prog" where
  "atom m = Act (\<lambda>s. (Ret (fst (run_state m s)), snd (run_state m s)))"

primrec prog_bind :: "('s, 'a) prog \<Rightarrow> ('a \<Rightarrow> ('s, 'b) prog) \<Rightarrow> ('s, 'b) prog" where
  "prog_bind (Ret a) k = k a"
| "prog_bind (Act f) k = Act (\<lambda>s. map_prod (\<lambda>p. prog_bind p k) id (f s))"

primrec prog_each :: "('x \<Rightarrow> ('s, unit) prog) \<Rightarrow> 'x list \<Rightarrow> ('s, unit) prog" where
  "prog_each f [] = Ret ()"
| "prog_each f (x # xs) = prog_bind (f x) (\<lambda>_. prog_each f xs)"

text \<open>The run that nothing preempts.\<close>

primrec run_prog :: "('s, 'a) prog \<Rightarrow> 's \<Rightarrow> 'a \<times> 's" where
  "run_prog (Ret a) = (\<lambda>s. (a, s))"
| "run_prog (Act f) = (\<lambda>s. case map_prod run_prog id (f s) of (g, s') \<Rightarrow> g s')"

lemma run_atom [simp]: "run_prog (atom m) s = run_state m s"
  by (simp add: atom_def)

lemma run_prog_bind [simp]:
  "run_prog (prog_bind p k) s = (case run_prog p s of (a, s') \<Rightarrow> run_prog (k a) s')"
proof (induction p arbitrary: s)
  case (Act f)
  obtain p' s' where f: "f s = (p', s')" by fastforce
  then have "f s \<in> range f" by blast
  then show ?case using Act [of "f s" p' s'] f by simp
qed simp

lemma run_prog_each:
  assumes "\<And>x s. run_prog (f x) s = run_state (g x) s"
  shows "run_prog (prog_each f xs) s = run_state (for_each g xs) s"
  by (induction xs arbitrary: s) (simp_all add: assms)

section \<open>Preemption\<close>

text \<open>
  The environment of a program: the demultiplexer on the other side of an interrupt, and the
  hardware.  Both change nothing but the hardware (\<open>hw_only\<close>), so a rule for an arbitrary
  change of the hardware covers them.
\<close>

inductive preempt_step ::
    "'h platform \<Rightarrow> ('h world, 'a) prog \<times> 'h world \<Rightarrow> ('h world, 'a) prog \<times> 'h world \<Rightarrow> bool" for P where
  task: "f w = (p, w') \<Longrightarrow> preempt_step P (Act f, w) (p, w')"
| isr: "run_state (brcm_msi_demux_isr P) w = (r, w') \<Longrightarrow> preempt_step P (p, w) (p, w')"
| hardware: "preempt_step P (p, w) (p, w\<lparr>hw := h\<rparr>)"

primrec prog_wp ::
    "('h world \<Rightarrow> bool) \<Rightarrow> ('a \<Rightarrow> 'h world \<Rightarrow> bool) \<Rightarrow> ('h world, 'a) prog \<Rightarrow> 'h world \<Rightarrow> bool" where
  "prog_wp I Q (Ret a) = (\<lambda>w. \<forall>h. Q a (w\<lparr>hw := h\<rparr>))"
| "prog_wp I Q (Act f) = (\<lambda>w. \<forall>h. I (w\<lparr>hw := h\<rparr>) \<and>
     (case map_prod (prog_wp I Q) id (f (w\<lparr>hw := h\<rparr>)) of (g, w') \<Rightarrow> g w'))"

lemma wp_environment: "prog_wp I Q p w \<Longrightarrow> prog_wp I Q p (w\<lparr>hw := h\<rparr>)"
  by (cases p) simp_all

lemma world_hw: "w\<lparr>hw := hw w\<rparr> = (w :: 'h world)"
  by simp

lemma wp_here: "prog_wp I Q (Act f) w \<Longrightarrow> I w"
  by (auto dest: spec [of _ "hw w"])

lemma wp_returned: "prog_wp I Q (Ret a) w \<Longrightarrow> Q a w"
  by (auto dest: spec [of _ "hw w"])

lemma wp_task: "prog_wp I Q (Act f) w \<Longrightarrow> f w = (p, w') \<Longrightarrow> prog_wp I Q p w'"
proof -
  assume "prog_wp I Q (Act f) w" and f: "f w = (p, w')"
  then show "prog_wp I Q p w'" by (auto dest: spec [of _ "hw w"])
qed

lemma wp_isr: "prog_wp I Q p w \<Longrightarrow> run_state (brcm_msi_demux_isr P) w = (r, w') \<Longrightarrow> prog_wp I Q p w'"
  by (metis hw_onlyE hw_only_msi(1) snd_conv wp_environment)

lemma wp_step: "preempt_step P c c' \<Longrightarrow> (case c of (p, w) \<Rightarrow> prog_wp I Q p w) \<Longrightarrow>
    (case c' of (p, w) \<Rightarrow> prog_wp I Q p w)"
  by (induction rule: preempt_step.induct) (auto simp del: prog_wp.simps intro: wp_task wp_isr wp_environment)

text \<open>\<open>k\<close> undisturbed actions of a program.\<close>

primrec task_steps :: "nat \<Rightarrow> ('s, 'a) prog \<Rightarrow> 's \<Rightarrow> ('s, 'a) prog \<times> 's" where
  "task_steps 0 p w = (p, w)"
| "task_steps (Suc k) p w = (case p of Ret a \<Rightarrow> (p, w) | Act f \<Rightarrow> task_steps k (fst (f w)) (snd (f w)))"

lemma task_steps_numeral [simp]:
  "task_steps (numeral k) p w =
     (case p of Ret a \<Rightarrow> (p, w) | Act f \<Rightarrow> task_steps (pred_numeral k) (fst (f w)) (snd (f w)))"
  by (simp add: numeral_eq_Suc)

lemma task_steps_preempt: "(preempt_step P)\<^sup>*\<^sup>* (p, w) (task_steps k p w)"
proof (induction k arbitrary: p w)
  case (Suc k)
  show ?case
  proof (cases p)
    case (Act f)
    have "preempt_step P (Act f, w) (fst (f w), snd (f w))" by (rule preempt_step.task) simp
    then show ?thesis using Suc [of "fst (f w)" "snd (f w)"] Act
      by (simp add: converse_rtranclp_into_rtranclp)
  qed simp
qed simp

section \<open>Rules\<close>

lemma wp_bind:
  "prog_wp I (\<lambda>a. prog_wp I Q (k a)) p w \<Longrightarrow> prog_wp I Q (prog_bind p k) w"
proof (induction p arbitrary: w)
  case (Ret a)
  then show ?case by (simp add: wp_returned [of I "\<lambda>a. prog_wp I Q (k a)" a w] del: prog_wp.simps)
next
  case (Act f)
  show ?case
    unfolding prog_bind.simps prog_wp.simps
  proof (intro allI conjI)
    fix h
    obtain p w' where f: "f (w\<lparr>hw := h\<rparr>) = (p, w')" by fastforce
    show "I (w\<lparr>hw := h\<rparr>)" using wp_here [OF wp_environment [OF Act.prems]] .
    have "prog_wp I (\<lambda>a. prog_wp I Q (k a)) p w'"
      by (rule wp_task [OF wp_environment [OF Act.prems] f])
    then have "prog_wp I Q (prog_bind p k) w'"
      using Act.IH [of "f (w\<lparr>hw := h\<rparr>)" p w'] f rangeI [of f "w\<lparr>hw := h\<rparr>"] by simp
    then show "case map_prod (prog_wp I Q) id (map_prod (\<lambda>p. prog_bind p k) id (f (w\<lparr>hw := h\<rparr>))) of
        (g, w') \<Rightarrow> g w'"
      by (simp add: f)
  qed
qed

lemma wp_conseq:
  "prog_wp I Q p w \<Longrightarrow> (\<And>w. I w \<Longrightarrow> J w) \<Longrightarrow> (\<And>a w. Q a w \<Longrightarrow> R a w) \<Longrightarrow> prog_wp J R p w"
proof (induction p arbitrary: w)
  case (Act f)
  show ?case
    unfolding prog_wp.simps
  proof (intro allI conjI)
    fix h
    obtain p w' where f: "f (w\<lparr>hw := h\<rparr>) = (p, w')" by fastforce
    show "J (w\<lparr>hw := h\<rparr>)" using Act.prems(2) wp_here [OF wp_environment [OF Act.prems(1)]] .
    have "prog_wp I Q p w'" by (rule wp_task [OF wp_environment [OF Act.prems(1)] f])
    then have "prog_wp J R p w'"
      using Act.IH [of "f (w\<lparr>hw := h\<rparr>)" p w'] Act.prems(2,3) f rangeI [of f "w\<lparr>hw := h\<rparr>"] by simp
    then show "case map_prod (prog_wp J R) id (f (w\<lparr>hw := h\<rparr>)) of (g, w') \<Rightarrow> g w'" by (simp add: f)
  qed
qed simp

lemma wp_mono: "prog_wp I Q p w \<Longrightarrow> (\<And>a w. Q a w \<Longrightarrow> R a w) \<Longrightarrow> prog_wp I R p w"
  by (erule wp_conseq)

lemma wp_both:
  "prog_wp I Q p w \<Longrightarrow> prog_wp J R p w \<Longrightarrow> prog_wp (\<lambda>w. I w \<and> J w) (\<lambda>a w. Q a w \<and> R a w) p w"
proof (induction p arbitrary: w)
  case (Act f)
  show ?case
    unfolding prog_wp.simps
  proof (intro allI conjI)
    fix h
    obtain p w' where f: "f (w\<lparr>hw := h\<rparr>) = (p, w')" by fastforce
    show "I (w\<lparr>hw := h\<rparr>)" "J (w\<lparr>hw := h\<rparr>)"
      by (rule wp_here [OF wp_environment], rule Act.prems)+
    have "prog_wp I Q p w'" "prog_wp J R p w'"
      by (rule wp_task [where w = "w\<lparr>hw := h\<rparr>"], rule wp_environment, rule Act.prems, rule f)+
    then have "prog_wp (\<lambda>w. I w \<and> J w) (\<lambda>a w. Q a w \<and> R a w) p w'"
      using Act.IH [of "f (w\<lparr>hw := h\<rparr>)" p w'] f rangeI [of f "w\<lparr>hw := h\<rparr>"] by simp
    then show "case map_prod (prog_wp (\<lambda>w. I w \<and> J w) (\<lambda>a w. Q a w \<and> R a w)) id (f (w\<lparr>hw := h\<rparr>)) of
        (g, w') \<Rightarrow> g w'"
      by (simp add: f)
  qed
qed simp

lemma wp_ret: "hw_blind (Q a) \<Longrightarrow> Q a w \<Longrightarrow> prog_wp I Q (Ret a) w"
  by (simp add: hw_blind_def)

lemma wp_atom:
  assumes "hw_blind I" and "I w"
    and "\<And>h. prog_wp I Q (Ret (fst (run_state m (w\<lparr>hw := h\<rparr>)))) (snd (run_state m (w\<lparr>hw := h\<rparr>)))"
  shows "prog_wp I Q (atom m) w"
  using assms(1,2) assms(3) by (simp add: atom_def hw_blind_def)

lemma wp_seq:
  assumes "hw_blind I" and "I w"
    and "\<And>h. prog_wp I Q (k (fst (run_state m (w\<lparr>hw := h\<rparr>)))) (snd (run_state m (w\<lparr>hw := h\<rparr>)))"
  shows "prog_wp I Q (prog_bind (atom m) k) w"
  using assms by (simp add: atom_def hw_blind_def)

section \<open>Programs whose decisions do not depend on the hardware\<close>

text \<open>
  \<open>blind m\<close>: what \<open>m\<close> returns and stores does not depend on the hardware.  A program of blind
  actions ends, however it is preempted, in the state of its undisturbed run, the hardware
  apart.
\<close>

named_theorems blinds \<open>computations whose result does not depend on the hardware\<close>

definition blind :: "('h world, 'a) state \<Rightarrow> bool" where
  "blind m \<longleftrightarrow> (\<forall>w h. \<exists>h'. run_state m (w\<lparr>hw := h\<rparr>) = (fst (run_state m w), (snd (run_state m w))\<lparr>hw := h'\<rparr>))"

lemma blindE:
  assumes "blind m"
  obtains h' where "run_state m (w\<lparr>hw := h\<rparr>) = (fst (run_state m w), (snd (run_state m w))\<lparr>hw := h'\<rparr>)"
  using assms by (auto simp: blind_def)

lemma blind_hw_only: "hw_only m \<Longrightarrow> blind (m :: ('h world, unit) state)"
  unfolding blind_def
proof (intro allI)
  fix w :: "'h world" and h
  assume "hw_only m"
  then obtain k k' where "snd (run_state m w) = w\<lparr>hw := k\<rparr>" "snd (run_state m (w\<lparr>hw := h\<rparr>)) = w\<lparr>hw := h\<rparr>\<lparr>hw := k'\<rparr>"
    by (metis hw_onlyE)
  then show "\<exists>h'. run_state m (w\<lparr>hw := h\<rparr>) = (fst (run_state m w), (snd (run_state m w))\<lparr>hw := h'\<rparr>)"
    by (intro exI [of _ k']) (simp add: prod_eq_iff)
qed

lemma blind_return [blinds]: "blind (State_Monad.return x)"
  by (auto simp: blind_def)

lemma blind_fetch: "(\<And>w h. f (w\<lparr>hw := h\<rparr>) = f w) \<Longrightarrow> blind (fetch f)"
  by (auto simp: blind_def)

lemma blind_gets [blinds]: "blind get_ctl" "blind (get_dev d)" "blind (get_bus b)"
  by (simp_all add: blind_fetch)

lemma blind_modify: "(\<And>w h. f (w\<lparr>hw := h\<rparr>) = (f w)\<lparr>hw := h\<rparr>) \<Longrightarrow> blind (modify f)"
  by (auto simp: blind_def)

lemma blind_sets [blinds]: "blind (set_ctl f)" "blind (set_dev d g)"
  unfolding set_ctl_def set_dev_def by (rule blind_modify, simp)+

lemma blind_bind [blinds]:
  assumes "blind m" and "\<And>a. blind (k a)"
  shows "blind (State_Monad.bind m k)"
  unfolding blind_def
proof (intro allI)
  fix w h
  obtain h1 where 1: "run_state m (w\<lparr>hw := h\<rparr>) = (fst (run_state m w), (snd (run_state m w))\<lparr>hw := h1\<rparr>)"
    using assms(1) by (rule blindE)
  obtain h2 where "run_state (k (fst (run_state m w))) ((snd (run_state m w))\<lparr>hw := h1\<rparr>) =
      (fst (run_state (k (fst (run_state m w))) (snd (run_state m w))),
       (snd (run_state (k (fst (run_state m w))) (snd (run_state m w))))\<lparr>hw := h2\<rparr>)"
    using assms(2) by (rule blindE)
  with 1 show "\<exists>h'. run_state (State_Monad.bind m k) (w\<lparr>hw := h\<rparr>) =
      (fst (run_state (State_Monad.bind m k) w), (snd (run_state (State_Monad.bind m k) w))\<lparr>hw := h'\<rparr>)"
    by (auto simp: case_prod_beta)
qed

lemma blind_if [blinds]: "(b \<Longrightarrow> blind m) \<Longrightarrow> (\<not> b \<Longrightarrow> blind n) \<Longrightarrow> blind (if b then m else n)"
  by simp

lemma blind_option [blinds]:
  "blind m \<Longrightarrow> (\<And>a. blind (f a)) \<Longrightarrow> blind (case x of None \<Rightarrow> m | Some a \<Rightarrow> f a)"
  by (cases x) simp_all

lemma blind_prod [blinds]: "(\<And>a b. blind (f a b)) \<Longrightarrow> blind (case p of (a, b) \<Rightarrow> f a b)"
  by (cases p) simp

lemma wp_seq_blind:
  assumes "blind m" and "hw_blind I" and "I w"
    and "prog_wp I Q (k (fst (run_state m w))) (snd (run_state m w))"
  shows "prog_wp I Q (prog_bind (atom m) k) w"
proof (rule wp_seq [OF assms(2,3)])
  fix h
  obtain h' where "run_state m (w\<lparr>hw := h\<rparr>) = (fst (run_state m w), (snd (run_state m w))\<lparr>hw := h'\<rparr>)"
    using assms(1) by (rule blindE)
  then show "prog_wp I Q (k (fst (run_state m (w\<lparr>hw := h\<rparr>)))) (snd (run_state m (w\<lparr>hw := h\<rparr>)))"
    using wp_environment [OF assms(4)] by simp
qed

lemma wp_fetch:
  assumes "\<And>h. f (w\<lparr>hw := h\<rparr>) = f w" and "hw_blind I" and "I w" and "prog_wp I Q (k (f w)) w"
  shows "prog_wp I Q (prog_bind (atom (fetch f)) k) w"
  by (rule wp_seq [OF assms(2,3)]) (simp add: assms(1) wp_environment [OF assms(4)])

lemma wp_set:
  assumes "hw_blind I" and "I w"
  shows "prog_wp I Q (k ()) (w\<lparr>ctl := f (ctl w)\<rparr>) \<Longrightarrow> prog_wp I Q (prog_bind (atom (set_ctl f)) k) w"
    and "prog_wp I Q (k ()) (w\<lparr>dev := (dev w)(d := g (dev w d))\<rparr>) \<Longrightarrow>
      prog_wp I Q (prog_bind (atom (set_dev d g)) k) w"
  by (rule wp_seq_blind; simp add: assms blinds)+

lemma wp_atom_blind:
  assumes "blind m" and "hw_blind I" and "I w"
    and "prog_wp I Q (Ret (fst (run_state m w))) (snd (run_state m w))"
  shows "prog_wp I Q (atom m) w"
proof -
  have "prog_bind (atom m) Ret = atom m" by (simp add: atom_def)
  then show ?thesis using wp_seq_blind [OF assms(1-3), of Q Ret] assms(4) by simp
qed

text \<open>\<open>settles p w\<close>: every preempted run of \<open>p\<close> from \<open>w\<close> ends as the undisturbed one.\<close>

definition settles :: "('h world, 'a) prog \<Rightarrow> 'h world \<Rightarrow> bool" where
  "settles p w \<longleftrightarrow> prog_wp (\<lambda>_. True) (\<lambda>a w'. a = fst (run_prog p w) \<and>
     (\<exists>h. w' = (snd (run_prog p w))\<lparr>hw := h\<rparr>)) p w"

definition steady :: "('h world, 'a) prog \<Rightarrow> bool" where
  "steady p \<longleftrightarrow> (\<forall>w. settles p w \<and> (\<forall>h. \<exists>h'. run_prog p (w\<lparr>hw := h\<rparr>) =
     (fst (run_prog p w), (snd (run_prog p w))\<lparr>hw := h'\<rparr>)))"

lemma steadyE:
  assumes "steady p"
  obtains h' where "run_prog p (w\<lparr>hw := h\<rparr>) = (fst (run_prog p w), (snd (run_prog p w))\<lparr>hw := h'\<rparr>)"
  using assms by (auto simp: steady_def)

lemma steady_settles: "steady p \<Longrightarrow> settles p w"
  by (simp add: steady_def)

lemma steady_ret [blinds]: "steady (Ret a)"
  by (auto simp: steady_def settles_def)

lemma steady_atom [blinds]:
  assumes "blind m" shows "steady (atom m)"
  unfolding steady_def settles_def
proof (intro allI conjI)
  fix w :: "'a world"
  show "prog_wp (\<lambda>_. True) (\<lambda>a w'. a = fst (run_prog (atom m) w) \<and>
      (\<exists>h. w' = snd (run_prog (atom m) w)\<lparr>hw := h\<rparr>)) (atom m) w"
  proof (rule wp_atom)
    fix h
    obtain h' where "run_state m (w\<lparr>hw := h\<rparr>) = (fst (run_state m w), (snd (run_state m w))\<lparr>hw := h'\<rparr>)"
      using assms by (rule blindE)
    then show "prog_wp (\<lambda>_. True) (\<lambda>a w'. a = fst (run_prog (atom m) w) \<and>
        (\<exists>h. w' = snd (run_prog (atom m) w)\<lparr>hw := h\<rparr>))
        (Ret (fst (run_state m (w\<lparr>hw := h\<rparr>)))) (snd (run_state m (w\<lparr>hw := h\<rparr>)))"
      by auto
  qed (simp_all add: hw_blind_def)
  fix h
  show "\<exists>h'. run_prog (atom m) (w\<lparr>hw := h\<rparr>) =
      (fst (run_prog (atom m) w), (snd (run_prog (atom m) w))\<lparr>hw := h'\<rparr>)"
    using assms by (simp add: blind_def)
qed

lemma steady_wp:
  assumes "steady p" and "fst (run_prog p w0) = a0" and "\<exists>h. w = w0\<lparr>hw := h\<rparr>"
  shows "prog_wp (\<lambda>_. True) (\<lambda>a w'. a = a0 \<and> (\<exists>h. w' = (snd (run_prog p w0))\<lparr>hw := h\<rparr>)) p w"
proof -
  obtain h where w: "w = w0\<lparr>hw := h\<rparr>" using assms(3) by blast
  obtain h' where "run_prog p w = (fst (run_prog p w0), (snd (run_prog p w0))\<lparr>hw := h'\<rparr>)"
    unfolding w using assms(1) by (rule steadyE)
  then show ?thesis
    using steady_settles [OF assms(1), of w] assms(2) by (auto simp: settles_def elim!: wp_mono)
qed

lemma steady_bind [blinds]:
  assumes "steady p" and "\<And>a. steady (k a)"
  shows "steady (prog_bind p k)"
  unfolding steady_def
proof (intro allI conjI)
  fix w :: "'a world"
  let ?a = "fst (run_prog p w)" and ?w = "snd (run_prog p w)"
  have "prog_wp (\<lambda>_. True) (\<lambda>a. prog_wp (\<lambda>_. True) (\<lambda>b w'. b = fst (run_prog (k ?a) ?w) \<and>
      (\<exists>h. w' = (snd (run_prog (k ?a) ?w))\<lparr>hw := h\<rparr>)) (k a)) p w"
    using steady_settles [OF assms(1), of w] unfolding settles_def
    by (rule wp_mono) (auto intro!: steady_wp assms(2))
  then show "settles (prog_bind p k) w"
    unfolding settles_def by (intro wp_bind) (simp add: case_prod_beta)
  fix h
  obtain h1 where 1: "run_prog p (w\<lparr>hw := h\<rparr>) = (?a, ?w\<lparr>hw := h1\<rparr>)"
    using assms(1) by (rule steadyE)
  obtain h2 where "run_prog (k ?a) (?w\<lparr>hw := h1\<rparr>) =
      (fst (run_prog (k ?a) ?w), (snd (run_prog (k ?a) ?w))\<lparr>hw := h2\<rparr>)"
    using assms(2) by (rule steadyE)
  with 1 show "\<exists>h'. run_prog (prog_bind p k) (w\<lparr>hw := h\<rparr>) =
      (fst (run_prog (prog_bind p k) w), (snd (run_prog (prog_bind p k) w))\<lparr>hw := h'\<rparr>)"
    by (auto simp: case_prod_beta)
qed

lemma steady_if [blinds]: "(b \<Longrightarrow> steady p) \<Longrightarrow> (\<not> b \<Longrightarrow> steady q) \<Longrightarrow> steady (if b then p else q)"
  by simp

lemma steady_option [blinds]:
  "steady p \<Longrightarrow> (\<And>a. steady (f a)) \<Longrightarrow> steady (case x of None \<Rightarrow> p | Some a \<Rightarrow> f a)"
  by (cases x) simp_all

lemma steady_prod [blinds]: "(\<And>a b. steady (f a b)) \<Longrightarrow> steady (case p of (a, b) \<Rightarrow> f a b)"
  by (cases p) simp

lemma steady_each [blinds]: "(\<And>x. steady (f x)) \<Longrightarrow> steady (prog_each f xs)"
  by (induction xs) (auto intro: blinds)

text \<open>
  \<open>atomic p w\<close>: every preempted run of \<open>p\<close> from \<open>w\<close> ends as an undisturbed run from \<open>w\<close> on some
  hardware, the hardware at the end apart.  Steady programs are atomic, and so is one whose
  first action reads an answer of the hardware and whose rest is steady.
\<close>

definition atomic :: "('h world, 'a) prog \<Rightarrow> 'h world \<Rightarrow> bool" where
  "atomic p w \<longleftrightarrow> prog_wp (\<lambda>_. True) (\<lambda>a w'. \<exists>h h'. a = fst (run_prog p (w\<lparr>hw := h\<rparr>)) \<and>
     w' = (snd (run_prog p (w\<lparr>hw := h\<rparr>)))\<lparr>hw := h'\<rparr>) p w"

lemma steady_atomic:
  assumes "steady p" shows "atomic p w"
  unfolding atomic_def
proof (rule wp_mono [OF steady_settles [OF assms, unfolded settles_def]])
  fix a :: 'b and w' :: "'a world"
  assume "a = fst (run_prog p w) \<and> (\<exists>h. w' = snd (run_prog p w)\<lparr>hw := h\<rparr>)"
  then obtain h where "a = fst (run_prog p (w\<lparr>hw := hw w\<rparr>))" "w' = snd (run_prog p (w\<lparr>hw := hw w\<rparr>))\<lparr>hw := h\<rparr>"
    by auto
  then show "\<exists>h h'. a = fst (run_prog p (w\<lparr>hw := h\<rparr>)) \<and> w' = snd (run_prog p (w\<lparr>hw := h\<rparr>))\<lparr>hw := h'\<rparr>"
    by blast
qed

lemma atomic_first:
  assumes "\<And>a. steady (k a)"
  shows "atomic (prog_bind (atom m) k) w"
  unfolding atomic_def
proof (rule wp_seq)
  fix h
  let ?r = "run_state m (w\<lparr>hw := h\<rparr>)"
  show "prog_wp (\<lambda>_. True) (\<lambda>a w'. \<exists>h h'. a = fst (run_prog (prog_bind (atom m) k) (w\<lparr>hw := h\<rparr>)) \<and>
      w' = snd (run_prog (prog_bind (atom m) k) (w\<lparr>hw := h\<rparr>))\<lparr>hw := h'\<rparr>) (k (fst ?r)) (snd ?r)"
    using steady_settles [OF assms, of "fst ?r" "snd ?r"] unfolding settles_def
    by (rule wp_mono) (auto simp: case_prod_beta)
qed (simp_all add: hw_blind_def)

lemma atomic_fetch:
  assumes "\<And>h. f (w\<lparr>hw := h\<rparr>) = f w" and "atomic (k (f w)) w"
  shows "atomic (prog_bind (atom (fetch f)) k) w"
  unfolding atomic_def
proof (rule wp_seq)
  fix h
  show "prog_wp (\<lambda>_. True) (\<lambda>a w'. \<exists>h h'. a = fst (run_prog (prog_bind (atom (fetch f)) k) (w\<lparr>hw := h\<rparr>)) \<and>
      w' = snd (run_prog (prog_bind (atom (fetch f)) k) (w\<lparr>hw := h\<rparr>))\<lparr>hw := h'\<rparr>)
      (k (fst (run_state (fetch f) (w\<lparr>hw := h\<rparr>)))) (snd (run_state (fetch f) (w\<lparr>hw := h\<rparr>)))"
    using wp_environment [OF assms(2) [unfolded atomic_def], of h] by (simp add: assms(1))
qed (simp_all add: hw_blind_def)

declare prog_wp.simps [simp del]

end
