(* ===== verification/Irq_Preempt.thy ===== *)
theory Irq_Preempt
  imports Preemption
begin

text \<open>
  The front end of the interrupts under preemption.  The operations of \<open>pci_irq.c\<close> as
  sequences of atomic actions, in the order the code performs them; the demultiplexer can run
  between any two.  An action is one store that the demultiplexer can see (the table of
  servers, the slot masks, the owner of a slot) or a stretch that changes only the hardware
  or what the demultiplexer does not read.  Shown: undisturbed, a program is the operation of
  \<open>Pci_Irq\<close>; preempted anywhere, it never lets the demultiplexer find a server on a slot that
  is not owned; and at the end it has done what the operation does in one step.
\<close>

section \<open>The operations as programs\<close>

definition slot_bind_prog :: "'h platform \<Rightarrow> nat \<Rightarrow> isr \<Rightarrow> ('h world, unit) prog" where
  "slot_bind_prog P slot i =
     prog_bind (atom (set_ctl (\<lambda>c. c\<lparr>msi_servers := (msi_servers c)(slot := Some i)\<rparr>))) (\<lambda>_.
     prog_bind (atom (do { c \<leftarrow> get_ctl; mmio_write32 P (slot_bit slot) (base c + PCIE_MSI_INTR2_CLR) })) (\<lambda>_.
     atom (do { c \<leftarrow> get_ctl; mmio_write32 P (slot_bit slot) (base c + PCIE_MSI_INTR2_MASK_CLR) })))"

definition slot_unbind_prog :: "'h platform \<Rightarrow> nat \<Rightarrow> ('h world, unit) prog" where
  "slot_unbind_prog P slot =
     prog_bind (atom (do { c \<leftarrow> get_ctl; mmio_write32 P (slot_bit slot) (base c + PCIE_MSI_INTR2_MASK_SET) })) (\<lambda>_.
     atom (set_ctl (\<lambda>c. c\<lparr>msi_servers := (msi_servers c)(slot := None)\<rparr>)))"

definition add_intx_prog :: "'h platform \<Rightarrow> dev_id \<Rightarrow> isr \<Rightarrow> ('h world, errno + unit) prog" where
  "add_intx_prog P d i =
     prog_bind (atom (brcm_intx_add_server P d i)) (\<lambda>r.
     if r \<noteq> Ok then Ret r
     else
       prog_bind (atom (set_dev d (\<lambda>v. v\<lparr>intx_server := Some i\<rparr>))) (\<lambda>_.
       prog_bind (atom (pci_intx P d True)) (\<lambda>_. Ret Ok)))"

definition add_server_prog :: "'h platform \<Rightarrow> dev_id \<Rightarrow> nat \<Rightarrow> isr \<Rightarrow> ('h world, errno + unit) prog" where
  "add_server_prog P d vec i =
     prog_bind (atom (get_dev d)) (\<lambda>v.
     prog_bind (atom (fetch (\<lambda>w. pci_irq_vec_server w d vec))) (\<lambda>server.
     if vec \<ge> nvec v then Ret (Inl EINVAL)
     else if server \<noteq> None then Ret (Inl EBUSY)
     else if mode v = PCI_IRQ_INTX then add_intx_prog P d i
     else
       prog_bind (slot_bind_prog P (slots v vec) i) (\<lambda>_.
       prog_bind (atom (pci_irq_vec_open P d vec)) (\<lambda>_. Ret Ok))))"

definition rem_server_prog :: "'h platform \<Rightarrow> dev_id \<Rightarrow> nat \<Rightarrow> isr \<Rightarrow> ('h world, unit) prog" where
  "rem_server_prog P d vec i =
     prog_bind (atom (get_dev d)) (\<lambda>v.
     prog_bind (atom (fetch (\<lambda>w. pci_irq_vec_server w d vec))) (\<lambda>server.
     if vec \<ge> nvec v \<or> server \<noteq> Some i then Ret ()
     else if mode v = PCI_IRQ_INTX then
       prog_bind (atom (pci_intx P d False)) (\<lambda>_.
       prog_bind (atom (brcm_intx_rem_server P d i)) (\<lambda>_.
       atom (set_dev d (\<lambda>v. v\<lparr>intx_server := None\<rparr>))))
     else
       prog_bind (atom (pci_irq_vec_close P d vec)) (\<lambda>_.
       slot_unbind_prog P (slots v vec))))"

definition detach_prog :: "'h platform \<Rightarrow> dev_id \<Rightarrow> nat \<Rightarrow> ('h world, unit) prog" where
  "detach_prog P d vec =
     prog_bind (atom (fetch (\<lambda>w. pci_irq_vec_server w d vec))) (\<lambda>server.
     case server of None \<Rightarrow> Ret () | Some i \<Rightarrow> rem_server_prog P d vec i)"

definition release_prog :: "'h platform \<Rightarrow> dev_id \<Rightarrow> pci_device \<Rightarrow> ('h world, unit) prog" where
  "release_prog P d v =
     prog_bind (atom (if mode v = PCI_IRQ_MSIX then pci_msix_shutdown P d
       else if mode v = PCI_IRQ_MSI then pci_msi_shutdown P d else skip)) (\<lambda>_.
     prog_bind (if mode v \<noteq> PCI_IRQ_INTX
       then atom (set_ctl (\<lambda>c. c\<lparr>msi_used := pci_irq_slots_free (msi_used c) (map (slots v) [0..<nvec v])\<rparr>))
       else Ret ()) (\<lambda>_.
     prog_bind (atom (set_dev d (\<lambda>v. v\<lparr>mode := 0\<rparr>))) (\<lambda>_.
     atom (set_dev d (\<lambda>v. v\<lparr>nvec := 0\<rparr>)))))"

definition vectors_free_prog :: "'h platform \<Rightarrow> dev_id \<Rightarrow> ('h world, unit) prog" where
  "vectors_free_prog P d =
     prog_bind (atom (get_dev d)) (\<lambda>v.
     prog_bind (prog_each (detach_prog P d) [0..<nvec v]) (\<lambda>_.
     release_prog P d v))"

text \<open>Allocation: the search for slots reads and writes only what the demultiplexer does not read.\<close>

definition commit_prog :: "dev_id \<Rightarrow> u32 \<Rightarrow> nat \<Rightarrow> ('h world, errno + nat) prog" where
  "commit_prog d m n =
     prog_bind (atom (set_dev d (\<lambda>v. v\<lparr>mode := m\<rparr>))) (\<lambda>_.
     prog_bind (atom (set_dev d (\<lambda>v. v\<lparr>nvec := n\<rparr>))) (\<lambda>_. Ret (Inr n)))"

definition msix_alloc_prog :: "'h platform \<Rightarrow> dev_id \<Rightarrow> nat \<Rightarrow> nat \<Rightarrow> ('h world, errno + nat) prog" where
  "msix_alloc_prog P d min_vecs max_vecs =
     prog_bind (atom (get_dev d)) (\<lambda>v.
     if msix_table_virt v = 0 then Ret (Inl ENODEV)
     else
       prog_bind (atom get_ctl) (\<lambda>c.
       let n = (if max_vecs > msix_table_size v then msix_table_size v else max_vecs);
           (out, used) = pci_irq_slots_alloc_any (msi_used c) n in
       prog_bind (atom (set_ctl (\<lambda>c. c\<lparr>msi_used := used\<rparr>))) (\<lambda>_.
       prog_bind (atom (set_dev d (set_slots out))) (\<lambda>_.
       if length out < min_vecs then
         prog_bind (atom (set_ctl (\<lambda>c. c\<lparr>msi_used := pci_irq_slots_free (msi_used c) out\<rparr>))) (\<lambda>_.
         Ret (Inl ENOSPC))
       else prog_bind (atom (pci_msix_program P d (length out))) (\<lambda>_. Ret (Inr (length out)))))))"

function msi_fit :: "u32 \<Rightarrow> nat \<Rightarrow> nat \<Rightarrow> (nat \<times> nat \<times> u32) option" where
  "msi_fit used min_vecs n =
     (if n < min_vecs then None
      else case pci_irq_slots_alloc_aligned used n of
          None \<Rightarrow> msi_fit used min_vecs (n div 2)
        | Some (block, used') \<Rightarrow> Some (n, block, used'))"
  by auto

termination
proof (relation "measure (\<lambda>(u, m, n). n)")
  fix used :: u32 and m n
  assume "pci_irq_slots_alloc_aligned used n = None"
  then have "n \<noteq> 0" using alloc_aligned_0 by metis
  then show "((used, m, n div 2), (used, m, n)) \<in> measure (\<lambda>(u, m, n). n)" by simp
qed simp

declare msi_fit.simps [simp del]

definition msi_alloc_prog :: "'h platform \<Rightarrow> dev_id \<Rightarrow> nat \<Rightarrow> nat \<Rightarrow> ('h world, errno + nat) prog" where
  "msi_alloc_prog P d min_vecs max_vecs =
     prog_bind (atom (get_dev d)) (\<lambda>v.
     if msi_cap_offset v = 0 then Ret (Inl ENODEV)
     else
       prog_bind (atom get_ctl) (\<lambda>c.
       let n = (if msi_log2_max_vecs v < 5 \<and> max_vecs > 2 ^ msi_log2_max_vecs v
                then 2 ^ msi_log2_max_vecs v else max_vecs) in
       case msi_fit (msi_used c) min_vecs (rounddown_pow2 n) of
         None \<Rightarrow> Ret (Inl ENOSPC)
       | Some (n, block, used) \<Rightarrow>
           prog_bind (atom (set_ctl (\<lambda>c. c\<lparr>msi_used := used\<rparr>))) (\<lambda>_.
           prog_bind (atom (set_dev d (set_slots [block..<block + n]))) (\<lambda>_.
           prog_bind (atom (pci_msi_program P d n)) (\<lambda>_. Ret (Inr n))))))"

definition try_intx_prog :: "dev_id \<Rightarrow> nat \<Rightarrow> u32 \<Rightarrow> errno + nat \<Rightarrow> ('h world, errno + nat) prog" where
  "try_intx_prog d lo fl n =
     prog_bind (atom (get_dev d)) (\<lambda>v.
     let n = (if fl AND PCI_IRQ_INTX \<noteq> 0 then pci_intx_alloc v lo else n) in
     case n of Inr k \<Rightarrow> if 0 < k then commit_prog d PCI_IRQ_INTX k else Ret n | Inl _ \<Rightarrow> Ret n)"

definition try_msi_prog ::
    "'h platform \<Rightarrow> dev_id \<Rightarrow> nat \<Rightarrow> nat \<Rightarrow> u32 \<Rightarrow> errno + nat \<Rightarrow> ('h world, errno + nat) prog" where
  "try_msi_prog P d lo hi fl n =
     prog_bind (if fl AND PCI_IRQ_MSI \<noteq> 0 then msi_alloc_prog P d lo hi else Ret n) (\<lambda>n.
     case n of
       Inr k \<Rightarrow> if 0 < k then commit_prog d PCI_IRQ_MSI k else try_intx_prog d lo fl n
     | Inl _ \<Rightarrow> try_intx_prog d lo fl n)"

definition try_msix_prog ::
    "'h platform \<Rightarrow> dev_id \<Rightarrow> nat \<Rightarrow> nat \<Rightarrow> u32 \<Rightarrow> errno + nat \<Rightarrow> ('h world, errno + nat) prog" where
  "try_msix_prog P d lo hi fl n =
     prog_bind (if fl AND PCI_IRQ_MSIX \<noteq> 0 then msix_alloc_prog P d lo hi else Ret n) (\<lambda>n.
     case n of
       Inr k \<Rightarrow> if 0 < k then commit_prog d PCI_IRQ_MSIX k else try_msi_prog P d lo hi fl n
     | Inl _ \<Rightarrow> try_msi_prog P d lo hi fl n)"

definition vectors_alloc_prog ::
    "'h platform \<Rightarrow> dev_id \<Rightarrow> nat \<Rightarrow> nat \<Rightarrow> u32 \<Rightarrow> ('h world, errno + nat) prog" where
  "vectors_alloc_prog P d min_vecs max_vecs fl =
     prog_bind (atom (get_dev d)) (\<lambda>v.
     if mode v \<noteq> 0 then Ret (Inl EBUSY)
     else if vec_hi max_vecs < vec_lo min_vecs then Ret (Inl ERANGE)
     else try_msix_prog P d (vec_lo min_vecs) (vec_hi max_vecs) fl (Inl ENODEV))"

section \<open>Undisturbed, a program is the operation\<close>

lemma run_slot_progs [simp]:
  "run_prog (slot_bind_prog P s i) w = run_state (brcm_msi_slot_bind P s i) w"
  "run_prog (slot_unbind_prog P s) w = run_state (brcm_msi_slot_unbind P s) w"
  by (simp_all add: slot_bind_prog_def slot_unbind_prog_def brcm_msi_slot_bind_def
      brcm_msi_slot_unbind_def mmio_defs)

lemma run_add_server_prog [simp]:
  "run_prog (add_server_prog P d vec i) w = run_state (pci_irq_add_server P d vec i) w"
  by (simp add: add_server_prog_def add_intx_prog_def pci_irq_add_server_def case_prod_beta)

lemma run_rem_server_prog [simp]:
  "run_prog (rem_server_prog P d vec i) w = run_state (pci_irq_rem_server P d vec i) w"
  by (simp add: rem_server_prog_def pci_irq_rem_server_def case_prod_beta)

lemma run_detach_prog [simp]: "run_prog (detach_prog P d vec) w = run_state (detach_vector P d vec) w"
  by (simp add: detach_prog_def detach_vector_def split: option.split)

lemma run_vectors_free_prog [simp]:
  "run_prog (vectors_free_prog P d) w = run_state (pci_irq_vectors_free P d) w"
  by (simp add: vectors_free_prog_def release_prog_def pci_irq_vectors_free_def case_prod_beta
      run_prog_each [of _ "detach_vector P d"])

lemma run_commit_prog [simp]: "run_prog (commit_prog d m n) w = run_state (commit_vectors d m (Inr n)) w"
  by (simp add: commit_prog_def commit_vectors_def)

lemma run_msix_alloc_prog [simp]:
  "run_prog (msix_alloc_prog P d lo hi) w = run_state (pci_msix_alloc P d lo hi) w"
  by (simp add: msix_alloc_prog_def pci_msix_alloc_def Let_def case_prod_beta)

lemma msi_loop_fit:
  "run_state (pci_msi_alloc_loop P d lo n) w = (case msi_fit (msi_used (ctl w)) lo n of
     None \<Rightarrow> (Inl ENOSPC, w)
   | Some (n, block, used) \<Rightarrow> run_state (do {
       set_ctl (\<lambda>c. c\<lparr>msi_used := used\<rparr>);
       set_dev d (set_slots [block..<block + n]);
       pci_msi_program P d n;
       done_with (Inr n) }) w)"
proof (induction "msi_used (ctl w)" lo n rule: msi_fit.induct)
  case (1 lo n)
  then show ?case
    by (subst pci_msi_alloc_loop.simps, subst msi_fit.simps) (auto split: option.split)
qed

lemma run_msi_alloc_prog [simp]:
  "run_prog (msi_alloc_prog P d lo hi) w = run_state (pci_msi_alloc P d lo hi) w"
  by (simp add: msi_alloc_prog_def pci_msi_alloc_def msi_loop_fit Let_def case_prod_beta split: option.split)

lemma run_try_intx_prog [simp]:
  "run_prog (try_intx_prog d lo fl n) w = run_state (try_intx d lo fl n) w"
  by (auto simp: try_intx_prog_def try_intx_def positive_def pci_intx_alloc_def Let_def split: sum.split)

lemma run_try_msi_prog [simp]:
  "run_prog (try_msi_prog P d lo hi fl n) w = run_state (try_msi P d lo hi fl n) w"
  by (auto simp: try_msi_prog_def try_msi_def positive_def split: sum.split prod.split)

lemma run_try_msix_prog [simp]:
  "run_prog (try_msix_prog P d lo hi fl n) w = run_state (try_msix P d lo hi fl n) w"
  by (auto simp: try_msix_prog_def try_msix_def positive_def split: sum.split prod.split)

lemma run_vectors_alloc_prog [simp]:
  "run_prog (vectors_alloc_prog P d mn mx fl) w = run_state (pci_irq_vectors_alloc P d mn mx fl) w"
  by (simp add: vectors_alloc_prog_def pci_irq_vectors_alloc_def)

section \<open>What the hardware can decide\<close>

lemma blind_units [blinds]:
  "blind (mmio_write32 P x a)" "blind (pci_intx P d b)" "blind (brcm_intx_rem_server P d i)"
  "blind (pci_msi_set_enable P d e)" "blind (pci_msi_write_msg P d n)" "blind (pci_msix_program P d n)"
  "blind (pci_msix_shutdown P d)" "blind (pci_msix_entry_mask P d vec)" "blind (pci_msix_entry_unmask P d vec)"
  "blind (brcm_msi_slot_mask P s)" "blind (brcm_msi_slot_unmask P s)"
  by (intro blind_hw_only hwo)+

lemma blind_config_write: "blind (do { _ \<leftarrow> pci_write_config32 P d a x; skip })"
  by (intro blind_hw_only hwo)

lemma blind_update_mask [blinds]: "blind (pci_msi_update_mask P d c s)"
  unfolding pci_msi_update_mask_def by (intro blinds blind_config_write)

lemma blind_programs [blinds]:
  "blind (pci_msi_program P d n)" "blind (pci_msi_shutdown P d)"
  "blind (pci_irq_vec_open P d vec)" "blind (pci_irq_vec_close P d vec)"
  "blind (pci_irq_vec_mask P d vec)" "blind (pci_irq_vec_unmask P d vec)"
  unfolding pci_msi_program_def pci_msi_shutdown_def pci_irq_vec_open_def pci_irq_vec_close_def
    pci_irq_vec_mask_def pci_irq_vec_unmask_def
  by (intro blinds)+

lemma blind_server [blinds]: "blind (fetch (\<lambda>w. pci_irq_vec_server w d vec))"
  by (rule blind_fetch) (simp add: pci_irq_vec_server_def Let_def)

lemma steady_let [blinds]: "(\<And>x. steady (f x)) \<Longrightarrow> steady (let x = a in f x)"
  by simp

lemma steady_sum [blinds]:
  "(\<And>a. steady (f a)) \<Longrightarrow> (\<And>b. steady (g b)) \<Longrightarrow> steady (case x of Inl a \<Rightarrow> f a | Inr b \<Rightarrow> g b)"
  by (cases x) simp_all

lemma steady_slots [blinds]: "steady (slot_bind_prog P s i)" "steady (slot_unbind_prog P s)"
  unfolding slot_bind_prog_def slot_unbind_prog_def by (intro blinds)+

lemma steady_rem [blinds]: "steady (rem_server_prog P d vec i)"
  unfolding rem_server_prog_def by (intro blinds)

lemma steady_detach [blinds]: "steady (detach_prog P d vec)"
  unfolding detach_prog_def by (intro blinds)

lemma steady_release [blinds]: "steady (release_prog P d v)"
  unfolding release_prog_def by (intro blinds)

lemma steady_free [blinds]: "steady (vectors_free_prog P d)"
  unfolding vectors_free_prog_def by (intro blinds)

lemma steady_commit [blinds]: "steady (commit_prog d m n)"
  unfolding commit_prog_def by (intro blinds)

lemma steady_types [blinds]: "steady (msix_alloc_prog P d lo hi)" "steady (msi_alloc_prog P d lo hi)"
  unfolding msix_alloc_prog_def msi_alloc_prog_def by (intro blinds)+

lemma steady_tries [blinds]: "steady (try_intx_prog d lo fl n)"
  unfolding try_intx_prog_def by (intro blinds)

lemma steady_try_msi [blinds]: "steady (try_msi_prog P d lo hi fl n)"
  unfolding try_msi_prog_def by (intro blinds)

lemma steady_alloc [blinds]: "steady (vectors_alloc_prog P d mn mx fl)"
  unfolding vectors_alloc_prog_def try_msix_prog_def by (intro blinds)

text \<open>Only \<open>gic400.library\<close> can refuse: adding an INTx server is the one program that reads an answer.\<close>

lemma atomic_add: "atomic (add_server_prog P d vec i) w"
  unfolding add_server_prog_def
proof (intro atomic_fetch)
  let ?v = "dev w d" and ?server = "pci_irq_vec_server w d vec"
  show "atomic (if vec \<ge> nvec ?v then Ret (Inl EINVAL) else if ?server \<noteq> None then Ret (Inl EBUSY)
      else if mode ?v = PCI_IRQ_INTX then add_intx_prog P d i
      else prog_bind (slot_bind_prog P (slots ?v vec) i) (\<lambda>_.
        prog_bind (atom (pci_irq_vec_open P d vec)) (\<lambda>_. Ret Ok))) w"
    by (auto intro!: steady_atomic blinds atomic_first simp: add_intx_prog_def)
qed (simp_all add: pci_irq_vec_server_def Let_def)

section \<open>What the demultiplexer finds\<close>

text \<open>A server the demultiplexer can run sits on a slot that exactly one device owns.\<close>

definition bound_owned :: "'h world \<Rightarrow> bool" where
  "bound_owned w \<longleftrightarrow> (\<forall>s. msi_servers (ctl w) s \<noteq> None \<longrightarrow>
     s \<in> pool_set (msi_used (ctl w)) \<and> (\<exists>!d. s \<in> set (vec_slots (dev w d))))"

lemma bound_core:
  fixes w w' :: "'h world"
  assumes "irq_core w' = irq_core w" shows "bound_owned w' = bound_owned w"
  using core_facts [OF assms] by (simp add: bound_owned_def vec_slots_def)

lemma blind_core: "irq_core (w\<lparr>hw := h\<rparr>) = irq_core w"
  by (simp add: irq_core_def)

lemma hw_blind_irq [simp]: "hw_blind bound_owned" "hw_blind irq_inv"
  by (simp_all add: hw_blind_def bound_core [OF blind_core] irq_core_inv [OF blind_core])

lemma inv_bound: "irq_inv w \<Longrightarrow> bound_owned w"
  by (auto simp: bound_owned_def irq_inv_def owned_def)

text \<open>Programs that keep the invariant of the subsystem with every action.\<close>

named_theorems guards \<open>programs that keep the invariant with every action\<close>

definition guarded :: "('h world, 'a) prog \<Rightarrow> bool" where
  "guarded p \<longleftrightarrow> (\<forall>w. irq_inv w \<longrightarrow> prog_wp bound_owned (\<lambda>_. irq_inv) p w)"

lemma guardedD: "guarded p \<Longrightarrow> irq_inv w \<Longrightarrow> prog_wp bound_owned (\<lambda>_. irq_inv) p w"
  by (simp add: guarded_def)

lemma guarded_ret [guards]: "guarded (Ret a)"
  by (simp add: guarded_def wp_ret)

lemma inv_hw: "irq_inv w \<Longrightarrow> irq_inv (w\<lparr>hw := h\<rparr>)"
  by (simp add: irq_core_inv [OF blind_core])

lemma guarded_atom [guards]:
  assumes "preserves irq_inv m" shows "guarded (atom m)"
  unfolding guarded_def
proof (intro allI impI wp_atom)
  fix w :: "'a world" and h
  assume inv: "irq_inv w"
  show "bound_owned w" by (rule inv_bound [OF inv])
  show "prog_wp bound_owned (\<lambda>_. irq_inv) (Ret (fst (run_state m (w\<lparr>hw := h\<rparr>))))
      (snd (run_state m (w\<lparr>hw := h\<rparr>)))"
    by (rule wp_ret) (simp_all add: preservesD [OF assms inv_hw [OF inv]])
qed simp

lemma guarded_bind [guards]: "guarded p \<Longrightarrow> (\<And>a. guarded (k a)) \<Longrightarrow> guarded (prog_bind p k)"
  unfolding guarded_def by (blast intro: wp_bind wp_mono)

lemma guarded_if [guards]: "(b \<Longrightarrow> guarded p) \<Longrightarrow> (\<not> b \<Longrightarrow> guarded q) \<Longrightarrow> guarded (if b then p else q)"
  by simp

lemma guarded_option [guards]:
  "guarded p \<Longrightarrow> (\<And>a. guarded (f a)) \<Longrightarrow> guarded (case x of None \<Rightarrow> p | Some a \<Rightarrow> f a)"
  by (cases x) simp_all

lemma guarded_each [guards]: "(\<And>x. guarded (f x)) \<Longrightarrow> guarded (prog_each f xs)"
  by (induction xs) (auto intro: guards)

lemma inv_hw_only: "hw_only m \<Longrightarrow> preserves irq_inv m"
  by (rule hw_only_preserves) simp_all

lemma inv_set_server_none: "preserves irq_inv (set_ctl (\<lambda>c. c\<lparr>msi_servers := (msi_servers c)(s := None)\<rparr>))"
  by (auto simp: preserves_def irq_inv_def)

lemma guarded_unbind [guards]: "guarded (slot_unbind_prog P s)"
  unfolding slot_unbind_prog_def by (intro guards inv_hw_only hwo inv_set_server_none)

lemma inv_close: "preserves irq_inv (pci_irq_vec_close P d vec)" "preserves irq_inv (pci_irq_vec_open P d vec)"
  by (intro inv_core kept)+

lemma guarded_rem [guards]: "guarded (rem_server_prog P d vec i)"
  unfolding rem_server_prog_def by (intro guards pres inv_close inv_hw_only hwo)

lemma guarded_detach [guards]: "guarded (detach_prog P d vec)"
  unfolding detach_prog_def by (intro guards pres)

lemma guarded_bind_slot:
  assumes "irq_inv w" and "s \<in> pool_set (msi_used (ctl w))"
  shows "prog_wp bound_owned (\<lambda>_. irq_inv) (slot_bind_prog P s i) w"
  unfolding slot_bind_prog_def
proof (rule wp_seq_blind)
  let ?m = "set_ctl (\<lambda>c. c\<lparr>msi_servers := (msi_servers c)(s := Some i)\<rparr>)"
  have "irq_inv (snd (run_state ?m w))" using assms by (simp add: irq_inv_def)
  then show "prog_wp bound_owned (\<lambda>_. irq_inv)
      (prog_bind (atom (do { c \<leftarrow> get_ctl; mmio_write32 P (slot_bit s) (base c + PCIE_MSI_INTR2_CLR) })) (\<lambda>_.
       atom (do { c \<leftarrow> get_ctl; mmio_write32 P (slot_bit s) (base c + PCIE_MSI_INTR2_MASK_CLR) })))
      (snd (run_state ?m w))"
    by (intro guardedD guards inv_hw_only hwo)
qed (simp_all add: blinds inv_bound assms)

lemma guarded_intx:
  assumes "irq_inv w" and "mode (dev w d) = PCI_IRQ_INTX"
  shows "prog_wp bound_owned (\<lambda>_. irq_inv) (add_intx_prog P d i) w"
  unfolding add_intx_prog_def
proof (rule wp_seq)
  fix h
  let ?r = "run_state (brcm_intx_add_server P d i) (w\<lparr>hw := h\<rparr>)"
  have core: "irq_core (snd ?r) = irq_core w"
    using keepsD [OF core_hw [OF hw_only_msi(6)]] blind_core by metis
  let ?m = "set_dev d (\<lambda>v. v\<lparr>intx_server := Some i\<rparr>)"
  have inv: "irq_inv (snd ?r)" using assms(1) by (simp add: irq_core_inv [OF core])
  then have "irq_inv (snd (run_state ?m (snd ?r)))"
    using assms(2) core_facts(1) [OF core] by (simp add: inv_set_intx_server)
  then have "prog_wp bound_owned (\<lambda>_. irq_inv) (prog_bind (atom (pci_intx P d True)) (\<lambda>_. Ret Ok))
      (snd (run_state ?m (snd ?r)))"
    by (intro guardedD guards inv_hw_only hwo)
  then have "prog_wp bound_owned (\<lambda>_. irq_inv) (prog_bind (atom ?m) (\<lambda>_.
      prog_bind (atom (pci_intx P d True)) (\<lambda>_. Ret Ok))) (snd ?r)"
    by (intro wp_seq_blind [where m = ?m]) (simp_all add: blinds inv_bound [OF inv])
  then show "prog_wp bound_owned (\<lambda>_. irq_inv) (if fst ?r \<noteq> Ok then Ret (fst ?r)
      else prog_bind (atom ?m) (\<lambda>_. prog_bind (atom (pci_intx P d True)) (\<lambda>_. Ret Ok))) (snd ?r)"
    by (simp add: guardedD [OF guarded_ret inv])
qed (simp_all add: inv_bound assms)

lemma guarded_add [guards]: "guarded (add_server_prog P d vec i)"
  unfolding guarded_def
proof (intro allI impI)
  fix w :: "'a world"
  assume inv: "irq_inv w"
  let ?v = "dev w d" and ?server = "pci_irq_vec_server w d vec"
  have "prog_wp bound_owned (\<lambda>_. irq_inv) (prog_bind (slot_bind_prog P (slots ?v vec) i) (\<lambda>_.
      prog_bind (atom (pci_irq_vec_open P d vec)) (\<lambda>_. Ret Ok))) w"
    if "vec < nvec ?v" "mode ?v \<noteq> PCI_IRQ_INTX"
    by (rule wp_bind, rule wp_mono [OF guarded_bind_slot [OF inv vec_slot_used [OF inv that]]])
      (intro guardedD guards inv_close)
  then have "prog_wp bound_owned (\<lambda>_. irq_inv) (if vec \<ge> nvec ?v then Ret (Inl EINVAL)
      else if ?server \<noteq> None then Ret (Inl EBUSY)
      else if mode ?v = PCI_IRQ_INTX then add_intx_prog P d i
      else prog_bind (slot_bind_prog P (slots ?v vec) i) (\<lambda>_.
        prog_bind (atom (pci_irq_vec_open P d vec)) (\<lambda>_. Ret Ok))) w"
    using guarded_intx [OF inv] by (simp add: guardedD [OF guarded_ret inv])
  then show "prog_wp bound_owned (\<lambda>_. irq_inv) (add_server_prog P d vec i) w"
    unfolding add_server_prog_def
    by (intro wp_fetch inv_bound inv hw_blind_irq) (simp_all add: pci_irq_vec_server_def Let_def)
qed

section \<open>Teardown under preemption\<close>

text \<open>Between detaching and releasing, no vector of the device has a server; the slots go back first.\<close>

lemma bound_same:
  fixes w w' :: "'h world"
  assumes "bound_owned w" and "msi_servers (ctl w') = msi_servers (ctl w)"
    and "\<And>s. msi_servers (ctl w) s \<noteq> None \<Longrightarrow> s \<in> pool_set (msi_used (ctl w'))"
    and "\<And>s e. msi_servers (ctl w) s \<noteq> None \<Longrightarrow>
      s \<in> set (vec_slots (dev w' e)) \<longleftrightarrow> s \<in> set (vec_slots (dev w e))"
  shows "bound_owned w'"
  unfolding bound_owned_def
proof (intro allI impI)
  fix s assume "msi_servers (ctl w') s \<noteq> None"
  then have s: "msi_servers (ctl w) s \<noteq> None" using assms(2) by simp
  then have "\<exists>!d. s \<in> set (vec_slots (dev w d))" using assms(1) by (simp add: bound_owned_def)
  then show "s \<in> pool_set (msi_used (ctl w')) \<and> (\<exists>!d. s \<in> set (vec_slots (dev w' d)))"
    using assms(3,4) [OF s] by simp
qed

lemma bound_pool: "bound_owned w \<Longrightarrow> msi_servers (ctl w) s \<noteq> None \<Longrightarrow> s \<in> pool_set (msi_used (ctl w))"
  by (simp add: bound_owned_def)

lemma clear_slots:
  assumes "\<forall>vec < nvec (dev w d). pci_irq_vec_server w d vec = None" and "msi_servers (ctl w) s \<noteq> None"
  shows "s \<notin> set (vec_slots (dev w d))"
proof
  assume "s \<in> set (vec_slots (dev w d))"
  then obtain vec where "vec < nvec (dev w d)" "s = slots (dev w d) vec" "mode (dev w d) \<noteq> PCI_IRQ_INTX"
    by (auto simp: vec_slots_def split: if_splits)
  then show False using assms vec_server_msi [of w d vec] by auto
qed

lemma release_bound:
  assumes inv: "irq_inv w" and clear: "\<forall>vec < nvec (dev w d). pci_irq_vec_server w d vec = None"
  shows "prog_wp bound_owned (\<lambda>_ _. True) (release_prog P d (dev w d)) w"
proof -
  let ?v = "dev w d" and ?Q = "\<lambda>_ _. True"
  let ?stop = "if mode ?v = PCI_IRQ_MSIX then pci_msix_shutdown P d
      else if mode ?v = PCI_IRQ_MSI then pci_msi_shutdown P d else skip"
  define w1 where "w1 = snd (run_state ?stop w)"
  have core: "irq_core w1 = irq_core w" unfolding w1_def by (intro keepsD kept hwo)
  note facts = core_facts [OF core]
  have vs: "vec_slots (dev w1 e) = vec_slots (dev w e)" for e using facts(1-3) by (simp add: vec_slots_def)
  let ?own = "map (slots ?v) [0..<nvec ?v]"
  define used where "used = (if mode ?v \<noteq> PCI_IRQ_INTX then pci_irq_slots_free (msi_used (ctl w1)) ?own
    else msi_used (ctl w1))"
  define w2 where "w2 = w1\<lparr>ctl := (ctl w1)\<lparr>msi_used := used\<rparr>\<rparr>"
  define w3 where "w3 = w2\<lparr>dev := (dev w2)(d := (dev w2 d)\<lparr>mode := 0\<rparr>)\<rparr>"
  have bound: "bound_owned w" by (rule inv_bound [OF inv])
  have b1: "bound_owned w1" using bound by (simp add: bound_core [OF core])
  have ok: "irq_mode_ok ?v" using inv by (simp add: irq_inv_def)
  have own: "mode ?v \<noteq> PCI_IRQ_INTX \<Longrightarrow> set ?own = set (vec_slots ?v)"
    using ok by (auto simp: vec_slots_def irq_mode_ok_def)
  have kept_used: "s \<in> pool_set used" if "msi_servers (ctl w) s \<noteq> None" for s
    using bound_pool [OF bound that] clear_slots [OF clear that] facts(5) own
    by (simp add: used_def free_used)
  have b2: "bound_owned w2"
    by (rule bound_same [OF bound]) (simp_all add: w2_def facts(6) kept_used vs)
  have b3: "bound_owned w3"
  proof (rule bound_same [OF bound])
    fix s e assume s: "msi_servers (ctl w) s \<noteq> None"
    show "s \<in> set (vec_slots (dev w3 e)) \<longleftrightarrow> s \<in> set (vec_slots (dev w e))"
      using clear_slots [OF clear s] vs [of e] by (cases "e = d") (simp_all add: w3_def w2_def vec_slots_def)
  qed (simp_all add: w3_def w2_def facts(6) kept_used)
  have "prog_wp bound_owned ?Q (atom (set_dev d (\<lambda>v. v\<lparr>nvec := 0\<rparr>))) w3"
    by (rule wp_atom_blind [OF blind_sets(2) hw_blind_irq(1) b3]) (simp add: prog_wp.simps)
  then have zero: "prog_wp bound_owned ?Q (prog_bind (atom (set_dev d (\<lambda>v. v\<lparr>mode := 0\<rparr>))) (\<lambda>_.
      atom (set_dev d (\<lambda>v. v\<lparr>nvec := 0\<rparr>)))) w2"
    unfolding w3_def by (rule wp_set(2) [OF hw_blind_irq(1) b2])
  have "prog_wp bound_owned ?Q (prog_bind
      (if mode ?v \<noteq> PCI_IRQ_INTX then atom (set_ctl (\<lambda>c. c\<lparr>msi_used := pci_irq_slots_free (msi_used c) ?own\<rparr>))
       else Ret ()) (\<lambda>_.
      prog_bind (atom (set_dev d (\<lambda>v. v\<lparr>mode := 0\<rparr>))) (\<lambda>_. atom (set_dev d (\<lambda>v. v\<lparr>nvec := 0\<rparr>))))) w1"
  proof (cases "mode ?v = PCI_IRQ_INTX")
    case True
    then have "w2 = w1" by (simp add: w2_def used_def)
    then show ?thesis using zero True by simp
  next
    case False
    then show ?thesis
      using wp_set(1) [OF hw_blind_irq(1) b1] zero by (simp add: w2_def used_def)
  qed
  then show ?thesis
    unfolding release_prog_def w1_def by (intro wp_seq_blind [OF _ hw_blind_irq(1) bound] blinds)
qed

lemma wp_steady:
  assumes "steady p" and "prog_wp I (\<lambda>_ _. True) p w"
  shows "prog_wp I (\<lambda>a w'. a = fst (run_prog p w) \<and> (\<exists>h. w' = (snd (run_prog p w))\<lparr>hw := h\<rparr>)) p w"
  by (rule wp_conseq [OF wp_both [OF assms(2) steady_settles [OF assms(1), of w, unfolded settles_def]]]) auto

lemma guarded_free [guards]: "guarded (vectors_free_prog P d)"
  unfolding guarded_def
proof (intro allI impI)
  fix w :: "'a world"
  assume inv: "irq_inv w"
  let ?each = "prog_each (detach_prog P d) [0..<nvec (dev w d)]"
  let ?w = "snd (run_state (for_each (detach_vector P d) [0..<nvec (dev w d)]) w)"
  have detached: "irq_inv ?w" "irq_alloc_view ?w = irq_alloc_view w"
      "\<forall>vec < nvec (dev w d). pci_irq_vec_server ?w d vec = None"
    using detach_all [OF inv order_refl] by auto
  have run: "snd (run_prog ?each w) = ?w"
    by (simp add: run_prog_each [of _ "detach_vector P d"])
  have "prog_wp bound_owned (\<lambda>_ _. True) ?each w"
    by (rule wp_mono [OF guardedD [OF _ inv]]) (auto intro: guards)
  then have ended: "prog_wp bound_owned (\<lambda>_ w'. \<exists>h. w' = ?w\<lparr>hw := h\<rparr>) ?each w"
    by (rule wp_mono [OF wp_steady [rotated]]) (auto simp: run intro: blinds)
  have release: "prog_wp bound_owned (\<lambda>_ _. True) (release_prog P d (dev w d)) (?w\<lparr>hw := h\<rparr>)" for h
  proof -
    have same: "mode (dev ?w d) = mode (dev w d)" "nvec (dev ?w d) = nvec (dev w d)"
        "slots (dev ?w d) = slots (dev w d)"
      using detached(2) by (auto simp: irq_alloc_view_def fun_eq_iff)
    then have "release_prog P d (dev w d) = release_prog P d (dev ?w d)"
      by (simp add: release_prog_def)
    then show ?thesis
      using wp_environment [OF release_bound [OF detached(1), of d P]] detached(3) same by simp
  qed
  have "prog_wp bound_owned (\<lambda>_ _. True) (prog_bind ?each (\<lambda>_. release_prog P d (dev w d))) w"
    by (rule wp_bind, rule wp_mono [OF ended]) (auto intro: release)
  then have "prog_wp bound_owned (\<lambda>_ _. True) (vectors_free_prog P d) w"
    unfolding vectors_free_prog_def by (intro wp_fetch inv_bound inv hw_blind_irq) simp_all
  then have "prog_wp bound_owned (\<lambda>_ w'. \<exists>h. w' = (snd (run_state (pci_irq_vectors_free P d) w))\<lparr>hw := h\<rparr>)
      (vectors_free_prog P d) w"
    by (rule wp_mono [OF wp_steady [rotated]]) (auto intro: blinds)
  then show "prog_wp bound_owned (\<lambda>_. irq_inv) (vectors_free_prog P d) w"
    by (rule wp_mono) (auto intro: inv_hw preservesD [OF inv_vectors_free inv])
qed

section \<open>Allocation under preemption\<close>

text \<open>
  \<open>grown w d w'\<close>: the owners and servers of \<open>w\<close>, on a pool that may have grown; \<open>unset\<close> also
  says that \<open>d\<close> has no vectors yet.
\<close>

definition grown :: "'h world \<Rightarrow> 'h world \<Rightarrow> bool" where
  "grown w w' \<longleftrightarrow> msi_servers (ctl w') = msi_servers (ctl w) \<and>
     pool_set (msi_used (ctl w)) \<subseteq> pool_set (msi_used (ctl w')) \<and>
     (\<forall>e. vec_slots (dev w' e) = vec_slots (dev w e))"

definition unset :: "'h world \<Rightarrow> dev_id \<Rightarrow> 'h world \<Rightarrow> bool" where
  "unset w d w' \<longleftrightarrow> grown w w' \<and> mode (dev w' d) = 0 \<and> nvec (dev w' d) = 0"

lemma grown_bound: "bound_owned w \<Longrightarrow> grown w w' \<Longrightarrow> bound_owned w'"
  by (rule bound_same) (auto simp: grown_def bound_pool subset_iff)

lemma grown_core:
  fixes w' w'' :: "'h world"
  assumes "irq_core w'' = irq_core w'" shows "grown w w'' = grown w w'" "unset w d w'' = unset w d w'"
  using core_facts [OF assms] by (simp_all add: grown_def unset_def vec_slots_def)

lemma hw_blind_grown [simp]: "hw_blind (grown w)" "hw_blind (unset w d)"
  by (simp_all add: hw_blind_def grown_core [OF blind_core])

lemma unset_grown: "unset w d w' \<Longrightarrow> grown w w'"
  by (simp add: unset_def)

lemma unset_pool:
  "unset w d w' \<Longrightarrow> pool_set (msi_used (ctl w)) \<subseteq> pool_set used \<Longrightarrow>
     unset w d (w'\<lparr>ctl := (ctl w')\<lparr>msi_used := used\<rparr>\<rparr>)"
  by (simp add: unset_def grown_def)

lemma unset_slots:
  assumes "unset w d w'"
  shows "unset w d (w'\<lparr>dev := (dev w')(d := set_slots xs (dev w' d))\<rparr>)"
proof -
  have "vec_slots (dev w' d) = []" "vec_slots (set_slots xs (dev w' d)) = []"
    using assms by (simp_all add: unset_def vec_slots_def set_slots_def)
  then show ?thesis using assms by (auto simp: unset_def grown_def set_slots_def)
qed

lemma wp_unset_ret: "unset w d w' \<Longrightarrow> prog_wp (grown w) (\<lambda>_. unset w d) (Ret a) w'"
  by (rule wp_ret) simp_all

lemma wp_unset_program:
  assumes "blind m" and "keeps irq_core m" and "unset w d w'"
  shows "prog_wp (grown w) (\<lambda>_. unset w d) (prog_bind (atom m) (\<lambda>_. Ret a)) w'"
  by (rule wp_seq_blind [OF assms(1) hw_blind_grown(1) unset_grown [OF assms(3)]], rule wp_unset_ret)
    (simp add: grown_core [OF keepsD [OF assms(2)]] assms(3))

lemma msix_alloc_unset:
  assumes "unset w d w'"
  shows "prog_wp (grown w) (\<lambda>_. unset w d) (msix_alloc_prog P d lo hi) w'"
  unfolding msix_alloc_prog_def
proof (intro wp_fetch hw_blind_grown unset_grown [OF assms])
  let ?v = "dev w' d" and ?c = "ctl w'"
  let ?n = "if hi > msix_table_size ?v then msix_table_size ?v else hi"
  obtain out used where out: "pci_irq_slots_alloc_any (msi_used ?c) ?n = (out, used)" by fastforce
  let ?w1 = "w'\<lparr>ctl := (ctl w')\<lparr>msi_used := used\<rparr>\<rparr>"
  let ?w2 = "?w1\<lparr>dev := (dev ?w1)(d := set_slots out (dev ?w1 d))\<rparr>"
  have "pool_set (msi_used (ctl w)) \<subseteq> pool_set (msi_used ?c)" using assms by (simp add: unset_def grown_def)
  then have "pool_set (msi_used (ctl w)) \<subseteq> pool_set used" using alloc_any_spec(6) [OF out] by blast
  then have u1: "unset w d ?w1" by (rule unset_pool [OF assms])
  then have u2: "unset w d ?w2" by (rule unset_slots)
  have restored: "pci_irq_slots_free used out = msi_used ?c" by (rule free_alloc_any [OF out])
  have fail: "prog_wp (grown w) (\<lambda>_. unset w d)
      (prog_bind (atom (set_ctl (\<lambda>c. c\<lparr>msi_used := pci_irq_slots_free (msi_used c) out\<rparr>))) (\<lambda>_.
       Ret (Inl ENOSPC :: errno + nat))) ?w2"
    by (rule wp_set(1) [OF hw_blind_grown(1) unset_grown [OF u2]], rule wp_unset_ret)
      (use unset_pool [OF u2, of "msi_used ?c"] assms restored in \<open>simp add: unset_def grown_def\<close>)
  have program: "prog_wp (grown w) (\<lambda>_. unset w d)
      (prog_bind (atom (pci_msix_program P d (length out))) (\<lambda>_. Ret (Inr (length out) :: errno + nat))) ?w2"
    by (rule wp_unset_program [OF _ _ u2]) (intro blinds, intro kept hwo)
  have "prog_wp (grown w) (\<lambda>_. unset w d)
      (prog_bind (atom (set_dev d (set_slots out))) (\<lambda>_. if length out < lo
       then prog_bind (atom (set_ctl (\<lambda>c. c\<lparr>msi_used := pci_irq_slots_free (msi_used c) out\<rparr>))) (\<lambda>_.
         Ret (Inl ENOSPC))
       else prog_bind (atom (pci_msix_program P d (length out))) (\<lambda>_. Ret (Inr (length out))))) ?w1"
    by (rule wp_set(2) [OF hw_blind_grown(1) unset_grown [OF u1]]) (use fail program in simp)
  then have reserve: "prog_wp (grown w) (\<lambda>_. unset w d)
      (prog_bind (atom (set_ctl (\<lambda>c. c\<lparr>msi_used := used\<rparr>))) (\<lambda>_.
       prog_bind (atom (set_dev d (set_slots out))) (\<lambda>_. if length out < lo
       then prog_bind (atom (set_ctl (\<lambda>c. c\<lparr>msi_used := pci_irq_slots_free (msi_used c) out\<rparr>))) (\<lambda>_.
         Ret (Inl ENOSPC))
       else prog_bind (atom (pci_msix_program P d (length out))) (\<lambda>_. Ret (Inr (length out)))))) w'"
    by (rule wp_set(1) [OF hw_blind_grown(1) unset_grown [OF assms]])
  show "prog_wp (grown w) (\<lambda>_. unset w d)
      (if msix_table_virt ?v = 0 then Ret (Inl ENODEV)
       else prog_bind (atom get_ctl) (\<lambda>c.
       let n = (if hi > msix_table_size ?v then msix_table_size ?v else hi);
           (out, used) = pci_irq_slots_alloc_any (msi_used c) n in
       prog_bind (atom (set_ctl (\<lambda>c. c\<lparr>msi_used := used\<rparr>))) (\<lambda>_.
       prog_bind (atom (set_dev d (set_slots out))) (\<lambda>_.
       if length out < lo then
         prog_bind (atom (set_ctl (\<lambda>c. c\<lparr>msi_used := pci_irq_slots_free (msi_used c) out\<rparr>))) (\<lambda>_.
         Ret (Inl ENOSPC))
       else prog_bind (atom (pci_msix_program P d (length out))) (\<lambda>_. Ret (Inr (length out))))))) w'"
  proof (cases "msix_table_virt ?v = 0")
    case True
    then show ?thesis using wp_unset_ret [OF assms] by simp
  next
    case False
    then show ?thesis
      unfolding if_not_P [OF False]
      by (intro wp_fetch hw_blind_grown unset_grown [OF assms]) (simp_all only: Let_def out prod.case reserve, simp_all)
  qed
qed simp

lemma aligned_pool_grows:
  "msi_fit used lo n = Some (m, block, used') \<Longrightarrow> pool_set used \<subseteq> pool_set used'"
proof (induction used lo n rule: msi_fit.induct)
  case (1 used lo n)
  then show ?case
    by (subst (asm) msi_fit.simps) (auto split: if_splits option.splits dest: alloc_aligned_some)
qed

lemma msi_alloc_unset:
  assumes "unset w d w'"
  shows "prog_wp (grown w) (\<lambda>_. unset w d) (msi_alloc_prog P d lo hi) w'"
proof -
  let ?v = "dev w' d" and ?c = "ctl w'"
  let ?n = "if msi_log2_max_vecs ?v < 5 \<and> hi > 2 ^ msi_log2_max_vecs ?v then 2 ^ msi_log2_max_vecs ?v else hi"
  let ?fit = "msi_fit (msi_used ?c) lo (rounddown_pow2 ?n)"
  have "prog_wp (grown w) (\<lambda>_. unset w d) (case ?fit of None \<Rightarrow> Ret (Inl ENOSPC :: errno + nat)
      | Some (n, block, used) \<Rightarrow>
          prog_bind (atom (set_ctl (\<lambda>c. c\<lparr>msi_used := used\<rparr>))) (\<lambda>_.
          prog_bind (atom (set_dev d (set_slots [block..<block + n]))) (\<lambda>_.
          prog_bind (atom (pci_msi_program P d n)) (\<lambda>_. Ret (Inr n))))) w'"
  proof (cases ?fit)
    case None
    then show ?thesis using wp_unset_ret [OF assms] by simp
  next
    case (Some r)
    then obtain n block used where fit: "?fit = Some (n, block, used)" by (cases r) auto
    let ?w1 = "w'\<lparr>ctl := (ctl w')\<lparr>msi_used := used\<rparr>\<rparr>"
    let ?w2 = "?w1\<lparr>dev := (dev ?w1)(d := set_slots [block..<block + n] (dev ?w1 d))\<rparr>"
    have "pool_set (msi_used (ctl w)) \<subseteq> pool_set used"
      using aligned_pool_grows [OF fit] assms by (auto simp: unset_def grown_def)
    then have u1: "unset w d ?w1" by (rule unset_pool [OF assms])
    have "prog_wp (grown w) (\<lambda>_. unset w d)
        (prog_bind (atom (pci_msi_program P d n)) (\<lambda>_. Ret (Inr n :: errno + nat))) ?w2"
      by (rule wp_unset_program [OF _ _ unset_slots [OF u1]]) (intro blinds, intro kept)
    then have "prog_wp (grown w) (\<lambda>_. unset w d)
        (prog_bind (atom (set_dev d (set_slots [block..<block + n]))) (\<lambda>_.
         prog_bind (atom (pci_msi_program P d n)) (\<lambda>_. Ret (Inr n :: errno + nat)))) ?w1"
      by (rule wp_set(2) [OF hw_blind_grown(1) unset_grown [OF u1]])
    then have "prog_wp (grown w) (\<lambda>_. unset w d)
        (prog_bind (atom (set_ctl (\<lambda>c. c\<lparr>msi_used := used\<rparr>))) (\<lambda>_.
         prog_bind (atom (set_dev d (set_slots [block..<block + n]))) (\<lambda>_.
         prog_bind (atom (pci_msi_program P d n)) (\<lambda>_. Ret (Inr n :: errno + nat))))) w'"
      by (rule wp_set(1) [OF hw_blind_grown(1) unset_grown [OF assms]])
    then show ?thesis by (simp add: fit)
  qed
  then have "prog_wp (grown w) (\<lambda>_. unset w d) (prog_bind (atom get_ctl) (\<lambda>c.
       let n = ?n in
       case msi_fit (msi_used c) lo (rounddown_pow2 n) of
         None \<Rightarrow> Ret (Inl ENOSPC)
       | Some (n, block, used) \<Rightarrow>
           prog_bind (atom (set_ctl (\<lambda>c. c\<lparr>msi_used := used\<rparr>))) (\<lambda>_.
           prog_bind (atom (set_dev d (set_slots [block..<block + n]))) (\<lambda>_.
           prog_bind (atom (pci_msi_program P d n)) (\<lambda>_. Ret (Inr n)))))) w'"
    unfolding Let_def by (intro wp_fetch hw_blind_grown unset_grown [OF assms]) simp_all
  then show ?thesis
    unfolding msi_alloc_prog_def
    by (intro wp_fetch hw_blind_grown unset_grown [OF assms]) (auto intro: wp_unset_ret [OF assms])
qed

text \<open>Committing: the vector count comes last, so the device owns its slots in one store.\<close>

lemma commit_grown:
  assumes "unset w d w'"
  shows "prog_wp (grown w) (\<lambda>_ _. True) (commit_prog d m n) w'"
proof -
  let ?w = "w'\<lparr>dev := (dev w')(d := (dev w' d)\<lparr>mode := m\<rparr>)\<rparr>"
  have none: "vec_slots (dev w' d) = []" using assms by (simp add: unset_def vec_slots_def)
  have "vec_slots ((dev w' d)\<lparr>mode := m\<rparr>) = []" using assms by (simp add: unset_def vec_slots_def)
  then have g: "grown w ?w" using assms none by (auto simp: unset_def grown_def)
  have "prog_wp (grown w) (\<lambda>_ _. True) (prog_bind (atom (set_dev d (\<lambda>v. v\<lparr>nvec := n\<rparr>))) (\<lambda>_. Ret (Inr n :: errno + nat))) ?w"
    by (rule wp_set(2) [OF hw_blind_grown(1) g]) (simp add: prog_wp.simps)
  then show ?thesis
    unfolding commit_prog_def by (rule wp_set(2) [OF hw_blind_grown(1) unset_grown [OF assms]])
qed

lemma wp_done: "prog_wp I (\<lambda>_ _. True) (Ret a) w"
  by (simp add: prog_wp.simps)

lemma try_intx_grown:
  assumes "unset w d w'"
  shows "prog_wp (grown w) (\<lambda>_ _. True) (try_intx_prog d lo fl n) w'"
  unfolding try_intx_prog_def Let_def
  by (intro wp_fetch hw_blind_grown unset_grown [OF assms])
    (auto intro: wp_done commit_grown [OF assms] split: sum.split)

lemma try_msi_grown:
  assumes "unset w d w'"
  shows "prog_wp (grown w) (\<lambda>_ _. True) (try_msi_prog P d lo hi fl n) w'"
  unfolding try_msi_prog_def
proof (rule wp_bind, rule wp_mono)
  show "prog_wp (grown w) (\<lambda>_. unset w d)
      (if fl AND PCI_IRQ_MSI \<noteq> 0 then msi_alloc_prog P d lo hi else Ret n) w'"
    using msi_alloc_unset [OF assms] by (simp add: wp_unset_ret [OF assms])
qed (auto intro: try_intx_grown commit_grown split: sum.split)

lemma try_msix_grown:
  assumes "unset w d w'"
  shows "prog_wp (grown w) (\<lambda>_ _. True) (try_msix_prog P d lo hi fl n) w'"
  unfolding try_msix_prog_def
proof (rule wp_bind, rule wp_mono)
  show "prog_wp (grown w) (\<lambda>_. unset w d)
      (if fl AND PCI_IRQ_MSIX \<noteq> 0 then msix_alloc_prog P d lo hi else Ret n) w'"
    using msix_alloc_unset [OF assms] by (simp add: wp_unset_ret [OF assms])
qed (auto intro: try_msi_grown commit_grown split: sum.split)

lemma guarded_alloc [guards]: "guarded (vectors_alloc_prog P d mn mx fl)"
  unfolding guarded_def
proof (intro allI impI)
  fix w :: "'a world"
  assume inv: "irq_inv w"
  have idle: "unset w d w" if "mode (dev w d) = 0"
    using that irq_inv_idle [OF inv] by (simp add: unset_def grown_def)
  have "prog_wp (grown w) (\<lambda>_ _. True) (vectors_alloc_prog P d mn mx fl) w"
    unfolding vectors_alloc_prog_def
    by (intro wp_fetch hw_blind_grown) (auto simp: grown_def intro: wp_done try_msix_grown idle)
  then have "prog_wp bound_owned (\<lambda>_ _. True) (vectors_alloc_prog P d mn mx fl) w"
    by (rule wp_conseq) (auto intro: grown_bound inv_bound [OF inv])
  then have "prog_wp bound_owned (\<lambda>_ w'. \<exists>h. w' = (snd (run_state (pci_irq_vectors_alloc P d mn mx fl) w))\<lparr>hw := h\<rparr>)
      (vectors_alloc_prog P d mn mx fl) w"
    by (rule wp_mono [OF wp_steady [rotated]]) (auto intro: blinds)
  then show "prog_wp bound_owned (\<lambda>_. irq_inv) (vectors_alloc_prog P d mn mx fl) w"
    by (rule wp_mono) (auto intro: inv_hw preservesD [OF inv_vectors_alloc inv])
qed

section \<open>The machine\<close>

text \<open>
  A task issues calls one after the other (\<open>base->semaphore\<close> admits one at a time); each runs
  as its program.  The machine keeps the calls that have returned, with their results.
\<close>

datatype irq_call =
    Alloc_call dev_id nat nat u32
  | Add_call dev_id nat isr
  | Rem_call dev_id nat isr
  | Free_call dev_id
  | Mask_call dev_id nat
  | Unmask_call dev_id nat

primrec call_prog :: "'h platform \<Rightarrow> irq_call \<Rightarrow> ('h world, irq_event) prog" where
  "call_prog P (Alloc_call d mn mx fl) = prog_bind (vectors_alloc_prog P d mn mx fl) (\<lambda>r. Ret (Alloc d mn mx fl r))"
| "call_prog P (Add_call d vec i) = prog_bind (add_server_prog P d vec i) (\<lambda>r. Ret (Add d vec i r))"
| "call_prog P (Rem_call d vec i) = prog_bind (rem_server_prog P d vec i) (\<lambda>_. Ret (Rem d vec i))"
| "call_prog P (Free_call d) = prog_bind (vectors_free_prog P d) (\<lambda>_. Ret (Free d))"
| "call_prog P (Mask_call d vec) = prog_bind (atom (pci_irq_vec_mask P d vec)) (\<lambda>ok. Ret (Mask d vec ok))"
| "call_prog P (Unmask_call d vec) = prog_bind (atom (pci_irq_vec_unmask P d vec)) (\<lambda>ok. Ret (Unmask d vec ok))"

type_synonym 'h machine = "irq_event list \<times> ('h world, irq_event) prog option \<times> 'h world"

inductive irq_machine :: "'h platform \<Rightarrow> 'h machine \<Rightarrow> 'h machine \<Rightarrow> bool" for P where
  call: "irq_machine P (log, None, w) (log, Some (call_prog P c), w)"
| run: "preempt_step P (p, w) (p', w') \<Longrightarrow> irq_machine P (log, Some p, w) (log, Some p', w')"
| return: "irq_machine P (log, Some (Ret e), w) (log @ [e], None, w)"
| idle: "irq_machine P (log, None, w) (log, None, w\<lparr>hw := h\<rparr>)"
| idle_isr: "run_state (brcm_msi_demux_isr P) w = (r, w') \<Longrightarrow> irq_machine P (log, None, w) (log, None, w')"

lemma call_prog_step: "run_prog (call_prog P c) w = (e, w') \<Longrightarrow> irq_step P w e w'"
  by (cases c) (auto intro: irq_step.intros split: prod.splits)

lemma guarded_call: "guarded (call_prog P c)"
  by (cases c) (simp_all, (intro guards pres)+)

lemma atomic_return:
  assumes "atomic p w" shows "atomic (prog_bind p (\<lambda>r. Ret (f r))) w"
  unfolding atomic_def
proof (rule wp_bind, rule wp_mono [OF assms [unfolded atomic_def]])
  fix a w'
  assume "\<exists>h h'. a = fst (run_prog p (w\<lparr>hw := h\<rparr>)) \<and> w' = snd (run_prog p (w\<lparr>hw := h\<rparr>))\<lparr>hw := h'\<rparr>"
  then obtain h h' x where "run_prog p (w\<lparr>hw := h\<rparr>) = (a, x)" "w' = x\<lparr>hw := h'\<rparr>"
    by (metis prod.collapse)
  then have "f a = fst (run_prog (prog_bind p (\<lambda>r. Ret (f r))) (w\<lparr>hw := h\<rparr>)) \<and>
      w'\<lparr>hw := k\<rparr> = snd (run_prog (prog_bind p (\<lambda>r. Ret (f r))) (w\<lparr>hw := h\<rparr>))\<lparr>hw := k\<rparr>" for k
    by simp
  then show "prog_wp (\<lambda>_. True) (\<lambda>a w'. \<exists>h h'. a = fst (run_prog (prog_bind p (\<lambda>r. Ret (f r))) (w\<lparr>hw := h\<rparr>)) \<and>
      w' = snd (run_prog (prog_bind p (\<lambda>r. Ret (f r))) (w\<lparr>hw := h\<rparr>))\<lparr>hw := h'\<rparr>) (Ret (f a)) w'"
    unfolding prog_wp.simps by blast
qed

lemma atomic_call: "atomic (call_prog P c) w"
  by (cases c) (simp_all, (rule atomic_return, intro atomic_add steady_atomic blinds)+)

text \<open>The events of the calls among all events.\<close>

primrec is_call :: "irq_event \<Rightarrow> bool" where
  "is_call (Alloc d mn mx fl r) = True"
| "is_call (Add d vec i r) = True"
| "is_call (Rem d vec i) = True"
| "is_call (Free d) = True"
| "is_call (Mask d vec ok) = True"
| "is_call (Unmask d vec ok) = True"
| "is_call (Demux r) = False"
| "is_call Hardware = False"

lemma call_prog_is_call: "is_call (fst (run_prog (call_prog P c) w))"
  by (cases c) (simp_all add: case_prod_beta)

lemma irq_run_snoc: "irq_run P w es w1 \<Longrightarrow> irq_step P w1 e w2 \<Longrightarrow> irq_run P w (es @ [e]) w2"
  by (induction rule: irq_run.induct) (auto intro: irq_run.intros)

lemma irq_run_hardware: "irq_run P w es w1 \<Longrightarrow> irq_run P w (es @ [Hardware]) (w1\<lparr>hw := h\<rparr>)"
  by (erule irq_run_snoc) (rule irq_step.hardware)

text \<open>What the machine has done is a run of whole calls, and what it is doing will be.\<close>

definition serial :: "'h platform \<Rightarrow> 'h world \<Rightarrow> irq_event list \<Rightarrow> 'h world \<Rightarrow> bool" where
  "serial P w0 log w \<longleftrightarrow> (\<exists>es. irq_run P w0 es w \<and> filter is_call es = log)"

lemma serial_hardware: "serial P w0 log w \<Longrightarrow> serial P w0 log (w\<lparr>hw := h\<rparr>)"
  unfolding serial_def by (force dest: irq_run_hardware)

primrec machine_inv :: "'h platform \<Rightarrow> 'h world \<Rightarrow> irq_event list \<Rightarrow> ('h world, irq_event) prog option \<Rightarrow> 'h world \<Rightarrow> bool" where
  "machine_inv P w0 log None = (\<lambda>w. irq_inv w \<and> serial P w0 log w)"
| "machine_inv P w0 log (Some p) =
     prog_wp bound_owned (\<lambda>e w. irq_inv w \<and> serial P w0 (log @ [e]) w) p"

lemma serial_call:
  assumes "serial P w0 log w"
  shows "prog_wp (\<lambda>_. True) (\<lambda>e w'. serial P w0 (log @ [e]) w') (call_prog P c) w"
proof (rule wp_mono [OF atomic_call [unfolded atomic_def]])
  fix e w'
  assume "\<exists>h h'. e = fst (run_prog (call_prog P c) (w\<lparr>hw := h\<rparr>)) \<and>
      w' = snd (run_prog (call_prog P c) (w\<lparr>hw := h\<rparr>))\<lparr>hw := h'\<rparr>"
  then obtain h h' x where e: "run_prog (call_prog P c) (w\<lparr>hw := h\<rparr>) = (e, x)" and w': "w' = x\<lparr>hw := h'\<rparr>"
    by (metis prod.collapse)
  obtain es where es: "irq_run P w0 es (w\<lparr>hw := h\<rparr>)" "filter is_call es = log"
    using serial_hardware [OF assms] by (auto simp: serial_def)
  have "is_call e" using call_prog_is_call [of P c "w\<lparr>hw := h\<rparr>"] e by simp
  then have "serial P w0 (log @ [e]) x"
    using irq_run_snoc [OF es(1) call_prog_step [OF e]] es(2) by (auto simp: serial_def)
  then show "serial P w0 (log @ [e]) w'" unfolding w' by (rule serial_hardware)
qed

lemma machine_step:
  assumes "irq_machine P s s'" and "case s of (log, p, w) \<Rightarrow> machine_inv P w0 log p w"
  shows "case s' of (log, p, w) \<Rightarrow> machine_inv P w0 log p w"
  using assms
proof (induction rule: irq_machine.induct)
  case (call log w c)
  then have inv: "irq_inv w" and log: "serial P w0 log w" by simp_all
  have "prog_wp bound_owned (\<lambda>e w. irq_inv w \<and> serial P w0 (log @ [e]) w) (call_prog P c) w"
    by (rule wp_conseq [OF wp_both [OF guardedD [OF guarded_call inv] serial_call [OF log]]]) simp_all
  then show ?case by simp
next
  case (run p w p' w' log)
  then show ?case using wp_step [OF run(1)] by simp
next
  case (return log e w)
  then show ?case
    using wp_returned [of bound_owned "\<lambda>e w. irq_inv w \<and> serial P w0 (log @ [e]) w" e w] by simp
next
  case (idle log w h)
  then show ?case by (simp add: inv_hw serial_hardware)
next
  case (idle_isr w r w' log)
  obtain h where "snd (run_state (brcm_msi_demux_isr P) w) = w\<lparr>hw := h\<rparr>"
    using hw_only_msi(1) by (rule hw_onlyE)
  then have "w' = w\<lparr>hw := h\<rparr>" using idle_isr(1) by simp
  then show ?case using idle_isr(2) by (simp add: inv_hw serial_hardware)
qed

lemma machine_reachable:
  assumes "(irq_machine P)\<^sup>*\<^sup>* s s'" and "case s of (log, p, w) \<Rightarrow> machine_inv P w0 log p w"
  shows "case s' of (log, p, w) \<Rightarrow> machine_inv P w0 log p w"
  using assms
proof (induction rule: rtranclp_induct)
  case (step y z)
  then show ?case using machine_step by blast
qed simp

lemma machine_run: "(preempt_step P)\<^sup>*\<^sup>* (p, w) (p', w') \<Longrightarrow>
    (irq_machine P)\<^sup>*\<^sup>* (log, Some p, w) (log, Some p', w')"
  by (induction "(p', w')" arbitrary: p' w' rule: rtranclp_induct)
    (auto intro: rtranclp.rtrancl_into_rtrancl irq_machine.run)

section \<open>What one run of the demultiplexer calls\<close>

definition demux_targets :: "'h platform \<Rightarrow> 'h world \<Rightarrow> (nat \<times> isr) list" where
  "demux_targets P w = List.map_filter (\<lambda>s. map_option (Pair s) (msi_servers (ctl w) s))
     (status_slots (fst (io_read32_relaxed P (base (ctl w) + PCIE_MSI_INTR2_STATUS) (hw w))))"

lemma set_demux_targets: "set (demux_targets P w) = {(s, i). msi_servers (ctl w) s = Some i \<and> s < MSI_MAX_VECTORS \<and>
    bit (fst (io_read32_relaxed P (base (ctl w) + PCIE_MSI_INTR2_STATUS) (hw w))) s}"
  by (force simp: demux_targets_def map_filter_def status_slots_def)

text \<open>Without the servers the demultiplexer only clears the slots; with them it calls the targets, in order.\<close>

lemma demux_slots_hw:
  "hw (snd (run_state (for_each (demux_slot P) xs) w)) =
     fold (\<lambda>s h. (case msi_servers (ctl w) s of None \<Rightarrow> id | Some i \<Rightarrow> call_server P i (of_nat s))
       (io_write32_relaxed P (push_bit s 1) (base (ctl w) + PCIE_MSI_INTR2_CLR) h)) xs (hw w)"
proof (induction xs arbitrary: w)
  case (Cons s xs)
  let ?w = "snd (run_state (demux_slot P s) w)"
  have "ctl ?w = ctl w" by (intro hw_only_keeps hwo)
  moreover have "hw ?w = (case msi_servers (ctl w) s of None \<Rightarrow> id | Some i \<Rightarrow> call_server P i (of_nat s))
      (io_write32_relaxed P (push_bit s 1) (base (ctl w) + PCIE_MSI_INTR2_CLR) (hw w))"
    by (simp add: demux_slot_def mmio_defs split: option.split)
  ultimately show ?case using Cons [of ?w] by (simp add: case_prod_beta)
qed simp

text \<open>
  The window of \<open>brcm_msi_slot_bind\<close>: the server is stored before the slot is cleared.  If the
  slot still holds a message of its former owner and another slot fires in between, the
  demultiplexer, which does not look at the masks, hands that message to the new server.
\<close>

lemma bind_window:
  assumes "bit (fst (io_read32_relaxed P (base (ctl w) + PCIE_MSI_INTR2_STATUS) (hw w))) s"
    and "s < MSI_MAX_VECTORS" and "msi_servers (ctl w) s = None"
  shows "(s, i) \<notin> set (demux_targets P w) \<and>
    (\<exists>p w1. preempt_step P (slot_bind_prog P s i, w) (p, w1) \<and> hw w1 = hw w \<and> (s, i) \<in> set (demux_targets P w1))"
proof
  show "(s, i) \<notin> set (demux_targets P w)" using assms(3) by (simp add: set_demux_targets)
  let ?w1 = "w\<lparr>ctl := (ctl w)\<lparr>msi_servers := (msi_servers (ctl w))(s := Some i)\<rparr>\<rparr>"
  have "\<exists>p. preempt_step P (slot_bind_prog P s i, w) (p, ?w1)"
    unfolding slot_bind_prog_def atom_def prog_bind.simps by (intro exI preempt_step.task) simp
  moreover have "(s, i) \<in> set (demux_targets P ?w1)" using assms by (simp add: set_demux_targets)
  ultimately show "\<exists>p w1. preempt_step P (slot_bind_prog P s i, w) (p, w1) \<and> hw w1 = hw w \<and>
      (s, i) \<in> set (demux_targets P w1)"
    by fastforce
qed

section \<open>Properties\<close>

text \<open>
  C2: whatever calls a task makes, and wherever the demultiplexer and the hardware come in
  between their single actions, a server that the demultiplexer can run sits on a slot that
  is marked in the bitmap and owned by exactly one device; between two calls the ownership
  invariant of the whole subsystem holds.
\<close>

theorem preempted_safe:
  assumes "irq_init w" and "(irq_machine P)\<^sup>*\<^sup>* ([], None, w) (log, p, w')"
  shows "(\<forall>s. msi_servers (ctl w') s \<noteq> None \<longrightarrow>
      s \<in> pool_set (msi_used (ctl w')) \<and> (\<exists>!d. s \<in> set (vec_slots (dev w' d)))) \<and>
    (p = None \<longrightarrow> irq_inv w')"
proof -
  have "serial P w [] w" unfolding serial_def by (rule exI [of _ "[]"]) (simp add: irq_run.stop)
  then have inv: "machine_inv P w log p w'"
    using machine_reachable [OF assms(2), of w] irq_init_inv [OF assms(1)] by simp
  have "bound_owned w'"
  proof (cases p)
    case None
    then show ?thesis using inv by (simp add: inv_bound)
  next
    case (Some q)
    then show ?thesis
    proof (cases q)
      case (Ret e)
      then show ?thesis
        using inv Some wp_returned [of bound_owned "\<lambda>e w'. irq_inv w' \<and> serial P w (log @ [e]) w'" e w']
        by (simp add: inv_bound)
    next
      case (Act f)
      then show ?thesis using inv Some by (auto dest: wp_here)
    qed
  qed
  then show ?thesis using inv by (auto simp: bound_owned_def)
qed

text \<open>The INTx allocation of \<open>intx_world\<close>, stopped between the stores of the type and of the count.\<close>

abbreviation pin_call :: irq_call where
  "pin_call \<equiv> Alloc_call 3 1 1 PCI_IRQ_INTX"

lemmas pin_defs = vectors_alloc_prog_def try_msix_prog_def try_msi_prog_def try_intx_prog_def
  commit_prog_def atom_def vec_lo_def vec_hi_def pci_intx_alloc_def intx_world_def example_defs

lemma pin_half_way:
  "mode (dev (snd (task_steps 3 (call_prog P pin_call) intx_world)) 3) = PCI_IRQ_INTX \<and>
   nvec (dev (snd (task_steps 3 (call_prog P pin_call) intx_world)) 3) = 0"
  by (simp add: pin_defs)

lemma pin_returns:
  "fst (task_steps 4 (call_prog P pin_call) intx_world) = Ret (Alloc 3 1 1 PCI_IRQ_INTX (Inr 1))"
  by (simp add: pin_defs)

lemma pin_machine:
  "(irq_machine P)\<^sup>*\<^sup>* ([], None, intx_world)
     ([], Some (fst (task_steps k (call_prog P pin_call) intx_world)), snd (task_steps k (call_prog P pin_call) intx_world))"
  by (rule converse_rtranclp_into_rtranclp [OF irq_machine.call [where c = pin_call] machine_run])
    (metis surjective_pairing task_steps_preempt)

theorem preempted_safe_witness:
  "\<exists>p w'. (irq_machine ram_platform)\<^sup>*\<^sup>* ([], None, intx_world) ([], Some p, w') \<and>
     mode (dev w' 3) = PCI_IRQ_INTX \<and> nvec (dev w' 3) = 0 \<and> bound_owned w'"
proof -
  let ?s = "task_steps 3 (call_prog ram_platform pin_call) intx_world"
  have "bound_owned (snd ?s)"
    using preempted_safe [OF intx_world_init pin_machine [of ram_platform 3], THEN conjunct1]
    by (simp only: bound_owned_def)
  then show ?thesis using pin_machine [of ram_platform 3] pin_half_way [of ram_platform] by blast
qed

text \<open>
  C5: preemption does not show: when no call is under way, the state is one that the same
  calls, with the same results and in the same order, reach as single steps of the coarse
  machine.
\<close>

theorem preempted_serial:
  assumes "irq_init w" and "(irq_machine P)\<^sup>*\<^sup>* ([], None, w) (log, None, w')"
  shows "\<exists>es. irq_run P w es w' \<and> filter is_call es = log"
proof -
  have "serial P w [] w" unfolding serial_def by (rule exI [of _ "[]"]) (simp add: irq_run.stop)
  then have "machine_inv P w log None w'"
    using machine_reachable [OF assms(2), of w] irq_init_inv [OF assms(1)] by simp
  then show ?thesis by (simp add: serial_def)
qed

theorem preempted_serial_witness:
  "\<exists>es w'. irq_run ram_platform intx_world es w' \<and>
     filter is_call es = [Alloc 3 1 1 PCI_IRQ_INTX (Inr 1)]"
proof -
  let ?w = "snd (task_steps 4 (call_prog ram_platform pin_call) intx_world)"
  have "(irq_machine ram_platform)\<^sup>*\<^sup>* ([], None, intx_world)
      ([], Some (Ret (Alloc 3 1 1 PCI_IRQ_INTX (Inr 1))), ?w)"
    using pin_machine [of ram_platform 4] by (simp only: pin_returns)
  moreover have "irq_machine ram_platform ([], Some (Ret (Alloc 3 1 1 PCI_IRQ_INTX (Inr 1))), ?w)
      ([] @ [Alloc 3 1 1 PCI_IRQ_INTX (Inr 1)], None, ?w)"
    by (rule irq_machine.return)
  ultimately have "(irq_machine ram_platform)\<^sup>*\<^sup>* ([], None, intx_world)
      ([] @ [Alloc 3 1 1 PCI_IRQ_INTX (Inr 1)], None, ?w)"
    by (rule rtranclp.rtrancl_into_rtrancl)
  then show ?thesis using preempted_serial [OF intx_world_init] by fastforce
qed

end
